(* ===== verification/Prelude.thy ===== *)
theory Prelude
  imports Main "HOL-Library.Word"
begin

text \<open>
  Shared vocabulary of the development: machine integers, the BPF maps and ring buffers that
  the programs under \<^verbatim>\<open>src/ironscope-ebpf\<close> are written against, the bounded loops they use, and
  the lemmas the component theories share.

  A BPF map is an association list with the capacity (\<^verbatim>\<open>max_entries\<close>) its declaration gives it.
  An insert under a new key into a full hash map fails and leaves the map as it was; the
  programs ignore that result.  A full LRU map evicts entries first: which ones is the kernel's
  choice, a parameter of the map.  The stacks that the programs keep inside hash maps, one slot
  per index, are treated once, in the locale \<open>keyed_stack\<close>.
\<close>

unbundle bit_operations_syntax

type_synonym u8 = "8 word"
type_synonym u16 = "16 word"
type_synonym u32 = "32 word"
type_synonym u64 = "64 word"
type_synonym i64 = "64 word"

named_theorems bm_defs \<open>definitions of the map operations, for evaluation\<close>
named_theorems frame_simps \<open>fields an operation leaves alone\<close>

section \<open>BPF maps\<close>

datatype ('k, 'v) map_kind = Hash | Lru "('k \<times> 'v) list \<Rightarrow> 'k list"

record ('k, 'v) bpf_map =
  bm_entries :: "('k \<times> 'v) list"
  bm_max :: nat
  bm_kind :: "('k, 'v) map_kind"

definition bm_empty :: "nat \<Rightarrow> ('k, 'v) map_kind \<Rightarrow> ('k, 'v) bpf_map" where
  "bm_empty n kind = \<lparr>bm_entries = [], bm_max = n, bm_kind = kind\<rparr>"

definition bm_get :: "('k, 'v) bpf_map \<Rightarrow> 'k \<Rightarrow> 'v option" where
  "bm_get m k = map_of (bm_entries m) k"

definition bm_remove :: "'k \<Rightarrow> ('k, 'v) bpf_map \<Rightarrow> ('k, 'v) bpf_map" where
  "bm_remove k m = m\<lparr>bm_entries := filter (\<lambda>e. fst e \<noteq> k) (bm_entries m)\<rparr>"

text \<open>There is room for a key when it is present already or the map is not full.\<close>

definition bm_room :: "('k, 'v) bpf_map \<Rightarrow> 'k \<Rightarrow> bool" where
  "bm_room m k \<longleftrightarrow> bm_get m k \<noteq> None \<or> length (bm_entries m) < bm_max m"

definition bm_insert :: "'k \<Rightarrow> 'v \<Rightarrow> ('k, 'v) bpf_map \<Rightarrow> ('k, 'v) bpf_map" where
  "bm_insert k v m =
     (if bm_room m k then m\<lparr>bm_entries := (k, v) # filter (\<lambda>e. fst e \<noteq> k) (bm_entries m)\<rparr>
      else (case bm_kind m of
              Hash \<Rightarrow> m
            | Lru victims \<Rightarrow>
                (let kept = filter (\<lambda>e. fst e \<notin> set (victims (bm_entries m))) (bm_entries m)
                 in if length kept < bm_max m then m\<lparr>bm_entries := (k, v) # kept\<rparr> else m)))"

text \<open>
  \<^verbatim>\<open>get_ptr_mut\<close> followed by a write through the pointer: the entry is changed in place, so the
  write cannot fail once the key is present.
\<close>

definition bm_modify :: "'k \<Rightarrow> ('v \<Rightarrow> 'v) \<Rightarrow> ('k, 'v) bpf_map \<Rightarrow> ('k, 'v) bpf_map" where
  "bm_modify k f m =
     m\<lparr>bm_entries := map (\<lambda>e. if fst e = k then (fst e, f (snd e)) else e) (bm_entries m)\<rparr>"

text \<open>Every map built by these operations has distinct keys and respects its capacity.\<close>

definition bm_wf :: "('k, 'v) bpf_map \<Rightarrow> bool" where
  "bm_wf m \<longleftrightarrow> distinct (map fst (bm_entries m)) \<and> length (bm_entries m) \<le> bm_max m"

lemmas bm_evals = bm_empty_def bm_get_def bm_remove_def bm_room_def bm_insert_def bm_modify_def

declare bm_evals [bm_defs]

subsection \<open>Laws\<close>

lemma map_of_filter_key:
  "map_of (filter (\<lambda>e. fst e \<noteq> k) es) k' = (if k' = k then None else map_of es k')"
  by (induction es) auto

lemma map_of_filter_notin:
  "map_of (filter (\<lambda>e. fst e \<notin> S) es) k = (if k \<in> S then None else map_of es k)"
  by (induction es) auto

lemma map_of_map_key:
  "map_of (map (\<lambda>e. if fst e = k then (fst e, f (snd e)) else e) es) k' =
     (if k' = k then map_option f (map_of es k) else map_of es k')"
  by (induction es) auto

lemma bm_get_empty [simp]: "bm_get (bm_empty n kind) k = None"
  by (simp add: bm_empty_def bm_get_def)

lemma bm_get_remove [simp]: "bm_get (bm_remove k m) k' = (if k' = k then None else bm_get m k')"
  by (simp add: bm_get_def bm_remove_def map_of_filter_key)

lemma bm_get_modify [simp]:
  "bm_get (bm_modify k f m) k' = (if k' = k then map_option f (bm_get m k) else bm_get m k')"
  by (simp add: bm_get_def bm_modify_def map_of_map_key)

lemma bm_get_insert:
  "bm_room m k \<Longrightarrow> bm_get (bm_insert k v m) k' = (if k' = k then Some v else bm_get m k')"
  by (simp add: bm_get_def bm_insert_def map_of_filter_key)

lemma bm_insert_full: "\<not> bm_room m k \<Longrightarrow> bm_kind m = Hash \<Longrightarrow> bm_insert k v m = m"
  by (simp add: bm_insert_def)

text \<open>
  Without any assumption on the capacity a lookup after an insert finds the new value, or what
  was there, or, in an LRU map, nothing.
\<close>

lemma bm_get_insert_cases:
  "bm_get (bm_insert k v m) k' = (if k' = k then Some v else bm_get m k') \<or>
   bm_get (bm_insert k v m) k' = bm_get m k' \<or> bm_get (bm_insert k v m) k' = None"
proof (cases "bm_room m k")
  case True
  then show ?thesis by (simp add: bm_get_insert)
next
  case False
  then show ?thesis
    by (auto simp: bm_get_def bm_insert_def Let_def map_of_filter_notin split: map_kind.split)
qed

lemma bm_get_insert_SomeD:
  "bm_get (bm_insert k v m) k' = Some w \<Longrightarrow> (k' = k \<and> w = v) \<or> bm_get m k' = Some w"
  using bm_get_insert_cases [of k v m k'] by (auto split: if_splits)

lemma bm_get_insert_Hash:
  "bm_kind m = Hash \<Longrightarrow>
   bm_get (bm_insert k v m) k' = (if k' = k \<and> bm_room m k then Some v else bm_get m k')"
  by (cases "bm_room m k") (auto simp: bm_get_insert bm_insert_full)

lemma bm_kind_ops [simp]:
  "bm_kind (bm_insert k v m) = bm_kind m" "bm_kind (bm_remove k m) = bm_kind m"
  "bm_kind (bm_modify k f m) = bm_kind m" "bm_kind (bm_empty n kind) = kind"
  by (simp_all add: bm_evals Let_def split: map_kind.split)

lemma bm_max_ops [simp]:
  "bm_max (bm_insert k v m) = bm_max m" "bm_max (bm_remove k m) = bm_max m"
  "bm_max (bm_modify k f m) = bm_max m" "bm_max (bm_empty n kind) = n"
  by (simp_all add: bm_evals Let_def split: map_kind.split)

lemma bm_remove_absent: "bm_get m k = None \<Longrightarrow> bm_remove k m = m"
proof -
  assume "bm_get m k = None"
  then have "filter (\<lambda>e. fst e \<noteq> k) (bm_entries m) = bm_entries m"
    by (auto simp: bm_get_def map_of_eq_None_iff intro!: filter_True)
  then show ?thesis by (simp add: bm_remove_def)
qed

lemma bm_room_empty: "0 < n \<Longrightarrow> bm_room (bm_empty n kind) k"
  by (simp add: bm_evals)

lemma bm_room_present: "bm_get m k = Some v \<Longrightarrow> bm_room m k"
  by (simp add: bm_room_def)

lemma length_filter_key_less:
  "map_of es k \<noteq> None \<Longrightarrow> length (filter (\<lambda>e. fst e \<noteq> k) es) < length es"
  by (rule length_filter_less [of "(k, the (map_of es k))"]) (auto dest: map_of_SomeD)

lemma bm_room_remove:
  "bm_wf m \<Longrightarrow> bm_get m k \<noteq> None \<Longrightarrow> bm_room (bm_remove k m) k'"
  using length_filter_key_less [of "bm_entries m" k]
  by (auto simp: bm_wf_def bm_room_def bm_get_def bm_remove_def)

lemma bm_room_remove_mono: "bm_room m k' \<Longrightarrow> k' \<noteq> k \<Longrightarrow> bm_room (bm_remove k m) k'"
  using le_less_trans [OF length_filter_le [of "\<lambda>e. fst e \<noteq> k" "bm_entries m"], of "bm_max m"]
  by (auto simp: bm_room_def bm_remove_def bm_get_def map_of_filter_key)

lemma bm_room_modify [simp]: "bm_room (bm_modify k f m) k' = bm_room m k'"
  by (auto simp: bm_room_def bm_modify_def bm_get_def map_of_map_key)

lemma bm_room_insert_same: "bm_room m k \<Longrightarrow> bm_room (bm_insert k v m) k"
  by (rule bm_room_present [of _ _ v]) (simp add: bm_get_insert)

lemma bm_wf_empty [simp]: "bm_wf (bm_empty n kind)"
  by (simp add: bm_wf_def bm_empty_def)

lemma bm_wf_remove [simp]: "bm_wf m \<Longrightarrow> bm_wf (bm_remove k m)"
  using order_trans [OF length_filter_le [of "\<lambda>e. fst e \<noteq> k" "bm_entries m"], of "bm_max m"]
  by (auto simp: bm_wf_def bm_remove_def intro: distinct_map_filter)

lemma bm_wf_modify [simp]: "bm_wf m \<Longrightarrow> bm_wf (bm_modify k f m)"
proof -
  have keys: "fst \<circ> (\<lambda>e. if fst e = k then (fst e, f (snd e)) else e) = fst" by auto
  assume "bm_wf m"
  then show ?thesis by (simp add: bm_wf_def bm_modify_def keys)
qed

lemma bm_wf_insert [simp]: "bm_wf m \<Longrightarrow> bm_wf (bm_insert k v m)"
proof -
  assume wf: "bm_wf m"
  let ?es = "bm_entries m"
  have d: "distinct (map fst (filter P ?es))" for P
    using wf by (auto simp: bm_wf_def intro: distinct_map_filter)
  show ?thesis
  proof (cases "bm_room m k")
    case True
    have "length (filter (\<lambda>e. fst e \<noteq> k) ?es) < bm_max m"
    proof (cases "map_of ?es k")
      case None
      with True have "length ?es < bm_max m" by (simp add: bm_room_def bm_get_def)
      with length_filter_le show ?thesis by (rule le_less_trans)
    next
      case (Some w)
      then have "length (filter (\<lambda>e. fst e \<noteq> k) ?es) < length ?es"
        by (intro length_filter_key_less) simp
      with wf show ?thesis by (simp add: bm_wf_def)
    qed
    with True d show ?thesis by (auto simp: bm_insert_def bm_wf_def)
  next
    case False
    then have "k \<notin> fst ` set ?es"
      by (auto simp: bm_room_def bm_get_def map_of_eq_None_iff [symmetric])
    with False d wf show ?thesis
      by (auto simp: bm_insert_def bm_wf_def Let_def split: map_kind.split)
  qed
qed

text \<open>A map of a declared capacity.\<close>

definition sized :: "nat \<Rightarrow> ('k, 'v) bpf_map \<Rightarrow> bool" where
  "sized n m \<longleftrightarrow> bm_wf m \<and> bm_max m = n"

lemma sized_ops [simp]:
  "sized n (bm_empty n kind)" "sized n m \<Longrightarrow> sized n (bm_insert k v m)"
  "sized n m \<Longrightarrow> sized n (bm_remove k m)" "sized n m \<Longrightarrow> sized n (bm_modify k f m)"
  by (simp_all add: sized_def)

lemma sized_card:
  assumes "sized n m" shows "card (dom (bm_get m)) = length (bm_entries m)" "length (bm_entries m) \<le> n"
proof -
  have "dom (bm_get m) = set (map fst (bm_entries m))" by (simp add: bm_get_def [abs_def] dom_map_of_conv_image_fst)
  then show "card (dom (bm_get m)) = length (bm_entries m)"
    using assms by (simp only: sized_def bm_wf_def) (metis distinct_card length_map)
  show "length (bm_entries m) \<le> n" using assms by (simp add: sized_def bm_wf_def)
qed

section \<open>Bytes\<close>

text \<open>The bytes of a number in memory: the targets are little-endian.\<close>

definition le_bytes :: "nat \<Rightarrow> 'a::len word \<Rightarrow> u8 list" where
  "le_bytes n w = map (\<lambda>i. ucast (drop_bit (8 * i) w)) [0..<n]"

definition from_ne_bytes :: "u8 list \<Rightarrow> 'a::len word" where
  "from_ne_bytes bs = foldr (\<lambda>b w. ucast b OR push_bit 8 w) bs 0"

lemma length_le_bytes [simp]: "length (le_bytes n w) = n"
  by (simp add: le_bytes_def)

lemma le_bytes_inj:
  fixes v w :: "'a::len word"
  assumes "LENGTH('a) = 8 * k"
  shows "le_bytes k v = le_bytes k w \<longleftrightarrow> v = w"
proof
  assume eq: "le_bytes k v = le_bytes k w"
  show "v = w"
  proof (intro bit_word_eqI)
    fix n assume "n < LENGTH('a)"
    then have n: "n div 8 < k" "n mod 8 < 8" using assms by auto
    have "(ucast (drop_bit (8 * (n div 8)) v) :: u8) = ucast (drop_bit (8 * (n div 8)) w)"
      using arg_cong [OF eq, of "\<lambda>l. l ! (n div 8)"] n by (simp add: le_bytes_def)
    from arg_cong [OF this, of "\<lambda>x. bit x (n mod 8)"] n show "bit v n = bit w n"
      by (simp add: bit_simps)
  qed
qed simp

lemma le_bytes_eq_iff: "le_bytes 4 v = le_bytes 4 w \<longleftrightarrow> v = w" "le_bytes 2 x = le_bytes 2 y \<longleftrightarrow> x = y"
  for v w :: u32 and x y :: u16
  by (simp_all add: le_bytes_inj)

lemma le_bytes_4: "le_bytes 4 w = [ucast w, ucast (drop_bit 8 w), ucast (drop_bit 16 w), ucast (drop_bit 24 w)]"
  by (simp add: le_bytes_def upt_rec)

lemma from_le_bytes: "from_ne_bytes (le_bytes 4 w) = w" for w :: u32
proof (rule bit_word_eqI)
  fix n assume n: "n < LENGTH(32)"
  have "bit (from_ne_bytes (le_bytes 4 w) :: u32) n \<longleftrightarrow>
      n < 8 \<and> bit w n \<or> 8 \<le> n \<and> (n - 8 < 8 \<and> bit w n \<or> 8 \<le> n - 8 \<and>
      (n - 16 < 8 \<and> bit w n \<or> 8 \<le> n - 16 \<and> n - 24 < 8 \<and> bit w n))"
    using n by (auto simp: from_ne_bytes_def le_bytes_4 bit_simps)
  with n show "bit (from_ne_bytes (le_bytes 4 w) :: u32) n = bit w n" by auto
qed

lemma le_bytes_from: "le_bytes 4 (from_ne_bytes [a, b, c, d] :: u32) = [a, b, c, d]"
proof -
  have "ucast (from_ne_bytes [a, b, c, d] :: u32) = a" "ucast (drop_bit 8 (from_ne_bytes [a, b, c, d] :: u32)) = b"
    "ucast (drop_bit 16 (from_ne_bytes [a, b, c, d] :: u32)) = c" "ucast (drop_bit 24 (from_ne_bytes [a, b, c, d] :: u32)) = d"
    by (rule bit_word_eqI; auto simp: from_ne_bytes_def bit_simps dest: bit_imp_le_length)+
  then show ?thesis by (simp add: le_bytes_4)
qed

section \<open>Arrays and ring buffers\<close>

text \<open>\<^verbatim>\<open>Array::get\<close>: \<open>None\<close> past the declared length.\<close>

definition arr_get :: "'a list \<Rightarrow> nat \<Rightarrow> 'a option" where
  "arr_get xs i = (if i < length xs then Some (xs ! i) else None)"

text \<open>
  A ring buffer is the sequence of submitted records; whether a reservation succeeds depends on
  what the consumer has drained, which is outside the programs: a parameter.
\<close>

record 'e ringbuf =
  rb_log :: "'e list"
  rb_can_reserve :: "'e list \<Rightarrow> bool"

definition rb_submit :: "'e \<Rightarrow> 'e ringbuf \<Rightarrow> 'e ringbuf" where
  "rb_submit ev r = (if rb_can_reserve r (rb_log r) then r\<lparr>rb_log := rb_log r @ [ev]\<rparr> else r)"

lemma rb_can_reserve_submit [simp]: "rb_can_reserve (rb_submit ev r) = rb_can_reserve r"
  by (simp add: rb_submit_def)

section \<open>Bounded loops\<close>

text \<open>
  The scan \<^verbatim>\<open>while i < bound { if i >= depth { break; } ... if hit { found; break; } i += 1; }\<close>
  as it appears in every stack operation: the first index below both limits that hits.
\<close>

fun scan_from :: "nat \<Rightarrow> nat \<Rightarrow> nat \<Rightarrow> (nat \<Rightarrow> bool) \<Rightarrow> nat option" where
  "scan_from i 0 depth hit = None"
| "scan_from i (Suc n) depth hit =
     (if depth \<le> i then None else if hit i then Some i else scan_from (Suc i) n depth hit)"

abbreviation scan :: "nat \<Rightarrow> nat \<Rightarrow> (nat \<Rightarrow> bool) \<Rightarrow> nat option" where
  "scan bound depth hit \<equiv> scan_from 0 bound depth hit"

lemma scan_from_SomeD:
  "scan_from i n depth hit = Some j \<Longrightarrow>
   i \<le> j \<and> j < depth \<and> j < i + n \<and> hit j \<and> (\<forall>l. i \<le> l \<and> l < j \<longrightarrow> \<not> hit l)"
proof (induction i n depth hit rule: scan_from.induct)
  case (2 i n depth hit)
  show ?case
  proof (cases "depth \<le> i \<or> hit i")
    case True
    with "2.prems" show ?thesis by (auto split: if_splits)
  next
    case False
    with "2.prems" have "scan_from (Suc i) n depth hit = Some j" by simp
    with "2.IH" False have IH: "Suc i \<le> j" "j < depth" "j < Suc i + n" "hit j"
      "\<forall>l. Suc i \<le> l \<and> l < j \<longrightarrow> \<not> hit l" by auto
    have "\<not> hit l" if "i \<le> l" "l < j" for l
      using that IH(5) False by (cases "l = i") auto
    with IH show ?thesis by simp
  qed
qed simp

lemma scan_from_NoneD:
  "scan_from i n depth hit = None \<Longrightarrow> i \<le> j \<Longrightarrow> j < depth \<Longrightarrow> j < i + n \<Longrightarrow> \<not> hit j"
proof (induction i n depth hit rule: scan_from.induct)
  case (2 i n depth hit)
  then show ?case by (cases "j = i") (auto split: if_splits)
qed simp

lemma scan_SomeD:
  assumes "scan n depth hit = Some j"
  shows "j < depth" "j < n" "hit j" "\<And>l. l < j \<Longrightarrow> \<not> hit l"
  using scan_from_SomeD [OF assms] by auto

lemma scan_NoneD: "scan n depth hit = None \<Longrightarrow> j < depth \<Longrightarrow> j < n \<Longrightarrow> \<not> hit j"
  using scan_from_NoneD [of 0 n depth hit j] by simp

end
