(* ===== verification/Stacks.thy ===== *)
theory Stacks
  imports Prelude
begin

text \<open>
  Stacks kept inside hash maps.  The programs store element \<open>i\<close> of a stack under a key made
  of the stack's owner (a thread, or a task of a process) and \<open>i\<close>, with the depth in a second
  map; removing an element from the middle moves the ones above it down one slot.  The locale
  \<open>keyed_stack\<close> asks only that keys do not collide and shows what the slots hold after a push and
  a removal, in terms of the list of the stack's elements.  The component theories interpret it
  on the key functions of the source.
\<close>

section \<open>The list a run of slots holds\<close>

definition stack_holds :: "(nat \<Rightarrow> 'k) \<Rightarrow> nat \<Rightarrow> ('k, 'v) bpf_map \<Rightarrow> 'v list \<Rightarrow> bool" where
  "stack_holds key bound m xs \<longleftrightarrow>
     length xs \<le> bound \<and>
     (\<forall>i < length xs. bm_get m (key i) = Some (xs ! i)) \<and>
     (\<forall>i. length xs \<le> i \<and> i < bound \<longrightarrow> bm_get m (key i) = None)"

text \<open>The same with slot \<open>p\<close> vacated: the state in the middle of a removal.\<close>

definition gap_holds :: "(nat \<Rightarrow> 'k) \<Rightarrow> nat \<Rightarrow> ('k, 'v) bpf_map \<Rightarrow> 'v list \<Rightarrow> nat \<Rightarrow> bool" where
  "gap_holds key bound m xs p \<longleftrightarrow>
     length xs \<le> bound \<and> p < length xs \<and>
     (\<forall>i < length xs. i \<noteq> p \<longrightarrow> bm_get m (key i) = Some (xs ! i)) \<and>
     bm_get m (key p) = None \<and>
     (\<forall>i. length xs \<le> i \<and> i < bound \<longrightarrow> bm_get m (key i) = None)"

text \<open>Removal of the first element that satisfies a predicate.\<close>

fun remove1_by :: "('a \<Rightarrow> bool) \<Rightarrow> 'a list \<Rightarrow> 'a list" where
  "remove1_by P [] = []"
| "remove1_by P (x # xs) = (if P x then xs else x # remove1_by P xs)"

lemma remove1_by_eq: "remove1_by (\<lambda>x. x = c) xs = remove1 c xs"
  by (induction xs) auto

lemma length_remove1_by:
  "length (remove1_by P xs) = (if \<exists>x \<in> set xs. P x then length xs - 1 else length xs)"
proof (induction xs)
  case (Cons x xs)
  then show ?case by (cases xs) auto
qed simp

lemma remove1_by_none: "find P xs = None \<Longrightarrow> remove1_by P xs = xs"
  by (induction xs) (auto split: if_splits)

lemma remove1_by_at:
  "i < length xs \<Longrightarrow> P (xs ! i) \<Longrightarrow> (\<And>l. l < i \<Longrightarrow> \<not> P (xs ! l)) \<Longrightarrow>
   find P xs = Some (xs ! i) \<and> remove1_by P xs = take i xs @ drop (Suc i) xs"
proof (induction xs arbitrary: i)
  case (Cons x xs)
  show ?case
  proof (cases i)
    case 0
    with Cons.prems show ?thesis by simp
  next
    case (Suc j)
    have "\<not> P x" using Cons.prems(3) [of 0] Suc by simp
    moreover have "\<not> P (xs ! l)" if "l < j" for l using Cons.prems(3) [of "Suc l"] Suc that by simp
    ultimately show ?thesis using Cons.IH [of j] Cons.prems Suc by simp
  qed
qed simp

section \<open>Keys packed into a word\<close>

text \<open>Stack keys of the form \<^verbatim>\<open>(tid << n) | i\<close> do not collide while the index stays below \<open>2 ^ n\<close>.\<close>

lemma shift_key_inj:
  fixes a b :: u32
  assumes "n \<le> 32" "i < 2 ^ n" "j < 2 ^ n"
    and eq: "push_bit n (ucast a) OR of_nat i = (push_bit n (ucast b) OR of_nat j :: u64)"
  shows "a = b \<and> i = j"
proof -
  have lo: "\<not> bit (of_nat k :: u64) l" if "k < 2 ^ n" "n \<le> l" for k l
  proof -
    have "take_bit n k = k" using that(1) by (simp add: take_bit_nat_eq_self_iff)
    then have "\<not> bit k l" using that(2) by (metis bit_take_bit_iff not_less)
    then show ?thesis by (simp add: bit_of_nat_iff bit_simps)
  qed
  note lo' = lo [OF assms(2)] lo [OF assms(3)]
  have "bit a l = bit b l" if "l < 32" for l
    using arg_cong [OF eq, of "\<lambda>w. bit w (l + n)"] lo' [of "l + n"] that assms(1)
    by (simp add: bit_simps)
  then have ab: "a = b" by (intro bit_word_eqI) simp
  have "bit (of_nat i :: u64) l = bit (of_nat j :: u64) l" for l
    using arg_cong [OF eq, of "\<lambda>w. bit w l"] lo' [of l]
    by (cases "n \<le> l") (auto simp: bit_simps)
  then have "of_nat i = (of_nat j :: u64)" by (intro bit_word_eqI) simp
  moreover have "(2::nat) ^ n \<le> 2 ^ 32" using assms(1) by (intro power_increasing) auto
  then have "i < 2 ^ LENGTH(64)" "j < 2 ^ LENGTH(64)" using assms(2,3) by simp_all
  ultimately have "i = j" by (metis of_nat_inverse)
  with ab show ?thesis by simp
qed

section \<open>Depth maps\<close>

text \<open>Every recorded depth is positive and at most the bound.\<close>

definition depth_ok :: "nat \<Rightarrow> ('k, 'w::len word) bpf_map \<Rightarrow> bool" where
  "depth_ok b m \<longleftrightarrow> (\<forall>k d. bm_get m k = Some d \<longrightarrow> 0 < unat d \<and> unat d \<le> b)"

lemma depth_ok_empty [simp]: "depth_ok b (bm_empty n kind)"
  by (simp add: depth_ok_def)

lemma depth_ok_remove [simp]: "depth_ok b m \<Longrightarrow> depth_ok b (bm_remove k m)"
  by (auto simp: depth_ok_def)

lemma depth_ok_insert: "depth_ok b m \<Longrightarrow> 0 < unat d \<Longrightarrow> unat d \<le> b \<Longrightarrow> depth_ok b (bm_insert k d m)"
  by (auto simp: depth_ok_def dest!: bm_get_insert_SomeD)

lemma depth_ok_insert_nat:
  fixes m :: "('k, 'w::len word) bpf_map"
  shows "depth_ok b m \<Longrightarrow> 0 < n \<Longrightarrow> n \<le> b \<Longrightarrow> b < 2 ^ LENGTH('w) \<Longrightarrow> depth_ok b (bm_insert k (of_nat n) m)"
  by (rule depth_ok_insert) (simp_all add: unat_of_nat)

lemma depth_ok_push:
  fixes m :: "('k, 'w::len word) bpf_map"
  assumes "depth_ok b m" "n < b" "b < 2 ^ LENGTH('w)"
  shows "depth_ok b (bm_insert k (1 + of_nat n) m)"
  using depth_ok_insert_nat [of b m "Suc n" k] assms by simp

lemma depth_ok_pop:
  fixes m :: "('k, 'w::len word) bpf_map"
  assumes "depth_ok b m" "bm_get m k' = Some d" "1 < unat d"
  shows "depth_ok b (bm_insert k (d - 1) m)"
proof -
  have "1 \<le> d" using assms(3) by (simp add: word_le_nat_alt)
  then have "unat (d - 1) = unat d - 1" by (simp add: unat_sub)
  moreover have "unat d \<le> b" using assms(1,2) by (auto simp: depth_ok_def)
  ultimately show ?thesis using assms(1,3) by (intro depth_ok_insert) simp_all
qed

lemma depth_okD: "depth_ok b m \<Longrightarrow> bm_get m k = Some d \<Longrightarrow> 0 < unat d \<and> unat d \<le> b"
  by (simp add: depth_ok_def)

section \<open>Moving the upper elements down\<close>

text \<open>
  The loop after a slot was vacated: \<^verbatim>\<open>while j < 7 { src = fi + 1 + j; if src >= depth break;
  if let Some(v) = get(src) { insert(src - 1, v); remove(src) } else { break } j += 1 }\<close>.
\<close>

fun shift_loop ::
  "(nat \<Rightarrow> 'k) \<Rightarrow> nat \<Rightarrow> nat \<Rightarrow> nat \<Rightarrow> ('k, 'v) bpf_map \<Rightarrow> ('k, 'v) bpf_map" where
  "shift_loop key depth src 0 m = m"
| "shift_loop key depth src (Suc n) m =
     (if depth \<le> src then m
      else case bm_get m (key src) of
             None \<Rightarrow> m
           | Some v \<Rightarrow> shift_loop key depth (Suc src) n
                         (bm_remove (key src) (bm_insert (key (src - 1)) v m)))"

lemma sized_shift_loop [simp]: "sized n m \<Longrightarrow> sized n (shift_loop key depth src k m)"
  by (induction k arbitrary: src m) (simp_all split: option.split)

locale keyed_stack =
  fixes key :: "'o \<Rightarrow> nat \<Rightarrow> 'k" and bound :: nat
  assumes key_inj:
    "i < bound \<Longrightarrow> j < bound \<Longrightarrow> key a i = key b j \<Longrightarrow> a = b \<and> i = j"
begin

lemma key_eq_iff [simp]: "i < bound \<Longrightarrow> j < bound \<Longrightarrow> key a i = key b j \<longleftrightarrow> a = b \<and> i = j"
  using key_inj by blast

lemma push_holds:
  assumes "stack_holds (key a) bound m xs" "length xs < bound" "bm_room m (key a (length xs))"
  shows "stack_holds (key a) bound (bm_insert (key a (length xs)) v m) (xs @ [v])"
  using assms by (auto simp: stack_holds_def bm_get_insert nth_append)

lemma insert_other:
  assumes "stack_holds (key b) bound m ys" "b \<noteq> a" "i < bound" "bm_room m (key a i)"
  shows "stack_holds (key b) bound (bm_insert (key a i) v m) ys"
  using assms by (auto simp: stack_holds_def bm_get_insert)

lemma remove_other:
  assumes "stack_holds (key b) bound m ys" "b \<noteq> a" "i < bound"
  shows "stack_holds (key b) bound (bm_remove (key a i) m) ys"
  using assms by (auto simp: stack_holds_def)

lemma remove_gap:
  assumes "stack_holds (key a) bound m xs" "p < length xs"
  shows "gap_holds (key a) bound (bm_remove (key a p) m) xs p"
  using assms by (auto simp: stack_holds_def gap_holds_def)

lemma gap_last:
  assumes "gap_holds (key a) bound m xs p" "length xs \<le> Suc p"
  shows "stack_holds (key a) bound m (take p xs @ drop (Suc p) xs)"
proof -
  from assms have p: "length xs = Suc p" by (simp add: gap_holds_def)
  have "bm_get m (key a i) = None" if "p \<le> i" "i < bound" for i
    using assms(1) p that by (cases "i = p") (auto simp: gap_holds_def)
  with assms p show ?thesis by (auto simp: gap_holds_def stack_holds_def)
qed

lemma gap_step:
  assumes gap: "gap_holds (key a) bound m xs p" and p: "Suc p < length xs"
    and room: "bm_room m (key a p)"
  shows "gap_holds (key a) bound
           (bm_remove (key a (Suc p)) (bm_insert (key a p) (xs ! Suc p) m))
           (xs[p := xs ! Suc p]) (Suc p)"
  using assms by (auto simp: gap_holds_def bm_get_insert nth_list_update)

lemma take_drop_moved:
  assumes "Suc p < length xs"
  shows "take (Suc p) (xs[p := xs ! Suc p]) @ drop (Suc (Suc p)) (xs[p := xs ! Suc p]) =
         take p xs @ drop (Suc p) xs"
  using assms by (simp add: take_Suc_conv_app_nth Cons_nth_drop_Suc)

lemma shift_holds:
  assumes "gap_holds (key a) bound m xs p" "bm_wf m" "bm_room m (key a p)"
    and "length xs \<le> Suc p + n"
  shows "stack_holds (key a) bound (shift_loop (key a) (length xs) (Suc p) n m)
           (take p xs @ drop (Suc p) xs)
       \<and> bm_wf (shift_loop (key a) (length xs) (Suc p) n m)"
  using assms
proof (induction n arbitrary: m xs p)
  case 0
  then show ?case using gap_last [of a m xs p] by simp
next
  case (Suc n)
  show ?case
  proof (cases "length xs \<le> Suc p")
    case True
    then show ?thesis using gap_last [OF Suc.prems(1)] Suc.prems(2) by simp
  next
    case False
    then have p: "Suc p < length xs" by simp
    let ?v = "xs ! Suc p" and ?xs = "xs[p := xs ! Suc p]"
    let ?m = "bm_remove (key a (Suc p)) (bm_insert (key a p) ?v m)"
    from Suc.prems(1) p have get: "bm_get m (key a (Suc p)) = Some ?v"
      and b: "Suc p < bound" by (auto simp: gap_holds_def)
    have gap: "gap_holds (key a) bound ?m ?xs (Suc p)"
      by (rule gap_step [OF Suc.prems(1) p Suc.prems(3)])
    have room: "bm_room ?m (key a (Suc p))"
      by (rule bm_room_remove) (use Suc.prems(2,3) get b in \<open>auto simp: bm_get_insert\<close>)
    have "stack_holds (key a) bound (shift_loop (key a) (length ?xs) (Suc (Suc p)) n ?m)
            (take (Suc p) ?xs @ drop (Suc (Suc p)) ?xs)
        \<and> bm_wf (shift_loop (key a) (length ?xs) (Suc (Suc p)) n ?m)"
      by (rule Suc.IH [OF gap _ room]) (use Suc.prems(2,4) in auto)
    with p get show ?thesis by (simp only: take_drop_moved [OF p]) simp
  qed
qed

text \<open>Removing element \<open>p\<close>: vacate its slot, then move the upper ones down.\<close>

lemma remove_at_holds:
  assumes "stack_holds (key a) bound m xs" "bm_wf m" "p < length xs" "length xs \<le> Suc p + n"
  shows "stack_holds (key a) bound
           (shift_loop (key a) (length xs) (Suc p) n (bm_remove (key a p) m))
           (take p xs @ drop (Suc p) xs)"
    and "bm_wf (shift_loop (key a) (length xs) (Suc p) n (bm_remove (key a p) m))"
proof -
  have "bm_get m (key a p) \<noteq> None" using assms by (simp add: stack_holds_def)
  then have "bm_room (bm_remove (key a p) m) (key a p)" by (rule bm_room_remove [OF assms(2)])
  note * = shift_holds [OF remove_gap [OF assms(1,3)] _ this assms(4)]
  show "stack_holds (key a) bound
          (shift_loop (key a) (length xs) (Suc p) n (bm_remove (key a p) m))
          (take p xs @ drop (Suc p) xs)"
    and "bm_wf (shift_loop (key a) (length xs) (Suc p) n (bm_remove (key a p) m))"
    using * assms(2) by auto
qed

text \<open>No slot of another owner and no foreign key is touched.\<close>

lemma shift_other:
  assumes "\<And>i. i < depth \<Longrightarrow> k \<noteq> key a i" "depth \<le> bound" "0 < src"
    and "bm_wf m" "bm_room m (key a (src - 1))" "src - 1 < depth"
    and "\<And>i. src \<le> i \<Longrightarrow> i < depth \<Longrightarrow> bm_get m (key a i) \<noteq> None"
  shows "bm_get (shift_loop (key a) depth src n m) k = bm_get m k"
  using assms(3-)
proof (induction n arbitrary: src m)
  case (Suc n)
  show ?case
  proof (cases "depth \<le> src")
    case False
    then obtain v where v: "bm_get m (key a src) = Some v" using Suc.prems(5) [of src] by force
    let ?m = "bm_remove (key a src) (bm_insert (key a (src - 1)) v m)"
    have lt: "src < bound" "src - 1 < bound" using False assms(2) by auto
    have "src \<noteq> src - 1" using Suc.prems(1) by simp
    then have g: "bm_get (bm_insert (key a (src - 1)) v m) (key a src) \<noteq> None"
      using Suc.prems(3) v lt by (simp add: bm_get_insert)
    have IH: "bm_get (shift_loop (key a) depth (Suc src) n ?m) k = bm_get ?m k"
    proof (rule Suc.IH)
      show "bm_room ?m (key a (Suc src - 1))" using bm_room_remove [OF _ g] Suc.prems(2) by simp
      show "bm_get ?m (key a i) \<noteq> None" if "Suc src \<le> i" "i < depth" for i
        using that Suc.prems(3) Suc.prems(5) [of i] assms(2) lt by (auto simp: bm_get_insert)
    qed (use Suc.prems(2) False in auto)
    have "bm_get ?m k = bm_get m k"
      using assms(1) [of src] assms(1) [of "src - 1"] False Suc.prems(3) by (auto simp: bm_get_insert)
    with IH False v show ?thesis by simp
  qed simp
qed simp

lemma scan_find:
  assumes "stack_holds (key a) bound m xs" "length xs \<le> b"
    and hit: "\<And>i v. bm_get m (key a i) = Some v \<Longrightarrow> hit i = P v"
  shows "(case scan b (length xs) hit of
            None \<Rightarrow> find P xs = None
          | Some i \<Rightarrow> i < length xs \<and> find P xs = Some (xs ! i) \<and>
                      remove1_by P xs = take i xs @ drop (Suc i) xs)"
proof (cases "scan b (length xs) hit")
  case None
  have "\<not> P (xs ! i)" if "i < length xs" for i
  proof -
    have "\<not> hit i" using scan_NoneD [OF None] that assms(2) by simp
    with that hit assms(1) show ?thesis by (auto simp: stack_holds_def)
  qed
  with None show ?thesis by (auto simp: find_None_iff in_set_conv_nth)
next
  case (Some i)
  note D = scan_SomeD [OF Some]
  have hP: "hit l = P (xs ! l)" if "l < length xs" for l
    using that hit assms(1) by (auto simp: stack_holds_def)
  have "\<not> P (xs ! l)" if "l < i" for l using D(1) D(4) [OF that] hP [of l] that by simp
  with remove1_by_at [of i xs P] D(1,3) hP [of i] Some show ?thesis by simp
qed

lemma remove_at_other:
  assumes "stack_holds (key a) bound m xs" "bm_wf m" "p < length xs" "b \<noteq> a"
    and other: "stack_holds (key b) bound m ys"
  shows "stack_holds (key b) bound
           (shift_loop (key a) (length xs) (Suc p) n (bm_remove (key a p) m)) ys"
proof -
  have len: "length xs \<le> bound" using assms(1) by (simp add: stack_holds_def)
  have "bm_get m (key a p) \<noteq> None" using assms(1,3) by (simp add: stack_holds_def)
  then have room: "bm_room (bm_remove (key a p) m) (key a p)" by (rule bm_room_remove [OF assms(2)])
  have "bm_get (shift_loop (key a) (length xs) (Suc p) n (bm_remove (key a p) m)) (key b i) =
        bm_get m (key b i)" if i: "i < bound" for i
  proof -
    have ne: "key b i \<noteq> key a j" if "j < length xs" for j
      using i that len assms(4) by (auto dest: key_inj [of i j b a])
    have up: "bm_get (bm_remove (key a p) m) (key a l) \<noteq> None" if "Suc p \<le> l" "l < length xs" for l
    proof -
      have "key a l \<noteq> key a p" using that len assms(3) by simp
      moreover have "bm_get m (key a l) \<noteq> None" using assms(1) that by (simp add: stack_holds_def)
      ultimately show ?thesis by simp
    qed
    have "bm_get (shift_loop (key a) (length xs) (Suc p) n (bm_remove (key a p) m)) (key b i) =
          bm_get (bm_remove (key a p) m) (key b i)"
      by (rule shift_other) (use ne up len room assms(2,3) in auto)
    with ne [OF assms(3)] show ?thesis by simp
  qed
  with other show ?thesis by (auto simp: stack_holds_def)
qed

text \<open>The search and the removal together, against the removal of the first match from a list.\<close>

lemma remove_first:
  assumes "stack_holds (key a) bound m xs" "bm_wf m" "length xs \<le> 8"
    and hit: "\<And>i v. bm_get m (key a i) = Some v \<Longrightarrow> hit i = P v"
    and found: "scan 8 (length xs) hit = Some i"
  defines "m' \<equiv> shift_loop (key a) (length xs) (Suc i) 7 (bm_remove (key a i) m)"
  shows "stack_holds (key a) bound m' (remove1_by P xs)" "bm_wf m'"
    "i < length xs" "find P xs = Some (xs ! i)" "length (remove1_by P xs) = length xs - 1"
    "\<And>b ys. b \<noteq> a \<Longrightarrow> stack_holds (key b) bound m ys \<Longrightarrow> stack_holds (key b) bound m' ys"
proof -
  have "case scan 8 (length xs) hit of
          None \<Rightarrow> find P xs = None
        | Some i \<Rightarrow> i < length xs \<and> find P xs = Some (xs ! i) \<and>
                    remove1_by P xs = take i xs @ drop (Suc i) xs"
    by (rule scan_find [OF assms(1,3)]) (rule hit)
  then have F: "i < length xs" "find P xs = Some (xs ! i)"
    "remove1_by P xs = take i xs @ drop (Suc i) xs" by (simp_all only: found option.case)
  have "length xs \<le> Suc i + 7" using assms(3) by simp
  note R = remove_at_holds [OF assms(1,2) F(1) this]
  show "stack_holds (key a) bound m' (remove1_by P xs)" "bm_wf m'" using R F(3) by (simp_all add: m'_def)
  show "i < length xs" "find P xs = Some (xs ! i)" by fact+
  show "length (remove1_by P xs) = length xs - 1" using F(1,3) by simp
  show "stack_holds (key b) bound m' ys" if "b \<noteq> a" "stack_holds (key b) bound m ys" for b ys
    unfolding m'_def by (rule remove_at_other [OF assms(1,2) F(1) that])
qed

end

end
