(* ===== verification/Types.thy ===== *)
theory Types
  imports Prelude
begin

text \<open>
  The shared types of \<^verbatim>\<open>src/ironscope-common/src/types.rs\<close> and the kernel-side state of
  \<^verbatim>\<open>src/ironscope-ebpf/src/maps.rs\<close>: one record field per map, under the map's own name.
  Padding fields are left out.  Numeric constants are abbreviations, so that the simplifier sees
  their values.
\<close>

section \<open>Constants\<close>

abbreviation (input) OFF_FRAME_F_EXECUTABLE :: nat where "OFF_FRAME_F_EXECUTABLE \<equiv> 0"
abbreviation (input) OFF_CODE_QUALNAME :: nat where "OFF_CODE_QUALNAME \<equiv> 1"
abbreviation (input) OFF_UNICODE_COMPACT_DATA :: nat where "OFF_UNICODE_COMPACT_DATA \<equiv> 3"
abbreviation (input) OFF_FRAME_LOCALSPLUS :: nat where "OFF_FRAME_LOCALSPLUS \<equiv> 5"
abbreviation (input) OFF_FRAME_PREVIOUS :: nat where "OFF_FRAME_PREVIOUS \<equiv> 6"
abbreviation (input) OFF_FRAME_OWNER :: nat where "OFF_FRAME_OWNER \<equiv> 7"
abbreviation (input) OFF_TASK_STATE :: nat where "OFF_TASK_STATE \<equiv> 8"
abbreviation (input) OFF_FRAME_REG_IDX :: nat where "OFF_FRAME_REG_IDX \<equiv> 10"
abbreviation (input) OFF_CODE_FLAGS :: nat where "OFF_CODE_FLAGS \<equiv> 11"
abbreviation (input) OFF_GEN_IFRAME :: nat where "OFF_GEN_IFRAME \<equiv> 12"
abbreviation (input) OFF_TSTATE_CURRENT_FRAME :: nat where "OFF_TSTATE_CURRENT_FRAME \<equiv> 13"
abbreviation (input) OFF_OBJ_TYPE :: nat where "OFF_OBJ_TYPE \<equiv> 14"
abbreviation (input) OFF_EXCEPTION_FRAME_REG_IDX :: nat where "OFF_EXCEPTION_FRAME_REG_IDX \<equiv> 16"

abbreviation (input) CO_FLAGS_GENERATOR_MASK :: u32 where "CO_FLAGS_GENERATOR_MASK \<equiv> 0x2A0"

abbreviation (input) MAX_CTX_STACK_DEPTH :: nat where "MAX_CTX_STACK_DEPTH \<equiv> 8"
abbreviation (input) MAX_TASK_CTX_STACK_DEPTH :: nat where "MAX_TASK_CTX_STACK_DEPTH \<equiv> 8"
abbreviation (input) MAX_WORKER_FRAME_CHAIN_DEPTH :: nat where "MAX_WORKER_FRAME_CHAIN_DEPTH \<equiv> 8"
abbreviation (input) MAX_WORKITEM_LOCAL_SCAN_SLOTS :: nat where "MAX_WORKITEM_LOCAL_SCAN_SLOTS \<equiv> 32"

abbreviation (input) TOOL_IDLE :: u32 where "TOOL_IDLE \<equiv> 0"
abbreviation (input) PERM_ALLOW :: u8 where "PERM_ALLOW \<equiv> 1"
abbreviation (input) PERM_DENY :: u8 where "PERM_DENY \<equiv> 0"
abbreviation (input) MODE_MONITOR :: u8 where "MODE_MONITOR \<equiv> 0"
abbreviation (input) MODE_ENFORCE :: u8 where "MODE_ENFORCE \<equiv> 2"

abbreviation (input) CODE_KIND_IGNORE :: u8 where "CODE_KIND_IGNORE \<equiv> 0"
abbreviation (input) CODE_KIND_TOOL_ROOT_LG :: u8 where "CODE_KIND_TOOL_ROOT_LG \<equiv> 1"
abbreviation (input) CODE_KIND_TOOL_ROOT_LC :: u8 where "CODE_KIND_TOOL_ROOT_LC \<equiv> 4"
abbreviation (input) CODE_KIND_TOOL_ID_RULE :: u8 where "CODE_KIND_TOOL_ID_RULE \<equiv> 10"
abbreviation (input) CODE_KIND_WORKITEM_CTOR :: u8 where "CODE_KIND_WORKITEM_CTOR \<equiv> 20"
abbreviation (input) CODE_KIND_WORKITEM_RUN :: u8 where "CODE_KIND_WORKITEM_RUN \<equiv> 21"
abbreviation (input) CODE_KIND_THREAD_CTOR :: u8 where "CODE_KIND_THREAD_CTOR \<equiv> 22"
abbreviation (input) CODE_KIND_THREAD_RUN :: u8 where "CODE_KIND_THREAD_RUN \<equiv> 23"
abbreviation (input) CODE_KIND_THREADPOOL_WORKER :: u8 where "CODE_KIND_THREADPOOL_WORKER \<equiv> 24"

abbreviation (input) EXTRACTOR_NONE :: u32 where "EXTRACTOR_NONE \<equiv> 0"
abbreviation (input) EXTRACTOR_SLOT_OBJ :: u32 where "EXTRACTOR_SLOT_OBJ \<equiv> 1"
abbreviation (input) EXTRACTOR_SLOT_NAME :: u32 where "EXTRACTOR_SLOT_NAME \<equiv> 2"

abbreviation (input) EVENT_FS_OPEN :: u8 where "EVENT_FS_OPEN \<equiv> 1"
abbreviation (input) EVENT_EXEC :: u8 where "EVENT_EXEC \<equiv> 2"
abbreviation (input) EVENT_NET_CONNECT :: u8 where "EVENT_NET_CONNECT \<equiv> 3"
abbreviation (input) EVENT_FORK :: u8 where "EVENT_FORK \<equiv> 4"
abbreviation (input) EVENT_EXIT :: u8 where "EVENT_EXIT \<equiv> 5"
abbreviation (input) EVENT_TOOL_START :: u8 where "EVENT_TOOL_START \<equiv> 6"
abbreviation (input) EVENT_TOOL_CONTEXT_END :: u8 where "EVENT_TOOL_CONTEXT_END \<equiv> 7"
abbreviation (input) EVENT_TOOL_END :: u8 where "EVENT_TOOL_END \<equiv> EVENT_TOOL_CONTEXT_END"
abbreviation (input) EVENT_TASK_BIND :: u8 where "EVENT_TASK_BIND \<equiv> 8"
abbreviation (input) EVENT_TASK_UNBIND :: u8 where "EVENT_TASK_UNBIND \<equiv> 9"
abbreviation (input) EVENT_WORKER_BIND :: u8 where "EVENT_WORKER_BIND \<equiv> 10"
abbreviation (input) EVENT_WORKER_UNBIND :: u8 where "EVENT_WORKER_UNBIND \<equiv> 11"
abbreviation (input) EVENT_AUDIT_UNATTRIBUTED :: u8 where "EVENT_AUDIT_UNATTRIBUTED \<equiv> 12"
abbreviation (input) EVENT_AUDIT_UNRESOLVED :: u8 where "EVENT_AUDIT_UNRESOLVED \<equiv> 13"
abbreviation (input) EVENT_AUDIT_STACK_OVERFLOW :: u8 where "EVENT_AUDIT_STACK_OVERFLOW \<equiv> 14"
abbreviation (input) EVENT_AUDIT_BUILD_MISMATCH :: u8 where "EVENT_AUDIT_BUILD_MISMATCH \<equiv> 15"
abbreviation (input) EVENT_DEALLOC_CLEANUP :: u8 where "EVENT_DEALLOC_CLEANUP \<equiv> 16"
abbreviation (input) EVENT_TOOL_FRAME_END :: u8 where "EVENT_TOOL_FRAME_END \<equiv> 17"
abbreviation (input) EVENT_RESOLVER_CANDIDATE :: u8 where "EVENT_RESOLVER_CANDIDATE \<equiv> 18"
abbreviation (input) EVENT_RESOLVER_RESOLVED :: u8 where "EVENT_RESOLVER_RESOLVED \<equiv> 19"
abbreviation (input) EVENT_RESOLVER_FAILED :: u8 where "EVENT_RESOLVER_FAILED \<equiv> 20"
abbreviation (input) EVENT_WORKER_CARRIER_BIND :: u8 where "EVENT_WORKER_CARRIER_BIND \<equiv> 21"
abbreviation (input) EVENT_WORKER_CARRIER_UNBIND :: u8 where "EVENT_WORKER_CARRIER_UNBIND \<equiv> 22"
abbreviation (input) EVENT_CHILD_CTX_BIND :: u8 where "EVENT_CHILD_CTX_BIND \<equiv> 23"
abbreviation (input) EVENT_CHILD_CTX_UNBIND :: u8 where "EVENT_CHILD_CTX_UNBIND \<equiv> 24"

abbreviation (input) ACTION_ALLOW :: u8 where "ACTION_ALLOW \<equiv> 0"
abbreviation (input) ACTION_DENY :: u8 where "ACTION_DENY \<equiv> 1"

abbreviation (input) TOOL_CTX_FLAG_RESOLVED :: u32 where "TOOL_CTX_FLAG_RESOLVED \<equiv> 1"
abbreviation (input) TOOL_CTX_FLAG_RESOLVER_ERROR :: u32 where "TOOL_CTX_FLAG_RESOLVER_ERROR \<equiv> 2"
abbreviation (input) TOOL_CTX_FLAG_PENDING_START :: u32 where "TOOL_CTX_FLAG_PENDING_START \<equiv> 4"
abbreviation (input) TOOL_CTX_FLAG_ASYNC_FRAME :: u32 where "TOOL_CTX_FLAG_ASYNC_FRAME \<equiv> 8"

abbreviation (input) IDENTITY_STATE_UNATTRIBUTED :: u8 where "IDENTITY_STATE_UNATTRIBUTED \<equiv> 0"
abbreviation (input) IDENTITY_STATE_KNOWN_TOOL :: u8 where "IDENTITY_STATE_KNOWN_TOOL \<equiv> 1"
abbreviation (input) IDENTITY_STATE_UNKNOWN_TOOL :: u8 where "IDENTITY_STATE_UNKNOWN_TOOL \<equiv> 2"
abbreviation (input) IDENTITY_STATE_RESOLVER_ERROR :: u8 where "IDENTITY_STATE_RESOLVER_ERROR \<equiv> 3"

abbreviation (input) POLICY_SOURCE_DEFAULT_ALLOW :: u8 where "POLICY_SOURCE_DEFAULT_ALLOW \<equiv> 0"
abbreviation (input) POLICY_SOURCE_TOOL :: u8 where "POLICY_SOURCE_TOOL \<equiv> 1"
abbreviation (input) POLICY_SOURCE_UNATTRIBUTED :: u8 where "POLICY_SOURCE_UNATTRIBUTED \<equiv> 3"
abbreviation (input) POLICY_SOURCE_UNKNOWN_TOOL :: u8 where "POLICY_SOURCE_UNKNOWN_TOOL \<equiv> 4"
abbreviation (input) POLICY_SOURCE_RESOLVER_ERROR :: u8 where "POLICY_SOURCE_RESOLVER_ERROR \<equiv> 5"
abbreviation (input) POLICY_SOURCE_MONITOR :: u8 where "POLICY_SOURCE_MONITOR \<equiv> 6"
abbreviation (input) POLICY_SOURCE_DEFAULT_DENY :: u8 where "POLICY_SOURCE_DEFAULT_DENY \<equiv> 7"

abbreviation (input) UNATTRIBUTED_AUDIT_ONLY :: u8 where "UNATTRIBUTED_AUDIT_ONLY \<equiv> 0"
abbreviation (input) UNATTRIBUTED_DENY :: u8 where "UNATTRIBUTED_DENY \<equiv> 1"
abbreviation (input) UNKNOWN_TOOL_ALLOW :: u8 where "UNKNOWN_TOOL_ALLOW \<equiv> 0"
abbreviation (input) UNKNOWN_TOOL_DENY :: u8 where "UNKNOWN_TOOL_DENY \<equiv> 1"
abbreviation (input) RESOLVER_ERROR_ALLOW :: u8 where "RESOLVER_ERROR_ALLOW \<equiv> 0"
abbreviation (input) RESOLVER_ERROR_DENY :: u8 where "RESOLVER_ERROR_DENY \<equiv> 1"
abbreviation (input) DEFAULT_TOOL_ALLOW :: u8 where "DEFAULT_TOOL_ALLOW \<equiv> 0"
abbreviation (input) DEFAULT_TOOL_DENY :: u8 where "DEFAULT_TOOL_DENY \<equiv> 1"
abbreviation (input) CHILD_SCOPE_TOOL_ONLY :: u8 where "CHILD_SCOPE_TOOL_ONLY \<equiv> 0"
abbreviation (input) CHILD_SCOPE_ALL :: u8 where "CHILD_SCOPE_ALL \<equiv> 1"

section \<open>Keys and values of the maps\<close>

record CodeKindKey =
  ck_tgid :: u32
  ck_code_ptr :: u64

record PyObjectKey =
  pk_tgid :: u32
  pk_ptr :: u64

record TaskStackKey =
  tk_tgid :: u32
  tk_depth :: u32
  tk_task_ptr :: u64

record PendingToolResolveKey =
  pr_tgid :: u32
  pr_self_ptr :: u64

record ToolObjCacheEntry =
  oc_type_ptr :: u64
  oc_tool_id :: u32
  oc_name_hash :: u32
  oc_generation :: u32

record ResolverEvent =
  re_pid :: u32
  re_tid :: u32
  re_ts_ns :: u64
  re_kind :: u8
  re_code_kind :: u8
  re_ctx_id :: u64
  re_self_ptr :: u64
  re_type_ptr :: u64
  re_frame_ptr :: u64
  re_code_ptr :: u64

record ToolStackEntry =
  ts_ctx_id :: u64
  ts_frame_ptr :: u64
  ts_parent_ptr :: u64
  ts_tool_id :: u32

record ToolCtx =
  tool_id :: u32
  generation :: u32
  carrier_count :: u32
  flags :: u32
  started_ns :: u64
  last_seen_ns :: u64

record RootRule =
  rr_kind :: u8
  rr_slot_index :: u32
  rr_extractor_kind :: u32
  rr_filename_hash :: u64
  rr_qualname_hash :: u64
  rr_firstline :: u32

record WorkerRunEntry =
  wr_kind :: u8
  wr_frame_ptr :: u64
  wr_parent_ptr :: u64
  wr_self_obj :: u64
  wr_prev_ctx :: u64

record PendingWorkerSpawn =
  ps_ctx_id :: u64
  ps_work_item :: u64

record WorkerLocalCtx =
  wl_ctx_id :: u64
  wl_work_item :: u64
  wl_frame_ptr :: u64
  wl_prev_ctx :: u64

record PyEvent =
  pe_pid :: u32
  pe_tid :: u32
  pe_ts_ns :: u64
  pe_kind :: u8
  pe_ctx_id :: u64
  pe_tool_id :: u32
  pe_carrier_ptr :: u64
  pe_aux :: u64

record ToolPolicyKey =
  fp_tool_id :: u32
  fp_dev :: u32
  fp_ino :: u64

record ToolExecKey =
  xp_tool_id :: u32
  xp_dev :: u32
  xp_ino :: u64

record ToolNetKey =
  nk_prefixlen :: u32
  nk_tool_id :: u32
  nk_addr :: u32
  nk_port :: u16

record ToolNetData =
  nd_tool_id :: u32
  nd_addr :: u32
  nd_port :: u16

record IronScopeConfig =
  mode :: u8
  discover :: u8
  unattributed_policy :: u8
  unknown_tool_policy :: u8
  resolver_error_policy :: u8
  child_scope :: u8
  default_tool_policy :: u8

record GuardEvent =
  ge_pid :: u32
  ge_tid :: u32
  ge_ppid :: u32
  ge_tool_id :: u32
  ge_ctx_id :: u64
  ge_ts_ns :: u64
  ge_kind :: u8
  ge_action :: u8
  ge_identity_state :: u8
  ge_policy_source :: u8
  ge_port :: u16
  ge_addr :: u32
  ge_child_pid :: u32
  ge_path_len :: u16
  ge_argv_len :: u16
  ge_path :: "u8 list"

section \<open>Defaults\<close>

definition RootRule_default :: RootRule where
  "RootRule_default = \<lparr>rr_kind = 0, rr_slot_index = 0, rr_extractor_kind = 0,
     rr_filename_hash = 0, rr_qualname_hash = 0, rr_firstline = 0\<rparr>"

definition IronScopeConfig_default :: IronScopeConfig where
  "IronScopeConfig_default = \<lparr>mode = MODE_MONITOR, discover = 0,
     unattributed_policy = UNATTRIBUTED_AUDIT_ONLY, unknown_tool_policy = UNKNOWN_TOOL_ALLOW,
     resolver_error_policy = RESOLVER_ERROR_DENY, child_scope = CHILD_SCOPE_TOOL_ONLY,
     default_tool_policy = DEFAULT_TOOL_ALLOW\<rparr>"

definition GuardEvent_default :: GuardEvent where
  "GuardEvent_default = \<lparr>ge_pid = 0, ge_tid = 0, ge_ppid = 0, ge_tool_id = 0, ge_ctx_id = 0,
     ge_ts_ns = 0, ge_kind = 0, ge_action = 0, ge_identity_state = IDENTITY_STATE_UNATTRIBUTED,
     ge_policy_source = POLICY_SOURCE_DEFAULT_ALLOW, ge_port = 0, ge_addr = 0, ge_child_pid = 0,
     ge_path_len = 0, ge_argv_len = 0, ge_path = replicate 1024 0\<rparr>"

section \<open>The kernel-side state\<close>

text \<open>
  One field per map of \<^verbatim>\<open>maps.rs\<close> and of \<^verbatim>\<open>alloc.rs\<close>.  \<open>CTX_COUNTER\<close> and \<open>ALLOC_STATE\<close>
  are per-CPU arrays of one element and \<open>HEAP\<close> is a per-CPU hash, so functions of the CPU.  \<open>TOOL_NET_POLICY\<close> holds the entries of the LPM trie in
  the order of insertion.
\<close>

record bpf_state =
  PYTHON_OFFSETS :: "u32 list"
  CTX_COUNTER :: "u32 \<Rightarrow> u64"
  TOOL_CTX :: "(u64, ToolCtx) bpf_map"
  TOOL_OBJ :: "(PyObjectKey, ToolObjCacheEntry) bpf_map"
  CODE_KIND :: "(CodeKindKey, u8) bpf_map"
  ROOT_RULES :: "RootRule list"
  PENDING_TOOL_RESOLVE :: "(PendingToolResolveKey, u64) bpf_map"
  PENDING_FRAME_TOOL :: "(PyObjectKey, u32) bpf_map"
  FORK_CTX :: "(u32, u64) bpf_map"
  FRAME_CTX :: "(PyObjectKey, u64) bpf_map"
  TASK_CTX :: "(PyObjectKey, u64) bpf_map"
  TASK_CTX_STACK :: "(TaskStackKey, u64) bpf_map"
  TASK_CTX_DEPTH :: "(PyObjectKey, u32) bpf_map"
  WORKITEM_CTX :: "(PyObjectKey, u64) bpf_map"
  PYTHREAD_OBJ_CTX :: "(PyObjectKey, u64) bpf_map"
  PYTHREAD_OBJ_THREAD :: "(PyObjectKey, u32) bpf_map"
  PENDING_WORKER_SPAWN :: "(u32, PendingWorkerSpawn) bpf_map"
  THREADPOOL_WORKER_FRAME :: "(u32, u64) bpf_map"
  THREADPOOL_WORKER_CTX :: "(u32, WorkerLocalCtx) bpf_map"
  THREADPOOL_WORKITEM_THREAD :: "(PyObjectKey, u32) bpf_map"
  WORKER_RUN_CARRIER :: "(PyObjectKey, u32) bpf_map"
  THREAD_CURRENT_FRAME :: "(u32, u64) bpf_map"
  THREAD_TSTATE :: "(u32, u64) bpf_map"
  TOOL_STACK :: "(u64, ToolStackEntry) bpf_map"
  TOOL_STACK_DEPTH :: "(u32, u32) bpf_map"
  PENDING_TOOL_CLOSE :: "(TaskStackKey, ToolStackEntry) bpf_map"
  THREAD_ACTIVE_CTX :: "(u32, u64) bpf_map"
  THREAD_ACTIVE_TASK :: "(u32, u64) bpf_map"
  THREAD_CTX_STACK :: "(u64, u64) bpf_map"
  THREAD_CTX_DEPTH :: "(u32, u8) bpf_map"
  FRAME_ENTRY_STASH :: "(u64, u64) bpf_map"
  FRAME_STASH_DEPTH :: "(u32, u32) bpf_map"
  TASK_STEP_STASH :: "(u32, u64) bpf_map"
  TASK_STEP_PREV_TASK :: "(u32, u64) bpf_map"
  WORKER_RUN_STACK :: "(u64, WorkerRunEntry) bpf_map"
  WORKER_RUN_DEPTH :: "(u32, u32) bpf_map"
  PROTECTED_TGIDS :: "(u32, u8) bpf_map"
  TOOL_FS_POLICY :: "(ToolPolicyKey, u8) bpf_map"
  TOOL_EXEC_POLICY :: "(ToolExecKey, u8) bpf_map"
  TOOL_NET_POLICY :: "((u32 \<times> ToolNetData) \<times> u8) list"
  IRONSCOPE_CONFIG :: "(u32, IronScopeConfig) bpf_map"
  GUARD_EVENTS :: "GuardEvent ringbuf"
  PY_EVENTS :: "PyEvent ringbuf"
  RESOLVER_EVENTS :: "ResolverEvent ringbuf"
  HEAP :: "u32 \<Rightarrow> (u32, u8 list) bpf_map"
  ALLOC_STATE :: "u32 \<Rightarrow> u32"

text \<open>The eviction choice of the kernel's LRU maps, one per map.\<close>

record lru_choice =
  ev_pending_frame_tool :: "(PyObjectKey \<times> u32) list \<Rightarrow> PyObjectKey list"
  ev_frame_ctx :: "(PyObjectKey \<times> u64) list \<Rightarrow> PyObjectKey list"
  ev_task_ctx :: "(PyObjectKey \<times> u64) list \<Rightarrow> PyObjectKey list"
  ev_workitem_ctx :: "(PyObjectKey \<times> u64) list \<Rightarrow> PyObjectKey list"
  ev_pythread_obj_ctx :: "(PyObjectKey \<times> u64) list \<Rightarrow> PyObjectKey list"

definition empty_ring :: "('e list \<Rightarrow> bool) \<Rightarrow> 'e ringbuf" where
  "empty_ring can = \<lparr>rb_log = [], rb_can_reserve = can\<rparr>"

text \<open>The state right after the object is loaded: capacities as declared, everything empty.\<close>

definition init_state ::
  "lru_choice \<Rightarrow> (GuardEvent list \<Rightarrow> bool) \<Rightarrow> (PyEvent list \<Rightarrow> bool) \<Rightarrow> (ResolverEvent list \<Rightarrow> bool)
     \<Rightarrow> bpf_state" where
  "init_state ev cg cp cr = \<lparr>
     PYTHON_OFFSETS = replicate 64 0,
     CTX_COUNTER = (\<lambda>_. 0),
     TOOL_CTX = bm_empty 4096 Hash,
     TOOL_OBJ = bm_empty 4096 Hash,
     CODE_KIND = bm_empty 8192 Hash,
     ROOT_RULES = replicate 64 RootRule_default,
     PENDING_TOOL_RESOLVE = bm_empty 4096 Hash,
     PENDING_FRAME_TOOL = bm_empty 8192 (Lru (ev_pending_frame_tool ev)),
     FORK_CTX = bm_empty 4096 Hash,
     FRAME_CTX = bm_empty 8192 (Lru (ev_frame_ctx ev)),
     TASK_CTX = bm_empty 4096 (Lru (ev_task_ctx ev)),
     TASK_CTX_STACK = bm_empty 8192 Hash,
     TASK_CTX_DEPTH = bm_empty 4096 Hash,
     WORKITEM_CTX = bm_empty 4096 (Lru (ev_workitem_ctx ev)),
     PYTHREAD_OBJ_CTX = bm_empty 1024 (Lru (ev_pythread_obj_ctx ev)),
     PYTHREAD_OBJ_THREAD = bm_empty 1024 Hash,
     PENDING_WORKER_SPAWN = bm_empty 4096 Hash,
     THREADPOOL_WORKER_FRAME = bm_empty 4096 Hash,
     THREADPOOL_WORKER_CTX = bm_empty 4096 Hash,
     THREADPOOL_WORKITEM_THREAD = bm_empty 4096 Hash,
     WORKER_RUN_CARRIER = bm_empty 4096 Hash,
     THREAD_CURRENT_FRAME = bm_empty 4096 Hash,
     THREAD_TSTATE = bm_empty 4096 Hash,
     TOOL_STACK = bm_empty 4096 Hash,
     TOOL_STACK_DEPTH = bm_empty 4096 Hash,
     PENDING_TOOL_CLOSE = bm_empty 4096 Hash,
     THREAD_ACTIVE_CTX = bm_empty 4096 Hash,
     THREAD_ACTIVE_TASK = bm_empty 4096 Hash,
     THREAD_CTX_STACK = bm_empty 32768 Hash,
     THREAD_CTX_DEPTH = bm_empty 4096 Hash,
     FRAME_ENTRY_STASH = bm_empty 32768 Hash,
     FRAME_STASH_DEPTH = bm_empty 4096 Hash,
     TASK_STEP_STASH = bm_empty 1024 Hash,
     TASK_STEP_PREV_TASK = bm_empty 1024 Hash,
     WORKER_RUN_STACK = bm_empty 4096 Hash,
     WORKER_RUN_DEPTH = bm_empty 1024 Hash,
     PROTECTED_TGIDS = bm_empty 4096 Hash,
     TOOL_FS_POLICY = bm_empty 1024 Hash,
     TOOL_EXEC_POLICY = bm_empty 256 Hash,
     TOOL_NET_POLICY = [],
     IRONSCOPE_CONFIG = bm_empty 1 Hash,
     GUARD_EVENTS = empty_ring cg,
     PY_EVENTS = empty_ring cp,
     RESOLVER_EVENTS = empty_ring cr,
     HEAP = (\<lambda>_. bm_empty 8 Hash),
     ALLOC_STATE = (\<lambda>_. 0)\<rparr>"

section \<open>What a probe sees of the machine\<close>

text \<open>
  The helpers a program calls outside its own code are parameters of the run: the current
  thread, the CPU, the clock during the run, registers and arguments of the probed function, and
  reads of user memory, each of which may fail.
\<close>

record probe_env =
  pid_tgid :: u64
  smp_cpu :: u32
  ktime :: u64
  reg :: "nat \<Rightarrow> u64 option"
  arg :: "nat \<Rightarrow> u64 option"
  rd_u64 :: "u64 \<Rightarrow> u64 option"
  rd_u32 :: "u64 \<Rightarrow> u32 option"
  rd_u8 :: "u64 \<Rightarrow> u8 option"
  rd_buf64 :: "u64 \<Rightarrow> u8 list option"

definition cur_tgid :: "probe_env \<Rightarrow> u32" where
  "cur_tgid e = ucast (drop_bit 32 (pid_tgid e))"

definition cur_tid :: "probe_env \<Rightarrow> u32" where
  "cur_tid e = ucast (pid_tgid e)"

definition py_object_key :: "probe_env \<Rightarrow> u64 \<Rightarrow> PyObjectKey" where
  "py_object_key e ptr = \<lparr>pk_tgid = cur_tgid e, pk_ptr = ptr\<rparr>"

definition task_stack_key :: "probe_env \<Rightarrow> u64 \<Rightarrow> nat \<Rightarrow> TaskStackKey" where
  "task_stack_key e task_ptr depth =
     \<lparr>tk_tgid = cur_tgid e, tk_depth = of_nat depth, tk_task_ptr = task_ptr\<rparr>"

text \<open>The same key as a function of its owner, the task of a process, and the index.\<close>

definition task_slot :: "u32 \<times> u64 \<Rightarrow> nat \<Rightarrow> TaskStackKey" where
  "task_slot owner i = \<lparr>tk_tgid = fst owner, tk_depth = of_nat i, tk_task_ptr = snd owner\<rparr>"

lemma task_stack_key_slot: "task_stack_key e task = task_slot (cur_tgid e, task)"
  by (rule ext) (simp add: task_stack_key_def task_slot_def)

lemma py_object_key_eq [simp]: "py_object_key e p = py_object_key e q \<longleftrightarrow> p = q"
  by (simp add: py_object_key_def)

end
