(* ===== verification/Ownership.thy ===== *)
theory Ownership
  imports Stacks Types
begin

text \<open>
  The ownership model of \<^verbatim>\<open>src/ironscope-ebpf/src/ownership.rs\<close>: which tool context a thread, an
  asyncio task or a pending close owns, with the reference counting of
  \<^verbatim>\<open>lifecycle.rs\<close> (\<open>carrier_inc\<close>, \<open>carrier_dec\<close>) it calls.  Every operation takes the kernel-side
  state last and returns the new state, paired with its result where it has one.
\<close>

section \<open>Events\<close>

definition emit_event :: "PyEvent \<Rightarrow> bpf_state \<Rightarrow> bpf_state" where
  "emit_event ev s = s\<lparr>PY_EVENTS := rb_submit ev (PY_EVENTS s)\<rparr>"

definition emit_py_event :: "probe_env \<Rightarrow> u8 \<Rightarrow> u64 \<Rightarrow> u32 \<Rightarrow> bpf_state \<Rightarrow> bpf_state" where
  "emit_py_event e kind ctx_id tool s =
     emit_event \<lparr>pe_pid = cur_tgid e, pe_tid = cur_tid e, pe_ts_ns = ktime e, pe_kind = kind,
       pe_ctx_id = ctx_id, pe_tool_id = tool, pe_carrier_ptr = 0, pe_aux = 0\<rparr> s"

definition emit_py_event_carrier ::
  "probe_env \<Rightarrow> u8 \<Rightarrow> u64 \<Rightarrow> u32 \<Rightarrow> u64 \<Rightarrow> bpf_state \<Rightarrow> bpf_state" where
  "emit_py_event_carrier e kind ctx_id tool carrier_ptr s =
     emit_event \<lparr>pe_pid = cur_tgid e, pe_tid = cur_tid e, pe_ts_ns = ktime e, pe_kind = kind,
       pe_ctx_id = ctx_id, pe_tool_id = tool, pe_carrier_ptr = carrier_ptr, pe_aux = 0\<rparr> s"

definition emit_py_event_carrier_for_tid ::
  "probe_env \<Rightarrow> u8 \<Rightarrow> u64 \<Rightarrow> u32 \<Rightarrow> u64 \<Rightarrow> u32 \<Rightarrow> bpf_state \<Rightarrow> bpf_state" where
  "emit_py_event_carrier_for_tid e kind ctx_id tool carrier_ptr tid s =
     emit_event \<lparr>pe_pid = cur_tgid e, pe_tid = tid, pe_ts_ns = ktime e, pe_kind = kind,
       pe_ctx_id = ctx_id, pe_tool_id = tool, pe_carrier_ptr = carrier_ptr, pe_aux = 0\<rparr> s"

definition emit_py_event_fork ::
  "probe_env \<Rightarrow> u8 \<Rightarrow> u64 \<Rightarrow> u32 \<Rightarrow> u32 \<Rightarrow> bpf_state \<Rightarrow> bpf_state" where
  "emit_py_event_fork e kind ctx_id tool child_pid s =
     emit_event \<lparr>pe_pid = child_pid, pe_tid = child_pid, pe_ts_ns = ktime e, pe_kind = kind,
       pe_ctx_id = ctx_id, pe_tool_id = tool, pe_carrier_ptr = 0, pe_aux = 1\<rparr> s"

definition emit_py_event_aux ::
  "probe_env \<Rightarrow> u8 \<Rightarrow> u64 \<Rightarrow> u32 \<Rightarrow> u64 \<Rightarrow> bpf_state \<Rightarrow> bpf_state" where
  "emit_py_event_aux e kind ctx_id tool aux s =
     emit_event \<lparr>pe_pid = cur_tgid e, pe_tid = cur_tid e, pe_ts_ns = ktime e, pe_kind = kind,
       pe_ctx_id = ctx_id, pe_tool_id = tool, pe_carrier_ptr = 0, pe_aux = aux\<rparr> s"

lemmas emit_defs = emit_event_def emit_py_event_def emit_py_event_carrier_def
  emit_py_event_carrier_for_tid_def emit_py_event_fork_def emit_py_event_aux_def

section \<open>Contexts and their carriers\<close>

text \<open>\<^verbatim>\<open>(cpu << 56) | val\<close>, where a counter that reads 0 starts at 1.\<close>

definition alloc_ctx_id :: "probe_env \<Rightarrow> bpf_state \<Rightarrow> u64 option \<times> bpf_state" where
  "alloc_ctx_id e s =
     (let cpu = smp_cpu e; raw = CTX_COUNTER s cpu; val = (if raw = 0 then 1 else raw)
      in (Some (push_bit 56 (ucast cpu) OR val),
          s\<lparr>CTX_COUNTER := (CTX_COUNTER s)(cpu := val + 1)\<rparr>))"

definition ctx_is_live :: "bpf_state \<Rightarrow> u64 \<Rightarrow> bool" where
  "ctx_is_live s ctx_id \<longleftrightarrow> bm_get (TOOL_CTX s) ctx_id \<noteq> None"

text \<open>\<^verbatim>\<open>TOOL_CTX.get(..).map(|c| c.tool_id).unwrap_or(TOOL_IDLE)\<close>, used throughout.\<close>

definition tool_id_of :: "bpf_state \<Rightarrow> u64 \<Rightarrow> u32" where
  "tool_id_of s ctx_id = (case bm_get (TOOL_CTX s) ctx_id of Some c \<Rightarrow> tool_id c | None \<Rightarrow> TOOL_IDLE)"

definition flags_of :: "bpf_state \<Rightarrow> u64 \<Rightarrow> u32" where
  "flags_of s ctx_id = (case bm_get (TOOL_CTX s) ctx_id of Some c \<Rightarrow> flags c | None \<Rightarrow> 0)"

definition set_active :: "u32 \<Rightarrow> u64 \<Rightarrow> bpf_state \<Rightarrow> bpf_state" where
  "set_active tid ctx_id s = s\<lparr>THREAD_ACTIVE_CTX := bm_insert tid ctx_id (THREAD_ACTIVE_CTX s)\<rparr>"

definition clear_active :: "u32 \<Rightarrow> bpf_state \<Rightarrow> bpf_state" where
  "clear_active tid s = s\<lparr>THREAD_ACTIVE_CTX := bm_remove tid (THREAD_ACTIVE_CTX s)\<rparr>"

definition get_active_ctx :: "u32 \<Rightarrow> bpf_state \<Rightarrow> u64 option \<times> bpf_state" where
  "get_active_ctx tid s =
     (case bm_get (THREAD_ACTIVE_CTX s) tid of
        Some ctx_id \<Rightarrow> if ctx_is_live s ctx_id then (Some ctx_id, s) else (None, clear_active tid s)
      | None \<Rightarrow> (None, s))"

definition carrier_inc :: "u64 \<Rightarrow> bpf_state \<Rightarrow> bpf_state" where
  "carrier_inc ctx_id s =
     s\<lparr>TOOL_CTX := bm_modify ctx_id (\<lambda>c. c\<lparr>carrier_count := carrier_count c + 1\<rparr>) (TOOL_CTX s)\<rparr>"

definition carrier_dec :: "probe_env \<Rightarrow> u64 \<Rightarrow> bpf_state \<Rightarrow> bpf_state" where
  "carrier_dec e ctx_id s =
     (case bm_get (TOOL_CTX s) ctx_id of
        None \<Rightarrow> s
      | Some c \<Rightarrow>
          if 1 < carrier_count c
          then s\<lparr>TOOL_CTX := bm_modify ctx_id
                   (\<lambda>c. c\<lparr>carrier_count := carrier_count c - 1, generation := generation c + 1\<rparr>)
                   (TOOL_CTX s)\<rparr>
          else (let s1 = s\<lparr>TOOL_CTX := bm_modify ctx_id
                             (\<lambda>c. c\<lparr>generation := generation c + 1\<rparr>) (TOOL_CTX s)\<rparr>;
                    s2 = emit_py_event e EVENT_TOOL_CONTEXT_END ctx_id (tool_id c) s1
                in s2\<lparr>TOOL_CTX := bm_remove ctx_id (TOOL_CTX s2)\<rparr>))"

section \<open>The context stack of a thread\<close>

definition ctx_stack_key :: "u32 \<Rightarrow> nat \<Rightarrow> u64" where
  "ctx_stack_key tid i = push_bit 8 (ucast tid) OR of_nat i"

definition ctx_stack_top :: "u32 \<Rightarrow> bpf_state \<Rightarrow> u64 option" where
  "ctx_stack_top tid s =
     (case bm_get (THREAD_CTX_DEPTH s) tid of
        None \<Rightarrow> None
      | Some depth \<Rightarrow>
          if depth = 0 then None
          else case bm_get (THREAD_CTX_STACK s) (ctx_stack_key tid (unat (depth - 1))) of
                 Some ctx_id \<Rightarrow> if ctx_is_live s ctx_id then Some ctx_id else None
               | None \<Rightarrow> None)"

definition ctx_depth :: "u32 \<Rightarrow> bpf_state \<Rightarrow> nat" where
  "ctx_depth tid s = (case bm_get (THREAD_CTX_DEPTH s) tid of Some d \<Rightarrow> unat d | None \<Rightarrow> 0)"

definition ctx_stack_contains :: "u32 \<Rightarrow> u64 \<Rightarrow> bpf_state \<Rightarrow> bool" where
  "ctx_stack_contains tid ctx_id s \<longleftrightarrow>
     scan 8 (ctx_depth tid s)
       (\<lambda>i. bm_get (THREAD_CTX_STACK s) (ctx_stack_key tid i) = Some ctx_id \<and> ctx_is_live s ctx_id)
     \<noteq> None"

definition ctx_stack_push :: "probe_env \<Rightarrow> u32 \<Rightarrow> u64 \<Rightarrow> bpf_state \<Rightarrow> bool \<times> bpf_state" where
  "ctx_stack_push e tid ctx_id s =
     (let depth = ctx_depth tid s
      in if MAX_CTX_STACK_DEPTH \<le> depth
         then (False, emit_py_event_aux e EVENT_AUDIT_STACK_OVERFLOW ctx_id 0 (of_nat depth) s)
         else (True, set_active tid ctx_id
                       (s\<lparr>THREAD_CTX_STACK :=
                            bm_insert (ctx_stack_key tid depth) ctx_id (THREAD_CTX_STACK s),
                          THREAD_CTX_DEPTH :=
                            bm_insert tid (of_nat (depth + 1)) (THREAD_CTX_DEPTH s)\<rparr>)))"

definition ctx_stack_remove :: "u32 \<Rightarrow> u64 \<Rightarrow> bpf_state \<Rightarrow> u64 option \<times> bpf_state" where
  "ctx_stack_remove tid ctx_id s =
     (case bm_get (THREAD_CTX_DEPTH s) tid of
        None \<Rightarrow> (None, s)
      | Some depth_raw \<Rightarrow>
          let depth = unat depth_raw in
          if depth = 0 then (None, s)
          else case scan 8 depth
                      (\<lambda>i. bm_get (THREAD_CTX_STACK s) (ctx_stack_key tid i) = Some ctx_id) of
            None \<Rightarrow> (ctx_stack_top tid s, s)
          | Some fi \<Rightarrow>
              let st = shift_loop (ctx_stack_key tid) depth (Suc fi) 7
                         (bm_remove (ctx_stack_key tid fi) (THREAD_CTX_STACK s));
                  new_depth = depth - 1
              in if new_depth = 0
                 then (None, clear_active tid
                              (s\<lparr>THREAD_CTX_STACK := st,
                                 THREAD_CTX_DEPTH := bm_remove tid (THREAD_CTX_DEPTH s)\<rparr>))
                 else let s1 = s\<lparr>THREAD_CTX_STACK := st,
                                 THREAD_CTX_DEPTH :=
                                   bm_insert tid (of_nat new_depth) (THREAD_CTX_DEPTH s)\<rparr>;
                          parent_ctx = bm_get st (ctx_stack_key tid (new_depth - 1))
                      in case parent_ctx of
                           Some pctx \<Rightarrow> (Some pctx, set_active tid pctx s1)
                         | None \<Rightarrow> (None, clear_active tid s1))"

section \<open>The tool stack of a thread\<close>

definition tool_stack_key :: "u32 \<Rightarrow> nat \<Rightarrow> u64" where
  "tool_stack_key tid i = push_bit 32 (ucast tid) OR of_nat i"

definition tool_depth :: "u32 \<Rightarrow> bpf_state \<Rightarrow> nat" where
  "tool_depth tid s = (case bm_get (TOOL_STACK_DEPTH s) tid of Some d \<Rightarrow> unat d | None \<Rightarrow> 0)"

definition tool_stack_push ::
  "u32 \<Rightarrow> u64 \<Rightarrow> u64 \<Rightarrow> u64 \<Rightarrow> u32 \<Rightarrow> bpf_state \<Rightarrow> bpf_state" where
  "tool_stack_push tid ctx_id frame_ptr parent_ptr tool s =
     (let depth = tool_depth tid s
      in if MAX_CTX_STACK_DEPTH \<le> depth then s
         else s\<lparr>TOOL_STACK := bm_insert (tool_stack_key tid depth)
                  \<lparr>ts_ctx_id = ctx_id, ts_frame_ptr = frame_ptr, ts_parent_ptr = parent_ptr,
                   ts_tool_id = tool\<rparr> (TOOL_STACK s),
                TOOL_STACK_DEPTH := bm_insert tid (of_nat (depth + 1)) (TOOL_STACK_DEPTH s)\<rparr>)"

definition tool_slot_hit ::
  "(ToolStackEntry \<Rightarrow> bool) \<Rightarrow> u32 \<Rightarrow> bpf_state \<Rightarrow> nat \<Rightarrow> bool" where
  "tool_slot_hit P tid s i =
     (case bm_get (TOOL_STACK s) (tool_stack_key tid i) of Some entry \<Rightarrow> P entry | None \<Rightarrow> False)"

definition tool_stack_refresh ::
  "u32 \<Rightarrow> u64 \<Rightarrow> u64 \<Rightarrow> u64 \<Rightarrow> u32 \<Rightarrow> bpf_state \<Rightarrow> bpf_state" where
  "tool_stack_refresh tid ctx_id frame_ptr parent_ptr tool s =
     (case scan 8 (tool_depth tid s)
             (tool_slot_hit (\<lambda>en. ts_frame_ptr en = frame_ptr \<and> ts_ctx_id en = ctx_id) tid s) of
        Some i \<Rightarrow> s\<lparr>TOOL_STACK := bm_insert (tool_stack_key tid i)
                      \<lparr>ts_ctx_id = ctx_id, ts_frame_ptr = frame_ptr, ts_parent_ptr = parent_ptr,
                       ts_tool_id = tool\<rparr> (TOOL_STACK s)\<rparr>
      | None \<Rightarrow> tool_stack_push tid ctx_id frame_ptr parent_ptr tool s)"

text \<open>
  The body the three removal functions share; they differ in the condition on the entry.
\<close>

definition tool_stack_remove_where ::
  "(ToolStackEntry \<Rightarrow> bool) \<Rightarrow> u32 \<Rightarrow> bpf_state \<Rightarrow> ToolStackEntry option \<times> bpf_state" where
  "tool_stack_remove_where P tid s =
     (case bm_get (TOOL_STACK_DEPTH s) tid of
        None \<Rightarrow> (None, s)
      | Some depth_raw \<Rightarrow>
          let depth = unat depth_raw in
          if depth = 0 then (None, s)
          else case scan 8 depth (tool_slot_hit P tid s) of
            None \<Rightarrow> (None, s)
          | Some fi \<Rightarrow>
              let found = bm_get (TOOL_STACK s) (tool_stack_key tid fi);
                  st = shift_loop (tool_stack_key tid) depth (Suc fi) 7
                         (bm_remove (tool_stack_key tid fi) (TOOL_STACK s));
                  new_depth = depth - 1;
                  dm = (if new_depth = 0 then bm_remove tid (TOOL_STACK_DEPTH s)
                        else bm_insert tid (of_nat new_depth) (TOOL_STACK_DEPTH s))
              in (found, s\<lparr>TOOL_STACK := st, TOOL_STACK_DEPTH := dm\<rparr>))"

definition tool_stack_remove_ctx :: "u32 \<Rightarrow> u64 \<Rightarrow> bpf_state \<Rightarrow> ToolStackEntry option \<times> bpf_state" where
  "tool_stack_remove_ctx tid ctx_id = tool_stack_remove_where (\<lambda>en. ts_ctx_id en = ctx_id) tid"

definition tool_stack_pop_if_frame_parent ::
  "u32 \<Rightarrow> u64 \<Rightarrow> u64 \<Rightarrow> bpf_state \<Rightarrow> ToolStackEntry option \<times> bpf_state" where
  "tool_stack_pop_if_frame_parent tid frame_ptr parent_ptr =
     tool_stack_remove_where (\<lambda>en. ts_frame_ptr en = frame_ptr \<and> ts_parent_ptr en = parent_ptr) tid"

definition tool_stack_remove_frame_ctx ::
  "u32 \<Rightarrow> u64 \<Rightarrow> u64 \<Rightarrow> bpf_state \<Rightarrow> ToolStackEntry option \<times> bpf_state" where
  "tool_stack_remove_frame_ctx tid frame_ptr ctx_id =
     tool_stack_remove_where (\<lambda>en. ts_frame_ptr en = frame_ptr \<and> ts_ctx_id en = ctx_id) tid"

section \<open>Closing a tool frame\<close>

definition finish_tool_close ::
  "probe_env \<Rightarrow> u32 \<Rightarrow> ToolStackEntry \<Rightarrow> bpf_state \<Rightarrow> bool \<times> bpf_state" where
  "finish_tool_close e tid entry s =
     (let frame_key = py_object_key e (ts_frame_ptr entry)
      in if bm_get (FRAME_CTX s) frame_key = Some (ts_ctx_id entry)
         then let s1 = s\<lparr>FRAME_CTX := bm_remove frame_key (FRAME_CTX s)\<rparr>;
                  s2 = snd (ctx_stack_remove tid (ts_ctx_id entry) s1);
                  s3 = emit_py_event e EVENT_TOOL_FRAME_END (ts_ctx_id entry) (ts_tool_id entry) s2
              in (True, carrier_dec e (ts_ctx_id entry) s3)
         else (False, s))"

definition finish_deferred_tool_close_at_depth ::
  "probe_env \<Rightarrow> u32 \<Rightarrow> u64 \<Rightarrow> nat \<Rightarrow> u64 \<Rightarrow> bpf_state \<Rightarrow> bpf_state" where
  "finish_deferred_tool_close_at_depth e tid task_ptr depth ctx_id s =
     (let stack_key = task_stack_key e task_ptr depth
      in case bm_get (PENDING_TOOL_CLOSE s) stack_key of
           Some entry \<Rightarrow>
             if ts_ctx_id entry = ctx_id
             then snd (finish_tool_close e tid entry
                         (s\<lparr>PENDING_TOOL_CLOSE := bm_remove stack_key (PENDING_TOOL_CLOSE s)\<rparr>))
             else s
         | None \<Rightarrow> s)"

definition finish_deferred_tool_close ::
  "probe_env \<Rightarrow> u32 \<Rightarrow> u64 \<Rightarrow> u64 \<Rightarrow> bpf_state \<Rightarrow> bpf_state" where
  "finish_deferred_tool_close e tid task_ptr ctx_id s =
     fold (\<lambda>i. finish_deferred_tool_close_at_depth e tid task_ptr i ctx_id) [0..<8] s"

section \<open>The context stack of a task\<close>

definition task_ctx_current :: "probe_env \<Rightarrow> u64 \<Rightarrow> bpf_state \<Rightarrow> u64 option" where
  "task_ctx_current e task_ptr s = bm_get (TASK_CTX s) (py_object_key e task_ptr)"

definition task_ctx_depth_for :: "probe_env \<Rightarrow> u64 \<Rightarrow> bpf_state \<Rightarrow> nat" where
  "task_ctx_depth_for e task_ptr s =
     (case bm_get (TASK_CTX_DEPTH s) (py_object_key e task_ptr) of Some d \<Rightarrow> unat d | None \<Rightarrow> 0)"

definition task_ctx_contains_tool :: "probe_env \<Rightarrow> u64 \<Rightarrow> u32 \<Rightarrow> bpf_state \<Rightarrow> bool" where
  "task_ctx_contains_tool e task_ptr tool s \<longleftrightarrow>
     tool \<noteq> TOOL_IDLE \<and>
     scan 8 (task_ctx_depth_for e task_ptr s)
       (\<lambda>i. case bm_get (TASK_CTX_STACK s) (task_stack_key e task_ptr i) of
              None \<Rightarrow> False
            | Some ctx_id \<Rightarrow>
                (case bm_get (TOOL_CTX s) ctx_id of
                   None \<Rightarrow> False
                 | Some c \<Rightarrow> tool_id c = tool \<and> ctx_is_live s ctx_id)) \<noteq> None"

definition task_ctx_push ::
  "probe_env \<Rightarrow> u32 \<Rightarrow> u64 \<Rightarrow> u64 \<Rightarrow> u32 \<Rightarrow> bpf_state \<Rightarrow> bool \<times> bpf_state" where
  "task_ctx_push e tid task_ptr ctx_id tool s =
     (let task_key = py_object_key e task_ptr
      in if bm_get (TASK_CTX s) task_key = Some ctx_id then (True, set_active tid ctx_id s)
         else
           let depth = task_ctx_depth_for e task_ptr s
           in if MAX_CTX_STACK_DEPTH \<le> depth
              then (False, emit_py_event_aux e EVENT_AUDIT_STACK_OVERFLOW ctx_id tool (of_nat depth) s)
              else
                let s1 = s\<lparr>TASK_CTX_STACK :=
                             bm_insert (task_stack_key e task_ptr depth) ctx_id (TASK_CTX_STACK s),
                           TASK_CTX_DEPTH :=
                             bm_insert task_key (of_nat (depth + 1)) (TASK_CTX_DEPTH s),
                           TASK_CTX := bm_insert task_key ctx_id (TASK_CTX s)\<rparr>;
                    s2 = carrier_inc ctx_id (set_active tid ctx_id s1)
                in (True, emit_py_event_carrier e EVENT_TASK_BIND ctx_id tool task_ptr s2))"

definition task_ctx_remove ::
  "probe_env \<Rightarrow> u32 \<Rightarrow> u64 \<Rightarrow> u64 \<Rightarrow> bpf_state \<Rightarrow> u64 option \<times> bpf_state" where
  "task_ctx_remove e tid task_ptr expected_ctx s =
     (let task_key = py_object_key e task_ptr
      in case bm_get (TASK_CTX_DEPTH s) task_key of
        None \<Rightarrow> (None, s)
      | Some depth_raw \<Rightarrow>
          let depth = unat depth_raw in
          if depth = 0 then (None, s)
          else case scan 8 depth
                      (\<lambda>i. bm_get (TASK_CTX_STACK s) (task_stack_key e task_ptr i) = Some expected_ctx) of
            None \<Rightarrow> (bm_get (TASK_CTX s) task_key, s)
          | Some fi \<Rightarrow>
              let s1 = emit_py_event_carrier e EVENT_TASK_UNBIND expected_ctx
                         (tool_id_of s expected_ctx) task_ptr s;
                  s2 = s1\<lparr>TASK_CTX_STACK :=
                            bm_remove (task_stack_key e task_ptr fi) (TASK_CTX_STACK s1)\<rparr>;
                  s3 = carrier_dec e expected_ctx s2;
                  st = shift_loop (task_stack_key e task_ptr) depth (Suc fi) 7 (TASK_CTX_STACK s3);
                  new_depth = depth - 1
              in if new_depth = 0
                 then (None, clear_active tid
                              (s3\<lparr>TASK_CTX_STACK := st,
                                  TASK_CTX_DEPTH := bm_remove task_key (TASK_CTX_DEPTH s3),
                                  TASK_CTX := bm_remove task_key (TASK_CTX s3)\<rparr>))
                 else let s4 = s3\<lparr>TASK_CTX_STACK := st,
                                  TASK_CTX_DEPTH :=
                                    bm_insert task_key (of_nat new_depth) (TASK_CTX_DEPTH s3)\<rparr>
                      in case bm_get st (task_stack_key e task_ptr (new_depth - 1)) of
                           Some parent_ctx \<Rightarrow>
                             (Some parent_ctx,
                              set_active tid parent_ctx
                                (s4\<lparr>TASK_CTX := bm_insert task_key parent_ctx (TASK_CTX s4)\<rparr>))
                         | None \<Rightarrow>
                             (None, clear_active tid
                                      (s4\<lparr>TASK_CTX := bm_remove task_key (TASK_CTX s4)\<rparr>)))"

definition task_clear_slot ::
  "probe_env \<Rightarrow> u32 \<Rightarrow> u64 \<Rightarrow> nat \<Rightarrow> bpf_state \<Rightarrow> bpf_state" where
  "task_clear_slot e tid task_ptr idx s =
     (let stack_key = task_stack_key e task_ptr idx;
          s1 = (case bm_get (TASK_CTX_STACK s) stack_key of
                  None \<Rightarrow> s
                | Some ctx_id \<Rightarrow>
                    let sa = emit_py_event_carrier e EVENT_TASK_UNBIND ctx_id
                               (tool_id_of s ctx_id) task_ptr s;
                        sb = finish_deferred_tool_close_at_depth e tid task_ptr idx ctx_id sa;
                        (found, sc) = tool_stack_remove_ctx tid ctx_id sb;
                        sd = (case found of
                                Some entry \<Rightarrow> snd (finish_tool_close e tid entry sc)
                              | None \<Rightarrow> sc)
                    in carrier_dec e ctx_id sd)
      in s1\<lparr>TASK_CTX_STACK := bm_remove stack_key (TASK_CTX_STACK s1),
            PENDING_TOOL_CLOSE := bm_remove stack_key (PENDING_TOOL_CLOSE s1)\<rparr>)"

fun task_clear_loop ::
  "probe_env \<Rightarrow> u32 \<Rightarrow> u64 \<Rightarrow> nat \<Rightarrow> nat \<Rightarrow> nat \<Rightarrow> bpf_state \<Rightarrow> bpf_state" where
  "task_clear_loop e tid task_ptr depth i 0 s = s"
| "task_clear_loop e tid task_ptr depth i (Suc n) s =
     (if depth \<le> i then s
      else task_clear_loop e tid task_ptr depth (Suc i) n
             (task_clear_slot e tid task_ptr (depth - 1 - i) s))"

definition task_clear_pending ::
  "probe_env \<Rightarrow> u32 \<Rightarrow> u64 \<Rightarrow> nat \<Rightarrow> bpf_state \<Rightarrow> bpf_state" where
  "task_clear_pending e tid task_ptr i s =
     (let pending_key = task_stack_key e task_ptr i
      in case bm_get (PENDING_TOOL_CLOSE s) pending_key of
           None \<Rightarrow> s
         | Some entry \<Rightarrow>
             snd (finish_tool_close e tid entry
                    (s\<lparr>PENDING_TOOL_CLOSE := bm_remove pending_key (PENDING_TOOL_CLOSE s)\<rparr>)))"

definition task_ctx_clear :: "probe_env \<Rightarrow> u32 \<Rightarrow> u64 \<Rightarrow> bpf_state \<Rightarrow> bpf_state" where
  "task_ctx_clear e tid task_ptr s =
     (let task_key = py_object_key e task_ptr;
          depth = task_ctx_depth_for e task_ptr s;
          s1 = task_clear_loop e tid task_ptr depth 0 8 s;
          s2 = fold (task_clear_pending e tid task_ptr) [0..<8] s1
      in s2\<lparr>TASK_CTX_DEPTH := bm_remove task_key (TASK_CTX_DEPTH s2),
            TASK_CTX := bm_remove task_key (TASK_CTX s2)\<rparr>)"

section \<open>Deferred closes\<close>

definition defer_tool_close :: "probe_env \<Rightarrow> u64 \<Rightarrow> ToolStackEntry \<Rightarrow> bpf_state \<Rightarrow> bpf_state" where
  "defer_tool_close e task_ptr entry s =
     (let s1 = s\<lparr>TOOL_CTX :=
                   bm_modify (ts_ctx_id entry) (\<lambda>c. c\<lparr>last_seen_ns := ktime e\<rparr>) (TOOL_CTX s)\<rparr>;
          depth = (case bm_get (TASK_CTX_DEPTH s1) (py_object_key e task_ptr) of
                     Some d \<Rightarrow> unat d | None \<Rightarrow> 1);
          pending_depth = (if depth = 0 then 0 else depth - 1)
      in s1\<lparr>PENDING_TOOL_CLOSE :=
              bm_insert (task_stack_key e task_ptr pending_depth) entry (PENDING_TOOL_CLOSE s1)\<rparr>)"

definition pending_slot_hit ::
  "(ToolStackEntry \<Rightarrow> bool) \<Rightarrow> probe_env \<Rightarrow> u64 \<Rightarrow> bpf_state \<Rightarrow> nat \<Rightarrow> bool" where
  "pending_slot_hit P e task_ptr s i =
     (case bm_get (PENDING_TOOL_CLOSE s) (task_stack_key e task_ptr i) of
        Some entry \<Rightarrow> P entry | None \<Rightarrow> False)"

definition cancel_deferred_tool_close ::
  "probe_env \<Rightarrow> u64 \<Rightarrow> u64 \<Rightarrow> u64 \<Rightarrow> bpf_state \<Rightarrow> bpf_state" where
  "cancel_deferred_tool_close e task_ptr ctx_id frame_ptr s =
     (case scan 8 (task_ctx_depth_for e task_ptr s)
             (pending_slot_hit (\<lambda>en. ts_ctx_id en = ctx_id \<and> ts_frame_ptr en = frame_ptr) e task_ptr s) of
        Some i \<Rightarrow> s\<lparr>PENDING_TOOL_CLOSE :=
                      bm_remove (task_stack_key e task_ptr i) (PENDING_TOOL_CLOSE s)\<rparr>
      | None \<Rightarrow> s)"

definition deferred_tool_ctx_for_worker :: "probe_env \<Rightarrow> u64 \<Rightarrow> bpf_state \<Rightarrow> u64 option" where
  "deferred_tool_ctx_for_worker e task_ptr s =
     (case scan MAX_TASK_CTX_STACK_DEPTH MAX_TASK_CTX_STACK_DEPTH
             (\<lambda>i. pending_slot_hit (\<lambda>en. ctx_is_live s (ts_ctx_id en)) e task_ptr s
                    (MAX_TASK_CTX_STACK_DEPTH - 1 - i)) of
        None \<Rightarrow> None
      | Some i \<Rightarrow> map_option ts_ctx_id
                    (bm_get (PENDING_TOOL_CLOSE s)
                       (task_stack_key e task_ptr (MAX_TASK_CTX_STACK_DEPTH - 1 - i))))"

definition restore_deferred_tool_close ::
  "probe_env \<Rightarrow> u32 \<Rightarrow> u64 \<Rightarrow> bpf_state \<Rightarrow> u64 option \<times> bpf_state" where
  "restore_deferred_tool_close e tid task_ptr s =
     (case scan 8 8 (\<lambda>i. pending_slot_hit (\<lambda>_. True) e task_ptr s (7 - i)) of
        None \<Rightarrow> (None, s)
      | Some i \<Rightarrow>
          let stack_key = task_stack_key e task_ptr (7 - i)
          in case bm_get (PENDING_TOOL_CLOSE s) stack_key of
               None \<Rightarrow> (None, s)
             | Some entry \<Rightarrow>
                 let s1 = s\<lparr>PENDING_TOOL_CLOSE := bm_remove stack_key (PENDING_TOOL_CLOSE s)\<rparr>
                 in if \<not> ctx_is_live s (ts_ctx_id entry) then (None, s1)
                    else let s2 = tool_stack_push tid (ts_ctx_id entry) (ts_frame_ptr entry)
                                    (ts_parent_ptr entry) (ts_tool_id entry) s1;
                             (ok, s3) = task_ctx_push e tid task_ptr (ts_ctx_id entry)
                                          (ts_tool_id entry) s2
                         in (if ok then Some (ts_ctx_id entry) else None, s3))"

section \<open>The frame stash\<close>

definition frame_stash_key :: "u32 \<Rightarrow> u32 \<Rightarrow> u64" where
  "frame_stash_key tid depth = push_bit 16 (ucast tid) OR ucast depth"

definition stash_depth :: "u32 \<Rightarrow> bpf_state \<Rightarrow> u32" where
  "stash_depth tid s = (case bm_get (FRAME_STASH_DEPTH s) tid of Some d \<Rightarrow> d | None \<Rightarrow> 0)"

definition frame_stash_push :: "u32 \<Rightarrow> u64 \<Rightarrow> bpf_state \<Rightarrow> bpf_state" where
  "frame_stash_push tid frame_ptr s =
     (let depth = stash_depth tid s
      in s\<lparr>FRAME_ENTRY_STASH :=
             bm_insert (frame_stash_key tid depth) frame_ptr (FRAME_ENTRY_STASH s),
           FRAME_STASH_DEPTH := bm_insert tid (depth + 1) (FRAME_STASH_DEPTH s)\<rparr>)"

definition frame_stash_pop :: "u32 \<Rightarrow> bpf_state \<Rightarrow> u64 option \<times> bpf_state" where
  "frame_stash_pop tid s =
     (case bm_get (FRAME_STASH_DEPTH s) tid of
        None \<Rightarrow> (None, s)
      | Some depth \<Rightarrow>
          if depth = 0 then (None, s)
          else let new_depth = depth - 1; key = frame_stash_key tid new_depth
               in (bm_get (FRAME_ENTRY_STASH s) key,
                   s\<lparr>FRAME_ENTRY_STASH := bm_remove key (FRAME_ENTRY_STASH s),
                     FRAME_STASH_DEPTH :=
                       (if new_depth = 0 then bm_remove tid (FRAME_STASH_DEPTH s)
                        else bm_insert tid new_depth (FRAME_STASH_DEPTH s))\<rparr>))"

definition frame_stash_peek :: "u32 \<Rightarrow> bpf_state \<Rightarrow> u64 option" where
  "frame_stash_peek tid s =
     (case bm_get (FRAME_STASH_DEPTH s) tid of
        None \<Rightarrow> None
      | Some depth \<Rightarrow>
          if depth = 0 then None
          else bm_get (FRAME_ENTRY_STASH s) (frame_stash_key tid (depth - 1)))"

section \<open>Invariants of the kernel-side state\<close>

text \<open>What user space installs and no program ever writes.\<close>

definition policy_view :: "bpf_state \<Rightarrow>
    u32 list \<times> RootRule list \<times> (ToolPolicyKey, u8) bpf_map \<times> (ToolExecKey, u8) bpf_map \<times>
    ((u32 \<times> ToolNetData) \<times> u8) list \<times> (u32, IronScopeConfig) bpf_map" where
  "policy_view s = (PYTHON_OFFSETS s, ROOT_RULES s, TOOL_FS_POLICY s, TOOL_EXEC_POLICY s,
     TOOL_NET_POLICY s, IRONSCOPE_CONFIG s)"

text \<open>The slots of the event allocator: at most the eight keys it uses.\<close>

definition heap_ok :: "(u32, u8 list) bpf_map \<Rightarrow> bool" where
  "heap_ok m \<longleftrightarrow> bm_wf m \<and> bm_max m = 8 \<and> bm_kind m = Hash \<and> (\<forall>k. bm_get m k \<noteq> None \<longrightarrow> k < 8)"

text \<open>Every map keeps its keys distinct and holds no more entries than it was declared with.\<close>

definition maps_ok :: "bpf_state \<Rightarrow> bool" where
  "maps_ok s \<longleftrightarrow>
     sized 4096 (TOOL_CTX s) \<and> sized 4096 (TOOL_OBJ s) \<and> sized 8192 (CODE_KIND s) \<and>
     sized 4096 (PENDING_TOOL_RESOLVE s) \<and> sized 8192 (PENDING_FRAME_TOOL s) \<and> sized 4096 (FORK_CTX s) \<and>
     sized 8192 (FRAME_CTX s) \<and> sized 4096 (TASK_CTX s) \<and> sized 8192 (TASK_CTX_STACK s) \<and>
     sized 4096 (TASK_CTX_DEPTH s) \<and> sized 4096 (WORKITEM_CTX s) \<and> sized 1024 (PYTHREAD_OBJ_CTX s) \<and>
     sized 1024 (PYTHREAD_OBJ_THREAD s) \<and> sized 4096 (PENDING_WORKER_SPAWN s) \<and>
     sized 4096 (THREADPOOL_WORKER_FRAME s) \<and> sized 4096 (THREADPOOL_WORKER_CTX s) \<and>
     sized 4096 (THREADPOOL_WORKITEM_THREAD s) \<and> sized 4096 (WORKER_RUN_CARRIER s) \<and>
     sized 4096 (THREAD_CURRENT_FRAME s) \<and> sized 4096 (THREAD_TSTATE s) \<and> sized 4096 (TOOL_STACK s) \<and>
     sized 4096 (TOOL_STACK_DEPTH s) \<and> sized 4096 (PENDING_TOOL_CLOSE s) \<and> sized 4096 (THREAD_ACTIVE_CTX s) \<and>
     sized 4096 (THREAD_ACTIVE_TASK s) \<and> sized 32768 (THREAD_CTX_STACK s) \<and> sized 4096 (THREAD_CTX_DEPTH s) \<and>
     sized 32768 (FRAME_ENTRY_STASH s) \<and> sized 4096 (FRAME_STASH_DEPTH s) \<and> sized 1024 (TASK_STEP_STASH s) \<and>
     sized 1024 (TASK_STEP_PREV_TASK s) \<and> sized 4096 (WORKER_RUN_STACK s) \<and> sized 1024 (WORKER_RUN_DEPTH s) \<and>
     sized 4096 (PROTECTED_TGIDS s) \<and> sized 1024 (TOOL_FS_POLICY s) \<and> sized 256 (TOOL_EXEC_POLICY s) \<and>
     sized 1 (IRONSCOPE_CONFIG s)"

lemma maps_ok_sized:
  assumes "maps_ok s"
  shows
    "sized 4096 (TOOL_CTX s)" "sized 4096 (TOOL_OBJ s)" "sized 8192 (CODE_KIND s)"
    "sized 4096 (PENDING_TOOL_RESOLVE s)" "sized 8192 (PENDING_FRAME_TOOL s)" "sized 4096 (FORK_CTX s)"
    "sized 8192 (FRAME_CTX s)" "sized 4096 (TASK_CTX s)" "sized 8192 (TASK_CTX_STACK s)"
    "sized 4096 (TASK_CTX_DEPTH s)" "sized 4096 (WORKITEM_CTX s)" "sized 1024 (PYTHREAD_OBJ_CTX s)"
    "sized 1024 (PYTHREAD_OBJ_THREAD s)" "sized 4096 (PENDING_WORKER_SPAWN s)"
    "sized 4096 (THREADPOOL_WORKER_FRAME s)" "sized 4096 (THREADPOOL_WORKER_CTX s)"
    "sized 4096 (THREADPOOL_WORKITEM_THREAD s)" "sized 4096 (WORKER_RUN_CARRIER s)"
    "sized 4096 (THREAD_CURRENT_FRAME s)" "sized 4096 (THREAD_TSTATE s)" "sized 4096 (TOOL_STACK s)"
    "sized 4096 (TOOL_STACK_DEPTH s)" "sized 4096 (PENDING_TOOL_CLOSE s)" "sized 4096 (THREAD_ACTIVE_CTX s)"
    "sized 4096 (THREAD_ACTIVE_TASK s)" "sized 32768 (THREAD_CTX_STACK s)" "sized 4096 (THREAD_CTX_DEPTH s)"
    "sized 32768 (FRAME_ENTRY_STASH s)" "sized 4096 (FRAME_STASH_DEPTH s)" "sized 1024 (TASK_STEP_STASH s)"
    "sized 1024 (TASK_STEP_PREV_TASK s)" "sized 4096 (WORKER_RUN_STACK s)" "sized 1024 (WORKER_RUN_DEPTH s)"
    "sized 4096 (PROTECTED_TGIDS s)" "sized 1024 (TOOL_FS_POLICY s)" "sized 256 (TOOL_EXEC_POLICY s)"
    "sized 1 (IRONSCOPE_CONFIG s)"
  using assms unfolding maps_ok_def by blast+

lemma maps_ok_other [simp]:
  "maps_ok (s\<lparr>PYTHON_OFFSETS := x0\<rparr>) = maps_ok s"
  "maps_ok (s\<lparr>CTX_COUNTER := x1\<rparr>) = maps_ok s"
  "maps_ok (s\<lparr>ROOT_RULES := x2\<rparr>) = maps_ok s"
  "maps_ok (s\<lparr>TOOL_NET_POLICY := x3\<rparr>) = maps_ok s"
  "maps_ok (s\<lparr>GUARD_EVENTS := x4\<rparr>) = maps_ok s"
  "maps_ok (s\<lparr>PY_EVENTS := x5\<rparr>) = maps_ok s"
  "maps_ok (s\<lparr>RESOLVER_EVENTS := x6\<rparr>) = maps_ok s"
  "maps_ok (s\<lparr>HEAP := x7\<rparr>) = maps_ok s"
  "maps_ok (s\<lparr>ALLOC_STATE := x8\<rparr>) = maps_ok s"
  by (simp_all add: maps_ok_def)

lemma maps_ok_update [simp]:
  assumes "maps_ok s"
  shows
    "sized 4096 m0 \<Longrightarrow> maps_ok (s\<lparr>TOOL_CTX := m0\<rparr>)"
    "sized 4096 m1 \<Longrightarrow> maps_ok (s\<lparr>TOOL_OBJ := m1\<rparr>)"
    "sized 8192 m2 \<Longrightarrow> maps_ok (s\<lparr>CODE_KIND := m2\<rparr>)"
    "sized 4096 m3 \<Longrightarrow> maps_ok (s\<lparr>PENDING_TOOL_RESOLVE := m3\<rparr>)"
    "sized 8192 m4 \<Longrightarrow> maps_ok (s\<lparr>PENDING_FRAME_TOOL := m4\<rparr>)"
    "sized 4096 m5 \<Longrightarrow> maps_ok (s\<lparr>FORK_CTX := m5\<rparr>)"
    "sized 8192 m6 \<Longrightarrow> maps_ok (s\<lparr>FRAME_CTX := m6\<rparr>)"
    "sized 4096 m7 \<Longrightarrow> maps_ok (s\<lparr>TASK_CTX := m7\<rparr>)"
    "sized 8192 m8 \<Longrightarrow> maps_ok (s\<lparr>TASK_CTX_STACK := m8\<rparr>)"
    "sized 4096 m9 \<Longrightarrow> maps_ok (s\<lparr>TASK_CTX_DEPTH := m9\<rparr>)"
    "sized 4096 m10 \<Longrightarrow> maps_ok (s\<lparr>WORKITEM_CTX := m10\<rparr>)"
    "sized 1024 m11 \<Longrightarrow> maps_ok (s\<lparr>PYTHREAD_OBJ_CTX := m11\<rparr>)"
    "sized 1024 m12 \<Longrightarrow> maps_ok (s\<lparr>PYTHREAD_OBJ_THREAD := m12\<rparr>)"
    "sized 4096 m13 \<Longrightarrow> maps_ok (s\<lparr>PENDING_WORKER_SPAWN := m13\<rparr>)"
    "sized 4096 m14 \<Longrightarrow> maps_ok (s\<lparr>THREADPOOL_WORKER_FRAME := m14\<rparr>)"
    "sized 4096 m15 \<Longrightarrow> maps_ok (s\<lparr>THREADPOOL_WORKER_CTX := m15\<rparr>)"
    "sized 4096 m16 \<Longrightarrow> maps_ok (s\<lparr>THREADPOOL_WORKITEM_THREAD := m16\<rparr>)"
    "sized 4096 m17 \<Longrightarrow> maps_ok (s\<lparr>WORKER_RUN_CARRIER := m17\<rparr>)"
    "sized 4096 m18 \<Longrightarrow> maps_ok (s\<lparr>THREAD_CURRENT_FRAME := m18\<rparr>)"
    "sized 4096 m19 \<Longrightarrow> maps_ok (s\<lparr>THREAD_TSTATE := m19\<rparr>)"
    "sized 4096 m20 \<Longrightarrow> maps_ok (s\<lparr>TOOL_STACK := m20\<rparr>)"
    "sized 4096 m21 \<Longrightarrow> maps_ok (s\<lparr>TOOL_STACK_DEPTH := m21\<rparr>)"
    "sized 4096 m22 \<Longrightarrow> maps_ok (s\<lparr>PENDING_TOOL_CLOSE := m22\<rparr>)"
    "sized 4096 m23 \<Longrightarrow> maps_ok (s\<lparr>THREAD_ACTIVE_CTX := m23\<rparr>)"
    "sized 4096 m24 \<Longrightarrow> maps_ok (s\<lparr>THREAD_ACTIVE_TASK := m24\<rparr>)"
    "sized 32768 m25 \<Longrightarrow> maps_ok (s\<lparr>THREAD_CTX_STACK := m25\<rparr>)"
    "sized 4096 m26 \<Longrightarrow> maps_ok (s\<lparr>THREAD_CTX_DEPTH := m26\<rparr>)"
    "sized 32768 m27 \<Longrightarrow> maps_ok (s\<lparr>FRAME_ENTRY_STASH := m27\<rparr>)"
    "sized 4096 m28 \<Longrightarrow> maps_ok (s\<lparr>FRAME_STASH_DEPTH := m28\<rparr>)"
    "sized 1024 m29 \<Longrightarrow> maps_ok (s\<lparr>TASK_STEP_STASH := m29\<rparr>)"
    "sized 1024 m30 \<Longrightarrow> maps_ok (s\<lparr>TASK_STEP_PREV_TASK := m30\<rparr>)"
    "sized 4096 m31 \<Longrightarrow> maps_ok (s\<lparr>WORKER_RUN_STACK := m31\<rparr>)"
    "sized 1024 m32 \<Longrightarrow> maps_ok (s\<lparr>WORKER_RUN_DEPTH := m32\<rparr>)"
    "sized 4096 m33 \<Longrightarrow> maps_ok (s\<lparr>PROTECTED_TGIDS := m33\<rparr>)"
    "sized 1024 m34 \<Longrightarrow> maps_ok (s\<lparr>TOOL_FS_POLICY := m34\<rparr>)"
    "sized 256 m35 \<Longrightarrow> maps_ok (s\<lparr>TOOL_EXEC_POLICY := m35\<rparr>)"
    "sized 1 m36 \<Longrightarrow> maps_ok (s\<lparr>IRONSCOPE_CONFIG := m36\<rparr>)"
  using assms unfolding maps_ok_def by simp_all

declare maps_ok_sized [simp]

text \<open>
  Every stack depth is within the bound its operations check, context id 0, which the
  programs use for \<open>no context\<close>, is never live, the allocator of every CPU is within its slots,
  and every map is within its capacity.
\<close>

definition state_ok :: "bpf_state \<Rightarrow> bool" where
  "state_ok s \<longleftrightarrow> depth_ok 8 (THREAD_CTX_DEPTH s) \<and> depth_ok 8 (TOOL_STACK_DEPTH s) \<and>
     depth_ok 8 (TASK_CTX_DEPTH s) \<and> depth_ok 64 (WORKER_RUN_DEPTH s) \<and>
     bm_get (TOOL_CTX s) 0 = None \<and> (\<forall>cpu. heap_ok (HEAP s cpu)) \<and> maps_ok s"

named_theorems ok_intros \<open>operations keep \<open>state_ok\<close>\<close>

lemma state_ok_maps: "state_ok s \<Longrightarrow> maps_ok s"
  by (simp add: state_ok_def)

lemmas state_ok_sized [simp, ok_intros] = maps_ok_sized [OF state_ok_maps]

declare sized_ops [ok_intros] sized_shift_loop [ok_intros]

section \<open>What the elementary operations leave alone\<close>

lemma emit_event_fields [simp]:
  "PYTHON_OFFSETS (emit_event ev s) = PYTHON_OFFSETS s"
  "CTX_COUNTER (emit_event ev s) = CTX_COUNTER s" "TOOL_CTX (emit_event ev s) = TOOL_CTX s"
  "TOOL_OBJ (emit_event ev s) = TOOL_OBJ s" "CODE_KIND (emit_event ev s) = CODE_KIND s"
  "ROOT_RULES (emit_event ev s) = ROOT_RULES s"
  "PENDING_TOOL_RESOLVE (emit_event ev s) = PENDING_TOOL_RESOLVE s"
  "PENDING_FRAME_TOOL (emit_event ev s) = PENDING_FRAME_TOOL s"
  "FORK_CTX (emit_event ev s) = FORK_CTX s" "FRAME_CTX (emit_event ev s) = FRAME_CTX s"
  "TASK_CTX (emit_event ev s) = TASK_CTX s" "TASK_CTX_STACK (emit_event ev s) = TASK_CTX_STACK s"
  "TASK_CTX_DEPTH (emit_event ev s) = TASK_CTX_DEPTH s"
  "WORKITEM_CTX (emit_event ev s) = WORKITEM_CTX s"
  "PYTHREAD_OBJ_CTX (emit_event ev s) = PYTHREAD_OBJ_CTX s"
  "PYTHREAD_OBJ_THREAD (emit_event ev s) = PYTHREAD_OBJ_THREAD s"
  "PENDING_WORKER_SPAWN (emit_event ev s) = PENDING_WORKER_SPAWN s"
  "THREADPOOL_WORKER_FRAME (emit_event ev s) = THREADPOOL_WORKER_FRAME s"
  "THREADPOOL_WORKER_CTX (emit_event ev s) = THREADPOOL_WORKER_CTX s"
  "THREADPOOL_WORKITEM_THREAD (emit_event ev s) = THREADPOOL_WORKITEM_THREAD s"
  "WORKER_RUN_CARRIER (emit_event ev s) = WORKER_RUN_CARRIER s"
  "THREAD_CURRENT_FRAME (emit_event ev s) = THREAD_CURRENT_FRAME s"
  "THREAD_TSTATE (emit_event ev s) = THREAD_TSTATE s"
  "TOOL_STACK (emit_event ev s) = TOOL_STACK s"
  "TOOL_STACK_DEPTH (emit_event ev s) = TOOL_STACK_DEPTH s"
  "PENDING_TOOL_CLOSE (emit_event ev s) = PENDING_TOOL_CLOSE s"
  "THREAD_ACTIVE_CTX (emit_event ev s) = THREAD_ACTIVE_CTX s"
  "THREAD_ACTIVE_TASK (emit_event ev s) = THREAD_ACTIVE_TASK s"
  "THREAD_CTX_STACK (emit_event ev s) = THREAD_CTX_STACK s"
  "THREAD_CTX_DEPTH (emit_event ev s) = THREAD_CTX_DEPTH s"
  "FRAME_ENTRY_STASH (emit_event ev s) = FRAME_ENTRY_STASH s"
  "FRAME_STASH_DEPTH (emit_event ev s) = FRAME_STASH_DEPTH s"
  "TASK_STEP_STASH (emit_event ev s) = TASK_STEP_STASH s"
  "TASK_STEP_PREV_TASK (emit_event ev s) = TASK_STEP_PREV_TASK s"
  "WORKER_RUN_STACK (emit_event ev s) = WORKER_RUN_STACK s"
  "WORKER_RUN_DEPTH (emit_event ev s) = WORKER_RUN_DEPTH s"
  "PROTECTED_TGIDS (emit_event ev s) = PROTECTED_TGIDS s"
  "TOOL_FS_POLICY (emit_event ev s) = TOOL_FS_POLICY s"
  "TOOL_EXEC_POLICY (emit_event ev s) = TOOL_EXEC_POLICY s"
  "TOOL_NET_POLICY (emit_event ev s) = TOOL_NET_POLICY s"
  "IRONSCOPE_CONFIG (emit_event ev s) = IRONSCOPE_CONFIG s"
  "GUARD_EVENTS (emit_event ev s) = GUARD_EVENTS s"
  "RESOLVER_EVENTS (emit_event ev s) = RESOLVER_EVENTS s"
  by (simp_all add: emit_event_def)

lemma active_fields [simp]:
  "PYTHON_OFFSETS (set_active tid c s) = PYTHON_OFFSETS s"
  "CTX_COUNTER (set_active tid c s) = CTX_COUNTER s" "TOOL_CTX (set_active tid c s) = TOOL_CTX s"
  "TOOL_OBJ (set_active tid c s) = TOOL_OBJ s" "CODE_KIND (set_active tid c s) = CODE_KIND s"
  "ROOT_RULES (set_active tid c s) = ROOT_RULES s"
  "PENDING_TOOL_RESOLVE (set_active tid c s) = PENDING_TOOL_RESOLVE s"
  "PENDING_FRAME_TOOL (set_active tid c s) = PENDING_FRAME_TOOL s"
  "FORK_CTX (set_active tid c s) = FORK_CTX s" "FRAME_CTX (set_active tid c s) = FRAME_CTX s"
  "TASK_CTX (set_active tid c s) = TASK_CTX s"
  "TASK_CTX_STACK (set_active tid c s) = TASK_CTX_STACK s"
  "TASK_CTX_DEPTH (set_active tid c s) = TASK_CTX_DEPTH s"
  "WORKITEM_CTX (set_active tid c s) = WORKITEM_CTX s"
  "PYTHREAD_OBJ_CTX (set_active tid c s) = PYTHREAD_OBJ_CTX s"
  "PYTHREAD_OBJ_THREAD (set_active tid c s) = PYTHREAD_OBJ_THREAD s"
  "PENDING_WORKER_SPAWN (set_active tid c s) = PENDING_WORKER_SPAWN s"
  "THREADPOOL_WORKER_FRAME (set_active tid c s) = THREADPOOL_WORKER_FRAME s"
  "THREADPOOL_WORKER_CTX (set_active tid c s) = THREADPOOL_WORKER_CTX s"
  "THREADPOOL_WORKITEM_THREAD (set_active tid c s) = THREADPOOL_WORKITEM_THREAD s"
  "WORKER_RUN_CARRIER (set_active tid c s) = WORKER_RUN_CARRIER s"
  "THREAD_CURRENT_FRAME (set_active tid c s) = THREAD_CURRENT_FRAME s"
  "THREAD_TSTATE (set_active tid c s) = THREAD_TSTATE s"
  "TOOL_STACK (set_active tid c s) = TOOL_STACK s"
  "TOOL_STACK_DEPTH (set_active tid c s) = TOOL_STACK_DEPTH s"
  "PENDING_TOOL_CLOSE (set_active tid c s) = PENDING_TOOL_CLOSE s"
  "THREAD_ACTIVE_TASK (set_active tid c s) = THREAD_ACTIVE_TASK s"
  "THREAD_CTX_STACK (set_active tid c s) = THREAD_CTX_STACK s"
  "THREAD_CTX_DEPTH (set_active tid c s) = THREAD_CTX_DEPTH s"
  "FRAME_ENTRY_STASH (set_active tid c s) = FRAME_ENTRY_STASH s"
  "FRAME_STASH_DEPTH (set_active tid c s) = FRAME_STASH_DEPTH s"
  "TASK_STEP_STASH (set_active tid c s) = TASK_STEP_STASH s"
  "TASK_STEP_PREV_TASK (set_active tid c s) = TASK_STEP_PREV_TASK s"
  "WORKER_RUN_STACK (set_active tid c s) = WORKER_RUN_STACK s"
  "WORKER_RUN_DEPTH (set_active tid c s) = WORKER_RUN_DEPTH s"
  "PROTECTED_TGIDS (set_active tid c s) = PROTECTED_TGIDS s"
  "TOOL_FS_POLICY (set_active tid c s) = TOOL_FS_POLICY s"
  "TOOL_EXEC_POLICY (set_active tid c s) = TOOL_EXEC_POLICY s"
  "TOOL_NET_POLICY (set_active tid c s) = TOOL_NET_POLICY s"
  "IRONSCOPE_CONFIG (set_active tid c s) = IRONSCOPE_CONFIG s"
  "GUARD_EVENTS (set_active tid c s) = GUARD_EVENTS s"
  "PY_EVENTS (set_active tid c s) = PY_EVENTS s"
  "RESOLVER_EVENTS (set_active tid c s) = RESOLVER_EVENTS s"
  by (simp_all add: set_active_def)

lemma clear_active_fields [simp]:
  "PYTHON_OFFSETS (clear_active tid s) = PYTHON_OFFSETS s"
  "CTX_COUNTER (clear_active tid s) = CTX_COUNTER s" "TOOL_CTX (clear_active tid s) = TOOL_CTX s"
  "TOOL_OBJ (clear_active tid s) = TOOL_OBJ s" "CODE_KIND (clear_active tid s) = CODE_KIND s"
  "ROOT_RULES (clear_active tid s) = ROOT_RULES s"
  "PENDING_TOOL_RESOLVE (clear_active tid s) = PENDING_TOOL_RESOLVE s"
  "PENDING_FRAME_TOOL (clear_active tid s) = PENDING_FRAME_TOOL s"
  "FORK_CTX (clear_active tid s) = FORK_CTX s" "FRAME_CTX (clear_active tid s) = FRAME_CTX s"
  "TASK_CTX (clear_active tid s) = TASK_CTX s"
  "TASK_CTX_STACK (clear_active tid s) = TASK_CTX_STACK s"
  "TASK_CTX_DEPTH (clear_active tid s) = TASK_CTX_DEPTH s"
  "WORKITEM_CTX (clear_active tid s) = WORKITEM_CTX s"
  "PYTHREAD_OBJ_CTX (clear_active tid s) = PYTHREAD_OBJ_CTX s"
  "PYTHREAD_OBJ_THREAD (clear_active tid s) = PYTHREAD_OBJ_THREAD s"
  "PENDING_WORKER_SPAWN (clear_active tid s) = PENDING_WORKER_SPAWN s"
  "THREADPOOL_WORKER_FRAME (clear_active tid s) = THREADPOOL_WORKER_FRAME s"
  "THREADPOOL_WORKER_CTX (clear_active tid s) = THREADPOOL_WORKER_CTX s"
  "THREADPOOL_WORKITEM_THREAD (clear_active tid s) = THREADPOOL_WORKITEM_THREAD s"
  "WORKER_RUN_CARRIER (clear_active tid s) = WORKER_RUN_CARRIER s"
  "THREAD_CURRENT_FRAME (clear_active tid s) = THREAD_CURRENT_FRAME s"
  "THREAD_TSTATE (clear_active tid s) = THREAD_TSTATE s"
  "TOOL_STACK (clear_active tid s) = TOOL_STACK s"
  "TOOL_STACK_DEPTH (clear_active tid s) = TOOL_STACK_DEPTH s"
  "PENDING_TOOL_CLOSE (clear_active tid s) = PENDING_TOOL_CLOSE s"
  "THREAD_ACTIVE_TASK (clear_active tid s) = THREAD_ACTIVE_TASK s"
  "THREAD_CTX_STACK (clear_active tid s) = THREAD_CTX_STACK s"
  "THREAD_CTX_DEPTH (clear_active tid s) = THREAD_CTX_DEPTH s"
  "FRAME_ENTRY_STASH (clear_active tid s) = FRAME_ENTRY_STASH s"
  "FRAME_STASH_DEPTH (clear_active tid s) = FRAME_STASH_DEPTH s"
  "TASK_STEP_STASH (clear_active tid s) = TASK_STEP_STASH s"
  "TASK_STEP_PREV_TASK (clear_active tid s) = TASK_STEP_PREV_TASK s"
  "WORKER_RUN_STACK (clear_active tid s) = WORKER_RUN_STACK s"
  "WORKER_RUN_DEPTH (clear_active tid s) = WORKER_RUN_DEPTH s"
  "PROTECTED_TGIDS (clear_active tid s) = PROTECTED_TGIDS s"
  "TOOL_FS_POLICY (clear_active tid s) = TOOL_FS_POLICY s"
  "TOOL_EXEC_POLICY (clear_active tid s) = TOOL_EXEC_POLICY s"
  "TOOL_NET_POLICY (clear_active tid s) = TOOL_NET_POLICY s"
  "IRONSCOPE_CONFIG (clear_active tid s) = IRONSCOPE_CONFIG s"
  "GUARD_EVENTS (clear_active tid s) = GUARD_EVENTS s"
  "PY_EVENTS (clear_active tid s) = PY_EVENTS s"
  "RESOLVER_EVENTS (clear_active tid s) = RESOLVER_EVENTS s"
  by (simp_all add: clear_active_def)

lemma carrier_inc_fields [simp]:
  "PYTHON_OFFSETS (carrier_inc c s) = PYTHON_OFFSETS s"
  "CTX_COUNTER (carrier_inc c s) = CTX_COUNTER s" "TOOL_OBJ (carrier_inc c s) = TOOL_OBJ s"
  "CODE_KIND (carrier_inc c s) = CODE_KIND s" "ROOT_RULES (carrier_inc c s) = ROOT_RULES s"
  "PENDING_TOOL_RESOLVE (carrier_inc c s) = PENDING_TOOL_RESOLVE s"
  "PENDING_FRAME_TOOL (carrier_inc c s) = PENDING_FRAME_TOOL s"
  "FORK_CTX (carrier_inc c s) = FORK_CTX s" "FRAME_CTX (carrier_inc c s) = FRAME_CTX s"
  "TASK_CTX (carrier_inc c s) = TASK_CTX s" "TASK_CTX_STACK (carrier_inc c s) = TASK_CTX_STACK s"
  "TASK_CTX_DEPTH (carrier_inc c s) = TASK_CTX_DEPTH s"
  "WORKITEM_CTX (carrier_inc c s) = WORKITEM_CTX s"
  "PYTHREAD_OBJ_CTX (carrier_inc c s) = PYTHREAD_OBJ_CTX s"
  "PYTHREAD_OBJ_THREAD (carrier_inc c s) = PYTHREAD_OBJ_THREAD s"
  "PENDING_WORKER_SPAWN (carrier_inc c s) = PENDING_WORKER_SPAWN s"
  "THREADPOOL_WORKER_FRAME (carrier_inc c s) = THREADPOOL_WORKER_FRAME s"
  "THREADPOOL_WORKER_CTX (carrier_inc c s) = THREADPOOL_WORKER_CTX s"
  "THREADPOOL_WORKITEM_THREAD (carrier_inc c s) = THREADPOOL_WORKITEM_THREAD s"
  "WORKER_RUN_CARRIER (carrier_inc c s) = WORKER_RUN_CARRIER s"
  "THREAD_CURRENT_FRAME (carrier_inc c s) = THREAD_CURRENT_FRAME s"
  "THREAD_TSTATE (carrier_inc c s) = THREAD_TSTATE s"
  "TOOL_STACK (carrier_inc c s) = TOOL_STACK s"
  "TOOL_STACK_DEPTH (carrier_inc c s) = TOOL_STACK_DEPTH s"
  "PENDING_TOOL_CLOSE (carrier_inc c s) = PENDING_TOOL_CLOSE s"
  "THREAD_ACTIVE_CTX (carrier_inc c s) = THREAD_ACTIVE_CTX s"
  "THREAD_ACTIVE_TASK (carrier_inc c s) = THREAD_ACTIVE_TASK s"
  "THREAD_CTX_STACK (carrier_inc c s) = THREAD_CTX_STACK s"
  "THREAD_CTX_DEPTH (carrier_inc c s) = THREAD_CTX_DEPTH s"
  "FRAME_ENTRY_STASH (carrier_inc c s) = FRAME_ENTRY_STASH s"
  "FRAME_STASH_DEPTH (carrier_inc c s) = FRAME_STASH_DEPTH s"
  "TASK_STEP_STASH (carrier_inc c s) = TASK_STEP_STASH s"
  "TASK_STEP_PREV_TASK (carrier_inc c s) = TASK_STEP_PREV_TASK s"
  "WORKER_RUN_STACK (carrier_inc c s) = WORKER_RUN_STACK s"
  "WORKER_RUN_DEPTH (carrier_inc c s) = WORKER_RUN_DEPTH s"
  "PROTECTED_TGIDS (carrier_inc c s) = PROTECTED_TGIDS s"
  "TOOL_FS_POLICY (carrier_inc c s) = TOOL_FS_POLICY s"
  "TOOL_EXEC_POLICY (carrier_inc c s) = TOOL_EXEC_POLICY s"
  "TOOL_NET_POLICY (carrier_inc c s) = TOOL_NET_POLICY s"
  "IRONSCOPE_CONFIG (carrier_inc c s) = IRONSCOPE_CONFIG s"
  "GUARD_EVENTS (carrier_inc c s) = GUARD_EVENTS s" "PY_EVENTS (carrier_inc c s) = PY_EVENTS s"
  "RESOLVER_EVENTS (carrier_inc c s) = RESOLVER_EVENTS s"
  by (simp_all add: carrier_inc_def)

lemma carrier_dec_fields [simp]:
  "PYTHON_OFFSETS (carrier_dec e c s) = PYTHON_OFFSETS s"
  "CTX_COUNTER (carrier_dec e c s) = CTX_COUNTER s" "TOOL_OBJ (carrier_dec e c s) = TOOL_OBJ s"
  "CODE_KIND (carrier_dec e c s) = CODE_KIND s" "ROOT_RULES (carrier_dec e c s) = ROOT_RULES s"
  "PENDING_TOOL_RESOLVE (carrier_dec e c s) = PENDING_TOOL_RESOLVE s"
  "PENDING_FRAME_TOOL (carrier_dec e c s) = PENDING_FRAME_TOOL s"
  "FORK_CTX (carrier_dec e c s) = FORK_CTX s" "FRAME_CTX (carrier_dec e c s) = FRAME_CTX s"
  "TASK_CTX (carrier_dec e c s) = TASK_CTX s"
  "TASK_CTX_STACK (carrier_dec e c s) = TASK_CTX_STACK s"
  "TASK_CTX_DEPTH (carrier_dec e c s) = TASK_CTX_DEPTH s"
  "WORKITEM_CTX (carrier_dec e c s) = WORKITEM_CTX s"
  "PYTHREAD_OBJ_CTX (carrier_dec e c s) = PYTHREAD_OBJ_CTX s"
  "PYTHREAD_OBJ_THREAD (carrier_dec e c s) = PYTHREAD_OBJ_THREAD s"
  "PENDING_WORKER_SPAWN (carrier_dec e c s) = PENDING_WORKER_SPAWN s"
  "THREADPOOL_WORKER_FRAME (carrier_dec e c s) = THREADPOOL_WORKER_FRAME s"
  "THREADPOOL_WORKER_CTX (carrier_dec e c s) = THREADPOOL_WORKER_CTX s"
  "THREADPOOL_WORKITEM_THREAD (carrier_dec e c s) = THREADPOOL_WORKITEM_THREAD s"
  "WORKER_RUN_CARRIER (carrier_dec e c s) = WORKER_RUN_CARRIER s"
  "THREAD_CURRENT_FRAME (carrier_dec e c s) = THREAD_CURRENT_FRAME s"
  "THREAD_TSTATE (carrier_dec e c s) = THREAD_TSTATE s"
  "TOOL_STACK (carrier_dec e c s) = TOOL_STACK s"
  "TOOL_STACK_DEPTH (carrier_dec e c s) = TOOL_STACK_DEPTH s"
  "PENDING_TOOL_CLOSE (carrier_dec e c s) = PENDING_TOOL_CLOSE s"
  "THREAD_ACTIVE_CTX (carrier_dec e c s) = THREAD_ACTIVE_CTX s"
  "THREAD_ACTIVE_TASK (carrier_dec e c s) = THREAD_ACTIVE_TASK s"
  "THREAD_CTX_STACK (carrier_dec e c s) = THREAD_CTX_STACK s"
  "THREAD_CTX_DEPTH (carrier_dec e c s) = THREAD_CTX_DEPTH s"
  "FRAME_ENTRY_STASH (carrier_dec e c s) = FRAME_ENTRY_STASH s"
  "FRAME_STASH_DEPTH (carrier_dec e c s) = FRAME_STASH_DEPTH s"
  "TASK_STEP_STASH (carrier_dec e c s) = TASK_STEP_STASH s"
  "TASK_STEP_PREV_TASK (carrier_dec e c s) = TASK_STEP_PREV_TASK s"
  "WORKER_RUN_STACK (carrier_dec e c s) = WORKER_RUN_STACK s"
  "WORKER_RUN_DEPTH (carrier_dec e c s) = WORKER_RUN_DEPTH s"
  "PROTECTED_TGIDS (carrier_dec e c s) = PROTECTED_TGIDS s"
  "TOOL_FS_POLICY (carrier_dec e c s) = TOOL_FS_POLICY s"
  "TOOL_EXEC_POLICY (carrier_dec e c s) = TOOL_EXEC_POLICY s"
  "TOOL_NET_POLICY (carrier_dec e c s) = TOOL_NET_POLICY s"
  "IRONSCOPE_CONFIG (carrier_dec e c s) = IRONSCOPE_CONFIG s"
  "GUARD_EVENTS (carrier_dec e c s) = GUARD_EVENTS s"
  "RESOLVER_EVENTS (carrier_dec e c s) = RESOLVER_EVENTS s"
  by (simp_all add: carrier_dec_def emit_py_event_def Let_def split: option.split)

section \<open>Every operation keeps the invariant\<close>

lemma emit_event_frame [simp]:
  "policy_view (emit_event ev s) = policy_view s"
  "state_ok (emit_event ev s) = state_ok s"
  by (simp_all add: emit_event_def policy_view_def state_ok_def)

lemma emit_frame [frame_simps, simp]:
  "policy_view (emit_py_event e k c t s) = policy_view s"
  "policy_view (emit_py_event_carrier e k c t p s) = policy_view s"
  "policy_view (emit_py_event_carrier_for_tid e k c t p d s) = policy_view s"
  "policy_view (emit_py_event_fork e k c t d s) = policy_view s"
  "policy_view (emit_py_event_aux e k c t a s) = policy_view s"
  "state_ok (emit_py_event e k c t s) = state_ok s"
  "state_ok (emit_py_event_carrier e k c t p s) = state_ok s"
  "state_ok (emit_py_event_carrier_for_tid e k c t p d s) = state_ok s"
  "state_ok (emit_py_event_fork e k c t d s) = state_ok s"
  "state_ok (emit_py_event_aux e k c t a s) = state_ok s"
  by (simp_all add: emit_defs policy_view_def state_ok_def)

lemma active_frame [frame_simps, simp, ok_intros]:
  "policy_view (set_active tid c s) = policy_view s" "policy_view (clear_active tid s) = policy_view s"
  "state_ok s \<Longrightarrow> state_ok (set_active tid c s)" "state_ok s \<Longrightarrow> state_ok (clear_active tid s)"
  by (simp_all add: set_active_def clear_active_def policy_view_def state_ok_def)

lemma get_active_ctx_frame [frame_simps, simp, ok_intros]:
  "policy_view (snd (get_active_ctx tid s)) = policy_view s"
  "state_ok s \<Longrightarrow> state_ok (snd (get_active_ctx tid s))"
  by (auto simp: get_active_ctx_def split: option.split)

lemma carrier_policy [frame_simps, simp]:
  "policy_view (carrier_inc c s) = policy_view s" "policy_view (carrier_dec e c s) = policy_view s"
  by (auto simp: carrier_inc_def carrier_dec_def emit_defs policy_view_def Let_def split: option.split)

lemma carrier_ok [ok_intros]:
  "state_ok s \<Longrightarrow> state_ok (carrier_inc c s)" "state_ok s \<Longrightarrow> state_ok (carrier_dec e c s)"
  by (auto simp: carrier_inc_def carrier_dec_def emit_defs state_ok_def Let_def split: option.split)

lemma alloc_ctx_id_frame [frame_simps, simp]:
  "policy_view (snd (alloc_ctx_id e s)) = policy_view s"
  "state_ok (snd (alloc_ctx_id e s)) = state_ok s"
  by (simp_all add: alloc_ctx_id_def policy_view_def state_ok_def Let_def)

lemma ctx_stack_push_policy [frame_simps, simp]:
  "policy_view (snd (ctx_stack_push e tid c s)) = policy_view s"
  by (simp add: ctx_stack_push_def Let_def) (simp add: policy_view_def)

lemma ctx_stack_push_ok [ok_intros]: "state_ok s \<Longrightarrow> state_ok (snd (ctx_stack_push e tid c s))"
  by (auto simp: ctx_stack_push_def Let_def) (auto simp: state_ok_def set_active_def intro!: depth_ok_push)

lemma ctx_stack_remove_policy [frame_simps, simp]:
  "policy_view (snd (ctx_stack_remove tid c s)) = policy_view s"
  by (auto simp: ctx_stack_remove_def Let_def split: option.split) (auto simp: policy_view_def)

lemma ctx_stack_remove_ok [ok_intros]: "state_ok s \<Longrightarrow> state_ok (snd (ctx_stack_remove tid c s))"
  by (auto simp: ctx_stack_remove_def Let_def split: option.split)
     (auto simp: state_ok_def set_active_def clear_active_def intro!: depth_ok_pop)

lemma tool_stack_frame [frame_simps, simp]:
  "policy_view (tool_stack_push tid c f p t s) = policy_view s"
  "policy_view (tool_stack_refresh tid c f p t s) = policy_view s"
  "policy_view (snd (tool_stack_remove_where P tid s)) = policy_view s"
  by (auto simp: tool_stack_refresh_def tool_stack_push_def tool_stack_remove_where_def
        policy_view_def Let_def split: option.split)

lemma tool_stack_push_ok [ok_intros]: "state_ok s \<Longrightarrow> state_ok (tool_stack_push tid c f p t s)"
  by (auto simp: tool_stack_push_def state_ok_def Let_def intro!: depth_ok_push)

lemma tool_stack_refresh_ok [ok_intros]: "state_ok s \<Longrightarrow> state_ok (tool_stack_refresh tid c f p t s)"
  by (auto simp: tool_stack_refresh_def intro!: tool_stack_push_ok split: option.split)
     (simp add: state_ok_def)

lemma tool_stack_remove_where_ok [ok_intros]:
  "state_ok s \<Longrightarrow> state_ok (snd (tool_stack_remove_where P tid s))"
  by (auto simp: tool_stack_remove_where_def Let_def split: option.split)
     (auto simp: state_ok_def intro!: depth_ok_pop)

lemmas tool_stack_remove_defs = tool_stack_remove_ctx_def tool_stack_pop_if_frame_parent_def
  tool_stack_remove_frame_ctx_def

text \<open>Writes to maps outside the invariant.\<close>

lemma untracked_frame [frame_simps, simp, ok_intros]:
  "policy_view (s\<lparr>FRAME_CTX := m1\<rparr>) = policy_view s" "state_ok s \<Longrightarrow> sized 8192 m1 \<Longrightarrow> state_ok (s\<lparr>FRAME_CTX := m1\<rparr>)"
  "policy_view (s\<lparr>PENDING_TOOL_CLOSE := m2\<rparr>) = policy_view s"
  "state_ok s \<Longrightarrow> sized 4096 m2 \<Longrightarrow> state_ok (s\<lparr>PENDING_TOOL_CLOSE := m2\<rparr>)"
  "policy_view (s\<lparr>TASK_CTX := m3\<rparr>) = policy_view s" "state_ok s \<Longrightarrow> sized 4096 m3 \<Longrightarrow> state_ok (s\<lparr>TASK_CTX := m3\<rparr>)"
  "policy_view (s\<lparr>TASK_CTX_STACK := m4\<rparr>) = policy_view s"
  "state_ok s \<Longrightarrow> sized 8192 m4 \<Longrightarrow> state_ok (s\<lparr>TASK_CTX_STACK := m4\<rparr>)"
  by (simp_all add: policy_view_def state_ok_def)

lemma finish_tool_close_policy [frame_simps, simp]:
  "policy_view (snd (finish_tool_close e tid en s)) = policy_view s"
  by (simp add: finish_tool_close_def Let_def)

lemma finish_tool_close_ok [ok_intros]: "state_ok s \<Longrightarrow> state_ok (snd (finish_tool_close e tid en s))"
  by (auto simp: finish_tool_close_def Let_def intro!: ok_intros)

lemma finish_deferred_at_policy [frame_simps, simp]:
  "policy_view (finish_deferred_tool_close_at_depth e tid p d c s) = policy_view s"
  by (simp add: finish_deferred_tool_close_at_depth_def Let_def split: option.split)

lemma finish_deferred_at_ok [ok_intros]:
  "state_ok s \<Longrightarrow> state_ok (finish_deferred_tool_close_at_depth e tid p d c s)"
  by (auto simp: finish_deferred_tool_close_at_depth_def Let_def intro!: ok_intros split: option.split)

text \<open>A loop keeps what its body keeps.\<close>

lemma fold_view: "(\<And>x s. v (f x s) = v s) \<Longrightarrow> v (fold f xs s) = v s"
  by (induction xs arbitrary: s) auto

lemma fold_keeps: "P s \<Longrightarrow> (\<And>x s. P s \<Longrightarrow> P (f x s)) \<Longrightarrow> P (fold f xs s)"
  by (induction xs arbitrary: s) auto

lemma finish_deferred_policy [frame_simps, simp]:
  "policy_view (finish_deferred_tool_close e tid p c s) = policy_view s"
  by (simp add: finish_deferred_tool_close_def fold_view)

lemma finish_deferred_ok [ok_intros]: "state_ok s \<Longrightarrow> state_ok (finish_deferred_tool_close e tid p c s)"
  by (auto simp: finish_deferred_tool_close_def intro!: fold_keeps [where P = state_ok] ok_intros)

lemma task_ctx_push_policy [frame_simps, simp]:
  "policy_view (snd (task_ctx_push e tid p c t s)) = policy_view s"
  by (auto simp: task_ctx_push_def Let_def) (simp add: policy_view_def)

lemma task_ctx_push_ok [ok_intros]: "state_ok s \<Longrightarrow> state_ok (snd (task_ctx_push e tid p c t s))"
  by (auto simp: task_ctx_push_def Let_def intro!: carrier_ok)
     (auto simp: state_ok_def set_active_def intro!: depth_ok_push)

lemma depth_field_frame [frame_simps, simp]:
  "policy_view (s\<lparr>TASK_CTX_DEPTH := m5\<rparr>) = policy_view s"
  by (simp add: policy_view_def)

lemma task_ctx_remove_policy [frame_simps, simp]:
  "policy_view (snd (task_ctx_remove e tid p c s)) = policy_view s"
  by (auto simp: task_ctx_remove_def Let_def split: option.split)

lemma depth_upd_ok [ok_intros]:
  "state_ok s \<Longrightarrow> depth_ok 8 m \<Longrightarrow> sized 4096 m \<Longrightarrow> state_ok (s\<lparr>TASK_CTX_DEPTH := m\<rparr>)"
  by (simp add: state_ok_def)

lemma task_ctx_remove_ok [ok_intros]: "state_ok s \<Longrightarrow> state_ok (snd (task_ctx_remove e tid p c s))"
proof -
  assume ok: "state_ok s"
  then have d: "depth_ok 8 (TASK_CTX_DEPTH s)" by (simp add: state_ok_def)
  let ?s1 = "emit_py_event_carrier e EVENT_TASK_UNBIND c (tool_id_of s c) p s"
  let ?s3 = "\<lambda>k. carrier_dec e c (?s1\<lparr>TASK_CTX_STACK := bm_remove k (TASK_CTX_STACK ?s1)\<rparr>)"
  have ok3: "state_ok (?s3 k)" for k using ok by (auto intro!: ok_intros)
  have same: "TASK_CTX_DEPTH ?s1 = TASK_CTX_DEPTH s" by (simp add: emit_py_event_carrier_def)
  have size: "sized 8192 (shift_loop key n i j (TASK_CTX_STACK (?s3 k)))" "sized 4096 (TASK_CTX_DEPTH s)" for key n i j k
    using ok state_ok_sized [OF ok3 [of k]] by simp_all
  note upd = depth_upd_ok [OF untracked_frame(8) [OF ok3 size(1)] depth_ok_pop [OF d] sized_ops(2) [OF size(2)]]
    depth_upd_ok [OF untracked_frame(8) [OF ok3 size(1)] depth_ok_remove [OF d] sized_ops(3) [OF size(2)]]
  show ?thesis using ok upd state_ok_sized [OF ok3]
    by (simp add: task_ctx_remove_def Let_def same not_le split: option.split)
qed

lemma task_clear_slot_policy [frame_simps, simp]:
  "policy_view (task_clear_slot e tid p i s) = policy_view s"
  by (auto simp: task_clear_slot_def Let_def tool_stack_remove_defs case_prod_beta split: option.split)

lemma task_clear_slot_ok [ok_intros]: "state_ok s \<Longrightarrow> state_ok (task_clear_slot e tid p i s)"
  by (auto simp: task_clear_slot_def Let_def tool_stack_remove_defs case_prod_beta
      intro!: ok_intros split: option.split)

lemma task_clear_loop_policy [frame_simps, simp]:
  "policy_view (task_clear_loop e tid p d i n s) = policy_view s"
  by (induction n arbitrary: i s) auto

lemma task_clear_loop_ok [ok_intros]: "state_ok s \<Longrightarrow> state_ok (task_clear_loop e tid p d i n s)"
  by (induction n arbitrary: i s) (simp_all add: task_clear_slot_ok)

lemma task_clear_pending_policy [frame_simps, simp]:
  "policy_view (task_clear_pending e tid p i s) = policy_view s"
  by (auto simp: task_clear_pending_def Let_def split: option.split)

lemma task_clear_pending_ok [ok_intros]: "state_ok s \<Longrightarrow> state_ok (task_clear_pending e tid p i s)"
  by (auto simp: task_clear_pending_def Let_def intro!: ok_intros split: option.split)

lemma task_ctx_clear_policy [frame_simps, simp]:
  "policy_view (task_ctx_clear e tid p s) = policy_view s"
  unfolding task_ctx_clear_def Let_def by (simp del: upt_rec_numeral add: fold_view)

lemma depth_drop_ok:
  "state_ok t \<Longrightarrow> sized 4096 m \<Longrightarrow>
   state_ok (t\<lparr>TASK_CTX_DEPTH := bm_remove k (TASK_CTX_DEPTH t), TASK_CTX := m\<rparr>)"
  by (simp add: state_ok_def)

lemma task_ctx_clear_ok [ok_intros]: "state_ok s \<Longrightarrow> state_ok (task_ctx_clear e tid p s)"
proof -
  assume "state_ok s"
  then have "state_ok (fold (task_clear_pending e tid p) is (task_clear_loop e tid p d 0 n s))" for "is" d n
    by (intro fold_keeps [where P = state_ok] ok_intros)
  then show ?thesis unfolding task_ctx_clear_def Let_def by (intro depth_drop_ok ok_intros)
qed

lemma tool_ctx_modify_frame [frame_simps, simp, ok_intros]:
  "policy_view (s\<lparr>TOOL_CTX := m\<rparr>) = policy_view s"
  "state_ok s \<Longrightarrow> state_ok (s\<lparr>TOOL_CTX := bm_modify c f (TOOL_CTX s)\<rparr>)"
  by (simp_all add: policy_view_def state_ok_def)

lemma deferred_policy [frame_simps, simp]:
  "policy_view (defer_tool_close e p en s) = policy_view s"
  "policy_view (cancel_deferred_tool_close e p c f s) = policy_view s"
  "policy_view (snd (restore_deferred_tool_close e tid p s)) = policy_view s"
  by (auto simp: defer_tool_close_def cancel_deferred_tool_close_def restore_deferred_tool_close_def
      Let_def case_prod_beta split: option.split)

lemma deferred_ok [ok_intros]:
  "state_ok s \<Longrightarrow> state_ok (defer_tool_close e p en s)"
  "state_ok s \<Longrightarrow> state_ok (cancel_deferred_tool_close e p c f s)"
  "state_ok s \<Longrightarrow> state_ok (snd (restore_deferred_tool_close e tid p s))"
  by (auto simp: defer_tool_close_def cancel_deferred_tool_close_def restore_deferred_tool_close_def
      Let_def case_prod_beta intro!: ok_intros split: option.split)

lemma frame_stash_frame [frame_simps, simp, ok_intros]:
  "policy_view (frame_stash_push tid f s) = policy_view s"
  "policy_view (snd (frame_stash_pop tid s)) = policy_view s"
  "state_ok s \<Longrightarrow> state_ok (frame_stash_push tid f s)"
  "state_ok s \<Longrightarrow> state_ok (snd (frame_stash_pop tid s))"
  by (auto simp: frame_stash_push_def frame_stash_pop_def policy_view_def state_ok_def Let_def
      split: option.split)

end
