(* ===== verification/Hashing.thy ===== *)
theory Hashing
  imports Types
begin

text \<open>
  The FNV-1a hashes by which names are compared: the user-space ones of
  \<^verbatim>\<open>src/ironscope/src/rules.rs\<close>, taken over the bytes of a string, and the kernel-side ones of
  \<^verbatim>\<open>code_classifier.rs\<close>, \<^verbatim>\<open>worker_probes.rs\<close> and \<^verbatim>\<open>tool_identity.rs\<close>, taken over a 64-byte
  buffer read from the interpreter's memory.  Policies match only if both sides agree.
\<close>

abbreviation (input) FNV_OFFSET :: u64 where "FNV_OFFSET \<equiv> 0xcbf29ce484222325"
abbreviation (input) FNV_PRIME :: u64 where "FNV_PRIME \<equiv> 0x100000001b3"
abbreviation (input) FNV32_OFFSET :: u32 where "FNV32_OFFSET \<equiv> 0x811c9dc5"
abbreviation (input) FNV32_PRIME :: u32 where "FNV32_PRIME \<equiv> 0x01000193"

section \<open>User space\<close>

text \<open>A string is the list of its UTF-8 bytes.\<close>

definition user_fnv1a_64 :: "u8 list \<Rightarrow> u64" where
  "user_fnv1a_64 bytes =
     (let len = min (length bytes) 64
      in fold (\<lambda>i hash. (hash XOR ucast (bytes ! i)) * FNV_PRIME) [0..<len] FNV_OFFSET)"

definition user_fnv1a_32 :: "u8 list \<Rightarrow> u32" where
  "user_fnv1a_32 bytes =
     (let h = fold (\<lambda>b h. (h XOR ucast b) * FNV32_PRIME) (take 64 bytes) FNV32_OFFSET
      in if h = 0 then 1 else h)"

text \<open>The rules file, once parsed.\<close>

record RuleEntry =
  e_qualname :: "u8 list"
  e_kind :: u8
  e_filename :: "u8 list option"
  e_extractor_kind :: u32
  e_slot :: u32

definition rule_of_entry :: "RuleEntry \<Rightarrow> RootRule" where
  "rule_of_entry entry =
     \<lparr>rr_kind = e_kind entry, rr_slot_index = e_slot entry,
      rr_extractor_kind = e_extractor_kind entry,
      rr_filename_hash = (case e_filename entry of Some f \<Rightarrow> user_fnv1a_64 f | None \<Rightarrow> 0),
      rr_qualname_hash = user_fnv1a_64 (e_qualname entry), rr_firstline = 0\<rparr>"

text \<open>Reading the file and its YAML syntax are parameters: either may fail.\<close>

definition load_rules ::
  "(string \<Rightarrow> u8 list option) \<Rightarrow> (u8 list \<Rightarrow> RuleEntry list option) \<Rightarrow> string \<Rightarrow> RootRule list option" where
  "load_rules read_file parse path =
     (case read_file path of
        None \<Rightarrow> None
      | Some content \<Rightarrow> map_option (map rule_of_entry) (parse content))"

section \<open>Kernel\<close>

definition fnv1a_64 :: "u8 list \<Rightarrow> nat \<Rightarrow> u64" where
  "fnv1a_64 buf len =
     fold (\<lambda>i hash. if i < len then (hash XOR ucast (buf ! i)) * FNV_PRIME else hash) [0..<64] FNV_OFFSET"

text \<open>\<^verbatim>\<open>while len < 64 { if buf[len] == 0 { break; } len += 1; }\<close>\<close>

fun nul_len :: "u8 list \<Rightarrow> nat \<Rightarrow> nat \<Rightarrow> nat" where
  "nul_len buf len 0 = len"
| "nul_len buf len (Suc n) = (if buf ! len = 0 then len else nul_len buf (Suc len) n)"

fun fnv32_loop :: "u8 list \<Rightarrow> nat \<Rightarrow> nat \<Rightarrow> u32 \<Rightarrow> u32" where
  "fnv32_loop buf i 0 h = h"
| "fnv32_loop buf i (Suc n) h =
     (if buf ! i = 0 then h
      else fnv32_loop buf (Suc i) n ((h XOR ucast (buf ! i)) * FNV32_PRIME))"

definition fnv1a_32 :: "u8 list \<Rightarrow> u32" where
  "fnv1a_32 buf = (let h = fnv32_loop buf 0 64 FNV32_OFFSET in if h = 0 then 1 else h)"

section \<open>Both sides as folds over bytes\<close>

definition fnv64_step :: "u8 \<Rightarrow> u64 \<Rightarrow> u64" where
  "fnv64_step b hash = (hash XOR ucast b) * FNV_PRIME"

definition fnv32_step :: "u8 \<Rightarrow> u32 \<Rightarrow> u32" where
  "fnv32_step b h = (h XOR ucast b) * FNV32_PRIME"

lemma fold_nth: "n \<le> length xs \<Longrightarrow> fold (\<lambda>i. f (xs ! i)) [0..<n] a = fold f (take n xs) a"
  by (induction n arbitrary: a) (simp_all add: take_Suc_conv_app_nth)

lemma fold_guard:
  "fold (\<lambda>i h. if i < len then f i h else h) [0..<n] a = fold f [0..<min len n] a"
proof (induction n)
  case (Suc n)
  then show ?case by (cases "n < len") (simp_all add: min_def not_less le_Suc_eq)
qed simp

lemma user_fnv1a_64_eq: "user_fnv1a_64 bytes = fold fnv64_step (take 64 bytes) FNV_OFFSET"
proof -
  have "fold (\<lambda>i. fnv64_step (bytes ! i)) [0..<min (length bytes) 64] FNV_OFFSET =
        fold fnv64_step (take (min (length bytes) 64) bytes) FNV_OFFSET"
    by (rule fold_nth) simp
  moreover have "take (min (length bytes) 64) bytes = take 64 bytes" by (simp add: min_def)
  ultimately show ?thesis by (simp add: user_fnv1a_64_def fnv64_step_def [abs_def] Let_def)
qed

lemma user_fnv1a_32_eq:
  "user_fnv1a_32 bytes = (let h = fold fnv32_step (take 64 bytes) FNV32_OFFSET in if h = 0 then 1 else h)"
  by (simp add: user_fnv1a_32_def fnv32_step_def [abs_def])

lemma fnv1a_64_eq:
  assumes "length buf = 64"
  shows "fnv1a_64 buf len = fold fnv64_step (take len buf) FNV_OFFSET"
proof -
  have "fold (\<lambda>i. fnv64_step (buf ! i)) [0..<min len 64] FNV_OFFSET =
        fold fnv64_step (take (min len 64) buf) FNV_OFFSET"
    by (rule fold_nth) (simp add: assms)
  moreover have "take (min len 64) buf = take len buf" using assms by (simp add: min_def)
  ultimately show ?thesis
    by (simp only: fnv1a_64_def fold_guard) (simp add: fnv64_step_def [abs_def])
qed

lemma nul_len_eq:
  "i + n = length buf \<Longrightarrow> nul_len buf i n = i + length (takeWhile (\<lambda>b. b \<noteq> 0) (drop i buf))"
proof (induction n arbitrary: i)
  case (Suc n)
  then have d: "drop i buf = buf ! i # drop (Suc i) buf" by (simp add: Cons_nth_drop_Suc)
  show ?case using Suc.IH [of "Suc i"] Suc.prems by (simp add: d)
qed simp

lemma fnv32_loop_eq:
  "i + n = length buf \<Longrightarrow>
   fnv32_loop buf i n h = fold fnv32_step (takeWhile (\<lambda>b. b \<noteq> 0) (drop i buf)) h"
proof (induction n arbitrary: i h)
  case (Suc n)
  then have d: "drop i buf = buf ! i # drop (Suc i) buf" by (simp add: Cons_nth_drop_Suc)
  show ?case using Suc.IH [of "Suc i"] Suc.prems by (simp add: d fnv32_step_def)
qed simp

section \<open>Agreement\<close>

text \<open>What a 64-byte read at the start of a NUL-terminated string returns.\<close>

definition buf_holds :: "u8 list \<Rightarrow> u8 list \<Rightarrow> bool" where
  "buf_holds buf name \<longleftrightarrow> length buf = 64 \<and> (\<exists>rest. buf = take 64 (name @ 0 # rest))"

lemma buf_holds_bytes:
  assumes "buf_holds buf name" "0 \<notin> set name"
  shows "takeWhile (\<lambda>b. b \<noteq> 0) buf = take 64 name" "length buf = 64"
proof -
  obtain rest where b: "buf = take 64 (name @ 0 # rest)"
    using assms(1) by (auto simp: buf_holds_def)
  show "takeWhile (\<lambda>b. b \<noteq> 0) buf = take 64 name"
  proof (cases "length name < 64")
    case True
    then obtain k where k: "64 - length name = Suc k" by (metis Suc_diff_Suc)
    have "takeWhile (\<lambda>b. b \<noteq> 0) (name @ 0 # take k rest) = name"
      using assms(2) by (subst takeWhile_append2) auto
    with True k show ?thesis by (simp add: b)
  next
    case False
    then have "buf = take 64 name" by (simp add: b)
    moreover have "takeWhile (\<lambda>b. b \<noteq> 0) (take 64 name) = take 64 name"
      using assms(2) by (auto simp: takeWhile_eq_all_conv dest: in_set_takeD)
    ultimately show ?thesis by simp
  qed
qed (use assms(1) in \<open>simp add: buf_holds_def\<close>)

lemma kernel_hash_of_name:
  assumes "buf_holds buf name" "0 \<notin> set name"
  shows "fnv1a_64 buf (nul_len buf 0 64) = user_fnv1a_64 name" "nul_len buf 0 64 = min 64 (length name)"
    "fnv1a_32 buf = user_fnv1a_32 name"
proof -
  note B = buf_holds_bytes [OF assms]
  have len: "nul_len buf 0 64 = length (take 64 name)" using nul_len_eq [of 0 64 buf] B by simp
  have tk: "take (length (takeWhile (\<lambda>b. b \<noteq> 0) buf)) buf = takeWhile (\<lambda>b. b \<noteq> 0) buf"
    by (metis takeWhile_eq_take)
  have "fnv1a_64 buf (nul_len buf 0 64) = fold fnv64_step (take 64 name) FNV_OFFSET"
    unfolding fnv1a_64_eq [OF B(2)] len using tk by (simp only: B(1))
  then show "fnv1a_64 buf (nul_len buf 0 64) = user_fnv1a_64 name" by (simp add: user_fnv1a_64_eq)
  show "fnv1a_32 buf = user_fnv1a_32 name"
    using fnv32_loop_eq [of 0 64 buf] B by (simp add: fnv1a_32_def user_fnv1a_32_eq)
  show "nul_len buf 0 64 = min 64 (length name)" using len by simp
qed

text \<open>C22: the kernel and user space agree on names.  For a name without NUL bytes, the hash that the
  kernel computes from a 64-byte read of the interpreter's memory is the hash user space computed
  from the string, for both widths, and a tool identifier is never 0, the value that stands for
  no tool.\<close>

theorem kernel_user_hash_agree:
  assumes "buf_holds buf name" "0 \<notin> set name"
  shows "fnv1a_64 buf (nul_len buf 0 64) = user_fnv1a_64 name \<and>
         fnv1a_32 buf = user_fnv1a_32 name \<and> user_fnv1a_32 name \<noteq> 0"
  using kernel_hash_of_name [OF assms] by (simp add: user_fnv1a_32_def Let_def)

theorem kernel_user_hash_agree_witness:
  "fnv1a_32 (take 64 ([114, 109] @ replicate 62 0)) = user_fnv1a_32 [114, 109]"
proof -
  have "buf_holds (take 64 ([114, 109] @ replicate 62 0)) [114, 109]"
    unfolding buf_holds_def by (intro conjI exI [of _ "replicate 61 0"]) (simp_all add: replicate_Suc [symmetric])
  from kernel_user_hash_agree [OF this] show ?thesis by simp
qed

subsection \<open>One-byte differences\<close>

lemma mult_unit_cancel:
  fixes x y p q :: "'a::len word"
  assumes "p * q = 1"
  shows "x * p = y * p \<longleftrightarrow> x = y"
proof
  assume "x * p = y * p"
  then have "x * p * q = y * p * q" by simp
  then show "x = y" using assms by (simp add: mult.assoc)
qed simp

lemma fnv64_prime_unit: "FNV_PRIME * 0xce965057aff6957b = 1"
  by simp

lemma fnv32_prime_unit: "FNV32_PRIME * 0x359c449b = 1"
  by simp

lemma xor_cancel: "c XOR a = c XOR b \<longleftrightarrow> a = b" for a b c :: "'a::len word"
  by (metis xor.assoc xor.left_neutral xor_self_eq)

lemma xor_cancel_right: "a XOR c = b XOR c \<longleftrightarrow> a = b" for a b c :: "'a::len word"
  by (metis xor_cancel xor.commute)

lemma ucast_u8_inj:
  assumes "8 \<le> LENGTH('b)"
  shows "(ucast a :: 'b::len word) = ucast b \<longleftrightarrow> a = (b :: u8)"
proof
  assume eq: "(ucast a :: 'b word) = ucast b"
  show "a = b"
  proof (rule bit_word_eqI)
    fix n
    assume "n < LENGTH(8)"
    then show "bit a n = bit b n"
      using arg_cong [OF eq, of "\<lambda>w. bit w n"] assms by (simp add: bit_simps)
  qed
qed simp

lemma fnv_step_inj:
  "fnv64_step b h = fnv64_step b h' \<longleftrightarrow> h = h'" "fnv64_step b h = fnv64_step b' h \<longleftrightarrow> b = b'"
  "fnv32_step b k = fnv32_step b k' \<longleftrightarrow> k = k'" "fnv32_step b k = fnv32_step b' k \<longleftrightarrow> b = b'"
  by (simp_all add: fnv64_step_def fnv32_step_def mult_unit_cancel [OF fnv64_prime_unit]
      mult_unit_cancel [OF fnv32_prime_unit] xor_cancel xor_cancel_right
      ucast_u8_inj)

lemma fold_inj: "(\<And>b h h'. f b h = f b h' \<longleftrightarrow> h = h') \<Longrightarrow> fold f xs h = fold f xs h' \<longleftrightarrow> h = h'"
  by (induction xs arbitrary: h h') auto

text \<open>Two names of at most 64 bytes that differ in exactly one byte never share a qualified-name
  hash; names that share their first 64 bytes always do.\<close>

theorem qualname_hash_discriminates:
  "(length p + 1 + length q \<le> 64 \<longrightarrow>
      (user_fnv1a_64 (p @ a # q) = user_fnv1a_64 (p @ b # q) \<longleftrightarrow> a = b)) \<and>
   (take 64 n = take 64 n' \<longrightarrow> user_fnv1a_64 n = user_fnv1a_64 n')"
  by (simp add: user_fnv1a_64_eq fold_inj [of fnv64_step, OF fnv_step_inj(1)] fnv_step_inj)

theorem qualname_hash_discriminates_witness:
  "user_fnv1a_64 ([1] @ 2 # [3]) \<noteq> user_fnv1a_64 ([1] @ 4 # [3])"
  using qualname_hash_discriminates [of "[1]" "[3]" 2 4 "[]" "[]"] by simp

end
