(* ===== verification/Identity.thy ===== *)
theory Identity
  imports Ownership Hashing
begin

text \<open>
  Who a frame belongs to: classification of code objects by the hash of their qualified name
  (\<^verbatim>\<open>src/ironscope-ebpf/src/code_classifier.rs\<close>) and resolution of the tool a frame runs
  (\<^verbatim>\<open>tool_identity.rs\<close>).  Reads of user memory are the parameters of the probe environment; the
  per-CPU scratch buffer is overwritten by each read before it is used and is not part of the
  state.
\<close>

section \<open>Reading the interpreter's memory\<close>

definition py_off :: "bpf_state \<Rightarrow> nat \<Rightarrow> u64 option" where
  "py_off s i = map_option ucast (arr_get (PYTHON_OFFSETS s) i)"

definition read_type_ptr :: "probe_env \<Rightarrow> bpf_state \<Rightarrow> u64 \<Rightarrow> u64" where
  "read_type_ptr e s obj_ptr =
     (case py_off s OFF_OBJ_TYPE of
        None \<Rightarrow> 0
      | Some off \<Rightarrow> (case rd_u64 e (obj_ptr + off) of Some v \<Rightarrow> v | None \<Rightarrow> 0))"

text \<open>The 64 bytes at the start of a code object's qualified name.\<close>

definition read_qualname :: "probe_env \<Rightarrow> bpf_state \<Rightarrow> u64 \<Rightarrow> u8 list option" where
  "read_qualname e s code_ptr =
     (case (py_off s OFF_CODE_QUALNAME, py_off s OFF_UNICODE_COMPACT_DATA) of
        (Some off_qualname, Some off_compact) \<Rightarrow>
          (case rd_u64 e (code_ptr + off_qualname) of
             None \<Rightarrow> None
           | Some qualname_ptr \<Rightarrow>
               if qualname_ptr = 0 then None else rd_buf64 e (qualname_ptr + off_compact))
      | _ \<Rightarrow> None)"

section \<open>Classifying code objects\<close>

definition read_qualname_hash :: "probe_env \<Rightarrow> bpf_state \<Rightarrow> u64 \<Rightarrow> u64 option" where
  "read_qualname_hash e s code_ptr =
     (case read_qualname e s code_ptr of
        None \<Rightarrow> None
      | Some buf \<Rightarrow>
          let len = nul_len buf 0 64
          in if len = 0 then None else Some (fnv1a_64 buf len))"

definition qualname_has_tool_impl_suffix :: "probe_env \<Rightarrow> bpf_state \<Rightarrow> u64 \<Rightarrow> bool" where
  "qualname_has_tool_impl_suffix e s code_ptr =
     (case read_qualname e s code_ptr of
        None \<Rightarrow> False
      | Some buf \<Rightarrow>
          let len = nul_len buf 0 64
          in (5 \<le> len \<and>
               (let i = len - 5
                in buf ! i = 0x2e \<and> buf ! (i + 1) = 0x5f \<and> buf ! (i + 2) = 0x72 \<and>
                   buf ! (i + 3) = 0x75 \<and> buf ! (i + 4) = 0x6e)) \<or>
             (6 \<le> len \<and>
               (let i = len - 6
                in buf ! i = 0x2e \<and> buf ! (i + 1) = 0x5f \<and> buf ! (i + 2) = 0x61 \<and>
                   buf ! (i + 3) = 0x72 \<and> buf ! (i + 4) = 0x75 \<and> buf ! (i + 5) = 0x6e)))"

definition set_code_kind :: "u32 \<Rightarrow> u64 \<Rightarrow> u8 \<Rightarrow> bpf_state \<Rightarrow> bpf_state" where
  "set_code_kind tgid code_ptr kind s =
     s\<lparr>CODE_KIND := bm_insert \<lparr>ck_tgid = tgid, ck_code_ptr = code_ptr\<rparr> kind (CODE_KIND s)\<rparr>"

text \<open>The first rule, among the 64 slots, that satisfies a condition.\<close>

definition first_rule :: "(RootRule \<Rightarrow> bool) \<Rightarrow> bpf_state \<Rightarrow> RootRule option" where
  "first_rule P s =
     (case scan 64 64 (\<lambda>i. case arr_get (ROOT_RULES s) i of Some rule \<Rightarrow> P rule | None \<Rightarrow> False) of
        None \<Rightarrow> None
      | Some i \<Rightarrow> arr_get (ROOT_RULES s) i)"

definition classify :: "probe_env \<Rightarrow> u32 \<Rightarrow> u64 \<Rightarrow> bpf_state \<Rightarrow> u8 \<times> bpf_state" where
  "classify e tgid code_ptr s =
     (let kind = (case read_qualname_hash e s code_ptr of
                    None \<Rightarrow> CODE_KIND_IGNORE
                  | Some hash \<Rightarrow>
                      (case first_rule (\<lambda>rule. rr_kind rule \<noteq> 0 \<and> rr_qualname_hash rule = hash) s of
                         None \<Rightarrow> CODE_KIND_IGNORE
                       | Some rule \<Rightarrow> rr_kind rule))
      in (kind, set_code_kind tgid code_ptr kind s))"

section \<open>Resolving tools\<close>

definition set_ctx_tool_id :: "u64 \<Rightarrow> u32 \<Rightarrow> bpf_state \<Rightarrow> bpf_state" where
  "set_ctx_tool_id ctx_id tool s =
     s\<lparr>TOOL_CTX := bm_modify ctx_id
         (\<lambda>entry. entry\<lparr>tool_id := tool, flags := flags entry OR TOOL_CTX_FLAG_RESOLVED\<rparr>) (TOOL_CTX s)\<rparr>"

definition mark_resolver_error :: "probe_env \<Rightarrow> u64 \<Rightarrow> u8 \<Rightarrow> bpf_state \<Rightarrow> bpf_state" where
  "mark_resolver_error e ctx_id code_kind s =
     emit_py_event e EVENT_AUDIT_UNRESOLVED ctx_id (ucast code_kind)
       (s\<lparr>TOOL_CTX := bm_modify ctx_id
            (\<lambda>entry. entry\<lparr>flags := flags entry OR TOOL_CTX_FLAG_RESOLVER_ERROR\<rparr>) (TOOL_CTX s)\<rparr>)"

definition emit_audit_unresolved :: "probe_env \<Rightarrow> u64 \<Rightarrow> u8 \<Rightarrow> bpf_state \<Rightarrow> bpf_state" where
  "emit_audit_unresolved = mark_resolver_error"

definition pending_tool_resolve_key :: "u32 \<Rightarrow> u64 \<Rightarrow> PendingToolResolveKey" where
  "pending_tool_resolve_key tgid self_ptr = \<lparr>pr_tgid = tgid, pr_self_ptr = self_ptr\<rparr>"

definition emit_resolver_event :: "ResolverEvent \<Rightarrow> bpf_state \<Rightarrow> bpf_state" where
  "emit_resolver_event ev s = s\<lparr>RESOLVER_EVENTS := rb_submit ev (RESOLVER_EVENTS s)\<rparr>"

definition emit_resolver_candidate ::
  "probe_env \<Rightarrow> u64 \<Rightarrow> u8 \<Rightarrow> u64 \<Rightarrow> u64 \<Rightarrow> u64 \<Rightarrow> bpf_state \<Rightarrow> bpf_state" where
  "emit_resolver_candidate e ctx_id code_kind self_ptr frame_ptr code_ptr s =
     (let key = pending_tool_resolve_key (cur_tgid e) self_ptr
      in if bm_get (PENDING_TOOL_RESOLVE s) key \<noteq> None then s
         else emit_resolver_event
                \<lparr>re_pid = cur_tgid e, re_tid = cur_tid e, re_ts_ns = ktime e,
                 re_kind = EVENT_RESOLVER_CANDIDATE, re_code_kind = code_kind, re_ctx_id = ctx_id,
                 re_self_ptr = self_ptr, re_type_ptr = read_type_ptr e s self_ptr,
                 re_frame_ptr = frame_ptr, re_code_ptr = code_ptr\<rparr>
                (s\<lparr>PENDING_TOOL_RESOLVE := bm_insert key ctx_id (PENDING_TOOL_RESOLVE s)\<rparr>))"

definition emit_resolver_failed ::
  "probe_env \<Rightarrow> u64 \<Rightarrow> u8 \<Rightarrow> u64 \<Rightarrow> u64 \<Rightarrow> u64 \<Rightarrow> u64 \<Rightarrow> bpf_state \<Rightarrow> bpf_state" where
  "emit_resolver_failed e ctx_id code_kind self_ptr frame_ptr code_ptr type_ptr s =
     emit_resolver_event
       \<lparr>re_pid = cur_tgid e, re_tid = cur_tid e, re_ts_ns = ktime e,
        re_kind = EVENT_RESOLVER_FAILED, re_code_kind = code_kind, re_ctx_id = ctx_id,
        re_self_ptr = self_ptr, re_type_ptr = type_ptr, re_frame_ptr = frame_ptr,
        re_code_ptr = code_ptr\<rparr> s"

text \<open>A cache entry is good for an object when its type pointer is the one the object has now.\<close>

definition cache_valid :: "ToolObjCacheEntry \<Rightarrow> u64 \<Rightarrow> bool" where
  "cache_valid entry actual_type_ptr \<longleftrightarrow>
     oc_tool_id entry \<noteq> 0 \<and> oc_type_ptr entry \<noteq> 0 \<and> oc_type_ptr entry = actual_type_ptr"

definition resolve_slot_obj ::
  "probe_env \<Rightarrow> u64 \<Rightarrow> u64 \<Rightarrow> RootRule \<Rightarrow> u64 \<Rightarrow> u64 \<Rightarrow> bpf_state \<Rightarrow> u32 \<times> bpf_state" where
  "resolve_slot_obj e frame_ptr code_ptr rule ctx_id obj_ptr s =
     (let key = py_object_key e obj_ptr
      in case bm_get (TOOL_OBJ s) key of
           Some entry \<Rightarrow>
             let actual_type_ptr = read_type_ptr e s obj_ptr
             in if cache_valid entry actual_type_ptr
                then (oc_tool_id entry, set_ctx_tool_id ctx_id (oc_tool_id entry) s)
                else
                  let s1 = s\<lparr>TOOL_OBJ := bm_remove key (TOOL_OBJ s),
                             PENDING_TOOL_RESOLVE :=
                               bm_remove (pending_tool_resolve_key (cur_tgid e) obj_ptr)
                                 (PENDING_TOOL_RESOLVE s)\<rparr>;
                      s2 = mark_resolver_error e ctx_id (rr_kind rule) s1
                  in (0, emit_resolver_failed e ctx_id (rr_kind rule) obj_ptr frame_ptr code_ptr
                           actual_type_ptr s2)
         | None \<Rightarrow> (0, emit_resolver_candidate e ctx_id (rr_kind rule) obj_ptr frame_ptr code_ptr s))"

definition resolve_slot_name ::
  "probe_env \<Rightarrow> RootRule \<Rightarrow> u64 \<Rightarrow> u64 \<Rightarrow> bpf_state \<Rightarrow> u32 \<times> bpf_state" where
  "resolve_slot_name e rule ctx_id obj_ptr s =
     (case py_off s OFF_UNICODE_COMPACT_DATA of
        None \<Rightarrow> (0, s)
      | Some compact_off \<Rightarrow>
          (case rd_buf64 e (obj_ptr + compact_off) of
             None \<Rightarrow> (0, emit_audit_unresolved e ctx_id (rr_kind rule) s)
           | Some buf \<Rightarrow> (fnv1a_32 buf, set_ctx_tool_id ctx_id (fnv1a_32 buf) s)))"

definition extract_and_resolve ::
  "probe_env \<Rightarrow> u64 \<Rightarrow> u64 \<Rightarrow> RootRule \<Rightarrow> u64 \<Rightarrow> bpf_state \<Rightarrow> u32 \<times> bpf_state" where
  "extract_and_resolve e frame_ptr code_ptr rule ctx_id s =
     (case py_off s OFF_FRAME_LOCALSPLUS of
        None \<Rightarrow> (0, s)
      | Some localsplus_off \<Rightarrow>
          (case rd_u64 e (frame_ptr + localsplus_off + ucast (rr_slot_index rule) * 8) of
             None \<Rightarrow> (0, s)
           | Some obj_ptr \<Rightarrow>
               if obj_ptr = 0 then (0, emit_audit_unresolved e ctx_id (rr_kind rule) s)
               else if rr_extractor_kind rule = EXTRACTOR_SLOT_OBJ
               then resolve_slot_obj e frame_ptr code_ptr rule ctx_id obj_ptr s
               else if rr_extractor_kind rule = EXTRACTOR_SLOT_NAME
               then resolve_slot_name e rule ctx_id obj_ptr s
               else (0, emit_audit_unresolved e ctx_id (rr_kind rule) s)))"

text \<open>The object in the first local slot of a frame, \<^verbatim>\<open>self\<close>.\<close>

definition frame_self :: "probe_env \<Rightarrow> bpf_state \<Rightarrow> u64 \<Rightarrow> u64 option" where
  "frame_self e s frame_ptr =
     (case py_off s OFF_FRAME_LOCALSPLUS of
        None \<Rightarrow> None
      | Some off \<Rightarrow>
          (case rd_u64 e (frame_ptr + off) of
             None \<Rightarrow> None
           | Some obj_ptr \<Rightarrow> if obj_ptr = 0 then None else Some obj_ptr))"

definition emit_frame_self_resolver_candidate ::
  "probe_env \<Rightarrow> u64 \<Rightarrow> u64 \<Rightarrow> u8 \<Rightarrow> bpf_state \<Rightarrow> bpf_state" where
  "emit_frame_self_resolver_candidate e frame_ptr code_ptr code_kind s =
     (case frame_self e s frame_ptr of
        None \<Rightarrow> s
      | Some obj_ptr \<Rightarrow>
          if bm_get (TOOL_OBJ s) (py_object_key e obj_ptr) \<noteq> None then s
          else emit_resolver_candidate e 0 code_kind obj_ptr frame_ptr code_ptr s)"

definition cached_frame_self_tool_id :: "probe_env \<Rightarrow> u64 \<Rightarrow> bpf_state \<Rightarrow> u32" where
  "cached_frame_self_tool_id e frame_ptr s =
     (case frame_self e s frame_ptr of
        None \<Rightarrow> 0
      | Some obj_ptr \<Rightarrow>
          (case bm_get (TOOL_OBJ s) (py_object_key e obj_ptr) of
             None \<Rightarrow> 0
           | Some entry \<Rightarrow>
               if cache_valid entry (read_type_ptr e s obj_ptr) then oc_tool_id entry else 0))"

section \<open>Invariants\<close>

lemma set_code_kind_frame [frame_simps, simp, ok_intros]:
  "policy_view (set_code_kind g c k s) = policy_view s" "state_ok s \<Longrightarrow> state_ok (set_code_kind g c k s)"
  by (simp_all add: set_code_kind_def policy_view_def state_ok_def)

lemma classify_frame [frame_simps, simp, ok_intros]:
  "policy_view (snd (classify e g c s)) = policy_view s" "state_ok s \<Longrightarrow> state_ok (snd (classify e g c s))"
  by (simp_all add: classify_def Let_def)

lemma set_ctx_tool_id_frame [frame_simps, simp, ok_intros]:
  "policy_view (set_ctx_tool_id c t s) = policy_view s" "state_ok s \<Longrightarrow> state_ok (set_ctx_tool_id c t s)"
  by (simp_all add: set_ctx_tool_id_def)

lemma mark_resolver_error_frame [frame_simps, simp, ok_intros]:
  "policy_view (mark_resolver_error e c k s) = policy_view s"
  "state_ok s \<Longrightarrow> state_ok (mark_resolver_error e c k s)"
  by (simp_all add: mark_resolver_error_def)

lemma resolver_event_frame [frame_simps, simp]:
  "policy_view (emit_resolver_event ev s) = policy_view s" "state_ok (emit_resolver_event ev s) = state_ok s"
  by (simp_all add: emit_resolver_event_def policy_view_def state_ok_def)

lemma resolver_maps_frame [frame_simps, simp, ok_intros]:
  "policy_view (s\<lparr>PENDING_TOOL_RESOLVE := m\<rparr>) = policy_view s"
  "state_ok s \<Longrightarrow> sized 4096 m \<Longrightarrow> state_ok (s\<lparr>PENDING_TOOL_RESOLVE := m\<rparr>)"
  "policy_view (s\<lparr>TOOL_OBJ := m'\<rparr>) = policy_view s" "state_ok s \<Longrightarrow> sized 4096 m' \<Longrightarrow> state_ok (s\<lparr>TOOL_OBJ := m'\<rparr>)"
  by (simp_all add: policy_view_def state_ok_def)

lemma resolver_emit_frame [frame_simps, simp, ok_intros]:
  "policy_view (emit_resolver_candidate e c k p f d s) = policy_view s"
  "state_ok s \<Longrightarrow> state_ok (emit_resolver_candidate e c k p f d s)"
  "policy_view (emit_resolver_failed e c k p f d t s) = policy_view s"
  "state_ok s \<Longrightarrow> state_ok (emit_resolver_failed e c k p f d t s)"
  by (simp_all add: emit_resolver_candidate_def emit_resolver_failed_def Let_def)

lemma resolve_frame [frame_simps, simp, ok_intros]:
  "policy_view (snd (resolve_slot_obj e f d r c p s)) = policy_view s"
  "state_ok s \<Longrightarrow> state_ok (snd (resolve_slot_obj e f d r c p s))"
  "policy_view (snd (resolve_slot_name e r c p s)) = policy_view s"
  "state_ok s \<Longrightarrow> state_ok (snd (resolve_slot_name e r c p s))"
  by (simp_all add: resolve_slot_obj_def resolve_slot_name_def emit_audit_unresolved_def Let_def
      split: option.split)

lemma extract_and_resolve_frame [frame_simps, simp, ok_intros]:
  "policy_view (snd (extract_and_resolve e f d r c s)) = policy_view s"
  "state_ok s \<Longrightarrow> state_ok (snd (extract_and_resolve e f d r c s))"
  by (simp_all add: extract_and_resolve_def emit_audit_unresolved_def split: option.split)

lemma self_candidate_frame [frame_simps, simp, ok_intros]:
  "policy_view (emit_frame_self_resolver_candidate e f d k s) = policy_view s"
  "state_ok s \<Longrightarrow> state_ok (emit_frame_self_resolver_candidate e f d k s)"
  by (simp_all add: emit_frame_self_resolver_candidate_def split: option.split)

section \<open>Classification\<close>

lemma first_rule_SomeD:
  assumes "first_rule P s = Some rule"
  shows "rule \<in> set (ROOT_RULES s)" "P rule"
proof -
  let ?hit = "\<lambda>i. case arr_get (ROOT_RULES s) i of Some rule \<Rightarrow> P rule | None \<Rightarrow> False"
  obtain i where i: "scan 64 64 ?hit = Some i" "arr_get (ROOT_RULES s) i = Some rule"
    using assms by (auto simp: first_rule_def split: option.splits)
  with scan_SomeD(3) [OF i(1)] show "rule \<in> set (ROOT_RULES s)" "P rule"
    by (auto simp: arr_get_def split: if_splits)
qed

lemma first_rule_NoneD:
  assumes "first_rule P s = None" "length (ROOT_RULES s) \<le> 64" "rule \<in> set (ROOT_RULES s)"
  shows "\<not> P rule"
proof -
  let ?hit = "\<lambda>i. case arr_get (ROOT_RULES s) i of Some rule \<Rightarrow> P rule | None \<Rightarrow> False"
  obtain i where i: "i < length (ROOT_RULES s)" "ROOT_RULES s ! i = rule"
    using assms(3) by (auto simp: in_set_conv_nth)
  have "scan 64 64 ?hit = None"
  proof (rule ccontr)
    assume "scan 64 64 ?hit \<noteq> None"
    then obtain j where j: "scan 64 64 ?hit = Some j" by blast
    with scan_SomeD(3) [OF j] assms(1) show False by (auto simp: first_rule_def split: option.splits)
  qed
  from scan_NoneD [OF this, of i] i assms(2) show ?thesis by (auto simp: arr_get_def)
qed

text \<open>C18: classification of a code object is exact.  When the interpreter's memory holds a nonempty
  NUL-free qualified name, the kernel returns a kind other than \<open>IGNORE\<close> only if some installed
  rule carries that kind and the hash user space computed for the name; it returns \<open>IGNORE\<close> only
  if no active rule has that hash.  The result is cached under the process and the code object.\<close>

theorem classify_exact:
  assumes name: "read_qualname e s code = Some buf" "buf_holds buf name" "0 \<notin> set name" "name \<noteq> []"
    and rules: "length (ROOT_RULES s) \<le> 64" and room: "bm_room (CODE_KIND s) \<lparr>ck_tgid = g, ck_code_ptr = code\<rparr>"
    and run: "classify e g code s = (kind, s')"
  shows "(kind \<noteq> CODE_KIND_IGNORE \<longrightarrow>
            (\<exists>rule \<in> set (ROOT_RULES s). rr_kind rule = kind \<and> rr_qualname_hash rule = user_fnv1a_64 name)) \<and>
         (kind = CODE_KIND_IGNORE \<longrightarrow>
            (\<forall>rule \<in> set (ROOT_RULES s). rr_kind rule \<noteq> 0 \<longrightarrow> rr_qualname_hash rule \<noteq> user_fnv1a_64 name)) \<and>
         bm_get (CODE_KIND s') \<lparr>ck_tgid = g, ck_code_ptr = code\<rparr> = Some kind"
proof -
  let ?P = "\<lambda>rule. rr_kind rule \<noteq> 0 \<and> rr_qualname_hash rule = user_fnv1a_64 name"
  have hash: "read_qualname_hash e s code = Some (user_fnv1a_64 name)"
    using kernel_hash_of_name [OF name(2,3)] name(1,4) by (simp add: read_qualname_hash_def Let_def)
  have kind: "kind = (case first_rule ?P s of None \<Rightarrow> CODE_KIND_IGNORE | Some rule \<Rightarrow> rr_kind rule)"
    and s': "s' = set_code_kind g code kind s"
    using run by (auto simp: classify_def hash Let_def)
  have "bm_get (CODE_KIND s') \<lparr>ck_tgid = g, ck_code_ptr = code\<rparr> = Some kind"
    by (simp add: s' set_code_kind_def bm_get_insert [OF room])
  moreover have "\<exists>rule \<in> set (ROOT_RULES s). rr_kind rule = kind \<and> rr_qualname_hash rule = user_fnv1a_64 name"
    if ne: "kind \<noteq> CODE_KIND_IGNORE"
  proof (cases "first_rule ?P s")
    case (Some rule)
    with kind first_rule_SomeD [OF Some] show ?thesis by auto
  qed (use ne kind in simp)
  moreover have "\<forall>rule \<in> set (ROOT_RULES s). rr_kind rule \<noteq> 0 \<longrightarrow> rr_qualname_hash rule \<noteq> user_fnv1a_64 name"
    if "kind = CODE_KIND_IGNORE"
  proof (cases "first_rule ?P s")
    case None
    with first_rule_NoneD [OF None rules] show ?thesis by blast
  next
    case (Some rule)
    with first_rule_SomeD(2) [OF Some] kind that show ?thesis by simp
  qed
  ultimately show ?thesis by blast
qed

definition rules0 :: "RootRule list" where
  "rules0 = [rule_of_entry \<lparr>e_qualname = [65, 46, 114], e_kind = 4, e_filename = None,
     e_extractor_kind = 1, e_slot = 0\<rparr>]"

text \<open>A process whose code object at \<open>0x1000\<close> has the three-byte qualified name \<open>A.r\<close>.\<close>

definition name_env :: probe_env where
  "name_env = \<lparr>pid_tgid = push_bit 32 5 OR 7, smp_cpu = 1, ktime = 100, reg = (\<lambda>_. None),
     arg = (\<lambda>_. None), rd_u64 = (\<lambda>a. if a = 0x1000 then Some 0x2000 else None), rd_u32 = (\<lambda>_. None),
     rd_u8 = (\<lambda>_. None),
     rd_buf64 = (\<lambda>a. if a = 0x2000 then Some (take 64 ([65, 46, 114] @ 0 # replicate 60 0)) else None)\<rparr>"

definition rules_state :: bpf_state where
  "rules_state = (init_state \<lparr>ev_pending_frame_tool = map fst, ev_frame_ctx = map fst,
     ev_task_ctx = map fst, ev_workitem_ctx = map fst, ev_pythread_obj_ctx = map fst\<rparr>
     (\<lambda>_. True) (\<lambda>_. True) (\<lambda>_. True))\<lparr>ROOT_RULES := rules0\<rparr>"

lemma rules_state_maps [simp]:
  "ROOT_RULES rules_state = rules0" "CODE_KIND rules_state = bm_empty 8192 Hash"
  "py_off rules_state i = (if i < 64 then Some 0 else None)"
  "TOOL_OBJ rules_state = bm_empty 4096 Hash" "TOOL_CTX rules_state = bm_empty 4096 Hash"
  "PENDING_TOOL_RESOLVE rules_state = bm_empty 4096 Hash"
  by (simp_all add: rules_state_def init_state_def py_off_def arr_get_def)

lemma name_env_reads:
  "read_qualname name_env rules_state 0x1000 = Some (take 64 ([65, 46, 114] @ 0 # replicate 60 0))"
  "buf_holds (take 64 ([65, 46, 114] @ 0 # replicate 60 0)) [65, 46, 114]"
proof -
  show "read_qualname name_env rules_state 0x1000 = Some (take 64 ([65, 46, 114] @ 0 # replicate 60 0))"
    by (simp add: read_qualname_def name_env_def)
  show "buf_holds (take 64 ([65, 46, 114] @ 0 # replicate 60 0)) [65, 46, 114]"
    unfolding buf_holds_def by (intro conjI exI [of _ "replicate 60 0"]) (simp_all add: replicate_Suc [symmetric])
qed

theorem classify_exact_witness:
  "fst (classify name_env 5 0x1000 rules_state) \<noteq> CODE_KIND_IGNORE"
proof -
  obtain kind s' where run: "classify name_env 5 0x1000 rules_state = (kind, s')" by fastforce
  from classify_exact [OF name_env_reads _ _ _ _ run]
  have "kind = CODE_KIND_IGNORE \<longrightarrow> (\<forall>rule \<in> set (ROOT_RULES rules_state). rr_kind rule \<noteq> 0 \<longrightarrow>
          rr_qualname_hash rule \<noteq> user_fnv1a_64 [65, 46, 114])"
    by (simp add: rules0_def bm_room_empty)
  then show ?thesis by (simp add: run rules0_def rule_of_entry_def)
qed

section \<open>Resolution\<close>

lemma resolver_event_fields [simp]:
  "TOOL_CTX (emit_resolver_event ev s) = TOOL_CTX s" "TOOL_OBJ (emit_resolver_event ev s) = TOOL_OBJ s"
  "PENDING_TOOL_RESOLVE (emit_resolver_event ev s) = PENDING_TOOL_RESOLVE s"
  "PY_EVENTS (emit_resolver_event ev s) = PY_EVENTS s"
  by (simp_all add: emit_resolver_event_def)

text \<open>C19: an object-based tool identity is only ever taken from a cache entry whose type pointer is
  the one the object has at that moment.  A nonzero result means such an entry exists, and the
  context is marked resolved with its tool; a stale entry yields no tool, is evicted together
  with its pending marker so that it is resolved again, and marks the context as a resolver
  error.\<close>

theorem slot_obj_resolution_sound:
  assumes run: "resolve_slot_obj e f d rule c obj s = (tool, s')"
    and live: "bm_get (TOOL_CTX s) c = Some ctx"
  shows "(tool \<noteq> 0 \<longrightarrow>
            (\<exists>entry. bm_get (TOOL_OBJ s) (py_object_key e obj) = Some entry \<and>
                     oc_type_ptr entry = read_type_ptr e s obj \<and> oc_type_ptr entry \<noteq> 0 \<and>
                     oc_tool_id entry = tool) \<and>
            bm_get (TOOL_CTX s') c =
              Some (ctx\<lparr>tool_id := tool, flags := flags ctx OR TOOL_CTX_FLAG_RESOLVED\<rparr>)) \<and>
         (\<forall>entry. bm_get (TOOL_OBJ s) (py_object_key e obj) = Some entry \<longrightarrow>
            oc_type_ptr entry \<noteq> read_type_ptr e s obj \<longrightarrow>
              tool = 0 \<and> bm_get (TOOL_OBJ s') (py_object_key e obj) = None \<and>
              bm_get (PENDING_TOOL_RESOLVE s') (pending_tool_resolve_key (cur_tgid e) obj) = None \<and>
              bm_get (TOOL_CTX s') c =
                Some (ctx\<lparr>flags := flags ctx OR TOOL_CTX_FLAG_RESOLVER_ERROR\<rparr>))"
proof (cases "bm_get (TOOL_OBJ s) (py_object_key e obj)")
  case None
  with run show ?thesis by (auto simp: resolve_slot_obj_def Let_def)
next
  case (Some entry)
  show ?thesis
  proof (cases "cache_valid entry (read_type_ptr e s obj)")
    case True
    with run Some live show ?thesis
      by (auto simp: resolve_slot_obj_def Let_def set_ctx_tool_id_def cache_valid_def)
  next
    case False
    with run Some live show ?thesis
      by (auto simp: resolve_slot_obj_def Let_def mark_resolver_error_def emit_py_event_def
          emit_resolver_failed_def)
  qed
qed

definition stale_state :: bpf_state where
  "stale_state = rules_state\<lparr>
     TOOL_OBJ := bm_insert (py_object_key name_env 0x3000)
       \<lparr>oc_type_ptr = 0x9000, oc_tool_id = 8, oc_name_hash = 8, oc_generation = 1\<rparr> (TOOL_OBJ rules_state),
     TOOL_CTX := bm_insert 42 \<lparr>tool_id = 0, generation = 1, carrier_count = 1, flags = 0,
       started_ns = 10, last_seen_ns = 10\<rparr> (TOOL_CTX rules_state)\<rparr>"

theorem slot_obj_resolution_sound_witness:
  "fst (resolve_slot_obj name_env 0 0 RootRule_default 42 0x3000 stale_state) = 0"
proof -
  obtain tool s' where run: "resolve_slot_obj name_env 0 0 RootRule_default 42 0x3000 stale_state = (tool, s')"
    by fastforce
  have ctx: "bm_get (TOOL_CTX stale_state) 42 = Some \<lparr>tool_id = 0, generation = 1, carrier_count = 1,
      flags = 0, started_ns = 10, last_seen_ns = 10\<rparr>"
    by (simp add: stale_state_def bm_get_insert bm_room_empty)
  have "bm_get (TOOL_OBJ stale_state) (py_object_key name_env 0x3000) =
      Some \<lparr>oc_type_ptr = 0x9000, oc_tool_id = 8, oc_name_hash = 8, oc_generation = 1\<rparr>"
    by (simp add: stale_state_def bm_get_insert bm_room_empty)
  moreover have "read_type_ptr name_env stale_state 0x3000 = 0"
    by (simp add: read_type_ptr_def stale_state_def py_off_def rules_state_def init_state_def arr_get_def
        name_env_def)
  ultimately have "tool = 0" using slot_obj_resolution_sound [OF run ctx] by auto
  then show ?thesis by (simp add: run)
qed

text \<open>An unresolved object is reported to user space once.  The first sighting submits one
  candidate and leaves a pending marker; every later one, from any frame, leaves the state as it
  is until the marker is removed.\<close>

theorem resolver_candidate_debounced:
  assumes "bm_room (PENDING_TOOL_RESOLVE s) (pending_tool_resolve_key (cur_tgid e) obj)"
    and "cur_tgid e' = cur_tgid e"
  shows "emit_resolver_candidate e' c' k' obj f' d' (emit_resolver_candidate e c k obj f d s) =
         emit_resolver_candidate e c k obj f d s"
  using assms
  by (auto simp: emit_resolver_candidate_def [of e] emit_resolver_candidate_def [of e'] Let_def bm_get_insert)

theorem resolver_candidate_debounced_witness:
  "emit_resolver_candidate name_env 0 4 0x3000 0x20 0x30
     (emit_resolver_candidate name_env 42 4 0x3000 0x10 0x30 rules_state) =
   emit_resolver_candidate name_env 42 4 0x3000 0x10 0x30 rules_state"
  using resolver_candidate_debounced [of rules_state name_env "0x3000" name_env] by (simp add: bm_room_empty)

end
