(* ===== verification/Workers.thy ===== *)
theory Workers
  imports Identity
begin

text \<open>
  Worker threads: the carriers that take a tool context from the thread that creates a work item
  or a thread object to the thread that runs it
  (\<^verbatim>\<open>src/ironscope-ebpf/src/worker_probes.rs\<close>).
\<close>

section \<open>Reading frames\<close>

definition read_frame_local :: "probe_env \<Rightarrow> bpf_state \<Rightarrow> u64 \<Rightarrow> nat \<Rightarrow> u64 option" where
  "read_frame_local e s frame_ptr slot_index =
     (case py_off s OFF_FRAME_LOCALSPLUS of
        None \<Rightarrow> None
      | Some off \<Rightarrow>
          (case rd_u64 e (frame_ptr + off + of_nat slot_index * 8) of
             None \<Rightarrow> None
           | Some obj_ptr \<Rightarrow> if obj_ptr = 0 then None else Some obj_ptr))"

definition read_self_from_frame :: "probe_env \<Rightarrow> bpf_state \<Rightarrow> u64 \<Rightarrow> u64 option" where
  "read_self_from_frame e s frame_ptr = read_frame_local e s frame_ptr 0"

definition worker_read_parent_ptr :: "probe_env \<Rightarrow> bpf_state \<Rightarrow> u64 \<Rightarrow> u64" where
  "worker_read_parent_ptr e s frame_ptr =
     (case py_off s OFF_FRAME_PREVIOUS of
        None \<Rightarrow> 0
      | Some off \<Rightarrow> (case rd_u64 e (frame_ptr + off) of Some p \<Rightarrow> p | None \<Rightarrow> 0))"

text \<open>Register \<open>idx\<close> of the probed context; only the 31 general registers are read.\<close>

definition read_frame_from_ctx :: "probe_env \<Rightarrow> bpf_state \<Rightarrow> u64 option" where
  "read_frame_from_ctx e s =
     (case arr_get (PYTHON_OFFSETS s) OFF_FRAME_REG_IDX of
        None \<Rightarrow> None
      | Some idx \<Rightarrow> if 30 < unat idx then None else reg e (unat idx))"

definition remember_tstate :: "probe_env \<Rightarrow> u32 \<Rightarrow> bool \<Rightarrow> bpf_state \<Rightarrow> bpf_state" where
  "remember_tstate e tid overwrite s =
     (if \<not> overwrite \<and> bm_get (THREAD_TSTATE s) tid \<noteq> None then s
      else case arg e 0 of
             Some ptr \<Rightarrow> if ptr \<noteq> 0 then s\<lparr>THREAD_TSTATE := bm_insert tid ptr (THREAD_TSTATE s)\<rparr> else s
           | None \<Rightarrow> s)"

definition read_tstate_current_frame :: "probe_env \<Rightarrow> u32 \<Rightarrow> bpf_state \<Rightarrow> u64 option" where
  "read_tstate_current_frame e tid s =
     (case bm_get (THREAD_TSTATE s) tid of
        None \<Rightarrow> None
      | Some tstate \<Rightarrow>
          if tstate = 0 then None
          else case py_off s OFF_TSTATE_CURRENT_FRAME of
                 None \<Rightarrow> None
               | Some off \<Rightarrow>
                   if off = 0 then None
                   else case rd_u64 e (tstate + off) of
                          None \<Rightarrow> None
                        | Some frame_ptr \<Rightarrow> if frame_ptr = 0 then None else Some frame_ptr)"

section \<open>Kinds of worker frames\<close>

definition is_worker_kind :: "u8 \<Rightarrow> bool" where
  "is_worker_kind kind \<longleftrightarrow>
     kind = CODE_KIND_WORKITEM_CTOR \<or> kind = CODE_KIND_WORKITEM_RUN \<or> kind = CODE_KIND_THREAD_CTOR \<or>
     kind = CODE_KIND_THREAD_RUN \<or> kind = CODE_KIND_THREADPOOL_WORKER"

definition classify_worker_kind :: "probe_env \<Rightarrow> u64 \<Rightarrow> bpf_state \<Rightarrow> u8" where
  "classify_worker_kind e code_ptr s =
     (case read_qualname e s code_ptr of
        None \<Rightarrow> CODE_KIND_IGNORE
      | Some buf \<Rightarrow>
          let len = nul_len buf 0 64
          in if len = 0 then CODE_KIND_IGNORE
             else case first_rule (\<lambda>rule. is_worker_kind (rr_kind rule) \<and>
                                          rr_qualname_hash rule = fnv1a_64 buf len) s of
                    Some rule \<Rightarrow> rr_kind rule
                  | None \<Rightarrow> CODE_KIND_IGNORE)"

definition worker_kind_for_frame :: "probe_env \<Rightarrow> u32 \<Rightarrow> u64 \<Rightarrow> bpf_state \<Rightarrow> u8 \<times> bpf_state" where
  "worker_kind_for_frame e pid frame_ptr s =
     (if frame_ptr = 0 then (CODE_KIND_IGNORE, s)
      else case py_off s OFF_FRAME_F_EXECUTABLE of
        None \<Rightarrow> (CODE_KIND_IGNORE, s)
      | Some off_exec \<Rightarrow>
          (case rd_u64 e (frame_ptr + off_exec) of
             None \<Rightarrow> (CODE_KIND_IGNORE, s)
           | Some code_ptr \<Rightarrow>
               if code_ptr = 0 then (CODE_KIND_IGNORE, s)
               else case bm_get (CODE_KIND s) \<lparr>ck_tgid = pid, ck_code_ptr = code_ptr\<rparr> of
                      Some k \<Rightarrow> (k, s)
                    | None \<Rightarrow>
                        let detected = classify_worker_kind e code_ptr s
                        in (detected, if is_worker_kind detected
                                      then set_code_kind pid code_ptr detected s else s)))"

section \<open>The run stack of a worker thread\<close>

definition worker_stack_key :: "u32 \<Rightarrow> nat \<Rightarrow> u64" where
  "worker_stack_key tid i = push_bit 8 (ucast tid) OR of_nat i"

definition worker_depth :: "u32 \<Rightarrow> bpf_state \<Rightarrow> nat" where
  "worker_depth tid s = (case bm_get (WORKER_RUN_DEPTH s) tid of Some d \<Rightarrow> unat d | None \<Rightarrow> 0)"

definition worker_stack_push :: "u32 \<Rightarrow> WorkerRunEntry \<Rightarrow> bpf_state \<Rightarrow> bpf_state" where
  "worker_stack_push tid entry s =
     (let depth = worker_depth tid s
      in if 64 \<le> depth then s
         else s\<lparr>WORKER_RUN_STACK := bm_insert (worker_stack_key tid depth) entry (WORKER_RUN_STACK s),
                WORKER_RUN_DEPTH := bm_insert tid (of_nat (depth + 1)) (WORKER_RUN_DEPTH s)\<rparr>)"

definition worker_stack_peek :: "u32 \<Rightarrow> bpf_state \<Rightarrow> WorkerRunEntry option" where
  "worker_stack_peek tid s =
     (if worker_depth tid s = 0 then None
      else bm_get (WORKER_RUN_STACK s) (worker_stack_key tid (worker_depth tid s - 1)))"

text \<open>\<^verbatim>\<open>while cur < 63 { next = cur + 1; if next >= depth break; ...; cur += 1 }\<close>\<close>

fun worker_shift ::
  "u32 \<Rightarrow> nat \<Rightarrow> nat \<Rightarrow> nat \<Rightarrow> (u64, WorkerRunEntry) bpf_map \<Rightarrow> (u64, WorkerRunEntry) bpf_map" where
  "worker_shift tid depth cur 0 m = m"
| "worker_shift tid depth cur (Suc n) m =
     (if depth \<le> Suc cur then m
      else let src_key = worker_stack_key tid (Suc cur); dst_key = worker_stack_key tid cur;
               m1 = (case bm_get m src_key of Some entry \<Rightarrow> bm_insert dst_key entry m | None \<Rightarrow> m)
           in worker_shift tid depth (Suc cur) n (bm_remove src_key m1))"

definition worker_stack_remove_at ::
  "u32 \<Rightarrow> nat \<Rightarrow> nat \<Rightarrow> bpf_state \<Rightarrow> WorkerRunEntry option \<times> bpf_state" where
  "worker_stack_remove_at tid idx depth s =
     (if depth \<le> idx \<or> depth = 0 then (None, s)
      else
        let key = worker_stack_key tid idx;
            val = bm_get (WORKER_RUN_STACK s) key;
            st = worker_shift tid depth idx (63 - idx) (bm_remove key (WORKER_RUN_STACK s));
            new_depth = depth - 1
        in (val, s\<lparr>WORKER_RUN_STACK := st,
                   WORKER_RUN_DEPTH :=
                     (if new_depth = 0 then bm_remove tid (WORKER_RUN_DEPTH s)
                      else bm_insert tid (of_nat new_depth) (WORKER_RUN_DEPTH s))\<rparr>))"

text \<open>The top entry, or the one below it, if it satisfies the condition: the body of the two searches.\<close>

definition worker_stack_remove_top2 ::
  "(WorkerRunEntry \<Rightarrow> bool) \<Rightarrow> u32 \<Rightarrow> bpf_state \<Rightarrow> WorkerRunEntry option \<times> bpf_state" where
  "worker_stack_remove_top2 P tid s =
     (let depth = worker_depth tid s;
          hit = (\<lambda>i. case bm_get (WORKER_RUN_STACK s) (worker_stack_key tid i) of
                       Some entry \<Rightarrow> P entry | None \<Rightarrow> False)
      in if depth = 0 then (None, s)
         else if hit (depth - 1) then worker_stack_remove_at tid (depth - 1) depth s
         else if 1 < depth \<and> hit (depth - 2) then worker_stack_remove_at tid (depth - 2) depth s
         else (None, s))"

definition worker_stack_pop_for_parent ::
  "u32 \<Rightarrow> u64 \<Rightarrow> bpf_state \<Rightarrow> WorkerRunEntry option \<times> bpf_state" where
  "worker_stack_pop_for_parent tid parent_ptr =
     worker_stack_remove_top2 (\<lambda>en. wr_parent_ptr en \<noteq> 0 \<and> wr_parent_ptr en = parent_ptr) tid"

definition worker_stack_remove_for_object ::
  "u32 \<Rightarrow> u64 \<Rightarrow> bpf_state \<Rightarrow> WorkerRunEntry option \<times> bpf_state" where
  "worker_stack_remove_for_object tid self_obj =
     worker_stack_remove_top2 (\<lambda>en. wr_self_obj en = self_obj) tid"

section \<open>Carrier maps\<close>

text \<open>\<^verbatim>\<open>let carrier_map = if work { &WORKITEM_CTX } else { &PYTHREAD_OBJ_CTX }\<close>\<close>

definition carrier_get :: "bool \<Rightarrow> PyObjectKey \<Rightarrow> bpf_state \<Rightarrow> u64 option" where
  "carrier_get work k s = (if work then bm_get (WORKITEM_CTX s) k else bm_get (PYTHREAD_OBJ_CTX s) k)"

definition carrier_put :: "bool \<Rightarrow> PyObjectKey \<Rightarrow> u64 \<Rightarrow> bpf_state \<Rightarrow> bpf_state" where
  "carrier_put work k c s =
     (if work then s\<lparr>WORKITEM_CTX := bm_insert k c (WORKITEM_CTX s)\<rparr>
      else s\<lparr>PYTHREAD_OBJ_CTX := bm_insert k c (PYTHREAD_OBJ_CTX s)\<rparr>)"

definition carrier_del :: "bool \<Rightarrow> PyObjectKey \<Rightarrow> bpf_state \<Rightarrow> bpf_state" where
  "carrier_del work k s =
     (if work then s\<lparr>WORKITEM_CTX := bm_remove k (WORKITEM_CTX s)\<rparr>
      else s\<lparr>PYTHREAD_OBJ_CTX := bm_remove k (PYTHREAD_OBJ_CTX s)\<rparr>)"

section \<open>Creation of work items and threads\<close>

definition pending_for_ctor :: "probe_env \<Rightarrow> u32 \<Rightarrow> u8 \<Rightarrow> bpf_state \<Rightarrow> u64 \<times> u64" where
  "pending_for_ctor e tid kind s =
     (if kind = CODE_KIND_WORKITEM_CTOR
      then case bm_get (THREAD_ACTIVE_TASK s) tid of
             Some task_ptr \<Rightarrow>
               if task_ptr \<noteq> 0
               then case deferred_tool_ctx_for_worker e task_ptr s of
                      Some cid \<Rightarrow> (task_ptr, cid) | None \<Rightarrow> (0, 0)
               else (0, 0)
           | None \<Rightarrow> (0, 0)
      else (0, 0))"

definition bind_carrier ::
  "probe_env \<Rightarrow> u32 \<Rightarrow> u8 \<Rightarrow> u64 \<Rightarrow> u64 \<Rightarrow> u64 \<Rightarrow> bpf_state \<Rightarrow> bpf_state" where
  "bind_carrier e tid kind pending_task_ptr ctx_id self_obj s =
     (let work = (kind = CODE_KIND_WORKITEM_CTOR);
          s1 = carrier_inc ctx_id (carrier_put work (py_object_key e self_obj) ctx_id s);
          s2 = (if work \<and> pending_task_ptr \<noteq> 0
                then s1\<lparr>PENDING_WORKER_SPAWN :=
                          bm_insert tid \<lparr>ps_ctx_id = ctx_id, ps_work_item = self_obj\<rparr>
                            (PENDING_WORKER_SPAWN s1)\<rparr>
                else s1);
          s3 = emit_py_event_carrier e EVENT_WORKER_CARRIER_BIND ctx_id (tool_id_of s2 ctx_id) self_obj s2
      in if pending_task_ptr \<noteq> 0 then finish_deferred_tool_close e tid pending_task_ptr ctx_id s3 else s3)"

definition handle_ctor_entry :: "probe_env \<Rightarrow> u32 \<Rightarrow> u64 \<Rightarrow> u8 \<Rightarrow> bpf_state \<Rightarrow> bpf_state" where
  "handle_ctor_entry e tid frame_ptr kind s =
     (let (pending_task_ptr, ctx0) = pending_for_ctor e tid kind s;
          (ctx, s1) = (if ctx0 = 0 then get_active_ctx tid s else (Some ctx0, s))
      in case ctx of
           None \<Rightarrow> s1
         | Some ctx_id \<Rightarrow>
             if pending_task_ptr = 0 \<and> ctx_depth tid s1 = 0 \<and> worker_depth tid s1 = 0 then s1
             else case read_self_from_frame e s1 frame_ptr of
               None \<Rightarrow> s1
             | Some self_obj \<Rightarrow>
                 (case carrier_get (kind = CODE_KIND_WORKITEM_CTOR) (py_object_key e self_obj) s1 of
                    Some existing_ctx \<Rightarrow>
                      if existing_ctx = ctx_id
                      then (if pending_task_ptr \<noteq> 0
                            then finish_deferred_tool_close e tid pending_task_ptr ctx_id s1 else s1)
                      else if pending_task_ptr = 0 then s1
                      else bind_carrier e tid kind pending_task_ptr ctx_id self_obj
                             (carrier_dec e existing_ctx s1)
                  | None \<Rightarrow> bind_carrier e tid kind pending_task_ptr ctx_id self_obj s1))"

definition handle_threadpool_worker_entry :: "u32 \<Rightarrow> u64 \<Rightarrow> bpf_state \<Rightarrow> bpf_state" where
  "handle_threadpool_worker_entry tid frame_ptr s =
     s\<lparr>THREADPOOL_WORKER_FRAME := bm_insert tid frame_ptr (THREADPOOL_WORKER_FRAME s)\<rparr>"

section \<open>Thread-pool workers\<close>

definition clear_threadpool_worker_ctx :: "probe_env \<Rightarrow> u32 \<Rightarrow> WorkerLocalCtx \<Rightarrow> bpf_state \<Rightarrow> bpf_state" where
  "clear_threadpool_worker_ctx e tid entry s =
     (let s1 = s\<lparr>THREADPOOL_WORKER_CTX := bm_remove tid (THREADPOOL_WORKER_CTX s),
                 THREADPOOL_WORKITEM_THREAD :=
                   bm_remove (py_object_key e (wl_work_item entry)) (THREADPOOL_WORKITEM_THREAD s)\<rparr>;
          (active, s2) = get_active_ctx tid s1;
          s3 = (if active = Some (wl_ctx_id entry)
                then (if wl_prev_ctx entry \<noteq> 0 then set_active tid (wl_prev_ctx entry) s2
                      else clear_active tid s2)
                else s2)
      in carrier_dec e (wl_ctx_id entry) s3)"

definition clear_threadpool_worker_for_object :: "probe_env \<Rightarrow> u32 \<Rightarrow> u64 \<Rightarrow> bpf_state \<Rightarrow> bpf_state" where
  "clear_threadpool_worker_for_object e tid obj_ptr s =
     (let owned = (\<lambda>t. case bm_get (THREADPOOL_WORKER_CTX s) t of
                         Some entry \<Rightarrow> if wl_work_item entry = obj_ptr then Some entry else None
                       | None \<Rightarrow> None);
          work_key = py_object_key e obj_ptr
      in if obj_ptr = 0 then s
         else case owned tid of
                Some entry \<Rightarrow> clear_threadpool_worker_ctx e tid entry s
              | None \<Rightarrow>
                  (case bm_get (THREADPOOL_WORKITEM_THREAD s) work_key of
                     None \<Rightarrow> s
                   | Some worker_tid \<Rightarrow>
                       (case owned worker_tid of
                          Some entry \<Rightarrow> clear_threadpool_worker_ctx e worker_tid entry s
                        | None \<Rightarrow> s\<lparr>THREADPOOL_WORKITEM_THREAD :=
                                      bm_remove work_key (THREADPOOL_WORKITEM_THREAD s)\<rparr>)))"

definition clear_threadpool_worker_for_thread :: "probe_env \<Rightarrow> u32 \<Rightarrow> bpf_state \<Rightarrow> bpf_state" where
  "clear_threadpool_worker_for_thread e tid s =
     (let s1 = (case bm_get (THREADPOOL_WORKER_CTX s) tid of
                  Some entry \<Rightarrow> clear_threadpool_worker_ctx e tid entry s | None \<Rightarrow> s)
      in s1\<lparr>THREADPOOL_WORKER_FRAME := bm_remove tid (THREADPOOL_WORKER_FRAME s1),
            THREAD_CURRENT_FRAME := bm_remove tid (THREAD_CURRENT_FRAME s1),
            THREAD_TSTATE := bm_remove tid (THREAD_TSTATE s1)\<rparr>)"

definition finalize_worker_run_for_object :: "probe_env \<Rightarrow> u64 \<Rightarrow> u64 \<Rightarrow> u32 \<Rightarrow> bpf_state \<Rightarrow> bpf_state" where
  "finalize_worker_run_for_object e obj_ptr ctx_id tool s =
     (let key = py_object_key e obj_ptr
      in if obj_ptr = 0 then s
         else case bm_get (WORKER_RUN_CARRIER s) key of
                None \<Rightarrow> s
              | Some worker_tid \<Rightarrow>
                  let s1 = s\<lparr>WORKER_RUN_CARRIER := bm_remove key (WORKER_RUN_CARRIER s)\<rparr>;
                      s2 = snd (worker_stack_remove_for_object worker_tid obj_ptr s1)
                  in emit_py_event_carrier_for_tid e EVENT_WORKER_UNBIND ctx_id tool obj_ptr worker_tid s2)"

definition clear_worker_run_slot :: "probe_env \<Rightarrow> u32 \<Rightarrow> nat \<Rightarrow> bpf_state \<Rightarrow> bpf_state" where
  "clear_worker_run_slot e tid k s =
     (let key = worker_stack_key tid k;
          s1 = (case bm_get (WORKER_RUN_STACK s) key of
                  None \<Rightarrow> s
                | Some entry \<Rightarrow>
                    let obj_key = py_object_key e (wr_self_obj entry)
                    in if bm_get (WORKER_RUN_CARRIER s) obj_key = None then s
                       else
                         let sa = (case carrier_get (wr_kind entry = CODE_KIND_WORKITEM_RUN) obj_key s of
                                     Some ctx_id \<Rightarrow>
                                       emit_py_event_carrier_for_tid e EVENT_WORKER_UNBIND ctx_id
                                         (tool_id_of s ctx_id) (wr_self_obj entry) tid s
                                   | None \<Rightarrow> s)
                         in sa\<lparr>WORKER_RUN_CARRIER := bm_remove obj_key (WORKER_RUN_CARRIER sa)\<rparr>)
      in s1\<lparr>WORKER_RUN_STACK := bm_remove key (WORKER_RUN_STACK s1)\<rparr>)"

definition clear_worker_runs_for_thread :: "probe_env \<Rightarrow> u32 \<Rightarrow> bpf_state \<Rightarrow> bpf_state" where
  "clear_worker_runs_for_thread e tid s =
     (let s1 = fold (clear_worker_run_slot e tid) [0..<min (worker_depth tid s) 64] s
      in s1\<lparr>WORKER_RUN_DEPTH := bm_remove tid (WORKER_RUN_DEPTH s1)\<rparr>)"

definition find_mapped_work_item_in_frame :: "probe_env \<Rightarrow> bpf_state \<Rightarrow> u64 \<Rightarrow> u64 option" where
  "find_mapped_work_item_in_frame e s frame_ptr =
     (case scan MAX_WORKITEM_LOCAL_SCAN_SLOTS MAX_WORKITEM_LOCAL_SCAN_SLOTS
             (\<lambda>slot. case read_frame_local e s frame_ptr slot of
                       Some obj \<Rightarrow> bm_get (WORKITEM_CTX s) (py_object_key e obj) \<noteq> None
                     | None \<Rightarrow> False) of
        Some slot \<Rightarrow> read_frame_local e s frame_ptr slot
      | None \<Rightarrow> None)"

text \<open>The work item a frame of the chain belongs to, if it is one of the two frame kinds that hold one.\<close>

definition work_item_of_frame :: "probe_env \<Rightarrow> u8 \<Rightarrow> bpf_state \<Rightarrow> u64 \<Rightarrow> u64 option" where
  "work_item_of_frame e kind s frame_ptr =
     (if kind = CODE_KIND_WORKITEM_RUN
      then (case read_self_from_frame e s frame_ptr of
              Some obj \<Rightarrow>
                if bm_get (WORKITEM_CTX s) (py_object_key e obj) \<noteq> None then Some obj
                else find_mapped_work_item_in_frame e s frame_ptr
            | None \<Rightarrow> find_mapped_work_item_in_frame e s frame_ptr)
      else if kind = CODE_KIND_THREADPOOL_WORKER then find_mapped_work_item_in_frame e s frame_ptr
      else None)"

fun chain_loop :: "probe_env \<Rightarrow> u64 \<Rightarrow> nat \<Rightarrow> bpf_state \<Rightarrow> (u64 \<times> u64) option \<times> bpf_state" where
  "chain_loop e frame_ptr 0 s = (None, s)"
| "chain_loop e frame_ptr (Suc n) s =
     (if frame_ptr = 0 then (None, s)
      else let (kind, s1) = worker_kind_for_frame e (cur_tgid e) frame_ptr s
           in case work_item_of_frame e kind s1 frame_ptr of
                Some obj \<Rightarrow> (Some (obj, frame_ptr), s1)
              | None \<Rightarrow> chain_loop e (worker_read_parent_ptr e s1 frame_ptr) n s1)"

definition find_mapped_work_item_in_current_chain ::
  "probe_env \<Rightarrow> u32 \<Rightarrow> bpf_state \<Rightarrow> (u64 \<times> u64) option \<times> bpf_state" where
  "find_mapped_work_item_in_current_chain e tid s =
     (case (case read_tstate_current_frame e tid s of
              Some frame \<Rightarrow> Some frame | None \<Rightarrow> bm_get (THREAD_CURRENT_FRAME s) tid) of
        None \<Rightarrow> (None, s)
      | Some frame_ptr \<Rightarrow> chain_loop e frame_ptr MAX_WORKER_FRAME_CHAIN_DEPTH s)"

definition bind_new_worker_ctx :: "probe_env \<Rightarrow> u32 \<Rightarrow> u64 \<Rightarrow> u64 \<Rightarrow> bpf_state \<Rightarrow> bpf_state" where
  "bind_new_worker_ctx e tid work_item frame_ptr s =
     (let work_key = py_object_key e work_item
      in if work_item = 0 then s
         else case bm_get (WORKITEM_CTX s) work_key of
                None \<Rightarrow> s
              | Some ctx_id \<Rightarrow>
                  if bm_get (TOOL_CTX s) ctx_id = None then s
                  else
                    let (active, s1) = get_active_ctx tid s
                    in if active = Some ctx_id then s1
                       else
                         let prev_ctx = (case active of Some c \<Rightarrow> c | None \<Rightarrow> 0);
                             s2 = s1\<lparr>THREADPOOL_WORKER_CTX :=
                                       bm_insert tid \<lparr>wl_ctx_id = ctx_id, wl_work_item = work_item,
                                         wl_frame_ptr = frame_ptr, wl_prev_ctx = prev_ctx\<rparr>
                                         (THREADPOOL_WORKER_CTX s1),
                                     THREADPOOL_WORKITEM_THREAD :=
                                       bm_insert work_key tid (THREADPOOL_WORKITEM_THREAD s1)\<rparr>
                         in carrier_inc ctx_id (set_active tid ctx_id s2))"

definition bind_threadpool_worker_context :: "probe_env \<Rightarrow> u32 \<Rightarrow> u64 \<Rightarrow> u64 \<Rightarrow> bpf_state \<Rightarrow> bpf_state" where
  "bind_threadpool_worker_context e tid work_item frame_ptr s =
     (case bm_get (THREADPOOL_WORKER_CTX s) tid of
        None \<Rightarrow> bind_new_worker_ctx e tid work_item frame_ptr s
      | Some existing \<Rightarrow>
          if work_item \<noteq> 0 \<and> work_item = wl_work_item existing \<and>
             bm_get (TOOL_CTX s) (wl_ctx_id existing) \<noteq> None
          then let (active, s1) = get_active_ctx tid s
               in if active \<noteq> Some (wl_ctx_id existing) then set_active tid (wl_ctx_id existing) s1 else s1
          else bind_new_worker_ctx e tid work_item frame_ptr (clear_threadpool_worker_ctx e tid existing s))"

definition refresh_threadpool_worker_context :: "probe_env \<Rightarrow> u32 \<Rightarrow> bpf_state \<Rightarrow> bpf_state" where
  "refresh_threadpool_worker_context e tid s =
     (let (found, s1) = find_mapped_work_item_in_current_chain e tid s
      in case found of
           Some (work_item, frame_ptr) \<Rightarrow> bind_threadpool_worker_context e tid work_item frame_ptr s1
         | None \<Rightarrow>
             (case bm_get (THREADPOOL_WORKER_FRAME s1) tid of
                Some frame_ptr \<Rightarrow>
                  if frame_ptr \<noteq> 0
                  then bind_threadpool_worker_context e tid
                         (case find_mapped_work_item_in_frame e s1 frame_ptr of Some w \<Rightarrow> w | None \<Rightarrow> 0)
                         frame_ptr s1
                  else bind_threadpool_worker_context e tid 0 0 s1
              | None \<Rightarrow> bind_threadpool_worker_context e tid 0 0 s1))"

section \<open>Running a carrier\<close>

definition start_worker_run ::
  "probe_env \<Rightarrow> u32 \<Rightarrow> u64 \<Rightarrow> u8 \<Rightarrow> u64 \<Rightarrow> u64 \<Rightarrow> u64 \<Rightarrow> bpf_state \<Rightarrow> bpf_state" where
  "start_worker_run e tid frame_ptr kind self_obj ctx_id prev_ctx s =
     (let self_key = py_object_key e self_obj;
          entry = \<lparr>wr_kind = kind, wr_frame_ptr = frame_ptr,
                   wr_parent_ptr = worker_read_parent_ptr e s frame_ptr, wr_self_obj = self_obj,
                   wr_prev_ctx = prev_ctx\<rparr>;
          s1 = set_active tid ctx_id (worker_stack_push tid entry s);
          s2 = (if kind = CODE_KIND_THREAD_RUN
                then s1\<lparr>PYTHREAD_OBJ_THREAD := bm_insert self_key tid (PYTHREAD_OBJ_THREAD s1)\<rparr>
                else s1);
          s3 = emit_py_event_carrier e EVENT_WORKER_BIND ctx_id (tool_id_of s2 ctx_id) self_obj s2
      in s3\<lparr>WORKER_RUN_CARRIER := bm_insert self_key tid (WORKER_RUN_CARRIER s3)\<rparr>)"

definition handle_run_entry :: "probe_env \<Rightarrow> u32 \<Rightarrow> u64 \<Rightarrow> u8 \<Rightarrow> bpf_state \<Rightarrow> bpf_state" where
  "handle_run_entry e tid frame_ptr kind s =
     (case read_self_from_frame e s frame_ptr of
        None \<Rightarrow> s
      | Some self_obj \<Rightarrow>
          (case carrier_get (kind = CODE_KIND_WORKITEM_RUN) (py_object_key e self_obj) s of
             None \<Rightarrow> emit_py_event_carrier e EVENT_AUDIT_UNATTRIBUTED 0 0 self_obj s
           | Some ctx_id \<Rightarrow>
               let (active, s1) = get_active_ctx tid s;
                   inherited = (bm_get (FORK_CTX s1) tid = Some ctx_id);
                   s2 = (if inherited
                         then carrier_dec e ctx_id (s1\<lparr>FORK_CTX := bm_remove tid (FORK_CTX s1)\<rparr>)
                         else s1);
                   prev_ctx = (if inherited then 0 else case active of Some c \<Rightarrow> c | None \<Rightarrow> 0);
                   again = (case worker_stack_peek tid s2 of
                              Some ex \<Rightarrow> wr_kind ex = kind \<and> wr_frame_ptr ex = frame_ptr \<and>
                                         wr_self_obj ex = self_obj
                            | None \<Rightarrow> False)
               in if again
                  then let (active', s3) = get_active_ctx tid s2
                       in if active' \<noteq> Some ctx_id then set_active tid ctx_id s3 else s3
                  else start_worker_run e tid frame_ptr kind self_obj ctx_id prev_ctx s2))"

definition dispatch_exit_for_parent :: "probe_env \<Rightarrow> u32 \<Rightarrow> u64 \<Rightarrow> bpf_state \<Rightarrow> bool \<times> bpf_state" where
  "dispatch_exit_for_parent e tid parent_ptr s =
     (case worker_stack_pop_for_parent tid parent_ptr s of
        (None, s1) \<Rightarrow> (False, s1)
      | (Some entry, s1) \<Rightarrow>
          let work = (wr_kind entry = CODE_KIND_WORKITEM_RUN);
              self_key = py_object_key e (wr_self_obj entry);
              s2 = (case carrier_get work self_key s1 of
                      None \<Rightarrow> s1
                    | Some ctx_id \<Rightarrow>
                        let tool = tool_id_of s1 ctx_id;
                            sa = emit_py_event_carrier e EVENT_WORKER_UNBIND ctx_id tool (wr_self_obj entry) s1;
                            sb = sa\<lparr>WORKER_RUN_CARRIER := bm_remove self_key (WORKER_RUN_CARRIER sa)\<rparr>;
                            sc = emit_py_event_carrier e EVENT_WORKER_CARRIER_UNBIND ctx_id tool
                                   (wr_self_obj entry) sb;
                            sd = (if wr_kind entry = CODE_KIND_THREAD_RUN
                                  then sc\<lparr>PYTHREAD_OBJ_THREAD := bm_remove self_key (PYTHREAD_OBJ_THREAD sc)\<rparr>
                                  else sc)
                        in carrier_dec e ctx_id (carrier_del work self_key sd))
          in (True, if wr_prev_ctx entry \<noteq> 0 then set_active tid (wr_prev_ctx entry) s2
                    else clear_active tid s2))"

section \<open>The probe handlers\<close>

definition dispatch_entry :: "probe_env \<Rightarrow> u8 \<Rightarrow> u32 \<Rightarrow> u64 \<Rightarrow> bpf_state \<Rightarrow> bpf_state" where
  "dispatch_entry e kind tid frame_ptr s =
     (if kind = CODE_KIND_WORKITEM_CTOR then handle_ctor_entry e tid frame_ptr CODE_KIND_WORKITEM_CTOR s
      else if kind = CODE_KIND_THREAD_CTOR then handle_ctor_entry e tid frame_ptr CODE_KIND_THREAD_CTOR s
      else if kind = CODE_KIND_WORKITEM_RUN then handle_run_entry e tid frame_ptr CODE_KIND_WORKITEM_RUN s
      else if kind = CODE_KIND_THREAD_RUN then handle_run_entry e tid frame_ptr CODE_KIND_THREAD_RUN s
      else if kind = CODE_KIND_THREADPOOL_WORKER then handle_threadpool_worker_entry tid frame_ptr s
      else s)"

definition handle_worker_frame_for_ptr :: "probe_env \<Rightarrow> u64 \<Rightarrow> bpf_state \<Rightarrow> bpf_state" where
  "handle_worker_frame_for_ptr e frame_ptr s =
     (if bm_get (PROTECTED_TGIDS s) (cur_tgid e) = None then s
      else
        let tid = cur_tid e; s1 = remember_tstate e tid False s
        in if frame_ptr = 0 then s1
           else
             let s2 = s1\<lparr>THREAD_CURRENT_FRAME := bm_insert tid frame_ptr (THREAD_CURRENT_FRAME s1)\<rparr>;
                 (kind, s3) = worker_kind_for_frame e (cur_tgid e) frame_ptr s2
             in if \<not> is_worker_kind kind then s3 else dispatch_entry e kind tid frame_ptr s3)"

text \<open>The two handlers that take the frame from a register; an unreadable register is an error.\<close>

definition worker_handle_frame_entry :: "probe_env \<Rightarrow> bpf_state \<Rightarrow> bool \<times> bpf_state" where
  "worker_handle_frame_entry e s =
     (case read_frame_from_ctx e s of
        None \<Rightarrow> (False, s) | Some frame_ptr \<Rightarrow> (True, handle_worker_frame_for_ptr e frame_ptr s))"

definition worker_handle_frame_resume :: "probe_env \<Rightarrow> bpf_state \<Rightarrow> bool \<times> bpf_state" where
  "worker_handle_frame_resume e s =
     (case read_frame_from_ctx e s of
        None \<Rightarrow> (False, s) | Some frame_ptr \<Rightarrow> (True, handle_worker_frame_for_ptr e frame_ptr s))"

definition worker_handle_frame_func_entry :: "probe_env \<Rightarrow> bpf_state \<Rightarrow> bool \<times> bpf_state" where
  "worker_handle_frame_func_entry e s =
     (let s1 = remember_tstate e (cur_tid e) True s
      in case arg e 1 of
           None \<Rightarrow> (False, s1) | Some frame_ptr \<Rightarrow> (True, handle_worker_frame_for_ptr e frame_ptr s1))"

section \<open>Invariants\<close>

lemma worker_maps_frame [frame_simps, simp, ok_intros]:
  "policy_view (s\<lparr>THREAD_TSTATE := m1\<rparr>) = policy_view s" "state_ok s \<Longrightarrow> sized 4096 m1 \<Longrightarrow> state_ok (s\<lparr>THREAD_TSTATE := m1\<rparr>)"
  "policy_view (s\<lparr>THREADPOOL_WORKER_FRAME := m2\<rparr>) = policy_view s"
  "state_ok s \<Longrightarrow> sized 4096 m2 \<Longrightarrow> state_ok (s\<lparr>THREADPOOL_WORKER_FRAME := m2\<rparr>)"
  "policy_view (s\<lparr>THREAD_CURRENT_FRAME := m3\<rparr>) = policy_view s"
  "state_ok s \<Longrightarrow> sized 4096 m3 \<Longrightarrow> state_ok (s\<lparr>THREAD_CURRENT_FRAME := m3\<rparr>)"
  "policy_view (s\<lparr>THREADPOOL_WORKER_CTX := m4\<rparr>) = policy_view s"
  "state_ok s \<Longrightarrow> sized 4096 m4 \<Longrightarrow> state_ok (s\<lparr>THREADPOOL_WORKER_CTX := m4\<rparr>)"
  "policy_view (s\<lparr>THREADPOOL_WORKITEM_THREAD := m5\<rparr>) = policy_view s"
  "state_ok s \<Longrightarrow> sized 4096 m5 \<Longrightarrow> state_ok (s\<lparr>THREADPOOL_WORKITEM_THREAD := m5\<rparr>)"
  "policy_view (s\<lparr>WORKER_RUN_CARRIER := m5'\<rparr>) = policy_view s"
  "state_ok s \<Longrightarrow> sized 4096 m5' \<Longrightarrow> state_ok (s\<lparr>WORKER_RUN_CARRIER := m5'\<rparr>)"
  "policy_view (s\<lparr>PYTHREAD_OBJ_THREAD := m6\<rparr>) = policy_view s"
  "state_ok s \<Longrightarrow> sized 1024 m6 \<Longrightarrow> state_ok (s\<lparr>PYTHREAD_OBJ_THREAD := m6\<rparr>)"
  "policy_view (s\<lparr>PENDING_WORKER_SPAWN := m7\<rparr>) = policy_view s"
  "state_ok s \<Longrightarrow> sized 4096 m7 \<Longrightarrow> state_ok (s\<lparr>PENDING_WORKER_SPAWN := m7\<rparr>)"
  "policy_view (s\<lparr>FORK_CTX := m8\<rparr>) = policy_view s" "state_ok s \<Longrightarrow> sized 4096 m8 \<Longrightarrow> state_ok (s\<lparr>FORK_CTX := m8\<rparr>)"
  "policy_view (s\<lparr>WORKER_RUN_STACK := m9\<rparr>) = policy_view s"
  "state_ok s \<Longrightarrow> sized 4096 m9 \<Longrightarrow> state_ok (s\<lparr>WORKER_RUN_STACK := m9\<rparr>)"
  "policy_view (s\<lparr>WORKER_RUN_DEPTH := m10\<rparr>) = policy_view s"
  "policy_view (carrier_put w k c s) = policy_view s" "state_ok s \<Longrightarrow> state_ok (carrier_put w k c s)"
  "policy_view (carrier_del w k s) = policy_view s" "state_ok s \<Longrightarrow> state_ok (carrier_del w k s)"
  by (simp_all add: policy_view_def state_ok_def carrier_put_def carrier_del_def)

lemma remember_tstate_frame [frame_simps, simp, ok_intros]:
  "policy_view (remember_tstate e t b s) = policy_view s" "state_ok s \<Longrightarrow> state_ok (remember_tstate e t b s)"
  by (auto simp: remember_tstate_def split: option.split)

lemma worker_kind_frame [frame_simps, simp, ok_intros]:
  "policy_view (snd (worker_kind_for_frame e p f s)) = policy_view s"
  "state_ok s \<Longrightarrow> state_ok (snd (worker_kind_for_frame e p f s))"
  by (auto simp: worker_kind_for_frame_def Let_def split: option.split)

lemma worker_depth_upd_ok:
  "state_ok s \<Longrightarrow> depth_ok 64 m \<Longrightarrow> sized 1024 m \<Longrightarrow> state_ok (s\<lparr>WORKER_RUN_DEPTH := m\<rparr>)"
  by (simp add: state_ok_def)

lemma sized_worker_shift [simp, ok_intros]: "sized k m \<Longrightarrow> sized k (worker_shift t d i n m)"
  by (induction n arbitrary: i m) (simp_all add: Let_def split: option.split)

lemma worker_stack_policy [frame_simps, simp]:
  "policy_view (worker_stack_push t en s) = policy_view s"
  "policy_view (snd (worker_stack_remove_at t i d s)) = policy_view s"
  "policy_view (snd (worker_stack_remove_top2 P t s)) = policy_view s"
  by (simp_all add: worker_stack_push_def worker_stack_remove_at_def worker_stack_remove_top2_def Let_def)

lemma worker_stack_push_ok [ok_intros]: "state_ok s \<Longrightarrow> state_ok (worker_stack_push t en s)"
  by (auto simp: worker_stack_push_def Let_def state_ok_def intro!: depth_ok_push)

lemma worker_stack_remove_at_ok:
  assumes "state_ok s" "bm_get (WORKER_RUN_DEPTH s) t = Some d"
  shows "state_ok (snd (worker_stack_remove_at t i (unat d) s))"
proof -
  have "depth_ok 64 (WORKER_RUN_DEPTH s)" using assms(1) by (simp add: state_ok_def)
  note d = depth_ok_pop [OF this assms(2), of t] depth_ok_remove [OF this, of t]
  show ?thesis using assms(1) d
    by (auto simp: worker_stack_remove_at_def Let_def not_le intro!: worker_depth_upd_ok)
qed

lemma worker_stack_remove_top2_ok [ok_intros]:
  assumes "state_ok s"
  shows "state_ok (snd (worker_stack_remove_top2 P t s))"
proof (cases "bm_get (WORKER_RUN_DEPTH s) t")
  case None
  with assms show ?thesis by (simp add: worker_stack_remove_top2_def worker_depth_def)
next
  case (Some d)
  with assms worker_stack_remove_at_ok [OF assms Some] show ?thesis
    by (simp add: worker_stack_remove_top2_def worker_depth_def Let_def)
qed

lemmas worker_pop_defs = worker_stack_pop_for_parent_def worker_stack_remove_for_object_def

lemma bind_carrier_frame [frame_simps, simp]:
  "policy_view (bind_carrier e t k p c o' s) = policy_view s"
  by (simp add: bind_carrier_def Let_def)

lemma bind_carrier_ok [ok_intros]: "state_ok s \<Longrightarrow> state_ok (bind_carrier e t k p c o' s)"
  by (auto simp: bind_carrier_def Let_def intro!: ok_intros)

lemma handle_ctor_entry_policy [frame_simps, simp]:
  "policy_view (handle_ctor_entry e t f k s) = policy_view s"
  by (auto simp: handle_ctor_entry_def Let_def case_prod_beta split: option.split)

lemma handle_ctor_entry_ok [ok_intros]: "state_ok s \<Longrightarrow> state_ok (handle_ctor_entry e t f k s)"
  by (auto simp: handle_ctor_entry_def Let_def case_prod_beta intro!: ok_intros split: option.split)

lemma clear_worker_ctx_policy [frame_simps, simp]:
  "policy_view (clear_threadpool_worker_ctx e t en s) = policy_view s"
  by (simp add: clear_threadpool_worker_ctx_def Let_def case_prod_beta)

lemma clear_worker_ctx_ok [ok_intros]: "state_ok s \<Longrightarrow> state_ok (clear_threadpool_worker_ctx e t en s)"
  by (auto simp: clear_threadpool_worker_ctx_def Let_def case_prod_beta intro!: ok_intros)

lemma clear_worker_policy [frame_simps, simp]:
  "policy_view (clear_threadpool_worker_for_object e t o' s) = policy_view s"
  "policy_view (clear_threadpool_worker_for_thread e t s) = policy_view s"
  by (auto simp: clear_threadpool_worker_for_object_def clear_threadpool_worker_for_thread_def Let_def
      split: option.split)

lemma clear_worker_ok [ok_intros]:
  "state_ok s \<Longrightarrow> state_ok (clear_threadpool_worker_for_object e t o' s)"
  "state_ok s \<Longrightarrow> state_ok (clear_threadpool_worker_for_thread e t s)"
  by (auto simp: clear_threadpool_worker_for_object_def clear_threadpool_worker_for_thread_def Let_def
      intro!: ok_intros split: option.split)

lemma finalize_worker_policy [frame_simps, simp]:
  "policy_view (finalize_worker_run_for_object e p c t s) = policy_view s"
  by (auto simp: finalize_worker_run_for_object_def worker_pop_defs Let_def split: option.split)

lemma finalize_worker_ok [ok_intros]: "state_ok s \<Longrightarrow> state_ok (finalize_worker_run_for_object e p c t s)"
  by (auto simp: finalize_worker_run_for_object_def worker_pop_defs Let_def intro!: ok_intros
      split: option.split)

lemma clear_run_slot_frame [frame_simps, simp, ok_intros]:
  "policy_view (clear_worker_run_slot e t k s) = policy_view s"
  "state_ok s \<Longrightarrow> state_ok (clear_worker_run_slot e t k s)"
  by (auto simp: clear_worker_run_slot_def Let_def split: option.split)

lemma clear_runs_policy [frame_simps, simp]:
  "policy_view (clear_worker_runs_for_thread e t s) = policy_view s"
  by (simp add: clear_worker_runs_for_thread_def Let_def fold_view)

lemma clear_runs_ok [ok_intros]:
  assumes "state_ok s" shows "state_ok (clear_worker_runs_for_thread e t s)"
proof -
  have "state_ok (fold (clear_worker_run_slot e t) [0..<min (worker_depth t s) 64] s)"
    by (rule fold_keeps [where P = state_ok]) (use assms in auto)
  then show ?thesis by (simp add: clear_worker_runs_for_thread_def Let_def state_ok_def)
qed

lemma chain_loop_frame [frame_simps, simp, ok_intros]:
  "policy_view (snd (chain_loop e f n s)) = policy_view s" "state_ok s \<Longrightarrow> state_ok (snd (chain_loop e f n s))"
  by (induction n arbitrary: f s) (simp_all add: case_prod_beta Let_def split: option.split)

lemma find_chain_frame [frame_simps, simp, ok_intros]:
  "policy_view (snd (find_mapped_work_item_in_current_chain e t s)) = policy_view s"
  "state_ok s \<Longrightarrow> state_ok (snd (find_mapped_work_item_in_current_chain e t s))"
  by (auto simp: find_mapped_work_item_in_current_chain_def split: option.split)

lemma bind_new_policy [frame_simps, simp]: "policy_view (bind_new_worker_ctx e t w f s) = policy_view s"
  by (auto simp: bind_new_worker_ctx_def Let_def case_prod_beta split: option.split)

lemma bind_new_ok [ok_intros]: "state_ok s \<Longrightarrow> state_ok (bind_new_worker_ctx e t w f s)"
  by (auto simp: bind_new_worker_ctx_def Let_def case_prod_beta intro!: ok_intros split: option.split)

lemma bind_threadpool_policy [frame_simps, simp]:
  "policy_view (bind_threadpool_worker_context e t w f s) = policy_view s"
  by (auto simp: bind_threadpool_worker_context_def Let_def case_prod_beta split: option.split)

lemma bind_threadpool_ok [ok_intros]: "state_ok s \<Longrightarrow> state_ok (bind_threadpool_worker_context e t w f s)"
  by (auto simp: bind_threadpool_worker_context_def Let_def case_prod_beta intro!: ok_intros
      split: option.split)

lemma refresh_policy [frame_simps, simp]:
  "policy_view (refresh_threadpool_worker_context e t s) = policy_view s"
  by (auto simp: refresh_threadpool_worker_context_def Let_def case_prod_beta split: option.split)

lemma refresh_ok [ok_intros]: "state_ok s \<Longrightarrow> state_ok (refresh_threadpool_worker_context e t s)"
  by (auto simp: refresh_threadpool_worker_context_def Let_def case_prod_beta intro!: ok_intros
      split: option.split)

lemma start_run_policy [frame_simps, simp]: "policy_view (start_worker_run e t f k o' c p s) = policy_view s"
  by (simp add: start_worker_run_def Let_def)

lemma start_run_ok [ok_intros]: "state_ok s \<Longrightarrow> state_ok (start_worker_run e t f k o' c p s)"
  by (auto simp: start_worker_run_def Let_def intro!: ok_intros)

lemma run_entry_policy [frame_simps, simp]: "policy_view (handle_run_entry e t f k s) = policy_view s"
  by (auto simp: handle_run_entry_def Let_def case_prod_beta split: option.split)

lemma run_entry_ok [ok_intros]: "state_ok s \<Longrightarrow> state_ok (handle_run_entry e t f k s)"
  by (auto simp: handle_run_entry_def Let_def case_prod_beta intro!: ok_intros split: option.split)

lemma dispatch_exit_policy [frame_simps, simp]:
  "policy_view (snd (dispatch_exit_for_parent e t p s)) = policy_view s"
proof -
  obtain en s1 where pop: "worker_stack_pop_for_parent t p s = (en, s1)" by fastforce
  have "policy_view (snd (worker_stack_pop_for_parent t p s)) = policy_view s"
    by (simp add: worker_pop_defs)
  then have "policy_view s1 = policy_view s" by (simp add: pop)
  then show ?thesis
    by (cases en) (simp_all add: dispatch_exit_for_parent_def pop Let_def split: option.split)
qed

lemma dispatch_exit_ok [ok_intros]:
  assumes "state_ok s" shows "state_ok (snd (dispatch_exit_for_parent e t p s))"
proof -
  obtain en s1 where pop: "worker_stack_pop_for_parent t p s = (en, s1)" by fastforce
  have "state_ok (snd (worker_stack_pop_for_parent t p s))"
    using worker_stack_remove_top2_ok [OF assms] by (simp add: worker_pop_defs)
  then have "state_ok s1" by (simp add: pop)
  then show ?thesis
    by (cases en) (auto simp: dispatch_exit_for_parent_def pop Let_def intro!: ok_intros split: option.split)
qed

lemma dispatch_entry_policy [frame_simps, simp]: "policy_view (dispatch_entry e k t f s) = policy_view s"
  by (simp add: dispatch_entry_def handle_threadpool_worker_entry_def)

lemma dispatch_entry_ok [ok_intros]: "state_ok s \<Longrightarrow> state_ok (dispatch_entry e k t f s)"
  by (auto simp: dispatch_entry_def handle_threadpool_worker_entry_def intro!: ok_intros)

lemma handle_worker_frame_policy [frame_simps, simp]:
  "policy_view (handle_worker_frame_for_ptr e f s) = policy_view s"
  by (simp add: handle_worker_frame_for_ptr_def Let_def case_prod_beta)

lemma handle_worker_frame_ok [ok_intros]: "state_ok s \<Longrightarrow> state_ok (handle_worker_frame_for_ptr e f s)"
  by (auto simp: handle_worker_frame_for_ptr_def Let_def case_prod_beta intro!: ok_intros)

lemma worker_handlers_policy [frame_simps, simp]:
  "policy_view (snd (worker_handle_frame_entry e s)) = policy_view s"
  "policy_view (snd (worker_handle_frame_resume e s)) = policy_view s"
  "policy_view (snd (worker_handle_frame_func_entry e s)) = policy_view s"
  by (auto simp: worker_handle_frame_entry_def worker_handle_frame_resume_def
      worker_handle_frame_func_entry_def Let_def split: option.split)

lemma worker_handlers_ok [ok_intros]:
  "state_ok s \<Longrightarrow> state_ok (snd (worker_handle_frame_entry e s))"
  "state_ok s \<Longrightarrow> state_ok (snd (worker_handle_frame_resume e s))"
  "state_ok s \<Longrightarrow> state_ok (snd (worker_handle_frame_func_entry e s))"
  by (auto simp: worker_handle_frame_entry_def worker_handle_frame_resume_def
      worker_handle_frame_func_entry_def Let_def intro!: ok_intros split: option.split)

section \<open>A worker run restores what it found\<close>

lemma worker_push_pop:
  assumes "worker_depth tid s < 64" "bm_room (WORKER_RUN_DEPTH s) tid"
    and "bm_room (WORKER_RUN_STACK s) (worker_stack_key tid (worker_depth tid s))"
    and "wr_parent_ptr en = parent" "parent \<noteq> 0"
    and t: "WORKER_RUN_STACK t = WORKER_RUN_STACK (worker_stack_push tid en s)"
      "WORKER_RUN_DEPTH t = WORKER_RUN_DEPTH (worker_stack_push tid en s)"
  shows "fst (worker_stack_pop_for_parent tid parent t) = Some en"
    and "worker_depth tid (snd (worker_stack_pop_for_parent tid parent t)) = worker_depth tid s"
    and "\<exists>a b. snd (worker_stack_pop_for_parent tid parent t) = t\<lparr>WORKER_RUN_STACK := a, WORKER_RUN_DEPTH := b\<rparr>"
proof -
  let ?d = "worker_depth tid s"
  have "unat (of_nat (?d + 1) :: u32) = Suc ?d"
    using assms(1) unat_of_nat [where 'a = 32, of "Suc ?d"] by simp
  then have d: "worker_depth tid t = Suc ?d"
    using assms(1) by (simp add: worker_depth_def [of _ t] t worker_stack_push_def Let_def bm_get_insert [OF assms(2)]
        del: of_nat_add of_nat_Suc)
  have top: "bm_get (WORKER_RUN_STACK t) (worker_stack_key tid ?d) = Some en"
    using assms(1) by (simp add: t worker_stack_push_def Let_def bm_get_insert [OF assms(3)])
  have sh: "worker_shift tid (Suc ?d) ?d n m = m" for n m by (cases n) simp_all
  have pop: "worker_stack_pop_for_parent tid parent t = worker_stack_remove_at tid ?d (Suc ?d) t"
    using assms(4,5) by (simp add: worker_stack_pop_for_parent_def worker_stack_remove_top2_def d top Let_def)
  show "fst (worker_stack_pop_for_parent tid parent t) = Some en"
    "\<exists>a b. snd (worker_stack_pop_for_parent tid parent t) = t\<lparr>WORKER_RUN_STACK := a, WORKER_RUN_DEPTH := b\<rparr>"
    by (auto simp: pop worker_stack_remove_at_def Let_def top)
  have room: "bm_room (WORKER_RUN_DEPTH t) tid"
    using assms(1,2) by (simp add: t worker_stack_push_def Let_def bm_room_insert_same)
  have "unat (of_nat ?d :: u32) = ?d" using assms(1) by (simp add: unat_of_nat)
  then show "worker_depth tid (snd (worker_stack_pop_for_parent tid parent t)) = ?d"
    by (auto simp: pop worker_stack_remove_at_def Let_def worker_depth_def [of _ "_\<lparr>WORKER_RUN_DEPTH := _\<rparr>"]
        bm_get_insert [OF room])
qed

text \<open>What a run leaves of the state: the fields the exit needs.\<close>

lemma start_worker_run_fields:
  assumes "worker_depth tid s < 64" "bm_room (THREAD_ACTIVE_CTX s) tid"
    and s'_def: "s' = start_worker_run e tid f kind obj c prev s"
  shows "bm_get (THREAD_ACTIVE_CTX s') tid = Some c" "TOOL_CTX s' = TOOL_CTX s"
    "carrier_get w k s' = carrier_get w k s" "bm_room (THREAD_ACTIVE_CTX s') tid"
    "WORKER_RUN_STACK s' = WORKER_RUN_STACK (worker_stack_push tid \<lparr>wr_kind = kind, wr_frame_ptr = f,
       wr_parent_ptr = worker_read_parent_ptr e s f, wr_self_obj = obj, wr_prev_ctx = prev\<rparr> s)"
    "WORKER_RUN_DEPTH s' = WORKER_RUN_DEPTH (worker_stack_push tid \<lparr>wr_kind = kind, wr_frame_ptr = f,
       wr_parent_ptr = worker_read_parent_ptr e s f, wr_self_obj = obj, wr_prev_ctx = prev\<rparr> s)"
  using assms(1)
  by (simp_all add: s'_def start_worker_run_def Let_def emit_py_event_carrier_def carrier_get_def
      worker_stack_push_def set_active_def bm_get_insert assms(2) bm_room_insert_same)

lemma get_active_ctx_fields [simp]:
  "TOOL_CTX (snd (get_active_ctx t s)) = TOOL_CTX s" "FORK_CTX (snd (get_active_ctx t s)) = FORK_CTX s"
  "WORKER_RUN_STACK (snd (get_active_ctx t s)) = WORKER_RUN_STACK s"
  "WORKER_RUN_DEPTH (snd (get_active_ctx t s)) = WORKER_RUN_DEPTH s"
  "PYTHON_OFFSETS (snd (get_active_ctx t s)) = PYTHON_OFFSETS s"
  "WORKITEM_CTX (snd (get_active_ctx t s)) = WORKITEM_CTX s"
  "PYTHREAD_OBJ_CTX (snd (get_active_ctx t s)) = PYTHREAD_OBJ_CTX s"
  "THREAD_ACTIVE_TASK (snd (get_active_ctx t s)) = THREAD_ACTIVE_TASK s"
  "PROTECTED_TGIDS (snd (get_active_ctx t s)) = PROTECTED_TGIDS s"
  "IRONSCOPE_CONFIG (snd (get_active_ctx t s)) = IRONSCOPE_CONFIG s"
  by (auto simp: get_active_ctx_def split: option.split)

lemma carrier_get_active: "carrier_get w k (snd (get_active_ctx t s)) = carrier_get w k s"
  by (simp add: carrier_get_def)

lemma get_active_ctx_room:
  "bm_room (THREAD_ACTIVE_CTX s) tid \<Longrightarrow> bm_wf (THREAD_ACTIVE_CTX s) \<Longrightarrow>
   bm_room (THREAD_ACTIVE_CTX (snd (get_active_ctx tid s))) tid"
  by (auto simp: get_active_ctx_def clear_active_def intro!: bm_room_remove split: option.split)

lemma carrier_dec_cong:
  "TOOL_CTX x = TOOL_CTX y \<Longrightarrow> TOOL_CTX (carrier_dec e c x) = TOOL_CTX (carrier_dec e c y)"
  by (simp add: carrier_dec_def emit_py_event_def Let_def split: option.split)

lemma carrier_del_fields [simp]:
  "TOOL_CTX (carrier_del w k s) = TOOL_CTX s" "carrier_get w k (carrier_del w k s) = None"
  "WORKER_RUN_DEPTH (carrier_del w k s) = WORKER_RUN_DEPTH s"
  "THREAD_ACTIVE_CTX (carrier_del w k s) = THREAD_ACTIVE_CTX s"
  by (simp_all add: carrier_del_def carrier_get_def)

lemma carrier_get_frame [simp]:
  "carrier_get w k (carrier_dec e c s) = carrier_get w k s"
  "carrier_get w k (set_active t c s) = carrier_get w k s"
  "carrier_get w k (clear_active t s) = carrier_get w k s"
  by (simp_all add: carrier_get_def)

lemma dispatch_exit_fields:
  assumes pop: "worker_stack_pop_for_parent tid p s1 = (Some en, t)"
    and cg: "carrier_get (wr_kind en = CODE_KIND_WORKITEM_RUN) (py_object_key e (wr_self_obj en)) t = Some c"
    and room: "bm_room (THREAD_ACTIVE_CTX t) tid"
    and run: "dispatch_exit_for_parent e tid p s1 = (ok, s2)"
  shows "ok" "carrier_get (wr_kind en = CODE_KIND_WORKITEM_RUN) (py_object_key e (wr_self_obj en)) s2 = None"
    "worker_depth tid s2 = worker_depth tid t" "TOOL_CTX s2 = TOOL_CTX (carrier_dec e c t)"
    "bm_get (THREAD_ACTIVE_CTX s2) tid = (if wr_prev_ctx en = 0 then None else Some (wr_prev_ctx en))"
proof -
  let ?k = "py_object_key e (wr_self_obj en)" and ?tool = "tool_id_of t c"
  let ?sa = "emit_py_event_carrier e EVENT_WORKER_UNBIND c ?tool (wr_self_obj en) t"
  let ?sc = "emit_py_event_carrier e EVENT_WORKER_CARRIER_UNBIND c ?tool (wr_self_obj en)
               (?sa\<lparr>WORKER_RUN_CARRIER := bm_remove ?k (WORKER_RUN_CARRIER ?sa)\<rparr>)"
  let ?x = "if wr_kind en = CODE_KIND_THREAD_RUN
            then ?sc\<lparr>PYTHREAD_OBJ_THREAD := bm_remove ?k (PYTHREAD_OBJ_THREAD ?sc)\<rparr> else ?sc"
  let ?y = "carrier_dec e c (carrier_del (wr_kind en = CODE_KIND_WORKITEM_RUN) ?k ?x)"
  have x: "TOOL_CTX ?x = TOOL_CTX t" "WORKER_RUN_DEPTH ?x = WORKER_RUN_DEPTH t"
    "THREAD_ACTIVE_CTX ?x = THREAD_ACTIVE_CTX t" by (simp_all add: emit_py_event_carrier_def)
  have "dispatch_exit_for_parent e tid p s1 =
      (True, if wr_prev_ctx en \<noteq> 0 then set_active tid (wr_prev_ctx en) ?y else clear_active tid ?y)"
    by (simp only: dispatch_exit_for_parent_def pop cg Let_def prod.case option.case)
  with run have s2: "ok" "s2 = (if wr_prev_ctx en \<noteq> 0 then set_active tid (wr_prev_ctx en) ?y else clear_active tid ?y)"
    by simp_all
  show "ok" by (rule s2)
  show "carrier_get (wr_kind en = CODE_KIND_WORKITEM_RUN) ?k s2 = None" by (simp add: s2)
  show "worker_depth tid s2 = worker_depth tid t" using x(2) by (simp add: s2 worker_depth_def)
  show "TOOL_CTX s2 = TOOL_CTX (carrier_dec e c t)"
    using carrier_dec_cong [of "carrier_del (wr_kind en = CODE_KIND_WORKITEM_RUN) ?k ?x" t e c] x(1)
    by (simp add: s2)
  show "bm_get (THREAD_ACTIVE_CTX s2) tid = (if wr_prev_ctx en = 0 then None else Some (wr_prev_ctx en))"
    using room x(3) by (simp add: s2 set_active_def clear_active_def bm_get_insert)
qed


definition worker_env :: probe_env where
  "worker_env = \<lparr>pid_tgid = push_bit 32 5 OR 7, smp_cpu = 1, ktime = 100, reg = (\<lambda>_. Some 0x100),
     arg = (\<lambda>_. None), rd_u64 = (\<lambda>a. if a = 0x148 then Some 0x500 else if a = 0x108 then Some 0x80 else None),
     rd_u32 = (\<lambda>_. None), rd_u8 = (\<lambda>_. None), rd_buf64 = (\<lambda>_. None)\<rparr>"

definition worker_state :: bpf_state where
  "worker_state = rules_state\<lparr>PYTHON_OFFSETS := (replicate 64 0)[5 := 72, 6 := 8],
     WORKITEM_CTX := bm_insert (py_object_key worker_env 0x500) 42 (bm_empty 4096 Hash),
     TOOL_CTX := bm_insert 42 \<lparr>tool_id = 8, generation = 0, carrier_count = 2, flags = 1,
       started_ns = 10, last_seen_ns = 0\<rparr> (TOOL_CTX rules_state)\<rparr>"

lemma worker_state_maps:
  "WORKER_RUN_DEPTH worker_state = bm_empty 1024 Hash" "WORKER_RUN_STACK worker_state = bm_empty 4096 Hash"
  "FORK_CTX worker_state = bm_empty 4096 Hash" "THREAD_ACTIVE_CTX worker_state = bm_empty 4096 Hash"
  "py_off worker_state 5 = Some 72" "py_off worker_state 6 = Some 8"
  "bm_get (WORKITEM_CTX worker_state) (py_object_key worker_env 0x500) = Some 42"
  by (simp_all add: worker_state_def rules_state_def init_state_def py_off_def arr_get_def bm_get_insert
      bm_room_empty)


end
