(* ===== verification/Stack_Refinement.thy ===== *)
theory Stack_Refinement
  imports Ownership
begin

text \<open>
  The context stack of a thread, the context stack of a task and the tool stack of a thread
  against their specification: a list of at most eight elements, a push that appends or reports
  an overflow, and a removal of the first match that leaves every other owner's stack alone.
\<close>

section \<open>The key functions of the source never collide\<close>

interpretation ctx_stk: keyed_stack ctx_stack_key 8
proof
  show "a = b \<and> i = j" if "i < 8" "j < 8" "ctx_stack_key a i = ctx_stack_key b j" for i j a b
    using that shift_key_inj [of 8 i j a b] by (simp add: ctx_stack_key_def)
qed

interpretation tool_stk: keyed_stack tool_stack_key 8
proof
  show "a = b \<and> i = j" if "i < 8" "j < 8" "tool_stack_key a i = tool_stack_key b j" for i j a b
    using that shift_key_inj [of 32 i j a b] by (simp add: tool_stack_key_def)
qed

interpretation task_stk: keyed_stack task_slot 8
proof
  show "a = b \<and> i = j" if "i < 8" "j < 8" "task_slot a i = task_slot b j"
    for i j and a b :: "u32 \<times> u64"
  proof -
    have "(of_nat i :: u32) = of_nat j" using that(3) by (simp add: task_slot_def)
    then have "unat (of_nat i :: u32) = unat (of_nat j :: u32)" by simp
    then have "i = j" using that(1,2) by (simp add: unat_of_nat)
    with that(3) show ?thesis by (simp add: task_slot_def prod_eq_iff)
  qed
qed

section \<open>The list a stack stands for\<close>

definition ctx_stack_is :: "bpf_state \<Rightarrow> u32 \<Rightarrow> u64 list \<Rightarrow> bool" where
  "ctx_stack_is s tid xs \<longleftrightarrow>
     stack_holds (ctx_stack_key tid) 8 (THREAD_CTX_STACK s) xs \<and> ctx_depth tid s = length xs"

definition tool_stack_is :: "bpf_state \<Rightarrow> u32 \<Rightarrow> ToolStackEntry list \<Rightarrow> bool" where
  "tool_stack_is s tid xs \<longleftrightarrow>
     stack_holds (tool_stack_key tid) 8 (TOOL_STACK s) xs \<and> tool_depth tid s = length xs"

definition task_stack_is :: "probe_env \<Rightarrow> bpf_state \<Rightarrow> u64 \<Rightarrow> u64 list \<Rightarrow> bool" where
  "task_stack_is e s task xs \<longleftrightarrow>
     stack_holds (task_stack_key e task) 8 (TASK_CTX_STACK s) xs \<and>
     task_ctx_depth_for e task s = length xs"

definition top_of :: "'a list \<Rightarrow> 'a option" where
  "top_of xs = (if xs = [] then None else Some (last xs))"

lemma stack_holds_len: "stack_holds key b m xs \<Longrightarrow> length xs \<le> b"
  by (simp add: stack_holds_def)

lemma stack_holds_top:
  "stack_holds key b m xs \<Longrightarrow> xs \<noteq> [] \<Longrightarrow> bm_get m (key (length xs - 1)) = Some (last xs)"
  by (simp add: stack_holds_def last_conv_nth)

lemma find_eq_None: "find (\<lambda>x. x = c) xs = None \<longleftrightarrow> c \<notin> set xs"
  by (auto simp: find_None_iff)

lemma depth_insert_other:
  "k' \<noteq> k \<Longrightarrow> bm_kind m = Hash \<Longrightarrow> bm_get (bm_insert k v m) k' = bm_get m k'"
  by (simp add: bm_get_insert_Hash)

lemma emit_event_depths [simp]:
  "ctx_depth b (emit_event ev s) = ctx_depth b s" "tool_depth b (emit_event ev s) = tool_depth b s"
  "task_ctx_depth_for e p (emit_event ev s) = task_ctx_depth_for e p s"
  by (simp_all add: ctx_depth_def tool_depth_def task_ctx_depth_for_def)

section \<open>The context stack of a thread\<close>

lemma ctx_stack_remove_hit:
  assumes st: "ctx_stack_is s tid xs" and wf: "bm_wf (THREAD_CTX_STACK s)" and c: "c \<in> set xs"
  obtains d st' where
    "bm_get (THREAD_CTX_DEPTH s) tid = Some d" "unat d = length xs"
    "stack_holds (ctx_stack_key tid) 8 st' (remove1 c xs)" "bm_wf st'"
    "\<forall>b ys. b \<noteq> tid \<longrightarrow> stack_holds (ctx_stack_key b) 8 (THREAD_CTX_STACK s) ys \<longrightarrow>
       stack_holds (ctx_stack_key b) 8 st' ys"
    "ctx_stack_remove tid c s =
       (if length xs = 1
        then (None, clear_active tid
                (s\<lparr>THREAD_CTX_STACK := st', THREAD_CTX_DEPTH := bm_remove tid (THREAD_CTX_DEPTH s)\<rparr>))
        else (Some (last (remove1 c xs)), set_active tid (last (remove1 c xs))
                (s\<lparr>THREAD_CTX_STACK := st',
                   THREAD_CTX_DEPTH := bm_insert tid (of_nat (length xs - 1)) (THREAD_CTX_DEPTH s)\<rparr>)))"
proof -
  let ?hit = "\<lambda>i. bm_get (THREAD_CTX_STACK s) (ctx_stack_key tid i) = Some c"
  from st have sh: "stack_holds (ctx_stack_key tid) 8 (THREAD_CTX_STACK s) xs"
    and dl: "ctx_depth tid s = length xs" by (simp_all add: ctx_stack_is_def)
  have l8: "length xs \<le> 8" using sh by (rule stack_holds_len)
  have pos: "xs \<noteq> []" using c by auto
  with dl obtain d where d: "bm_get (THREAD_CTX_DEPTH s) tid = Some d" "unat d = length xs"
    by (auto simp: ctx_depth_def split: option.splits)
  have "scan 8 (length xs) ?hit \<noteq> None"
    using ctx_stk.scan_find [OF sh l8, of ?hit "\<lambda>x. x = c"] c find_eq_None [of c xs]
    by (auto split: option.splits)
  then obtain fi where fi: "scan 8 (length xs) ?hit = Some fi" by blast
  note R = ctx_stk.remove_first [OF sh wf l8, of ?hit "\<lambda>x. x = c", OF _ fi, unfolded remove1_by_eq]
  let ?st = "shift_loop (ctx_stack_key tid) (length xs) (Suc fi) 7
               (bm_remove (ctx_stack_key tid fi) (THREAD_CTX_STACK s))"
  have sh': "stack_holds (ctx_stack_key tid) 8 ?st (remove1 c xs)" using R(1) by simp
  have len: "length (remove1 c xs) = length xs - 1" using c by (simp add: length_remove1)
  have top: "bm_get ?st (ctx_stack_key tid (length xs - 1 - 1)) = Some (last (remove1 c xs))"
    if "length xs \<noteq> 1"
  proof -
    have "length (remove1 c xs) \<noteq> 0" using that len pos by (cases xs) auto
    then have "remove1 c xs \<noteq> []" by simp
    from stack_holds_top [OF sh' this] show ?thesis by (simp add: len)
  qed
  have "length xs - 1 = 0 \<longleftrightarrow> length xs = 1" using pos by (cases xs) auto
  then have "ctx_stack_remove tid c s =
       (if length xs = 1
        then (None, clear_active tid
                (s\<lparr>THREAD_CTX_STACK := ?st, THREAD_CTX_DEPTH := bm_remove tid (THREAD_CTX_DEPTH s)\<rparr>))
        else (Some (last (remove1 c xs)), set_active tid (last (remove1 c xs))
                (s\<lparr>THREAD_CTX_STACK := ?st,
                   THREAD_CTX_DEPTH := bm_insert tid (of_nat (length xs - 1)) (THREAD_CTX_DEPTH s)\<rparr>)))"
    using pos top by (simp add: ctx_stack_remove_def d fi Let_def del: One_nat_def)
  moreover have "\<forall>b ys. b \<noteq> tid \<longrightarrow> stack_holds (ctx_stack_key b) 8 (THREAD_CTX_STACK s) ys \<longrightarrow>
      stack_holds (ctx_stack_key b) 8 ?st ys" and "bm_wf ?st" using R(2,6) by simp_all
  ultimately show thesis using that [OF d sh'] by blast
qed

lemma ctx_stack_remove_miss:
  assumes st: "ctx_stack_is s tid xs" and c: "c \<notin> set xs"
  shows "ctx_stack_remove tid c s = (ctx_stack_top tid s, s)"
proof -
  let ?hit = "\<lambda>i. bm_get (THREAD_CTX_STACK s) (ctx_stack_key tid i) = Some c"
  from st have sh: "stack_holds (ctx_stack_key tid) 8 (THREAD_CTX_STACK s) xs"
    and dl: "ctx_depth tid s = length xs" by (simp_all add: ctx_stack_is_def)
  have "scan 8 (length xs) ?hit = None"
    using ctx_stk.scan_find [OF sh stack_holds_len [OF sh], of ?hit "\<lambda>x. x = c"] c find_eq_None [of c xs]
    by (auto split: option.splits)
  then show ?thesis using dl
    by (auto simp: ctx_stack_remove_def ctx_stack_top_def ctx_depth_def unat_eq_0 Let_def split: option.splits)
qed

lemma ctx_stack_push_ok_case:
  "ctx_depth tid s < 8 \<Longrightarrow> ctx_stack_push e tid c s =
     (True, set_active tid c
        (s\<lparr>THREAD_CTX_STACK := bm_insert (ctx_stack_key tid (ctx_depth tid s)) c (THREAD_CTX_STACK s),
           THREAD_CTX_DEPTH := bm_insert tid (of_nat (ctx_depth tid s + 1)) (THREAD_CTX_DEPTH s)\<rparr>))"
  by (simp add: ctx_stack_push_def Let_def)

lemma ctx_stack_push_full:
  "8 \<le> ctx_depth tid s \<Longrightarrow> ctx_stack_push e tid c s =
     (False, emit_py_event_aux e EVENT_AUDIT_STACK_OVERFLOW c 0 (of_nat (ctx_depth tid s)) s)"
  by (simp add: ctx_stack_push_def Let_def)

lemma ctx_depth_push:
  assumes "ctx_depth tid s < 8" "bm_room (THREAD_CTX_DEPTH s) tid"
  shows "ctx_depth b (snd (ctx_stack_push e tid c s)) =
           (if b = tid then Suc (ctx_depth tid s) else ctx_depth b s)"
proof -
  have "unat (of_nat (ctx_depth tid s + 1) :: u8) = Suc (ctx_depth tid s)"
    using assms(1) unat_of_nat [where 'a = 8, of "Suc (ctx_depth tid s)"] by simp
  then show ?thesis
    by (simp add: ctx_stack_push_ok_case [OF assms(1)] ctx_depth_def [of b] bm_get_insert [OF assms(2)]
        del: of_nat_Suc of_nat_add)
qed

lemma ctx_stack_push_holds:
  assumes st: "ctx_stack_is s tid xs" and lt: "length xs < 8"
    and room: "bm_room (THREAD_CTX_STACK s) (ctx_stack_key tid (length xs))"
      "bm_room (THREAD_CTX_DEPTH s) tid"
  shows "fst (ctx_stack_push e tid c s)"
    "ctx_stack_is (snd (ctx_stack_push e tid c s)) tid (xs @ [c])"
    "b \<noteq> tid \<Longrightarrow> ctx_stack_is s b ys \<Longrightarrow> ctx_stack_is (snd (ctx_stack_push e tid c s)) b ys"
proof -
  from st have sh: "stack_holds (ctx_stack_key tid) 8 (THREAD_CTX_STACK s) xs"
    and dl: "ctx_depth tid s = length xs" by (simp_all add: ctx_stack_is_def)
  from lt have lt': "ctx_depth tid s < 8" by (simp add: dl)
  let ?s' = "snd (ctx_stack_push e tid c s)"
  have depth: "ctx_depth b ?s' = (if b = tid then Suc (length xs) else ctx_depth b s)" for b
    using ctx_depth_push [OF lt' room(2)] by (simp add: dl)
  have stack: "THREAD_CTX_STACK ?s' = bm_insert (ctx_stack_key tid (length xs)) c (THREAD_CTX_STACK s)"
    by (simp add: ctx_stack_push_ok_case [OF lt'] dl)
  show "fst (ctx_stack_push e tid c s)" by (simp add: ctx_stack_push_ok_case [OF lt'])
  show "ctx_stack_is ?s' tid (xs @ [c])"
    using ctx_stk.push_holds [OF sh lt room(1)] by (simp add: ctx_stack_is_def stack depth)
  show "ctx_stack_is ?s' b ys" if "b \<noteq> tid" "ctx_stack_is s b ys"
    using that ctx_stk.insert_other [OF _ _ lt room(1)] by (simp add: ctx_stack_is_def stack depth)
qed

text \<open>C12: pushing a context on a thread's stack appends it to the list the stack stands for and
  makes it the thread's active context, as long as fewer than eight are stacked; at eight the
  push fails, reports the overflow and changes nothing else.  The stack of every other thread
  stays as it is.\<close>

theorem ctx_stack_push_refines:
  assumes st: "ctx_stack_is s tid xs"
    and room: "bm_room (THREAD_CTX_STACK s) (ctx_stack_key tid (length xs))"
      "bm_room (THREAD_CTX_DEPTH s) tid" "bm_room (THREAD_ACTIVE_CTX s) tid"
    and run: "ctx_stack_push e tid c s = (ok, s')"
  shows "(if length xs < 8
          then ok \<and> ctx_stack_is s' tid (xs @ [c]) \<and> bm_get (THREAD_ACTIVE_CTX s') tid = Some c
          else \<not> ok \<and> s' = emit_py_event_aux e EVENT_AUDIT_STACK_OVERFLOW c 0 8 s) \<and>
         (\<forall>b ys. b \<noteq> tid \<longrightarrow> ctx_stack_is s b ys \<longrightarrow> ctx_stack_is s' b ys)"
proof (cases "length xs < 8")
  case True
  have "ctx_depth tid s < 8" using st True by (simp add: ctx_stack_is_def)
  then have "bm_get (THREAD_ACTIVE_CTX s') tid = Some c"
    using run by (auto simp: ctx_stack_push_ok_case set_active_def bm_get_insert room)
  with True run ctx_stack_push_holds [OF st True room(1,2), where e = e and c = c] show ?thesis by auto
next
  case False
  then have l8: "length xs = 8" using st stack_holds_len by (fastforce simp: ctx_stack_is_def)
  then have d: "ctx_depth tid s = 8" using st by (simp add: ctx_stack_is_def)
  with run ctx_stack_push_full [of tid s e c] l8 show ?thesis
    by (auto simp: emit_py_event_aux_def ctx_stack_is_def)
qed

lemma remove1_single: "c \<in> set xs \<Longrightarrow> remove1 c xs = [] \<longleftrightarrow> length xs = 1"
proof -
  assume c: "c \<in> set xs"
  then have "length (remove1 c xs) = length xs - 1" "xs \<noteq> []" by (auto simp: length_remove1)
  then have "length (remove1 c xs) = 0 \<longleftrightarrow> length xs = 1" by (cases xs) simp_all
  then show ?thesis by simp
qed

lemma ctx_stack_remove_list:
  assumes st: "ctx_stack_is s tid xs" and wf: "bm_wf (THREAD_CTX_STACK s)"
    and room: "bm_room (THREAD_ACTIVE_CTX s) tid"
    and run: "ctx_stack_remove tid c s = (r, s')"
  shows "ctx_stack_is s' tid (remove1 c xs) \<and> bm_wf (THREAD_CTX_STACK s') \<and>
         (if c \<in> set xs
          then r = top_of (remove1 c xs) \<and> bm_get (THREAD_ACTIVE_CTX s') tid = top_of (remove1 c xs)
          else s' = s \<and> r = ctx_stack_top tid s) \<and>
         (\<forall>b ys. b \<noteq> tid \<longrightarrow> ctx_stack_is s b ys \<longrightarrow> ctx_stack_is s' b ys)"
proof (cases "c \<in> set xs")
  case False
  have "(r, s') = (ctx_stack_top tid s, s)"
    unfolding run [symmetric] by (rule ctx_stack_remove_miss [OF st False])
  with False st wf show ?thesis by (simp add: remove1_idem)
next
  case True
  have len: "length (remove1 c xs) = length xs - 1" using True by (simp add: length_remove1)
  have l8: "length xs \<le> 8" using st stack_holds_len by (auto simp: ctx_stack_is_def)
  then have u: "unat (of_nat (length xs - 1) :: u8) = length xs - 1" by (simp add: unat_of_nat)
  obtain d st' where D: "bm_get (THREAD_CTX_DEPTH s) tid = Some d" "unat d = length xs"
    "stack_holds (ctx_stack_key tid) 8 st' (remove1 c xs)" "bm_wf st'"
    "\<forall>b ys. b \<noteq> tid \<longrightarrow> stack_holds (ctx_stack_key b) 8 (THREAD_CTX_STACK s) ys \<longrightarrow>
       stack_holds (ctx_stack_key b) 8 st' ys"
    and step: "ctx_stack_remove tid c s =
       (if length xs = 1
        then (None, clear_active tid
                (s\<lparr>THREAD_CTX_STACK := st', THREAD_CTX_DEPTH := bm_remove tid (THREAD_CTX_DEPTH s)\<rparr>))
        else (Some (last (remove1 c xs)), set_active tid (last (remove1 c xs))
                (s\<lparr>THREAD_CTX_STACK := st',
                   THREAD_CTX_DEPTH := bm_insert tid (of_nat (length xs - 1)) (THREAD_CTX_DEPTH s)\<rparr>)))"
    by (rule ctx_stack_remove_hit [OF st wf True])
  note roomd = bm_room_present [OF D(1)]
  note empty = remove1_single [OF True]
  show ?thesis
  proof (cases "length xs = 1")
    case one: True
    from run [unfolded step if_P [OF one]] have s': "r = None" "s' = clear_active tid
      (s\<lparr>THREAD_CTX_STACK := st', THREAD_CTX_DEPTH := bm_remove tid (THREAD_CTX_DEPTH s)\<rparr>)"
      by simp_all
    have "remove1 c xs = []" using one empty by simp
    with True D(3,4) D(5) s' show ?thesis
      by (auto simp: ctx_stack_is_def ctx_depth_def top_of_def clear_active_def)
  next
    case False
    from run [unfolded step if_not_P [OF False]] have s': "r = Some (last (remove1 c xs))" "s' = set_active tid (last (remove1 c xs))
      (s\<lparr>THREAD_CTX_STACK := st',
         THREAD_CTX_DEPTH := bm_insert tid (of_nat (length xs - 1)) (THREAD_CTX_DEPTH s)\<rparr>)"
      by simp_all
    have "remove1 c xs \<noteq> []" using False empty by simp
    with True D(3,4) D(5) s' u len show ?thesis
      by (auto simp: ctx_stack_is_def ctx_depth_def top_of_def set_active_def bm_get_insert roomd room)
  qed
qed

text \<open>C13: removing a context from a thread's stack removes its first occurrence from the list the
  stack stands for.  The new top becomes the active context and is returned; an emptied stack
  leaves no active context.  A context that is not stacked changes nothing.  The stack of every
  other thread stays as it is.\<close>

theorem ctx_stack_remove_refines:
  assumes st: "ctx_stack_is s tid xs" and wf: "bm_wf (THREAD_CTX_STACK s)"
    and room: "bm_room (THREAD_ACTIVE_CTX s) tid"
    and run: "ctx_stack_remove tid c s = (r, s')"
  shows "ctx_stack_is s' tid (remove1 c xs) \<and> bm_wf (THREAD_CTX_STACK s') \<and>
         (if c \<in> set xs
          then r = top_of (remove1 c xs) \<and> bm_get (THREAD_ACTIVE_CTX s') tid = top_of (remove1 c xs)
          else s' = s \<and> r = ctx_stack_top tid s) \<and>
         (\<forall>b ys. b \<noteq> tid \<longrightarrow> ctx_stack_is s b ys \<longrightarrow> ctx_stack_is s' b ys)"
  using assms by (rule ctx_stack_remove_list)

section \<open>A concrete run\<close>

text \<open>A freshly loaded object whose ring buffers always have room, and a probe hit by thread 7 of process 5.\<close>

definition lru_first :: lru_choice where
  "lru_first = \<lparr>ev_pending_frame_tool = map fst, ev_frame_ctx = map fst, ev_task_ctx = map fst,
     ev_workitem_ctx = map fst, ev_pythread_obj_ctx = map fst\<rparr>"

definition state0 :: bpf_state where
  "state0 = init_state lru_first (\<lambda>_. True) (\<lambda>_. True) (\<lambda>_. True)"

definition env0 :: probe_env where
  "env0 = \<lparr>pid_tgid = push_bit 32 5 OR 7, smp_cpu = 1, ktime = 100, reg = (\<lambda>_. None),
     arg = (\<lambda>_. None), rd_u64 = (\<lambda>_. None), rd_u32 = (\<lambda>_. None), rd_u8 = (\<lambda>_. None),
     rd_buf64 = (\<lambda>_. None)\<rparr>"

lemma state0_maps [simp]:
  "THREAD_CTX_STACK state0 = bm_empty 32768 Hash" "THREAD_CTX_DEPTH state0 = bm_empty 4096 Hash"
  "THREAD_ACTIVE_CTX state0 = bm_empty 4096 Hash" "TOOL_STACK state0 = bm_empty 4096 Hash"
  "TOOL_STACK_DEPTH state0 = bm_empty 4096 Hash" "TASK_CTX_STACK state0 = bm_empty 8192 Hash"
  "TASK_CTX_DEPTH state0 = bm_empty 4096 Hash" "TOOL_CTX state0 = bm_empty 4096 Hash"
  "WORKER_RUN_DEPTH state0 = bm_empty 1024 Hash" "CTX_COUNTER state0 = (\<lambda>_. 0)"
  "PENDING_TOOL_CLOSE state0 = bm_empty 4096 Hash"
  by (simp_all add: state0_def init_state_def)

lemma state0_empty [simp]: "ctx_stack_is state0 tid []" "tool_stack_is state0 tid []" "task_stack_is e state0 p []"
  by (simp_all add: ctx_stack_is_def tool_stack_is_def task_stack_is_def stack_holds_def ctx_depth_def
      tool_depth_def task_ctx_depth_for_def)

theorem ctx_stack_push_refines_witness:
  "fst (ctx_stack_push env0 7 42 state0) \<and> ctx_stack_is (snd (ctx_stack_push env0 7 42 state0)) 7 [42]"
  using ctx_stack_push_refines [of state0 7 "[]" env0 42 "fst (ctx_stack_push env0 7 42 state0)"
      "snd (ctx_stack_push env0 7 42 state0)"]
  by (simp add: bm_room_empty)

definition state1 :: bpf_state where
  "state1 = snd (ctx_stack_push env0 7 43 (snd (ctx_stack_push env0 7 42 state0)))"

lemma state1_ctx_stack: "ctx_stack_is state1 7 [42, 43]"
proof -
  let ?s = "snd (ctx_stack_push env0 7 42 state0)"
  have "ctx_stack_is ?s 7 ([] @ [42])" by (rule ctx_stack_push_holds) (simp_all add: bm_room_empty)
  then have st: "ctx_stack_is ?s 7 [42]" by simp
  have "ctx_stack_is (snd (ctx_stack_push env0 7 43 ?s)) 7 ([42] @ [43])"
    by (rule ctx_stack_push_holds [OF st])
       (simp_all add: ctx_stack_push_ok_case ctx_depth_def set_active_def bm_evals)
  then show ?thesis by (simp add: state1_def)
qed

lemma state1_maps:
  "bm_wf (THREAD_CTX_STACK state1)" "bm_room (THREAD_ACTIVE_CTX state1) 7"
  by (simp_all add: state1_def ctx_stack_push_ok_case ctx_depth_def set_active_def bm_get_insert
      bm_room_empty bm_room_insert_same)

theorem ctx_stack_remove_refines_witness:
  "fst (ctx_stack_remove 7 43 state1) = Some 42 \<and>
   ctx_stack_is (snd (ctx_stack_remove 7 43 state1)) 7 [42]"
  using ctx_stack_remove_refines [OF state1_ctx_stack state1_maps, of 43
      "fst (ctx_stack_remove 7 43 state1)" "snd (ctx_stack_remove 7 43 state1)"]
  by (simp add: top_of_def)

section \<open>The tool stack of a thread\<close>

lemma tool_stack_push_ok_case:
  "tool_depth tid s < 8 \<Longrightarrow> tool_stack_push tid c f p t s =
     s\<lparr>TOOL_STACK := bm_insert (tool_stack_key tid (tool_depth tid s))
         \<lparr>ts_ctx_id = c, ts_frame_ptr = f, ts_parent_ptr = p, ts_tool_id = t\<rparr> (TOOL_STACK s),
       TOOL_STACK_DEPTH := bm_insert tid (of_nat (tool_depth tid s + 1)) (TOOL_STACK_DEPTH s)\<rparr>"
  by (simp add: tool_stack_push_def Let_def)

lemma tool_stack_push_holds:
  fixes c f p :: u64 and t :: u32
  assumes st: "tool_stack_is s tid xs" and lt: "length xs < 8"
    and room: "bm_room (TOOL_STACK s) (tool_stack_key tid (length xs))" "bm_room (TOOL_STACK_DEPTH s) tid"
  defines "s' \<equiv> tool_stack_push tid c f p t s"
  shows "tool_stack_is s' tid
           (xs @ [\<lparr>ts_ctx_id = c, ts_frame_ptr = f, ts_parent_ptr = p, ts_tool_id = t\<rparr>])"
    "b \<noteq> tid \<Longrightarrow> tool_stack_is s b ys \<Longrightarrow> tool_stack_is s' b ys"
proof -
  let ?en = "\<lparr>ts_ctx_id = c, ts_frame_ptr = f, ts_parent_ptr = p, ts_tool_id = t\<rparr>"
  from st have sh: "stack_holds (tool_stack_key tid) 8 (TOOL_STACK s) xs"
    and dl: "tool_depth tid s = length xs" by (simp_all add: tool_stack_is_def)
  have u: "unat (of_nat (length xs + 1) :: u32) = Suc (length xs)"
    using lt unat_of_nat [where 'a = 32, of "Suc (length xs)"] by simp
  have s': "s' = s\<lparr>TOOL_STACK := bm_insert (tool_stack_key tid (length xs)) ?en (TOOL_STACK s),
      TOOL_STACK_DEPTH := bm_insert tid (of_nat (length xs + 1)) (TOOL_STACK_DEPTH s)\<rparr>"
    using tool_stack_push_ok_case [of tid s] lt by (simp add: s'_def dl)
  have depth: "tool_depth b s' = (if b = tid then Suc (length xs) else tool_depth b s)" for b
    using u by (simp add: s' tool_depth_def bm_get_insert [OF room(2)] del: of_nat_add)
  show "tool_stack_is s' tid (xs @ [?en])"
    using tool_stk.push_holds [OF sh lt room(1)] by (simp add: tool_stack_is_def depth) (simp add: s')
  show "tool_stack_is s' b ys" if "b \<noteq> tid" "tool_stack_is s b ys"
    using that tool_stk.insert_other [OF _ _ lt room(1)]
    by (simp add: tool_stack_is_def depth) (simp add: s')
qed

lemma tool_slot_hit_eq: "bm_get (TOOL_STACK s) (tool_stack_key tid i) = Some v \<Longrightarrow> tool_slot_hit P tid s i = P v"
  by (simp add: tool_slot_hit_def)

lemma tool_stack_remove_list:
  assumes st: "tool_stack_is s tid xs" and wf: "bm_wf (TOOL_STACK s)"
    and "(op, P) \<in> {(tool_stack_remove_ctx tid c, \<lambda>en. ts_ctx_id en = c),
       (tool_stack_pop_if_frame_parent tid f p, \<lambda>en. ts_frame_ptr en = f \<and> ts_parent_ptr en = p),
       (tool_stack_remove_frame_ctx tid f c, \<lambda>en. ts_frame_ptr en = f \<and> ts_ctx_id en = c)}"
  shows "fst (op s) = find P xs \<and> tool_stack_is (snd (op s)) tid (remove1_by P xs) \<and>
         (find P xs = None \<longrightarrow> snd (op s) = s) \<and>
         (\<forall>b ys. b \<noteq> tid \<longrightarrow> tool_stack_is s b ys \<longrightarrow> tool_stack_is (snd (op s)) b ys)"
proof -
  have op: "op s = tool_stack_remove_where P tid s" using assms(3) by (auto simp: tool_stack_remove_defs)
  from st have sh: "stack_holds (tool_stack_key tid) 8 (TOOL_STACK s) xs"
    and dl: "tool_depth tid s = length xs" by (simp_all add: tool_stack_is_def)
  note l8 = stack_holds_len [OF sh]
  show ?thesis
  proof (cases "scan 8 (length xs) (tool_slot_hit P tid s)")
    case None
    have "case scan 8 (length xs) (tool_slot_hit P tid s) of
            None \<Rightarrow> find P xs = None
          | Some i \<Rightarrow> i < length xs \<and> find P xs = Some (xs ! i) \<and>
                      remove1_by P xs = take i xs @ drop (Suc i) xs"
      by (rule tool_stk.scan_find [OF sh l8]) (rule tool_slot_hit_eq)
    then have none: "find P xs = None" by (simp add: None)
    have "tool_stack_remove_where P tid s = (None, s)"
    proof (cases "bm_get (TOOL_STACK_DEPTH s) tid")
      case (Some d)
      with dl have "unat d = length xs" by (simp add: tool_depth_def)
      with Some None show ?thesis by (simp add: tool_stack_remove_where_def Let_def)
    qed (simp add: tool_stack_remove_where_def)
    with none st show ?thesis by (simp add: op remove1_by_none)
  next
    case (Some fi)
    note R = tool_stk.remove_first [OF sh wf l8 tool_slot_hit_eq Some]
    let ?st = "shift_loop (tool_stack_key tid) (length xs) (Suc fi) 7
                 (bm_remove (tool_stack_key tid fi) (TOOL_STACK s))"
    have pos: "0 < length xs" using R(3) by (rule le_less_trans [OF le0])
    with dl obtain d where d: "bm_get (TOOL_STACK_DEPTH s) tid = Some d" "unat d = length xs"
      by (auto simp: tool_depth_def split: option.splits)
    let ?dm = "if length xs - 1 = 0 then bm_remove tid (TOOL_STACK_DEPTH s)
               else bm_insert tid (of_nat (length xs - 1)) (TOOL_STACK_DEPTH s)"
    have step: "op s = (Some (xs ! fi), s\<lparr>TOOL_STACK := ?st, TOOL_STACK_DEPTH := ?dm\<rparr>)"
      using sh pos R(3) by (simp add: op tool_stack_remove_where_def d Some Let_def stack_holds_def)
    have u: "unat (of_nat (length xs - 1) :: u32) = length xs - 1" using l8 by (simp add: unat_of_nat)
    have depth: "tool_depth b (snd (op s)) = (if b = tid then length xs - 1 else tool_depth b s)" for b
      by (auto simp: step tool_depth_def bm_get_insert [OF bm_room_present [OF d(1)]] u
          simp del: of_nat_diff One_nat_def)
    show ?thesis using R depth by (simp add: step tool_stack_is_def)
  qed
qed

text \<open>C14: the three removals from the tool stack, by context, by frame and parent, by frame and
  context, return the first entry that matches and remove exactly that entry from the list the
  stack stands for; without a match nothing changes.  No other thread's stack is touched.\<close>

theorem tool_stack_remove_refines:
  assumes st: "tool_stack_is s tid xs" and wf: "bm_wf (TOOL_STACK s)"
    and "(op, P) \<in> {(tool_stack_remove_ctx tid c, \<lambda>en. ts_ctx_id en = c),
       (tool_stack_pop_if_frame_parent tid f p, \<lambda>en. ts_frame_ptr en = f \<and> ts_parent_ptr en = p),
       (tool_stack_remove_frame_ctx tid f c, \<lambda>en. ts_frame_ptr en = f \<and> ts_ctx_id en = c)}"
  shows "fst (op s) = find P xs \<and> tool_stack_is (snd (op s)) tid (remove1_by P xs) \<and>
         (find P xs = None \<longrightarrow> snd (op s) = s) \<and>
         (\<forall>b ys. b \<noteq> tid \<longrightarrow> tool_stack_is s b ys \<longrightarrow> tool_stack_is (snd (op s)) b ys)"
  using assms by (rule tool_stack_remove_list)

definition state2 :: bpf_state where
  "state2 = tool_stack_push 7 43 0x200 0x100 9 (tool_stack_push 7 42 0x100 0x80 8 state0)"

lemma state2_tool_stack:
  "tool_stack_is state2 7
     [\<lparr>ts_ctx_id = 42, ts_frame_ptr = 0x100, ts_parent_ptr = 0x80, ts_tool_id = 8\<rparr>,
      \<lparr>ts_ctx_id = 43, ts_frame_ptr = 0x200, ts_parent_ptr = 0x100, ts_tool_id = 9\<rparr>]"
proof -
  let ?s = "tool_stack_push 7 42 0x100 0x80 8 state0"
  let ?a = "\<lparr>ts_ctx_id = 42, ts_frame_ptr = 0x100, ts_parent_ptr = 0x80, ts_tool_id = 8\<rparr>"
  have "tool_stack_is ?s 7 ([] @ [?a])" by (rule tool_stack_push_holds(1)) (simp_all add: bm_room_empty)
  then have st: "tool_stack_is ?s 7 [?a]" by simp
  have "tool_stack_is (tool_stack_push 7 43 0x200 0x100 9 ?s) 7
      ([?a] @ [\<lparr>ts_ctx_id = 43, ts_frame_ptr = 0x200, ts_parent_ptr = 0x100, ts_tool_id = 9\<rparr>])"
    by (rule tool_stack_push_holds(1) [OF st])
       (simp_all add: tool_stack_push_ok_case tool_depth_def bm_evals)
  then show ?thesis by (simp add: state2_def)
qed

lemma state2_wf: "bm_wf (TOOL_STACK state2)"
  by (simp add: state2_def tool_stack_push_def Let_def)

theorem tool_stack_remove_refines_witness:
  "map_option ts_tool_id (fst (tool_stack_pop_if_frame_parent 7 0x200 0x100 state2)) = Some 9"
  using tool_stack_remove_refines [OF state2_tool_stack state2_wf,
      where op = "tool_stack_pop_if_frame_parent 7 0x200 0x100" and c = 0 and f = "0x200" and p = "0x100"
        and P = "\<lambda>en. ts_frame_ptr en = 0x200 \<and> ts_parent_ptr en = 0x100"]
  by simp

section \<open>The context stack of a task\<close>

lemmas task_stk_push = task_stk.push_holds [of "(cur_tgid e, task)", folded task_stack_key_slot]
  for e task
lemmas task_stk_other = task_stk.insert_other [of "(cur_tgid e, b)" _ _ "(cur_tgid e, task)",
  folded task_stack_key_slot] for e b task
lemmas task_stk_find = task_stk.scan_find [of "(cur_tgid e, task)", folded task_stack_key_slot]
  for e task

lemma task_stk_remove:
  assumes "stack_holds (task_stack_key e task) 8 m xs" "bm_wf m" "c \<in> set xs"
  obtains fi where
    "scan 8 (length xs) (\<lambda>i. bm_get m (task_stack_key e task i) = Some c) = Some fi"
    "stack_holds (task_stack_key e task) 8
       (shift_loop (task_stack_key e task) (length xs) (Suc fi) 7 (bm_remove (task_stack_key e task fi) m))
       (remove1 c xs)"
    "\<forall>b ys. b \<noteq> task \<longrightarrow> stack_holds (task_stack_key e b) 8 m ys \<longrightarrow>
       stack_holds (task_stack_key e b) 8
         (shift_loop (task_stack_key e task) (length xs) (Suc fi) 7
            (bm_remove (task_stack_key e task fi) m)) ys"
proof -
  let ?hit = "\<lambda>i. bm_get m (task_stack_key e task i) = Some c"
  let ?o = "(cur_tgid e, task)"
  note sh = assms(1) [unfolded task_stack_key_slot]
  note l8 = stack_holds_len [OF assms(1)]
  have "scan 8 (length xs) ?hit \<noteq> None"
    using task_stk.scan_find [OF sh l8, of ?hit "\<lambda>x. x = c"] assms(3) find_eq_None [of c xs]
    by (auto simp: task_stack_key_slot split: option.splits)
  then obtain fi where fi: "scan 8 (length xs) ?hit = Some fi" by blast
  have hit: "?hit i = (v = c)" if "bm_get m (task_slot ?o i) = Some v" for i v
    using that by (simp add: task_stack_key_slot)
  note R = task_stk.remove_first [OF sh assms(2) l8, where hit = ?hit and P = "\<lambda>x. x = c",
      OF hit fi, unfolded remove1_by_eq]
  show thesis
  proof (rule that [OF fi])
    show "stack_holds (task_stack_key e task) 8
       (shift_loop (task_stack_key e task) (length xs) (Suc fi) 7 (bm_remove (task_stack_key e task fi) m))
       (remove1 c xs)" unfolding task_stack_key_slot using R(1) by simp
    show "\<forall>b ys. b \<noteq> task \<longrightarrow> stack_holds (task_stack_key e b) 8 m ys \<longrightarrow>
       stack_holds (task_stack_key e b) 8
         (shift_loop (task_stack_key e task) (length xs) (Suc fi) 7
            (bm_remove (task_stack_key e task fi) m)) ys"
      unfolding task_stack_key_slot using R(6) by simp
  qed
qed

lemma task_depth_carrier [simp]:
  "task_ctx_depth_for e p (carrier_inc c s) = task_ctx_depth_for e p s"
  "task_ctx_depth_for e p (carrier_dec e' c s) = task_ctx_depth_for e p s"
  "task_ctx_depth_for e p (set_active tid c s) = task_ctx_depth_for e p s"
  "task_ctx_depth_for e p (clear_active tid s) = task_ctx_depth_for e p s"
  by (simp_all add: task_ctx_depth_for_def)

lemma task_ctx_push_ok_case:
  assumes "task_ctx_current e task s \<noteq> Some c" "task_ctx_depth_for e task s < 8"
  defines "k \<equiv> py_object_key e task"
  shows "task_ctx_push e tid task c t s = (True, emit_py_event_carrier e EVENT_TASK_BIND c t task
     (carrier_inc c (set_active tid c (s\<lparr>
        TASK_CTX_STACK := bm_insert (task_stack_key e task (task_ctx_depth_for e task s)) c (TASK_CTX_STACK s),
        TASK_CTX_DEPTH := bm_insert k (of_nat (task_ctx_depth_for e task s + 1)) (TASK_CTX_DEPTH s),
        TASK_CTX := bm_insert k c (TASK_CTX s)\<rparr>))))"
  using assms by (simp add: task_ctx_push_def task_ctx_current_def Let_def)

lemma task_ctx_push_holds:
  assumes st: "task_stack_is e s task xs" and lt: "length xs < 8"
    and cur: "task_ctx_current e task s \<noteq> Some c"
    and room: "bm_room (TASK_CTX_STACK s) (task_stack_key e task (length xs))"
      "bm_room (TASK_CTX_DEPTH s) (py_object_key e task)"
  shows "task_stack_is e (snd (task_ctx_push e tid task c t s)) task (xs @ [c])"
    "b \<noteq> task \<Longrightarrow> task_stack_is e s b ys \<Longrightarrow> task_stack_is e (snd (task_ctx_push e tid task c t s)) b ys"
proof -
  from st have sh: "stack_holds (task_stack_key e task) 8 (TASK_CTX_STACK s) xs"
    and dl: "task_ctx_depth_for e task s = length xs" by (simp_all add: task_stack_is_def)
  from lt have lt': "task_ctx_depth_for e task s < 8" by (simp add: dl)
  let ?s' = "snd (task_ctx_push e tid task c t s)"
  have u: "unat (of_nat (length xs + 1) :: u32) = Suc (length xs)"
    using lt unat_of_nat [where 'a = 32, of "Suc (length xs)"] by simp
  have stack: "TASK_CTX_STACK ?s' = bm_insert (task_stack_key e task (length xs)) c (TASK_CTX_STACK s)"
    and dm: "TASK_CTX_DEPTH ?s' =
      bm_insert (py_object_key e task) (of_nat (length xs + 1)) (TASK_CTX_DEPTH s)"
    by (simp_all add: task_ctx_push_ok_case [OF cur lt'] emit_py_event_carrier_def dl)
  have depth: "task_ctx_depth_for e b ?s' =
      (if b = task then Suc (length xs) else task_ctx_depth_for e b s)" for b
    using u unfolding task_ctx_depth_for_def dm bm_get_insert [OF room(2)] by simp
  show "task_stack_is e ?s' task (xs @ [c])"
    using task_stk_push [OF sh lt room(1)] by (simp add: task_stack_is_def stack depth)
  show "task_stack_is e ?s' b ys" if "b \<noteq> task" "task_stack_is e s b ys"
    using that task_stk_other [OF _ _ lt room(1)] by (simp add: task_stack_is_def stack depth)
qed

lemma task_ctx_remove_miss:
  assumes st: "task_stack_is e s task xs" and c: "c \<notin> set xs"
  shows "task_ctx_remove e tid task c s = (if xs = [] then None else task_ctx_current e task s, s)"
proof -
  let ?hit = "\<lambda>i. bm_get (TASK_CTX_STACK s) (task_stack_key e task i) = Some c"
  from st have sh: "stack_holds (task_stack_key e task) 8 (TASK_CTX_STACK s) xs"
    and dl: "task_ctx_depth_for e task s = length xs" by (simp_all add: task_stack_is_def)
  have none: "scan 8 (length xs) ?hit = None"
    using task_stk_find [OF sh stack_holds_len [OF sh], of ?hit "\<lambda>x. x = c"] c find_eq_None [of c xs]
    by (auto split: option.splits)
  show ?thesis
  proof (cases "bm_get (TASK_CTX_DEPTH s) (py_object_key e task)")
    case (Some d)
    then have "unat d = length xs" using dl by (simp add: task_ctx_depth_for_def)
    with Some none show ?thesis by (simp add: task_ctx_remove_def task_ctx_current_def Let_def)
  next
    case None
    then have "xs = []" using dl by (simp add: task_ctx_depth_for_def)
    with None show ?thesis by (simp add: task_ctx_remove_def Let_def)
  qed
qed

text \<open>The whole state after a removal that finds its context.\<close>

definition task_removed ::
  "probe_env \<Rightarrow> u32 \<Rightarrow> u64 \<Rightarrow> u64 \<Rightarrow> nat \<Rightarrow> nat \<Rightarrow> u64 option \<Rightarrow> bpf_state \<Rightarrow> bpf_state" where
  "task_removed e tid task c n fi parent s =
     (let k = py_object_key e task;
          m = bm_remove (task_stack_key e task fi) (TASK_CTX_STACK s);
          s3 = (carrier_dec e c ((emit_py_event_carrier e EVENT_TASK_UNBIND c (tool_id_of s c) task s)
                                   \<lparr>TASK_CTX_STACK := m\<rparr>))
                 \<lparr>TASK_CTX_STACK := shift_loop (task_stack_key e task) n (Suc fi) 7 m\<rparr>
      in case parent of
           None \<Rightarrow> clear_active tid (s3\<lparr>TASK_CTX_DEPTH := bm_remove k (TASK_CTX_DEPTH s),
                                       TASK_CTX := bm_remove k (TASK_CTX s)\<rparr>)
         | Some p \<Rightarrow> set_active tid p (s3\<lparr>TASK_CTX_DEPTH := bm_insert k (of_nat (n - 1)) (TASK_CTX_DEPTH s),
                                          TASK_CTX := bm_insert k p (TASK_CTX s)\<rparr>))"

lemma task_ctx_remove_hit:
  assumes st: "task_stack_is e s task xs" and wf: "bm_wf (TASK_CTX_STACK s)" and c: "c \<in> set xs"
  obtains d fi where
    "bm_get (TASK_CTX_DEPTH s) (py_object_key e task) = Some d"
    "stack_holds (task_stack_key e task) 8
       (shift_loop (task_stack_key e task) (length xs) (Suc fi) 7
          (bm_remove (task_stack_key e task fi) (TASK_CTX_STACK s))) (remove1 c xs)"
    "\<forall>b ys. b \<noteq> task \<longrightarrow> stack_holds (task_stack_key e b) 8 (TASK_CTX_STACK s) ys \<longrightarrow>
       stack_holds (task_stack_key e b) 8
         (shift_loop (task_stack_key e task) (length xs) (Suc fi) 7
            (bm_remove (task_stack_key e task fi) (TASK_CTX_STACK s))) ys"
    "task_ctx_remove e tid task c s =
       (top_of (remove1 c xs), task_removed e tid task c (length xs) fi (top_of (remove1 c xs)) s)"
proof -
  let ?k = "py_object_key e task"
  from st have sh: "stack_holds (task_stack_key e task) 8 (TASK_CTX_STACK s) xs"
    and dl: "task_ctx_depth_for e task s = length xs" by (simp_all add: task_stack_is_def)
  obtain fi where fi:
    "scan 8 (length xs) (\<lambda>i. bm_get (TASK_CTX_STACK s) (task_stack_key e task i) = Some c) = Some fi"
    and R: "stack_holds (task_stack_key e task) 8
       (shift_loop (task_stack_key e task) (length xs) (Suc fi) 7
          (bm_remove (task_stack_key e task fi) (TASK_CTX_STACK s))) (remove1 c xs)"
      "\<forall>b ys. b \<noteq> task \<longrightarrow> stack_holds (task_stack_key e b) 8 (TASK_CTX_STACK s) ys \<longrightarrow>
       stack_holds (task_stack_key e b) 8
         (shift_loop (task_stack_key e task) (length xs) (Suc fi) 7
            (bm_remove (task_stack_key e task fi) (TASK_CTX_STACK s))) ys"
    by (rule task_stk_remove [OF sh wf c])
  let ?st = "shift_loop (task_stack_key e task) (length xs) (Suc fi) 7
               (bm_remove (task_stack_key e task fi) (TASK_CTX_STACK s))"
  have pos: "length xs \<noteq> 0" using c by auto
  with dl obtain d where d: "bm_get (TASK_CTX_DEPTH s) ?k = Some d" "unat d = length xs"
    by (auto simp: task_ctx_depth_for_def split: option.splits)
  have len: "length (remove1 c xs) = length xs - 1" using c by (simp add: length_remove1)
  have zero: "length xs - 1 = 0 \<longleftrightarrow> remove1 c xs = []" using remove1_single [OF c] pos by arith
  have top: "bm_get ?st (task_stack_key e task (length xs - 1 - 1)) = Some (last (remove1 c xs))"
    if "remove1 c xs \<noteq> []" using stack_holds_top [OF R(1) that] by (simp add: len)
  have dep: "TASK_CTX_DEPTH (emit_py_event_carrier e k c' t p s) = TASK_CTX_DEPTH s"
    "TASK_CTX_STACK (emit_py_event_carrier e k c' t p s) = TASK_CTX_STACK s"
    "TASK_CTX (emit_py_event_carrier e k c' t p s) = TASK_CTX s" for k c' t p
    by (simp_all add: emit_py_event_carrier_def)
  note ev = task_ctx_remove_def task_removed_def Let_def d fi top_of_def dep
  have "task_ctx_remove e tid task c s =
       (top_of (remove1 c xs), task_removed e tid task c (length xs) fi (top_of (remove1 c xs)) s)"
  proof (cases "remove1 c xs = []")
    case True
    then show ?thesis using pos zero by (simp add: ev del: One_nat_def diff_is_0_eq diff_is_0_eq')
  next
    case False
    then show ?thesis using pos zero top
      by (simp add: ev del: One_nat_def diff_is_0_eq diff_is_0_eq' diff_diff_left)
  qed
  then show thesis by (rule that [OF d(1) R])
qed


lemma task_removed_fields:
  assumes "bm_get (TASK_CTX_DEPTH s) (py_object_key e task) = Some d"
    and "bm_room (TASK_CTX s) (py_object_key e task)" "bm_room (THREAD_ACTIVE_CTX s) tid"
    and "n - 1 < 2 ^ 32" "parent = None \<Longrightarrow> n - 1 = 0"
  shows "TASK_CTX_STACK (task_removed e tid task c n fi parent s) =
           shift_loop (task_stack_key e task) n (Suc fi) 7 (bm_remove (task_stack_key e task fi) (TASK_CTX_STACK s))"
    "task_ctx_depth_for e b (task_removed e tid task c n fi parent s) =
       (if b = task then n - 1 else task_ctx_depth_for e b s)"
    "task_ctx_current e task (task_removed e tid task c n fi parent s) = parent"
    "bm_get (THREAD_ACTIVE_CTX (task_removed e tid task c n fi parent s)) tid = parent"
    "TOOL_CTX (task_removed e tid task c n fi parent s) = TOOL_CTX (carrier_dec e c s)"
proof -
  have u: "unat (of_nat (n - 1) :: u32) = n - 1" using assms(4) by (simp add: unat_of_nat)
  note room = bm_get_insert [OF assms(2)] bm_get_insert [OF assms(3)]
    bm_get_insert [OF bm_room_present [OF assms(1)]]
  note defs = task_removed_def Let_def task_ctx_depth_for_def task_ctx_current_def set_active_def
    clear_active_def emit_py_event_carrier_def
  show "TASK_CTX_STACK (task_removed e tid task c n fi parent s) =
      shift_loop (task_stack_key e task) n (Suc fi) 7 (bm_remove (task_stack_key e task fi) (TASK_CTX_STACK s))"
    "task_ctx_current e task (task_removed e tid task c n fi parent s) = parent"
    "bm_get (THREAD_ACTIVE_CTX (task_removed e tid task c n fi parent s)) tid = parent"
    "TOOL_CTX (task_removed e tid task c n fi parent s) = TOOL_CTX (carrier_dec e c s)"
    by (auto simp: defs room carrier_dec_def emit_py_event_def split: option.split)
  show "task_ctx_depth_for e b (task_removed e tid task c n fi parent s) =
      (if b = task then n - 1 else task_ctx_depth_for e b s)"
    using u assms(5) by (auto simp: defs room simp del: of_nat_diff One_nat_def split: option.split)
qed

text \<open>C16: unbinding a context from a task removes its first occurrence from the task's stack and
  gives up one carrier; the context below becomes the current one of the task and of the thread
  and is returned, and none is left when the stack is empty.  A context that is not on the stack
  changes nothing.  No other task of the process is affected.\<close>

theorem task_ctx_remove_refines:
  assumes st: "task_stack_is e s task xs" and wf: "bm_wf (TASK_CTX_STACK s)"
    and room: "bm_room (TASK_CTX s) (py_object_key e task)" "bm_room (THREAD_ACTIVE_CTX s) tid"
    and run: "task_ctx_remove e tid task c s = (r, s')"
  shows "task_stack_is e s' task (remove1 c xs) \<and>
         (if c \<in> set xs
          then r = top_of (remove1 c xs) \<and> task_ctx_current e task s' = r \<and>
               bm_get (THREAD_ACTIVE_CTX s') tid = r \<and> TOOL_CTX s' = TOOL_CTX (carrier_dec e c s)
          else s' = s \<and> r = (if xs = [] then None else task_ctx_current e task s)) \<and>
         (\<forall>b ys. b \<noteq> task \<longrightarrow> task_stack_is e s b ys \<longrightarrow> task_stack_is e s' b ys)"
proof (cases "c \<in> set xs")
  case False
  have "(r, s') = (if xs = [] then None else task_ctx_current e task s, s)"
    unfolding run [symmetric] by (rule task_ctx_remove_miss [OF st False])
  with False st show ?thesis by (simp add: remove1_idem)
next
  case True
  obtain d fi where d: "bm_get (TASK_CTX_DEPTH s) (py_object_key e task) = Some d"
    and R: "stack_holds (task_stack_key e task) 8
       (shift_loop (task_stack_key e task) (length xs) (Suc fi) 7
          (bm_remove (task_stack_key e task fi) (TASK_CTX_STACK s))) (remove1 c xs)"
      "\<forall>b ys. b \<noteq> task \<longrightarrow> stack_holds (task_stack_key e b) 8 (TASK_CTX_STACK s) ys \<longrightarrow>
       stack_holds (task_stack_key e b) 8
         (shift_loop (task_stack_key e task) (length xs) (Suc fi) 7
            (bm_remove (task_stack_key e task fi) (TASK_CTX_STACK s))) ys"
    and step: "task_ctx_remove e tid task c s =
       (top_of (remove1 c xs), task_removed e tid task c (length xs) fi (top_of (remove1 c xs)) s)"
    by (rule task_ctx_remove_hit [OF st wf True])
  have len: "length (remove1 c xs) = length xs - 1" using True by (simp add: length_remove1)
  have "length xs \<le> 8" using st stack_holds_len by (auto simp: task_stack_is_def)
  then have small: "length xs - 1 < 2 ^ 32" by simp
  have rs: "r = top_of (remove1 c xs)" "s' = task_removed e tid task c (length xs) fi r s"
    using trans [OF run [symmetric] step] by auto
  have "length xs - 1 = 0" if "r = None"
    using that rs(1) remove1_single [OF True] by (simp add: top_of_def split: if_splits)
  note F = task_removed_fields [where parent = r and c = c and fi = fi, OF d room small this, folded rs(2)]
  show ?thesis using True R len F rs(1) by (simp add: task_stack_is_def)
qed

lemma state0_task [simp]: "task_ctx_current e p state0 = None" "bm_room (TASK_CTX state0) k"
  by (simp_all add: task_ctx_current_def state0_def init_state_def bm_room_empty)


definition state3 :: bpf_state where
  "state3 = snd (task_ctx_push env0 7 0x500 42 8 state0)"

lemma state3_task_stack: "task_stack_is env0 state3 0x500 [42]"
proof -
  have "task_stack_is env0 state3 0x500 ([] @ [42])"
    unfolding state3_def by (rule task_ctx_push_holds) (simp_all add: bm_room_empty)
  then show ?thesis by simp
qed

lemma state3_maps:
  "bm_wf (TASK_CTX_STACK state3)" "bm_room (TASK_CTX state3) (py_object_key env0 0x500)"
  "bm_room (THREAD_ACTIVE_CTX state3) 7"
proof -
  have d: "task_ctx_depth_for env0 0x500 state0 < 8" by (simp add: task_ctx_depth_for_def)
  note step = task_ctx_push_ok_case [of env0 "0x500" state0 42 7 8, OF _ d]
  show "bm_wf (TASK_CTX_STACK state3)" "bm_room (TASK_CTX state3) (py_object_key env0 0x500)"
    "bm_room (THREAD_ACTIVE_CTX state3) 7"
    by (simp_all add: state3_def step emit_py_event_carrier_def bm_room_insert_same)
       (simp add: set_active_def bm_room_insert_same bm_room_empty)
qed

theorem task_ctx_remove_refines_witness:
  "fst (task_ctx_remove env0 7 0x500 42 state3) = None \<and>
   task_ctx_current env0 0x500 (snd (task_ctx_remove env0 7 0x500 42 state3)) = None"
  using task_ctx_remove_refines [OF state3_task_stack state3_maps, of 42
      "fst (task_ctx_remove env0 7 0x500 42 state3)" "snd (task_ctx_remove env0 7 0x500 42 state3)"]
  by (simp add: top_of_def)

end
