(* ===== verification/Lifecycle.thy ===== *)
theory Lifecycle
  imports Workers Stack_Refinement
begin

text \<open>
  The end of carriers: deallocation of Python objects and exit of threads
  (\<^verbatim>\<open>src/ironscope-ebpf/src/lifecycle.rs\<close>).
\<close>

section \<open>Deallocation\<close>

text \<open>The key under which the context of a dying coroutine's frame is stored, if it has one.\<close>

definition dealloc_frame_key :: "probe_env \<Rightarrow> u64 \<Rightarrow> bpf_state \<Rightarrow> PyObjectKey \<times> bpf_state" where
  "dealloc_frame_key e obj_ptr s =
     (let key = py_object_key e obj_ptr
      in case py_off s OFF_GEN_IFRAME of
           None \<Rightarrow> (key, s)
         | Some off \<Rightarrow>
             if off = 0 then (key, s)
             else let frame_key = py_object_key e (obj_ptr + off);
                      s1 = s\<lparr>PENDING_FRAME_TOOL := bm_remove frame_key (PENDING_FRAME_TOOL s)\<rparr>
                  in (if bm_get (FRAME_CTX s1) frame_key \<noteq> None then frame_key else key, s1))"

definition dealloc_frame :: "probe_env \<Rightarrow> u64 \<Rightarrow> PyObjectKey \<Rightarrow> u64 \<Rightarrow> bpf_state \<Rightarrow> bpf_state" where
  "dealloc_frame e obj_ptr frame_ctx_key ctx_id s =
     (let tool = tool_id_of s ctx_id; fl = flags_of s ctx_id; tid = cur_tid e;
          s1 = s\<lparr>FRAME_CTX := bm_remove frame_ctx_key (FRAME_CTX s)\<rparr>
      in if fl AND TOOL_CTX_FLAG_PENDING_START \<noteq> 0
         then s1\<lparr>TOOL_CTX := bm_remove ctx_id (TOOL_CTX s1)\<rparr>
         else
           let s2 = snd (tool_stack_remove_frame_ctx tid (pk_ptr frame_ctx_key) ctx_id s1);
               s3 = snd (ctx_stack_remove tid ctx_id s2);
               s4 = emit_py_event_carrier e EVENT_DEALLOC_CLEANUP ctx_id tool obj_ptr s3;
               s5 = emit_py_event_aux e EVENT_TOOL_FRAME_END ctx_id tool 1 s4
           in carrier_dec e ctx_id s5)"

definition dealloc_work_item :: "probe_env \<Rightarrow> u64 \<Rightarrow> u64 \<Rightarrow> bpf_state \<Rightarrow> bpf_state" where
  "dealloc_work_item e obj_ptr ctx_id s =
     (let tool = tool_id_of s ctx_id; key = py_object_key e obj_ptr;
          s1 = finalize_worker_run_for_object e obj_ptr ctx_id tool s;
          s2 = emit_py_event_carrier e EVENT_WORKER_CARRIER_UNBIND ctx_id tool obj_ptr s1;
          s3 = emit_py_event_carrier e EVENT_DEALLOC_CLEANUP ctx_id tool obj_ptr s2
      in carrier_dec e ctx_id (carrier_del True key s3))"

definition dealloc_thread_object :: "probe_env \<Rightarrow> u64 \<Rightarrow> u64 \<Rightarrow> bpf_state \<Rightarrow> bpf_state" where
  "dealloc_thread_object e obj_ptr ctx_id s =
     (let tool = tool_id_of s ctx_id; key = py_object_key e obj_ptr;
          s1 = finalize_worker_run_for_object e obj_ptr ctx_id tool s;
          s2 = emit_py_event_carrier e EVENT_WORKER_CARRIER_UNBIND ctx_id tool obj_ptr s1;
          s3 = s2\<lparr>PYTHREAD_OBJ_THREAD := bm_remove key (PYTHREAD_OBJ_THREAD s2)\<rparr>;
          s4 = emit_py_event_carrier e EVENT_DEALLOC_CLEANUP ctx_id tool obj_ptr s3
      in carrier_dec e ctx_id (carrier_del False key s4))"

definition handle_pyobj_dealloc :: "probe_env \<Rightarrow> u64 \<Rightarrow> bpf_state \<Rightarrow> bpf_state" where
  "handle_pyobj_dealloc e obj_ptr s =
     (if obj_ptr = 0 then s
      else if bm_get (PROTECTED_TGIDS s) (cur_tgid e) = None then s
      else
        let key = py_object_key e obj_ptr;
            s1 = s\<lparr>TOOL_OBJ := bm_remove key (TOOL_OBJ s),
                   PENDING_FRAME_TOOL := bm_remove key (PENDING_FRAME_TOOL s)\<rparr>;
            (frame_ctx_key, s2) = dealloc_frame_key e obj_ptr s1;
            s3 = s2\<lparr>PENDING_TOOL_RESOLVE :=
                      bm_remove (pending_tool_resolve_key (cur_tgid e) obj_ptr) (PENDING_TOOL_RESOLVE s2)\<rparr>
        in case bm_get (TASK_CTX s3) key of
             Some ctx_id \<Rightarrow>
               task_ctx_clear e (cur_tid e) obj_ptr
                 (emit_py_event_carrier e EVENT_DEALLOC_CLEANUP ctx_id (tool_id_of s3 ctx_id) obj_ptr s3)
           | None \<Rightarrow>
               (case bm_get (FRAME_CTX s3) frame_ctx_key of
                  Some ctx_id \<Rightarrow> dealloc_frame e obj_ptr frame_ctx_key ctx_id s3
                | None \<Rightarrow>
                    let s4 = clear_threadpool_worker_for_object e (cur_tid e) obj_ptr s3
                    in case bm_get (WORKITEM_CTX s4) key of
                         Some ctx_id \<Rightarrow> dealloc_work_item e obj_ptr ctx_id s4
                       | None \<Rightarrow>
                           (case bm_get (PYTHREAD_OBJ_CTX s4) key of
                              Some ctx_id \<Rightarrow> dealloc_thread_object e obj_ptr ctx_id s4
                            | None \<Rightarrow> s4)))"

section \<open>Exit of a thread\<close>

definition reap_ctx_slot :: "probe_env \<Rightarrow> u32 \<Rightarrow> nat \<Rightarrow> bpf_state \<Rightarrow> bpf_state" where
  "reap_ctx_slot e tid i s =
     (let key = ctx_stack_key tid i;
          s1 = (case bm_get (THREAD_CTX_STACK s) key of
                  Some ctx_id \<Rightarrow>
                    carrier_dec e ctx_id (emit_py_event_aux e EVENT_TOOL_FRAME_END ctx_id (tool_id_of s ctx_id) 1 s)
                | None \<Rightarrow> s)
      in s1\<lparr>THREAD_CTX_STACK := bm_remove key (THREAD_CTX_STACK s1)\<rparr>)"

definition reap_fork_ctx :: "probe_env \<Rightarrow> u32 \<Rightarrow> bpf_state \<Rightarrow> bpf_state" where
  "reap_fork_ctx e tid s =
     (case bm_get (FORK_CTX s) tid of
        Some ctx_id \<Rightarrow>
          let s1 = emit_py_event_fork e EVENT_CHILD_CTX_UNBIND ctx_id (tool_id_of s ctx_id) tid s
          in carrier_dec e ctx_id (s1\<lparr>FORK_CTX := bm_remove tid (FORK_CTX s1)\<rparr>)
      | None \<Rightarrow> s)"

definition reap_stash_slot :: "u32 \<Rightarrow> nat \<Rightarrow> bpf_state \<Rightarrow> bpf_state" where
  "reap_stash_slot tid j s =
     s\<lparr>FRAME_ENTRY_STASH := bm_remove (frame_stash_key tid (of_nat j)) (FRAME_ENTRY_STASH s)\<rparr>"

text \<open>The three stages of the reaper that loop over slots.\<close>

definition reap_contexts :: "probe_env \<Rightarrow> u32 \<Rightarrow> bpf_state \<Rightarrow> bpf_state" where
  "reap_contexts e tid s =
     (let depth = ctx_depth tid s;
          s1 = fold (reap_ctx_slot e tid) [0..<min depth MAX_CTX_STACK_DEPTH] s;
          s2 = s1\<lparr>THREAD_CTX_DEPTH := bm_remove tid (THREAD_CTX_DEPTH s1)\<rparr>
      in if depth = 0 then reap_fork_ctx e tid s2 else s2)"

definition reap_frames :: "u32 \<Rightarrow> bpf_state \<Rightarrow> bpf_state" where
  "reap_frames tid s =
     (let s1 = fold (reap_stash_slot tid) [0..<min (unat (stash_depth tid s)) 256] s
      in s1\<lparr>FRAME_STASH_DEPTH := bm_remove tid (FRAME_STASH_DEPTH s1)\<rparr>)"

definition reap_thread :: "probe_env \<Rightarrow> u32 \<Rightarrow> bpf_state \<Rightarrow> bpf_state" where
  "reap_thread e tid s =
     (let s1 = clear_active tid (reap_contexts e tid s);
          s2 = s1\<lparr>THREAD_ACTIVE_TASK := bm_remove tid (THREAD_ACTIVE_TASK s1),
                  PENDING_WORKER_SPAWN := bm_remove tid (PENDING_WORKER_SPAWN s1)\<rparr>;
          s3 = clear_threadpool_worker_for_thread e tid s2;
          s4 = clear_worker_runs_for_thread e tid (reap_frames tid s3)
      in s4\<lparr>TASK_STEP_STASH := bm_remove tid (TASK_STEP_STASH s4),
            TASK_STEP_PREV_TASK := bm_remove tid (TASK_STEP_PREV_TASK s4)\<rparr>)"

section \<open>Invariants\<close>

lemma life_maps_frame [frame_simps, simp, ok_intros]:
  "policy_view (s\<lparr>PENDING_FRAME_TOOL := m1\<rparr>) = policy_view s"
  "state_ok s \<Longrightarrow> sized 8192 m1 \<Longrightarrow> state_ok (s\<lparr>PENDING_FRAME_TOOL := m1\<rparr>)"
  "policy_view (s\<lparr>THREAD_CTX_STACK := m2\<rparr>) = policy_view s"
  "state_ok s \<Longrightarrow> sized 32768 m2 \<Longrightarrow> state_ok (s\<lparr>THREAD_CTX_STACK := m2\<rparr>)"
  "policy_view (s\<lparr>THREAD_CTX_DEPTH := m3\<rparr>) = policy_view s"
  "policy_view (s\<lparr>FRAME_ENTRY_STASH := m4\<rparr>) = policy_view s"
  "state_ok s \<Longrightarrow> sized 32768 m4 \<Longrightarrow> state_ok (s\<lparr>FRAME_ENTRY_STASH := m4\<rparr>)"
  "policy_view (s\<lparr>FRAME_STASH_DEPTH := m5\<rparr>) = policy_view s"
  "state_ok s \<Longrightarrow> sized 4096 m5 \<Longrightarrow> state_ok (s\<lparr>FRAME_STASH_DEPTH := m5\<rparr>)"
  "policy_view (s\<lparr>THREAD_ACTIVE_TASK := m6\<rparr>) = policy_view s"
  "state_ok s \<Longrightarrow> sized 4096 m6 \<Longrightarrow> state_ok (s\<lparr>THREAD_ACTIVE_TASK := m6\<rparr>)"
  "policy_view (s\<lparr>TASK_STEP_STASH := m7\<rparr>) = policy_view s"
  "state_ok s \<Longrightarrow> sized 1024 m7 \<Longrightarrow> state_ok (s\<lparr>TASK_STEP_STASH := m7\<rparr>)"
  "policy_view (s\<lparr>TASK_STEP_PREV_TASK := m8\<rparr>) = policy_view s"
  "state_ok s \<Longrightarrow> sized 1024 m8 \<Longrightarrow> state_ok (s\<lparr>TASK_STEP_PREV_TASK := m8\<rparr>)"
  "state_ok s \<Longrightarrow> state_ok (s\<lparr>THREAD_CTX_DEPTH := bm_remove t (THREAD_CTX_DEPTH s)\<rparr>)"
  by (simp_all add: policy_view_def state_ok_def)

lemma state_ok_zero [simp]: "state_ok s \<Longrightarrow> bm_get (TOOL_CTX s) 0 = None"
  by (simp add: state_ok_def)

lemma tool_ctx_upd_ok [ok_intros]:
  "state_ok s \<Longrightarrow> bm_get m 0 = None \<Longrightarrow> sized 4096 m \<Longrightarrow> state_ok (s\<lparr>TOOL_CTX := m\<rparr>)"
  by (simp add: state_ok_def)

lemma dealloc_policy [frame_simps, simp, ok_intros]:
  "policy_view (snd (dealloc_frame_key e p s)) = policy_view s"
  "state_ok s \<Longrightarrow> state_ok (snd (dealloc_frame_key e p s))"
  "policy_view (dealloc_frame e p k c s) = policy_view s"
  "policy_view (dealloc_work_item e p c s) = policy_view s"
  "policy_view (dealloc_thread_object e p c s) = policy_view s"
  by (auto simp: dealloc_frame_key_def dealloc_frame_def dealloc_work_item_def dealloc_thread_object_def
      tool_stack_remove_defs Let_def split: option.split)

lemma dealloc_ok [ok_intros]:
  "state_ok s \<Longrightarrow> state_ok (dealloc_frame e p k c s)"
  "state_ok s \<Longrightarrow> state_ok (dealloc_work_item e p c s)"
  "state_ok s \<Longrightarrow> state_ok (dealloc_thread_object e p c s)"
  by (auto simp: dealloc_frame_def dealloc_work_item_def dealloc_thread_object_def
      tool_stack_remove_defs Let_def intro!: ok_intros)

lemma handle_pyobj_dealloc_policy [frame_simps, simp]:
  "policy_view (handle_pyobj_dealloc e p s) = policy_view s"
  by (auto simp: handle_pyobj_dealloc_def Let_def case_prod_beta split: option.split)

lemma handle_pyobj_dealloc_ok [ok_intros]: "state_ok s \<Longrightarrow> state_ok (handle_pyobj_dealloc e p s)"
  by (auto simp: handle_pyobj_dealloc_def Let_def case_prod_beta intro!: ok_intros split: option.split)

lemma reap_slot_policy [frame_simps, simp, ok_intros]:
  "policy_view (reap_ctx_slot e t i s) = policy_view s" "policy_view (reap_stash_slot t i s) = policy_view s"
  "state_ok s \<Longrightarrow> state_ok (reap_stash_slot t i s)" "policy_view (reap_fork_ctx e t s) = policy_view s"
  by (auto simp: reap_ctx_slot_def reap_stash_slot_def reap_fork_ctx_def Let_def split: option.split)

lemma reap_slot_ok [ok_intros]:
  "state_ok s \<Longrightarrow> state_ok (reap_ctx_slot e t i s)" "state_ok s \<Longrightarrow> state_ok (reap_fork_ctx e t s)"
  by (auto simp: reap_ctx_slot_def reap_fork_ctx_def Let_def intro!: ok_intros split: option.split)

lemma reap_stages_policy [frame_simps, simp]:
  "policy_view (reap_contexts e t s) = policy_view s" "policy_view (reap_frames t s) = policy_view s"
  by (simp_all add: reap_contexts_def reap_frames_def Let_def fold_view)

lemma reap_stages_ok [ok_intros]:
  assumes "state_ok s"
  shows "state_ok (reap_contexts e t s)" "state_ok (reap_frames t s)"
proof -
  have s1: "state_ok (fold (reap_ctx_slot e t) xs s)" for xs
    by (rule fold_keeps [where P = state_ok, OF assms]) (rule ok_intros)
  then show "state_ok (reap_contexts e t s)" using assms
    by (auto simp: reap_contexts_def Let_def intro!: reap_slot_ok simp del: fold_simps)
  have "state_ok (fold (reap_stash_slot t) ys s)" for ys
    by (rule fold_keeps [where P = state_ok, OF assms]) simp
  then show "state_ok (reap_frames t s)" by (simp add: reap_frames_def Let_def)
qed

lemma reap_thread_policy [frame_simps, simp]: "policy_view (reap_thread e t s) = policy_view s"
  by (simp add: reap_thread_def Let_def)

lemma reap_thread_ok [ok_intros]: "state_ok s \<Longrightarrow> state_ok (reap_thread e t s)"
  by (auto simp: reap_thread_def Let_def intro!: ok_intros)

section \<open>What is left of a thread after its exit\<close>

lemma get_active_none: "bm_get (THREAD_ACTIVE_CTX s) t = None \<Longrightarrow> get_active_ctx t s = (None, s)"
  by (simp add: get_active_ctx_def)

lemma get_active_keeps [simp]:
  "THREAD_CTX_STACK (snd (get_active_ctx t s)) = THREAD_CTX_STACK s"
  "THREAD_CTX_DEPTH (snd (get_active_ctx t s)) = THREAD_CTX_DEPTH s"
  "PENDING_WORKER_SPAWN (snd (get_active_ctx t s)) = PENDING_WORKER_SPAWN s"
  "TOOL_STACK (snd (get_active_ctx t s)) = TOOL_STACK s"
  "TOOL_STACK_DEPTH (snd (get_active_ctx t s)) = TOOL_STACK_DEPTH s"
  "TASK_STEP_STASH (snd (get_active_ctx t s)) = TASK_STEP_STASH s"
  "TASK_STEP_PREV_TASK (snd (get_active_ctx t s)) = TASK_STEP_PREV_TASK s"
  "FRAME_STASH_DEPTH (snd (get_active_ctx t s)) = FRAME_STASH_DEPTH s"
  "THREADPOOL_WORKER_FRAME (snd (get_active_ctx t s)) = THREADPOOL_WORKER_FRAME s"
  "THREAD_CURRENT_FRAME (snd (get_active_ctx t s)) = THREAD_CURRENT_FRAME s"
  "THREAD_TSTATE (snd (get_active_ctx t s)) = THREAD_TSTATE s"
  "THREADPOOL_WORKER_CTX (snd (get_active_ctx t s)) = THREADPOOL_WORKER_CTX s"
  by (auto simp: get_active_ctx_def split: option.split)

lemma clear_worker_ctx_keeps [simp]:
  "THREAD_CTX_STACK (clear_threadpool_worker_ctx e t en s) = THREAD_CTX_STACK s"
  "THREAD_CTX_DEPTH (clear_threadpool_worker_ctx e t en s) = THREAD_CTX_DEPTH s"
  "THREAD_ACTIVE_TASK (clear_threadpool_worker_ctx e t en s) = THREAD_ACTIVE_TASK s"
  "PENDING_WORKER_SPAWN (clear_threadpool_worker_ctx e t en s) = PENDING_WORKER_SPAWN s"
  "TOOL_STACK (clear_threadpool_worker_ctx e t en s) = TOOL_STACK s"
  "TOOL_STACK_DEPTH (clear_threadpool_worker_ctx e t en s) = TOOL_STACK_DEPTH s"
  "TASK_STEP_STASH (clear_threadpool_worker_ctx e t en s) = TASK_STEP_STASH s"
  "TASK_STEP_PREV_TASK (clear_threadpool_worker_ctx e t en s) = TASK_STEP_PREV_TASK s"
  "FRAME_STASH_DEPTH (clear_threadpool_worker_ctx e t en s) = FRAME_STASH_DEPTH s"
  by (simp_all add: clear_threadpool_worker_ctx_def Let_def case_prod_beta)

lemma clear_for_thread_keeps [simp]:
  "THREAD_CTX_STACK (clear_threadpool_worker_for_thread e t s) = THREAD_CTX_STACK s"
  "THREAD_CTX_DEPTH (clear_threadpool_worker_for_thread e t s) = THREAD_CTX_DEPTH s"
  "THREAD_ACTIVE_TASK (clear_threadpool_worker_for_thread e t s) = THREAD_ACTIVE_TASK s"
  "PENDING_WORKER_SPAWN (clear_threadpool_worker_for_thread e t s) = PENDING_WORKER_SPAWN s"
  "TOOL_STACK (clear_threadpool_worker_for_thread e t s) = TOOL_STACK s"
  "TOOL_STACK_DEPTH (clear_threadpool_worker_for_thread e t s) = TOOL_STACK_DEPTH s"
  "TASK_STEP_STASH (clear_threadpool_worker_for_thread e t s) = TASK_STEP_STASH s"
  "TASK_STEP_PREV_TASK (clear_threadpool_worker_for_thread e t s) = TASK_STEP_PREV_TASK s"
  "FRAME_STASH_DEPTH (clear_threadpool_worker_for_thread e t s) = FRAME_STASH_DEPTH s"
  by (simp_all add: clear_threadpool_worker_for_thread_def Let_def split: option.split)

lemma clear_for_thread_gone:
  fixes e :: probe_env
  assumes "bm_get (THREAD_ACTIVE_CTX s) t = None"
  defines "s' \<equiv> clear_threadpool_worker_for_thread e t s"
  shows "bm_get (THREAD_ACTIVE_CTX s') t = None" "bm_get (THREADPOOL_WORKER_CTX s') t = None"
    "bm_get (THREADPOOL_WORKER_FRAME s') t = None" "bm_get (THREAD_CURRENT_FRAME s') t = None"
    "bm_get (THREAD_TSTATE s') t = None"
  using assms(1)
  by (auto simp: s'_def clear_threadpool_worker_for_thread_def clear_threadpool_worker_ctx_def Let_def
      get_active_none split: option.split)

lemma run_slot_keeps [simp]:
  "THREAD_CTX_STACK (clear_worker_run_slot e t k s) = THREAD_CTX_STACK s"
  "THREAD_CTX_DEPTH (clear_worker_run_slot e t k s) = THREAD_CTX_DEPTH s"
  "THREAD_ACTIVE_TASK (clear_worker_run_slot e t k s) = THREAD_ACTIVE_TASK s"
  "PENDING_WORKER_SPAWN (clear_worker_run_slot e t k s) = PENDING_WORKER_SPAWN s"
  "TOOL_STACK (clear_worker_run_slot e t k s) = TOOL_STACK s"
  "TOOL_STACK_DEPTH (clear_worker_run_slot e t k s) = TOOL_STACK_DEPTH s"
  "TASK_STEP_STASH (clear_worker_run_slot e t k s) = TASK_STEP_STASH s"
  "TASK_STEP_PREV_TASK (clear_worker_run_slot e t k s) = TASK_STEP_PREV_TASK s"
  "THREADPOOL_WORKER_CTX (clear_worker_run_slot e t k s) = THREADPOOL_WORKER_CTX s"
  "THREADPOOL_WORKER_FRAME (clear_worker_run_slot e t k s) = THREADPOOL_WORKER_FRAME s"
  "THREAD_CURRENT_FRAME (clear_worker_run_slot e t k s) = THREAD_CURRENT_FRAME s"
  "THREAD_TSTATE (clear_worker_run_slot e t k s) = THREAD_TSTATE s"
  "FRAME_STASH_DEPTH (clear_worker_run_slot e t k s) = FRAME_STASH_DEPTH s"
  "THREAD_ACTIVE_CTX (clear_worker_run_slot e t k s) = THREAD_ACTIVE_CTX s"
  by (auto simp: clear_worker_run_slot_def Let_def emit_py_event_carrier_for_tid_def split: option.split)

lemma clear_runs_keeps [simp]:
  "THREAD_CTX_STACK (clear_worker_runs_for_thread e t s) = THREAD_CTX_STACK s"
  "THREAD_CTX_DEPTH (clear_worker_runs_for_thread e t s) = THREAD_CTX_DEPTH s"
  "THREAD_ACTIVE_TASK (clear_worker_runs_for_thread e t s) = THREAD_ACTIVE_TASK s"
  "PENDING_WORKER_SPAWN (clear_worker_runs_for_thread e t s) = PENDING_WORKER_SPAWN s"
  "TOOL_STACK (clear_worker_runs_for_thread e t s) = TOOL_STACK s"
  "TOOL_STACK_DEPTH (clear_worker_runs_for_thread e t s) = TOOL_STACK_DEPTH s"
  "TASK_STEP_STASH (clear_worker_runs_for_thread e t s) = TASK_STEP_STASH s"
  "TASK_STEP_PREV_TASK (clear_worker_runs_for_thread e t s) = TASK_STEP_PREV_TASK s"
  "THREADPOOL_WORKER_CTX (clear_worker_runs_for_thread e t s) = THREADPOOL_WORKER_CTX s"
  "THREADPOOL_WORKER_FRAME (clear_worker_runs_for_thread e t s) = THREADPOOL_WORKER_FRAME s"
  "THREAD_CURRENT_FRAME (clear_worker_runs_for_thread e t s) = THREAD_CURRENT_FRAME s"
  "THREAD_TSTATE (clear_worker_runs_for_thread e t s) = THREAD_TSTATE s"
  "FRAME_STASH_DEPTH (clear_worker_runs_for_thread e t s) = FRAME_STASH_DEPTH s"
  "THREAD_ACTIVE_CTX (clear_worker_runs_for_thread e t s) = THREAD_ACTIVE_CTX s"
  by (simp_all add: clear_worker_runs_for_thread_def Let_def fold_view)

lemma clear_runs_gone: "bm_get (WORKER_RUN_DEPTH (clear_worker_runs_for_thread e t s)) t = None"
  by (simp add: clear_worker_runs_for_thread_def Let_def)

lemma reap_frames_keeps [simp]:
  "THREAD_CTX_STACK (reap_frames t s) = THREAD_CTX_STACK s"
  "THREAD_CTX_DEPTH (reap_frames t s) = THREAD_CTX_DEPTH s"
  "THREAD_ACTIVE_TASK (reap_frames t s) = THREAD_ACTIVE_TASK s"
  "PENDING_WORKER_SPAWN (reap_frames t s) = PENDING_WORKER_SPAWN s"
  "TOOL_STACK (reap_frames t s) = TOOL_STACK s"
  "TOOL_STACK_DEPTH (reap_frames t s) = TOOL_STACK_DEPTH s"
  "TASK_STEP_STASH (reap_frames t s) = TASK_STEP_STASH s"
  "TASK_STEP_PREV_TASK (reap_frames t s) = TASK_STEP_PREV_TASK s"
  "THREADPOOL_WORKER_CTX (reap_frames t s) = THREADPOOL_WORKER_CTX s"
  "THREADPOOL_WORKER_FRAME (reap_frames t s) = THREADPOOL_WORKER_FRAME s"
  "THREAD_CURRENT_FRAME (reap_frames t s) = THREAD_CURRENT_FRAME s"
  "THREAD_TSTATE (reap_frames t s) = THREAD_TSTATE s"
  "THREAD_ACTIVE_CTX (reap_frames t s) = THREAD_ACTIVE_CTX s"
  by (simp_all add: reap_frames_def Let_def fold_view reap_stash_slot_def)

lemma reap_frames_gone: "bm_get (FRAME_STASH_DEPTH (reap_frames t s)) t = None"
  by (simp add: reap_frames_def Let_def)

lemma reap_ctx_slot_stack [simp]:
  "THREAD_CTX_STACK (reap_ctx_slot e t i s) = bm_remove (ctx_stack_key t i) (THREAD_CTX_STACK s)"
  "THREAD_CTX_DEPTH (reap_ctx_slot e t i s) = THREAD_CTX_DEPTH s"
  by (auto simp: reap_ctx_slot_def Let_def emit_py_event_aux_def split: option.split)

lemma reap_slots_get:
  "bm_get (THREAD_CTX_STACK (fold (reap_ctx_slot e t) is s)) k =
     (if k \<in> ctx_stack_key t ` set is then None else bm_get (THREAD_CTX_STACK s) k)"
  by (induction "is" arbitrary: s) auto

lemma reap_slots_depth: "THREAD_CTX_DEPTH (fold (reap_ctx_slot e t) is s) = THREAD_CTX_DEPTH s"
  by (simp add: fold_view)

lemma reap_fork_keeps [simp]:
  "THREAD_CTX_STACK (reap_fork_ctx e t s) = THREAD_CTX_STACK s"
  "THREAD_CTX_DEPTH (reap_fork_ctx e t s) = THREAD_CTX_DEPTH s"
  by (auto simp: reap_fork_ctx_def Let_def emit_py_event_fork_def split: option.split)

lemma reap_contexts_stack:
  assumes "ctx_stack_is s t xs"
  shows "ctx_stack_is (reap_contexts e t s) t []"
    and "b \<noteq> t \<Longrightarrow> ctx_stack_is s b ys \<Longrightarrow> ctx_stack_is (reap_contexts e t s) b ys"
proof -
  let ?s = "reap_contexts e t s" and ?n = "min (ctx_depth t s) 8"
  from assms have sh: "stack_holds (ctx_stack_key t) 8 (THREAD_CTX_STACK s) xs"
    and d: "ctx_depth t s = length xs" by (simp_all add: ctx_stack_is_def)
  have st: "bm_get (THREAD_CTX_STACK ?s) k =
      (if k \<in> ctx_stack_key t ` {0..<?n} then None else bm_get (THREAD_CTX_STACK s) k)" for k
    by (simp add: reap_contexts_def Let_def reap_slots_get del: upt_rec_numeral)
  have dp: "THREAD_CTX_DEPTH ?s = bm_remove t (THREAD_CTX_DEPTH s)"
    by (simp add: reap_contexts_def Let_def reap_slots_depth)
  have n: "?n = length xs" using d stack_holds_len [OF sh] by simp
  have "bm_get (THREAD_CTX_STACK ?s) (ctx_stack_key t i) = None" if "i < 8" for i
  proof (cases "i < length xs")
    case True
    then show ?thesis using n by (simp add: st)
  next
    case False
    then show ?thesis using that sh by (simp add: st stack_holds_def)
  qed
  then show "ctx_stack_is ?s t []" by (simp add: ctx_stack_is_def stack_holds_def ctx_depth_def dp)
  show "ctx_stack_is ?s b ys" if b: "b \<noteq> t" "ctx_stack_is s b ys"
  proof -
    have "bm_get (THREAD_CTX_STACK ?s) (ctx_stack_key b i) = bm_get (THREAD_CTX_STACK s) (ctx_stack_key b i)"
      if "i < 8" for i
    proof -
      have "ctx_stack_key b i \<notin> ctx_stack_key t ` {0..<?n}" using that b(1) by auto
      then show ?thesis by (simp only: st if_False)
    qed
    with b show ?thesis by (auto simp: ctx_stack_is_def stack_holds_def ctx_depth_def dp)
  qed
qed

lemma ctx_stack_is_cong:
  "THREAD_CTX_STACK s' = THREAD_CTX_STACK s \<Longrightarrow> THREAD_CTX_DEPTH s' = THREAD_CTX_DEPTH s \<Longrightarrow>
   ctx_stack_is s' t xs = ctx_stack_is s t xs"
  by (simp add: ctx_stack_is_def ctx_depth_def)



text \<open>The tool stack is not among what the reaper clears: it is left exactly as it was.\<close>

lemma reap_contexts_tool_stack [simp]:
  "TOOL_STACK (reap_contexts e t s) = TOOL_STACK s"
  "TOOL_STACK_DEPTH (reap_contexts e t s) = TOOL_STACK_DEPTH s"
proof -
  have slot: "TOOL_STACK (reap_ctx_slot e t i u) = TOOL_STACK u"
    "TOOL_STACK_DEPTH (reap_ctx_slot e t i u) = TOOL_STACK_DEPTH u" for i u
    by (auto simp: reap_ctx_slot_def Let_def emit_py_event_aux_def split: option.split)
  have fork: "TOOL_STACK (reap_fork_ctx e t u) = TOOL_STACK u"
    "TOOL_STACK_DEPTH (reap_fork_ctx e t u) = TOOL_STACK_DEPTH u" for u
    by (auto simp: reap_fork_ctx_def Let_def emit_py_event_fork_def split: option.split)
  show "TOOL_STACK (reap_contexts e t s) = TOOL_STACK s"
    "TOOL_STACK_DEPTH (reap_contexts e t s) = TOOL_STACK_DEPTH s"
    by (simp_all add: reap_contexts_def Let_def fork fold_view slot)
qed

lemma reap_thread_keeps_tool_stack:
  "TOOL_STACK (reap_thread e t s) = TOOL_STACK s \<and> TOOL_STACK_DEPTH (reap_thread e t s) = TOOL_STACK_DEPTH s"
  by (simp add: reap_thread_def Let_def)

end
