(* ===== verification/Tasks.thy ===== *)
theory Tasks
  imports Lifecycle
begin

text \<open>
  Asyncio tasks (\<^verbatim>\<open>src/ironscope-ebpf/src/task_probes.rs\<close>) and processes
  (\<^verbatim>\<open>fork_probes.rs\<close>): creation of a task, the two ends of a task step, fork, exit and exec.
  A handler that returns \<^verbatim>\<open>Result\<close> gives \<open>True\<close> for \<^verbatim>\<open>Ok\<close>; the programs ignore which one it was.
\<close>

section \<open>Tasks\<close>

definition select_task_step_ptr :: "probe_env \<Rightarrow> bpf_state \<Rightarrow> u64 option" where
  "select_task_step_ptr e s =
     (let arg0 = (case arg e 0 of Some a \<Rightarrow> a | None \<Rightarrow> 0);
          arg1 = (case arg e 1 of Some a \<Rightarrow> a | None \<Rightarrow> 0)
      in if arg0 \<noteq> 0 \<and> bm_get (TASK_CTX s) (py_object_key e arg0) \<noteq> None then Some arg0
         else if arg1 \<noteq> 0 \<and> bm_get (TASK_CTX s) (py_object_key e arg1) \<noteq> None then Some arg1
         else if arg1 \<noteq> 0 then Some arg1
         else if arg0 \<noteq> 0 then Some arg0
         else None)"

definition thread_task :: "u32 \<Rightarrow> bpf_state \<Rightarrow> u64" where
  "thread_task tid s = (case bm_get (THREAD_ACTIVE_TASK s) tid of Some p \<Rightarrow> p | None \<Rightarrow> 0)"

definition handle_task_init :: "probe_env \<Rightarrow> bpf_state \<Rightarrow> bool \<times> bpf_state" where
  "handle_task_init e s =
     (let tid = cur_tid e
      in case arg e 0 of
           None \<Rightarrow> (False, s)
         | Some task_ptr \<Rightarrow>
             if task_ptr = 0 then (True, s)
             else
               let (active, s1) = get_active_ctx tid s
               in case active of
                    None \<Rightarrow> (True, s1)
                  | Some ctx_id \<Rightarrow>
                      let tool = tool_id_of s1 ctx_id;
                          parent_task = thread_task tid s1;
                          s2 = (if parent_task \<noteq> 0 \<and> parent_task \<noteq> task_ptr \<and>
                                   task_ctx_current e parent_task s1 = Some ctx_id \<and>
                                   1 < task_ctx_depth_for e parent_task s1
                                then snd (task_ctx_remove e tid parent_task ctx_id s1) else s1)
                      in (True, snd (task_ctx_push e tid task_ptr ctx_id tool s2)))"

definition enter_task :: "probe_env \<Rightarrow> u32 \<Rightarrow> u64 \<Rightarrow> bpf_state \<Rightarrow> bpf_state" where
  "enter_task e tid task_ptr s =
     (case bm_get (TASK_CTX s) (py_object_key e task_ptr) of
        Some ctx_id \<Rightarrow>
          if \<not> ctx_is_live s ctx_id then clear_active tid (task_ctx_clear e tid task_ptr s)
          else if ctx_stack_contains tid ctx_id s then set_active tid ctx_id s
          else let live_ctx = (case ctx_stack_top tid s of Some c \<Rightarrow> c | None \<Rightarrow> 0)
               in if live_ctx \<noteq> 0 then set_active tid live_ctx s else set_active tid ctx_id s
      | None \<Rightarrow>
          (case restore_deferred_tool_close e tid task_ptr s of
             (Some ctx_id, s1) \<Rightarrow> set_active tid ctx_id s1
           | (None, s1) \<Rightarrow> clear_active tid s1))"

definition handle_task_step_entry :: "probe_env \<Rightarrow> bpf_state \<Rightarrow> bool \<times> bpf_state" where
  "handle_task_step_entry e s =
     (let tid = cur_tid e
      in case select_task_step_ptr e s of
           None \<Rightarrow> (False, s)
         | Some task_ptr \<Rightarrow>
             if task_ptr = 0 then (True, s)
             else
               let (active, s1) = get_active_ctx tid s;
                   prev_ctx = (case active of Some c \<Rightarrow> c | None \<Rightarrow> 0);
                   prev_task = thread_task tid s1;
                   s2 = s1\<lparr>TASK_STEP_STASH := bm_insert tid prev_ctx (TASK_STEP_STASH s1),
                           TASK_STEP_PREV_TASK := bm_insert tid prev_task (TASK_STEP_PREV_TASK s1),
                           THREAD_ACTIVE_TASK := bm_insert tid task_ptr (THREAD_ACTIVE_TASK s1)\<rparr>
               in (True, enter_task e tid task_ptr s2))"

definition leave_task :: "u32 \<Rightarrow> bpf_state \<Rightarrow> bpf_state" where
  "leave_task tid s =
     (let prev_ctx = (case bm_get (TASK_STEP_STASH s) tid of Some c \<Rightarrow> c | None \<Rightarrow> 0);
          prev_task = (case bm_get (TASK_STEP_PREV_TASK s) tid of Some p \<Rightarrow> p | None \<Rightarrow> 0);
          restore_ctx = (if prev_ctx \<noteq> 0 \<and> ctx_stack_contains tid prev_ctx s then prev_ctx
                         else case ctx_stack_top tid s of Some c \<Rightarrow> c | None \<Rightarrow> 0);
          s1 = (if restore_ctx \<noteq> 0 then set_active tid restore_ctx s else clear_active tid s);
          s2 = s1\<lparr>THREAD_ACTIVE_TASK :=
                    (if prev_task \<noteq> 0 then bm_insert tid prev_task (THREAD_ACTIVE_TASK s1)
                     else bm_remove tid (THREAD_ACTIVE_TASK s1))\<rparr>
      in s2\<lparr>TASK_STEP_STASH := bm_remove tid (TASK_STEP_STASH s2),
            TASK_STEP_PREV_TASK := bm_remove tid (TASK_STEP_PREV_TASK s2)\<rparr>)"

definition handle_task_step_return :: "probe_env \<Rightarrow> bpf_state \<Rightarrow> bool \<times> bpf_state" where
  "handle_task_step_return e s =
     (let tid = cur_tid e; task_ptr = thread_task tid s
      in if task_ptr = 0 then (True, s)
         else case py_off s OFF_TASK_STATE of
                None \<Rightarrow> (False, s)
              | Some off \<Rightarrow>
                  let task_state = (case rd_u8 e (task_ptr + off) of Some v \<Rightarrow> v | None \<Rightarrow> 0);
                      s1 = (if 1 \<le> task_state then task_ctx_clear e tid task_ptr s else s)
                  in (True, leave_task tid s1))"

section \<open>Processes\<close>

text \<open>What the fork tracepoint shows of the child task: the pointer may be null, a read may fail.\<close>

record fork_child =
  child_null :: bool
  child_pid :: "u32 option"
  child_tgid :: "u32 option"

definition fork_ctx :: "probe_env \<Rightarrow> bpf_state \<Rightarrow> u64 option \<times> bpf_state" where
  "fork_ctx e s =
     (let parent_tid = cur_tid e;
          (active, s1) = get_active_ctx parent_tid s;
          own = (case active of
                   Some c \<Rightarrow>
                     if flags_of s1 c AND TOOL_CTX_FLAG_ASYNC_FRAME \<noteq> 0 \<and> worker_depth parent_tid s1 = 0
                     then None else Some c
                 | None \<Rightarrow> None)
      in case own of
           Some c \<Rightarrow> (Some c, s1)
         | None \<Rightarrow>
             (case bm_get (PENDING_WORKER_SPAWN s1) parent_tid of
                None \<Rightarrow> (None, s1)
              | Some pending \<Rightarrow>
                  if bm_get (WORKITEM_CTX s1) (py_object_key e (ps_work_item pending)) = Some (ps_ctx_id pending) \<and>
                     bm_get (TOOL_CTX s1) (ps_ctx_id pending) \<noteq> None
                  then (Some (ps_ctx_id pending),
                        s1\<lparr>PENDING_WORKER_SPAWN := bm_remove parent_tid (PENDING_WORKER_SPAWN s1)\<rparr>)
                  else (None, s1)))"

definition bind_child :: "probe_env \<Rightarrow> u32 \<Rightarrow> u32 \<Rightarrow> u64 option \<Rightarrow> bpf_state \<Rightarrow> bpf_state" where
  "bind_child e child_tid ctgid ctx s =
     (let s1 = (if ctgid \<noteq> 0 then s\<lparr>PROTECTED_TGIDS := bm_insert ctgid 1 (PROTECTED_TGIDS s)\<rparr> else s)
      in case ctx of
           None \<Rightarrow> s1
         | Some ctx_id \<Rightarrow>
             let s2 = set_active child_tid ctx_id s1;
                 s3 = carrier_inc ctx_id (s2\<lparr>FORK_CTX := bm_insert child_tid ctx_id (FORK_CTX s2)\<rparr>)
             in emit_py_event_fork e EVENT_CHILD_CTX_BIND ctx_id (tool_id_of s3 ctx_id) child_tid s3)"

definition handle_sched_fork :: "probe_env \<Rightarrow> fork_child \<Rightarrow> bpf_state \<Rightarrow> bool \<times> bpf_state" where
  "handle_sched_fork e child s =
     (let parent_protected = (bm_get (PROTECTED_TGIDS s) (cur_tgid e) \<noteq> None);
          (ctx, s1) = fork_ctx e s;
          scope = (case bm_get (IRONSCOPE_CONFIG s1) 0 of Some c \<Rightarrow> child_scope c | None \<Rightarrow> CHILD_SCOPE_TOOL_ONLY);
          protect_idle_child = (parent_protected \<and> ctx = None \<and> scope = CHILD_SCOPE_ALL)
      in if ctx = None \<and> \<not> protect_idle_child then (True, s1)
         else if child_null child then (True, s1)
         else case child_pid child of
                None \<Rightarrow> (False, s1)
              | Some child_tid \<Rightarrow>
                  if child_tid = 0 then (True, s1)
                  else case child_tgid child of
                         None \<Rightarrow> (False, s1)
                       | Some ctgid \<Rightarrow> (True, bind_child e child_tid ctgid ctx s1))"

definition handle_sched_exit :: "probe_env \<Rightarrow> bpf_state \<Rightarrow> bpf_state" where
  "handle_sched_exit e s =
     (let s1 = reap_thread e (cur_tid e) s
      in if cur_tid e = cur_tgid e
         then s1\<lparr>PROTECTED_TGIDS := bm_remove (cur_tgid e) (PROTECTED_TGIDS s1)\<rparr> else s1)"

definition handle_sched_exec :: "probe_env \<Rightarrow> bpf_state \<Rightarrow> bpf_state" where
  "handle_sched_exec e s = s"

section \<open>Invariants\<close>

lemma protected_frame [frame_simps, simp, ok_intros]:
  "policy_view (s\<lparr>PROTECTED_TGIDS := m\<rparr>) = policy_view s" "state_ok s \<Longrightarrow> sized 4096 m \<Longrightarrow> state_ok (s\<lparr>PROTECTED_TGIDS := m\<rparr>)"
  by (simp_all add: policy_view_def state_ok_def)

lemma task_init_policy [frame_simps, simp]: "policy_view (snd (handle_task_init e s)) = policy_view s"
  by (auto simp: handle_task_init_def Let_def case_prod_beta split: option.split)

lemma task_init_ok [ok_intros]: "state_ok s \<Longrightarrow> state_ok (snd (handle_task_init e s))"
  by (auto simp: handle_task_init_def Let_def case_prod_beta intro!: ok_intros split: option.split)

lemma enter_task_policy [frame_simps, simp]: "policy_view (enter_task e t p s) = policy_view s"
  by (auto simp: enter_task_def Let_def case_prod_beta split: option.split)

lemma enter_task_ok [ok_intros]: "state_ok s \<Longrightarrow> state_ok (enter_task e t p s)"
  by (auto simp: enter_task_def Let_def case_prod_beta intro!: ok_intros split: option.split)

lemma task_step_entry_policy [frame_simps, simp]: "policy_view (snd (handle_task_step_entry e s)) = policy_view s"
  by (auto simp: handle_task_step_entry_def Let_def case_prod_beta split: option.split)

lemma task_step_entry_ok [ok_intros]: "state_ok s \<Longrightarrow> state_ok (snd (handle_task_step_entry e s))"
  by (auto simp: handle_task_step_entry_def Let_def case_prod_beta intro!: enter_task_ok split: option.split)

lemma leave_task_frame [frame_simps, simp, ok_intros]:
  "policy_view (leave_task t s) = policy_view s" "state_ok s \<Longrightarrow> state_ok (leave_task t s)"
  by (simp_all add: leave_task_def Let_def)

lemma task_step_return_policy [frame_simps, simp]: "policy_view (snd (handle_task_step_return e s)) = policy_view s"
  by (auto simp: handle_task_step_return_def Let_def split: option.split)

lemma task_step_return_ok [ok_intros]: "state_ok s \<Longrightarrow> state_ok (snd (handle_task_step_return e s))"
  by (auto simp: handle_task_step_return_def Let_def intro!: ok_intros split: option.split)

lemma fork_ctx_frame [frame_simps, simp, ok_intros]:
  "policy_view (snd (fork_ctx e s)) = policy_view s" "state_ok s \<Longrightarrow> state_ok (snd (fork_ctx e s))"
  by (auto simp: fork_ctx_def Let_def case_prod_beta split: option.split)

lemma bind_child_policy [frame_simps, simp]: "policy_view (bind_child e t g c s) = policy_view s"
  by (auto simp: bind_child_def Let_def split: option.split)

lemma bind_child_ok [ok_intros]: "state_ok s \<Longrightarrow> state_ok (bind_child e t g c s)"
  by (auto simp: bind_child_def Let_def intro!: carrier_ok split: option.split)

lemma sched_policy [frame_simps, simp]:
  "policy_view (snd (handle_sched_fork e c s)) = policy_view s" "policy_view (handle_sched_exit e s) = policy_view s"
  by (auto simp: handle_sched_fork_def handle_sched_exit_def Let_def case_prod_beta split: option.split)

lemma sched_ok [ok_intros]:
  "state_ok s \<Longrightarrow> state_ok (snd (handle_sched_fork e c s))" "state_ok s \<Longrightarrow> state_ok (handle_sched_exit e s)"
  by (auto simp: handle_sched_fork_def handle_sched_exit_def Let_def case_prod_beta intro!: ok_intros
      split: option.split)

end
