(* ===== verification/Contexts.thy ===== *)
theory Contexts
  imports Stack_Refinement
begin

text \<open>
  Identity and lifetime of tool contexts: identifiers handed out by \<open>alloc_ctx_id\<close> are distinct
  and never 0, and a context lives exactly as long as it has carriers
  (\<^verbatim>\<open>src/ironscope-ebpf/src/ownership.rs\<close>, \<^verbatim>\<open>lifecycle.rs\<close>).
\<close>

section \<open>Identifiers\<close>

definition ctx_id_of :: "u32 \<Rightarrow> u64 \<Rightarrow> u64" where
  "ctx_id_of cpu val = push_bit 56 (ucast cpu) OR val"

definition next_val :: "bpf_state \<Rightarrow> u32 \<Rightarrow> u64" where
  "next_val s cpu = (if CTX_COUNTER s cpu = 0 then 1 else CTX_COUNTER s cpu)"

text \<open>The identifiers a sequence of allocations hands out, on the CPUs the probes run on.\<close>

fun alloc_run :: "probe_env list \<Rightarrow> bpf_state \<Rightarrow> u64 list" where
  "alloc_run [] s = []"
| "alloc_run (e # es) s =
     (case alloc_ctx_id e s of
        (Some c, s') \<Rightarrow> c # alloc_run es s'
      | (None, s') \<Rightarrow> alloc_run es s')"

lemma alloc_ctx_id_eq:
  "alloc_ctx_id e s = (Some (ctx_id_of (smp_cpu e) (next_val s (smp_cpu e))),
     s\<lparr>CTX_COUNTER := (CTX_COUNTER s)(smp_cpu e := next_val s (smp_cpu e) + 1)\<rparr>)"
  by (simp add: alloc_ctx_id_def ctx_id_of_def next_val_def Let_def)

lemma next_val_nonzero: "next_val s cpu \<noteq> 0"
  by (simp add: next_val_def)

lemma ctx_id_of_nonzero: "v \<noteq> 0 \<Longrightarrow> ctx_id_of cpu v \<noteq> 0"
  by (metis ctx_id_of_def or_eq_0_iff)

lemma bit_above: "unat x < 2 ^ k \<Longrightarrow> k \<le> l \<Longrightarrow> \<not> bit x l" for x :: "'a::len word"
proof -
  assume "unat x < 2 ^ k" "k \<le> l"
  then have "take_bit k (unat x) = unat x" by (simp add: take_bit_nat_eq_self_iff)
  then have "\<not> bit (unat x) l" using \<open>k \<le> l\<close> by (metis bit_take_bit_iff not_less)
  then show ?thesis by (simp add: bit_unsigned_iff)
qed

lemma ctx_id_of_inj:
  assumes "unat a < 256" "unat b < 256" "unat v < 2 ^ 56" "unat w < 2 ^ 56"
    and eq: "ctx_id_of a v = ctx_id_of b w"
  shows "a = b \<and> v = w"
proof -
  note hi = bit_above
  note bits = arg_cong [OF eq [unfolded ctx_id_of_def], of "\<lambda>x. bit x l" for l]
  have "bit v l = bit w l" for l
    using bits [of l] hi [OF assms(3), of l] hi [OF assms(4), of l]
    by (cases "56 \<le> l") (auto simp: bit_simps)
  then have vw: "v = w" by (intro bit_word_eqI) simp
  have "bit a l = bit b l" if "l < 32" for l
  proof (cases "8 \<le> l")
    case True
    with hi [of a 8 l] hi [of b 8 l] assms(1,2) show ?thesis by simp
  next
    case False
    with bits [of "l + 56"] hi [OF assms(3), of "l + 56"] hi [OF assms(4), of "l + 56"] that
    show ?thesis by (simp add: bit_simps)
  qed
  then have "a = b" by (intro bit_word_eqI) simp
  with vw show ?thesis by simp
qed

lemma alloc_step:
  fixes a :: u32
  assumes "\<forall>cpu. unat (next_val s cpu) + Suc n < 2 ^ 56"
  defines "s' \<equiv> s\<lparr>CTX_COUNTER := (CTX_COUNTER s)(a := next_val s a + 1)\<rparr>"
  shows "unat (next_val s a + 1) = unat (next_val s a) + 1"
    and "next_val s' cpu = (if cpu = a then next_val s a + 1 else next_val s cpu)"
    and "\<forall>cpu. unat (next_val s' cpu) + n < 2 ^ 56"
proof -
  have lim: "unat (next_val s cpu) + Suc n < 2 ^ 56" for cpu using assms(1) by blast
  from lim [of a] show uv: "unat (next_val s a + 1) = unat (next_val s a) + 1"
    by (simp add: unat_word_ariths)
  have "next_val s a + 1 \<noteq> 0" using uv by (metis Suc_eq_plus1 nat.distinct(1) unat_0)
  then show nv: "next_val s' cpu = (if cpu = a then next_val s a + 1 else next_val s cpu)" for cpu
    by (simp add: next_val_def s'_def)
  have "unat (next_val s' cpu) + n < 2 ^ 56" for cpu
    using lim [of cpu] uv by (cases "cpu = a") (simp_all add: nv)
  then show "\<forall>cpu. unat (next_val s' cpu) + n < 2 ^ 56" by blast
qed

lemma alloc_run_ids:
  assumes "c \<in> set (alloc_run es s)" "\<forall>e \<in> set es. unat (smp_cpu e) < 256"
    and "\<forall>cpu. unat (next_val s cpu) + length es < 2 ^ 56"
  shows "\<exists>cpu v. c = ctx_id_of cpu v \<and> unat cpu < 256 \<and> unat v < 2 ^ 56 \<and> next_val s cpu \<le> v"
  using assms
proof (induction es arbitrary: s)
  case (Cons e es)
  let ?cpu = "smp_cpu e" and ?v = "next_val s (smp_cpu e)"
  let ?s' = "s\<lparr>CTX_COUNTER := (CTX_COUNTER s)(?cpu := ?v + 1)\<rparr>"
  note st = alloc_step [OF Cons.prems(3) [unfolded length_Cons], of ?cpu]
  show ?case
  proof (cases "c = ctx_id_of ?cpu ?v")
    case True
    have "unat ?v + length (e # es) < 2 ^ 56" using Cons.prems(3) by blast
    with True Cons.prems(2) show ?thesis by (intro exI [of _ ?cpu] exI [of _ ?v]) simp
  next
    case False
    then have c: "c \<in> set (alloc_run es ?s')" using Cons.prems(1) by (simp add: alloc_ctx_id_eq)
    have "\<forall>e \<in> set es. unat (smp_cpu e) < 256" using Cons.prems(2) by simp
    from Cons.IH [OF c this st(3)] obtain cpu v where
      r: "c = ctx_id_of cpu v" "unat cpu < 256" "unat v < 2 ^ 56" "next_val ?s' cpu \<le> v" by blast
    have "next_val s cpu \<le> next_val ?s' cpu" using st(1) by (simp add: st(2) word_le_nat_alt)
    then have "next_val s cpu \<le> v" using r(4) by (rule order_trans)
    with r(1-3) show ?thesis by blast
  qed
qed simp

lemma alloc_run_distinct:
  assumes "\<forall>e \<in> set es. unat (smp_cpu e) < 256" "\<forall>cpu. unat (next_val s cpu) + length es < 2 ^ 56"
  shows "distinct (alloc_run es s)"
  using assms
proof (induction es arbitrary: s)
  case (Cons e es)
  let ?cpu = "smp_cpu e" and ?v = "next_val s (smp_cpu e)"
  let ?s' = "s\<lparr>CTX_COUNTER := (CTX_COUNTER s)(?cpu := ?v + 1)\<rparr>"
  note st = alloc_step [OF Cons.prems(2) [unfolded length_Cons], of ?cpu]
  have cpus: "\<forall>e \<in> set es. unat (smp_cpu e) < 256" using Cons.prems(1) by simp
  have "ctx_id_of ?cpu ?v \<notin> set (alloc_run es ?s')"
  proof
    assume "ctx_id_of ?cpu ?v \<in> set (alloc_run es ?s')"
    from alloc_run_ids [OF this cpus st(3)] obtain cpu v where
      r: "ctx_id_of ?cpu ?v = ctx_id_of cpu v" "unat cpu < 256" "unat v < 2 ^ 56" "next_val ?s' cpu \<le> v"
      by blast
    have "unat ?v + length (e # es) < 2 ^ 56" using Cons.prems(2) by blast
    then have "unat ?cpu < 256" "unat ?v < 2 ^ 56" using Cons.prems(1) by auto
    from ctx_id_of_inj [OF this(1) r(2) this(2) r(3) r(1)] have "cpu = ?cpu" "v = ?v" by auto
    with r(4) have "?v + 1 \<le> ?v" by (simp add: st(2))
    with st(1) show False by (simp add: word_le_nat_alt)
  qed
  with Cons.IH [OF cpus st(3)] show ?case by (simp add: alloc_ctx_id_eq)
qed simp

lemma alloc_run_nonzero: "0 \<notin> set (alloc_run es s)"
proof (induction es arbitrary: s)
  case (Cons e es)
  have "ctx_id_of (smp_cpu e) (next_val s (smp_cpu e)) \<noteq> 0"
    by (rule ctx_id_of_nonzero [OF next_val_nonzero])
  with Cons show ?case by (simp add: alloc_ctx_id_eq)
qed simp

lemma alloc_run_length: "length (alloc_run es s) = length es"
  by (induction es arbitrary: s) (simp_all add: alloc_ctx_id_eq)

text \<open>C17: context identifiers are unique.  Every allocation succeeds, no identifier is 0 (the value
  the programs use for no context), and any sequence of allocations, interleaved over the CPUs
  in any order, hands out pairwise distinct identifiers, as long as CPU numbers stay below 256
  and no per-CPU counter reaches \<open>2 ^ 56\<close>.\<close>

theorem alloc_ctx_ids_unique:
  assumes "\<forall>e \<in> set es. unat (smp_cpu e) < 256" "\<forall>cpu. unat (CTX_COUNTER s cpu) + length es + 1 < 2 ^ 56"
  shows "length (alloc_run es s) = length es \<and> distinct (alloc_run es s) \<and> 0 \<notin> set (alloc_run es s)"
proof -
  have "unat (next_val s cpu) + length es < 2 ^ 56" for cpu
    using assms(2) [rule_format, of cpu] by (simp add: next_val_def)
  then show ?thesis using alloc_run_distinct assms(1) alloc_run_length alloc_run_nonzero by simp
qed

theorem alloc_ctx_ids_unique_witness:
  "distinct (alloc_run [env0, env0\<lparr>smp_cpu := 2\<rparr>, env0] state0)"
  using alloc_ctx_ids_unique [of "[env0, env0\<lparr>smp_cpu := 2\<rparr>, env0]" state0]
  by (simp add: env0_def)

section \<open>Carriers\<close>

datatype carrier_op = Inc u64 | Dec u64

fun carrier_step :: "probe_env \<Rightarrow> carrier_op \<Rightarrow> bpf_state \<Rightarrow> bpf_state" where
  "carrier_step e (Inc c) s = carrier_inc c s"
| "carrier_step e (Dec c) s = carrier_dec e c s"

text \<open>
  The specification: the number of carriers of one context under a sequence of operations on any
  contexts; \<open>None\<close> once it has ended.
\<close>

fun carriers_after :: "u64 \<Rightarrow> nat option \<Rightarrow> carrier_op list \<Rightarrow> nat option" where
  "carriers_after c n [] = n"
| "carriers_after c None (x # ops) = carriers_after c None ops"
| "carriers_after c (Some n) (Inc c' # ops) = carriers_after c (Some (if c' = c then n + 1 else n)) ops"
| "carriers_after c (Some n) (Dec c' # ops) =
     carriers_after c (if c' \<noteq> c then Some n else if 1 < n then Some (n - 1) else None) ops"

definition ends_of :: "u64 \<Rightarrow> bpf_state \<Rightarrow> nat" where
  "ends_of c s = length (filter (\<lambda>ev. pe_kind ev = EVENT_TOOL_CONTEXT_END \<and> pe_ctx_id ev = c)
                           (rb_log (PY_EVENTS s)))"

definition ring_ready :: "bpf_state \<Rightarrow> bool" where
  "ring_ready s \<longleftrightarrow> (\<forall>l. rb_can_reserve (PY_EVENTS s) l)"

lemma bm_remove_modify: "bm_remove k (bm_modify k f m) = bm_remove k m"
proof -
  have "filter (\<lambda>e. fst e \<noteq> k) (map (\<lambda>e. if fst e = k then (fst e, f (snd e)) else e) es) =
        filter (\<lambda>e. fst e \<noteq> k) es" for es by (induction es) auto
  then show ?thesis by (simp add: bm_remove_def bm_modify_def)
qed

lemma carrier_inc_get:
  "bm_get (TOOL_CTX (carrier_inc c s)) c' =
     (if c' = c then map_option (\<lambda>r. r\<lparr>carrier_count := carrier_count r + 1\<rparr>) (bm_get (TOOL_CTX s) c)
      else bm_get (TOOL_CTX s) c')"
  by (simp add: carrier_inc_def)

lemma carrier_dec_get:
  "bm_get (TOOL_CTX (carrier_dec e c s)) c' =
     (if c' = c
      then (case bm_get (TOOL_CTX s) c of
              Some r \<Rightarrow> if 1 < carrier_count r
                then Some (r\<lparr>carrier_count := carrier_count r - 1, generation := generation r + 1\<rparr>) else None
            | None \<Rightarrow> None)
      else bm_get (TOOL_CTX s) c')"
  by (auto simp: carrier_dec_def emit_py_event_def Let_def split: option.split)

lemma ring_ready_step [simp]: "ring_ready (carrier_step e x s) = ring_ready s"
  by (cases x) (auto simp: ring_ready_def carrier_inc_def carrier_dec_def emit_defs Let_def split: option.split)

lemma ends_of_inc [simp]: "ends_of c (carrier_inc c' s) = ends_of c s"
  by (simp add: ends_of_def carrier_inc_def)

lemma ends_of_dec:
  "ring_ready s \<Longrightarrow> ends_of c (carrier_dec e c' s) =
     (case bm_get (TOOL_CTX s) c' of
        Some r \<Rightarrow> if c' = c \<and> \<not> 1 < carrier_count r then Suc (ends_of c s) else ends_of c s
      | None \<Rightarrow> ends_of c s)"
  by (auto simp: ends_of_def ring_ready_def carrier_dec_def emit_defs rb_submit_def Let_def split: option.split)

lemma ended_stays:
  "ring_ready s \<Longrightarrow> bm_get (TOOL_CTX s) c = None \<Longrightarrow>
   bm_get (TOOL_CTX (fold (carrier_step e) ops s)) c = None \<and>
   ends_of c (fold (carrier_step e) ops s) = ends_of c s \<and> carriers_after c None ops = None"
proof (induction ops arbitrary: s)
  case (Cons x ops)
  have "bm_get (TOOL_CTX (carrier_step e x s)) c = None" "ends_of c (carrier_step e x s) = ends_of c s"
    using Cons.prems
    by (cases x; auto simp: carrier_inc_get carrier_dec_get ends_of_dec split: option.split)+
  with Cons.IH [of "carrier_step e x s"] Cons.prems(1) show ?case by simp
qed simp

text \<open>C11: a context lives exactly as long as it has carriers.  Under any sequence of acquisitions and
  releases of contexts, the record of a context counts its carriers; the context is live until
  the release of its last carrier, and that release removes it and reports
  \<open>TOOL_CONTEXT_END\<close> exactly once, whatever follows.\<close>

theorem context_lives_while_carried:
  assumes "bm_get (TOOL_CTX s) c = Some r" "unat (carrier_count r) = n" "1 \<le> n"
    and "n + length ops < 2 ^ 32" "ring_ready s"
  shows "case carriers_after c (Some n) ops of
           Some k \<Rightarrow> 1 \<le> k \<and> ends_of c (fold (carrier_step e) ops s) = ends_of c s \<and>
                     (\<exists>r'. bm_get (TOOL_CTX (fold (carrier_step e) ops s)) c = Some r' \<and>
                           unat (carrier_count r') = k \<and> tool_id r' = tool_id r)
         | None \<Rightarrow> \<not> ctx_is_live (fold (carrier_step e) ops s) c \<and>
                   ends_of c (fold (carrier_step e) ops s) = Suc (ends_of c s)"
  using assms
proof (induction ops arbitrary: s r n)
  case (Cons x ops)
  let ?s = "carrier_step e x s"
  have ready: "ring_ready ?s" using Cons.prems(5) by simp
  show ?case
  proof (cases x)
    case (Inc c')
    let ?r = "if c' = c then r\<lparr>carrier_count := carrier_count r + 1\<rparr> else r"
    let ?n = "if c' = c then n + 1 else n"
    have get: "bm_get (TOOL_CTX ?s) c = Some ?r" using Cons.prems(1) by (auto simp: Inc carrier_inc_get)
    have cnt: "unat (carrier_count ?r) = ?n" using Cons.prems(2,4) by (simp add: unat_word_ariths)
    have "1 \<le> ?n" "?n + length ops < 2 ^ 32" using Cons.prems(3,4) by auto
    from Cons.IH [OF get cnt this ready] show ?thesis by (cases "c' = c") (simp_all add: Inc split: option.splits)
  next
    case (Dec c')
    show ?thesis
    proof (cases "c' = c \<and> \<not> 1 < n")
      case True
      then have one: "\<not> 1 < carrier_count r" using Cons.prems(2) by (simp add: word_less_nat_alt)
      then have "bm_get (TOOL_CTX ?s) c = None" "ends_of c ?s = Suc (ends_of c s)"
        using True Cons.prems(1,5) by (simp_all add: Dec carrier_dec_get ends_of_dec)
      with ended_stays [OF ready this(1), of e ops] True show ?thesis by (simp add: Dec ctx_is_live_def)
    next
      case False
      let ?r = "if c' = c then r\<lparr>carrier_count := carrier_count r - 1, generation := generation r + 1\<rparr> else r"
      let ?n = "if c' = c then n - 1 else n"
      have more: "1 < carrier_count r" if "c' = c" using that False Cons.prems(2) by (simp add: word_less_nat_alt)
      have get: "bm_get (TOOL_CTX ?s) c = Some ?r" and ends: "ends_of c ?s = ends_of c s"
        using more Cons.prems(1,5) by (auto simp: Dec carrier_dec_get ends_of_dec split: option.split)
      have cnt: "unat (carrier_count ?r) = ?n"
        using more Cons.prems(2) by (auto simp: unat_sub word_less_nat_alt word_le_nat_alt)
      have "1 \<le> ?n" "?n + length ops < 2 ^ 32" using Cons.prems(3,4) False by auto
      from Cons.IH [OF get cnt this ready] False ends show ?thesis
        by (cases "c' = c") (simp_all add: Dec split: option.splits)
    qed
  qed
qed simp

definition ctx0 :: ToolCtx where
  "ctx0 = \<lparr>tool_id = 8, generation = 1, carrier_count = 1, flags = 1, started_ns = 10, last_seen_ns = 10\<rparr>"

definition state4 :: bpf_state where
  "state4 = state0\<lparr>TOOL_CTX := bm_insert 42 ctx0 (TOOL_CTX state0)\<rparr>"

theorem context_lives_while_carried_witness:
  "\<not> ctx_is_live (fold (carrier_step env0) [Inc 42, Dec 42, Dec 42] state4) 42 \<and>
   ends_of 42 (fold (carrier_step env0) [Inc 42, Dec 42, Dec 42] state4) = 1"
proof -
  have "bm_get (TOOL_CTX state4) 42 = Some ctx0"
    by (simp add: state4_def bm_get_insert bm_room_empty)
  moreover have "ring_ready state4" "ends_of 42 state4 = 0"
    by (simp_all add: state4_def state0_def init_state_def empty_ring_def ring_ready_def ends_of_def)
  ultimately show ?thesis
    using context_lives_while_carried [of state4 42 ctx0 1 "[Inc 42, Dec 42, Dec 42]" env0]
    by (simp add: ctx0_def)
qed

end
