(* ===== verification/Frames.thy ===== *)
theory Frames
  imports Tasks Contexts
begin

text \<open>
  Entry, resumption and exit of Python frames (\<^verbatim>\<open>src/ironscope-ebpf/src/frame_probes.rs\<close>): the
  places where a tool context is opened, re-activated and closed.

  The entry handler is one function of 340 lines in the source; its branches are definitions of
  their own here, in the order of the source.  A branch that may return early gives
  \<open>Some r\<close> for \<^verbatim>\<open>return r\<close> and \<open>None\<close> where control falls through.
\<close>

section \<open>Parts the branches share\<close>

definition read_parent_ptr :: "probe_env \<Rightarrow> bpf_state \<Rightarrow> u64 \<Rightarrow> u64 option" where
  "read_parent_ptr e s frame_ptr =
     (case py_off s OFF_FRAME_PREVIOUS of
        None \<Rightarrow> None
      | Some off \<Rightarrow> Some (case rd_u64 e (frame_ptr + off) of Some p \<Rightarrow> p | None \<Rightarrow> 0))"

definition generator_flags :: "u32 \<Rightarrow> u32" where
  "generator_flags co_flags = (if co_flags AND CO_FLAGS_GENERATOR_MASK \<noteq> 0 then TOOL_CTX_FLAG_ASYNC_FRAME else 0)"

definition new_tool_ctx :: "probe_env \<Rightarrow> u32 \<Rightarrow> u32 \<Rightarrow> ToolCtx" where
  "new_tool_ctx e tool fl =
     \<lparr>tool_id = tool, generation = 0, carrier_count = 1, flags = fl, started_ns = ktime e, last_seen_ns = 0\<rparr>"

definition drop_frame_ctx :: "probe_env \<Rightarrow> u64 \<Rightarrow> u64 \<Rightarrow> bpf_state \<Rightarrow> bpf_state" where
  "drop_frame_ctx e frame_ptr ctx_id s =
     s\<lparr>FRAME_CTX := bm_remove (py_object_key e frame_ptr) (FRAME_CTX s),
       TOOL_CTX := bm_remove ctx_id (TOOL_CTX s)\<rparr>"

text \<open>
  The prologue of every new root: a fresh context is stored for the frame and pushed on the
  thread's stack; when the stack is full both entries are taken back and \<open>None\<close> is returned.
\<close>

definition open_frame_ctx ::
  "probe_env \<Rightarrow> u32 \<Rightarrow> u64 \<Rightarrow> u64 \<Rightarrow> u32 \<Rightarrow> u32 \<Rightarrow> bpf_state \<Rightarrow> bool \<times> bpf_state" where
  "open_frame_ctx e tid frame_ptr ctx_id tool fl s =
     (let s1 = s\<lparr>TOOL_CTX := bm_insert ctx_id (new_tool_ctx e tool fl) (TOOL_CTX s),
                 FRAME_CTX := bm_insert (py_object_key e frame_ptr) ctx_id (FRAME_CTX s)\<rparr>;
          (pushed, s2) = ctx_stack_push e tid ctx_id s1
      in if pushed then (True, s2) else (False, drop_frame_ctx e frame_ptr ctx_id s2))"

definition push_active_task :: "probe_env \<Rightarrow> u32 \<Rightarrow> u64 \<Rightarrow> u32 \<Rightarrow> bpf_state \<Rightarrow> bpf_state" where
  "push_active_task e tid ctx_id tool s =
     (case bm_get (THREAD_ACTIVE_TASK s) tid of
        Some task_ptr \<Rightarrow> if task_ptr \<noteq> 0 then snd (task_ctx_push e tid task_ptr ctx_id tool s) else s
      | None \<Rightarrow> s)"

definition announce_tool ::
  "probe_env \<Rightarrow> u32 \<Rightarrow> u64 \<Rightarrow> u64 \<Rightarrow> u64 \<Rightarrow> u32 \<Rightarrow> bpf_state \<Rightarrow> bpf_state" where
  "announce_tool e tid ctx_id frame_ptr parent_ptr tool s =
     push_active_task e tid ctx_id tool
       (emit_py_event e EVENT_TOOL_START ctx_id tool (tool_stack_push tid ctx_id frame_ptr parent_ptr tool s))"

definition reactivate_frame ::
  "probe_env \<Rightarrow> u32 \<Rightarrow> u64 \<Rightarrow> u64 \<Rightarrow> u64 \<Rightarrow> u32 \<Rightarrow> bpf_state \<Rightarrow> bpf_state" where
  "reactivate_frame e tid ctx_id frame_ptr parent_ptr tool s =
     (let s1 = set_active tid ctx_id (tool_stack_refresh tid ctx_id frame_ptr parent_ptr tool s)
      in case bm_get (THREAD_ACTIVE_TASK s1) tid of
           Some task_ptr \<Rightarrow>
             if task_ptr \<noteq> 0
             then snd (task_ctx_push e tid task_ptr ctx_id tool
                         (cancel_deferred_tool_close e task_ptr ctx_id frame_ptr s1))
             else s1
         | None \<Rightarrow> s1)"

definition end_frame :: "probe_env \<Rightarrow> u32 \<Rightarrow> u64 \<Rightarrow> u64 \<Rightarrow> u32 \<Rightarrow> bpf_state \<Rightarrow> bpf_state" where
  "end_frame e tid frame_ptr ctx_id tool s =
     carrier_dec e ctx_id
       (emit_py_event e EVENT_TOOL_FRAME_END ctx_id tool
          (snd (ctx_stack_remove tid ctx_id
             (s\<lparr>FRAME_CTX := bm_remove (py_object_key e frame_ptr) (FRAME_CTX s)\<rparr>))))"

text \<open>Closing an entry taken off the tool stack always returns \<^verbatim>\<open>Ok\<close>.\<close>

definition close_tool_stack_entry :: "probe_env \<Rightarrow> u32 \<Rightarrow> ToolStackEntry \<Rightarrow> bpf_state \<Rightarrow> bpf_state" where
  "close_tool_stack_entry e tid entry s =
     (if bm_get (FRAME_CTX s) (py_object_key e (ts_frame_ptr entry)) \<noteq> Some (ts_ctx_id entry) then s
      else case bm_get (THREAD_ACTIVE_TASK s) tid of
             Some task_ptr \<Rightarrow>
               if task_ptr = 0 then snd (finish_tool_close e tid entry s)
               else if flags_of s (ts_ctx_id entry) AND TOOL_CTX_FLAG_ASYNC_FRAME \<noteq> 0 \<and>
                       ts_tool_id entry \<noteq> TOOL_IDLE
               then snd (task_ctx_remove e tid task_ptr (ts_ctx_id entry) (defer_tool_close e task_ptr entry s))
               else snd (finish_tool_close e tid entry
                           (snd (task_ctx_remove e tid task_ptr (ts_ctx_id entry) s)))
           | None \<Rightarrow> snd (finish_tool_close e tid entry s))"

section \<open>Frame entry\<close>

definition start_cached_self_tool_root ::
  "probe_env \<Rightarrow> u32 \<Rightarrow> u64 \<Rightarrow> u64 \<Rightarrow> u32 \<Rightarrow> u32 \<Rightarrow> bpf_state \<Rightarrow> bool \<times> bpf_state" where
  "start_cached_self_tool_root e tid frame_ptr parent_ptr tool fl s =
     (if tool = TOOL_IDLE then (True, s)
      else case alloc_ctx_id e s of
             (None, s1) \<Rightarrow> (False, s1)
           | (Some ctx_id, s1) \<Rightarrow>
               let (opened, s2) = open_frame_ctx e tid frame_ptr ctx_id tool (TOOL_CTX_FLAG_RESOLVED OR fl) s1
               in (True, if opened then announce_tool e tid ctx_id frame_ptr parent_ptr tool s2 else s2))"

definition start_cached_parent_tool_if_needed ::
  "probe_env \<Rightarrow> u32 \<Rightarrow> u64 \<Rightarrow> bpf_state \<Rightarrow> bool \<times> bpf_state" where
  "start_cached_parent_tool_if_needed e tid parent_ptr s =
     (if parent_ptr = 0 then (True, s)
      else if bm_get (FRAME_CTX s) (py_object_key e parent_ptr) \<noteq> None then (True, s)
      else case py_off s OFF_FRAME_F_EXECUTABLE of
             None \<Rightarrow> (False, s)
           | Some off_exec \<Rightarrow>
               let code_ptr = (case rd_u64 e (parent_ptr + off_exec) of Some v \<Rightarrow> v | None \<Rightarrow> 0)
               in if code_ptr = 0 \<or> \<not> qualname_has_tool_impl_suffix e s code_ptr then (True, s)
                  else let tool = cached_frame_self_tool_id e parent_ptr s
                  in if tool = TOOL_IDLE then (True, s)
                     else case read_parent_ptr e s parent_ptr of
                            None \<Rightarrow> (False, s)
                          | Some grandparent_ptr \<Rightarrow>
                              let s1 = frame_stash_push tid parent_ptr s
                              in case py_off s1 OFF_CODE_FLAGS of
                                   None \<Rightarrow> (False, s1)
                                 | Some off_flags \<Rightarrow>
                                     let co_flags = (case rd_u32 e (code_ptr + off_flags) of Some v \<Rightarrow> v | None \<Rightarrow> 0)
                                     in start_cached_self_tool_root e tid parent_ptr grandparent_ptr tool
                                          (generator_flags co_flags) s1)"

definition find_root_rule :: "u8 \<Rightarrow> bpf_state \<Rightarrow> RootRule option" where
  "find_root_rule kind s =
     first_rule (\<lambda>rule. rr_kind rule = kind \<and> rr_extractor_kind rule \<noteq> EXTRACTOR_NONE) s"

text \<open>Lines 199 to 254, a tool implementation frame that no rule names.\<close>

definition enter_impl_frame ::
  "probe_env \<Rightarrow> u32 \<Rightarrow> u64 \<Rightarrow> u64 \<Rightarrow> u32 \<Rightarrow> u32 \<Rightarrow> bpf_state \<Rightarrow> bool \<times> bpf_state" where
  "enter_impl_frame e tid frame_ptr parent_ptr co_flags cached s =
     (case bm_get (FRAME_CTX s) (py_object_key e frame_ptr) of
        Some ctx_id \<Rightarrow>
          let tool = tool_id_of s ctx_id
          in if cached \<noteq> TOOL_IDLE \<and> cached \<noteq> tool
             then let (removed, s1) = tool_stack_remove_frame_ctx tid frame_ptr ctx_id s;
                      s2 = (case removed of Some entry \<Rightarrow> close_tool_stack_entry e tid entry s1 | None \<Rightarrow> s1)
                  in start_cached_self_tool_root e tid frame_ptr parent_ptr cached (generator_flags co_flags)
                       (frame_stash_push tid frame_ptr s2)
             else (True, reactivate_frame e tid ctx_id frame_ptr parent_ptr tool s)
      | None \<Rightarrow>
          if cached = TOOL_IDLE then (True, s)
          else let (active, s1) = get_active_ctx tid s
               in if (case active of Some c \<Rightarrow> tool_id_of s1 c = cached | None \<Rightarrow> False) then (True, s1)
                  else start_cached_self_tool_root e tid frame_ptr parent_ptr cached (generator_flags co_flags)
                         (frame_stash_push tid frame_ptr s1))"

text \<open>Lines 189 to 257.\<close>

definition enter_ignored_frame ::
  "probe_env \<Rightarrow> u32 \<Rightarrow> u64 \<Rightarrow> u64 \<Rightarrow> u32 \<Rightarrow> bpf_state \<Rightarrow> bool \<times> bpf_state" where
  "enter_ignored_frame e tid frame_ptr code_ptr co_flags s =
     (if \<not> qualname_has_tool_impl_suffix e s code_ptr then (True, s)
      else case read_parent_ptr e s frame_ptr of
             None \<Rightarrow> (False, s)
           | Some parent_ptr \<Rightarrow>
               let (ok, s1) = start_cached_parent_tool_if_needed e tid parent_ptr s
               in if \<not> ok then (False, s1)
                  else let cached = cached_frame_self_tool_id e frame_ptr s1;
                           s2 = (if cached = TOOL_IDLE
                                 then emit_frame_self_resolver_candidate e frame_ptr code_ptr CODE_KIND_IGNORE s1
                                 else s1)
                       in enter_impl_frame e tid frame_ptr parent_ptr co_flags cached s2)"

text \<open>Lines 266 to 291, a coroutine frame discovered when it was created.\<close>

definition enter_pending_frame ::
  "probe_env \<Rightarrow> u32 \<Rightarrow> u64 \<Rightarrow> u64 \<Rightarrow> bpf_state \<Rightarrow> bool option \<times> bpf_state" where
  "enter_pending_frame e tid frame_ptr parent_ptr s =
     (let frame_key = py_object_key e frame_ptr
      in if bm_get (FRAME_CTX s) frame_key \<noteq> None then (None, s)
         else case bm_get (PENDING_FRAME_TOOL s) frame_key of
                None \<Rightarrow> (None, s)
              | Some pending_tool \<Rightarrow>
                  let s1 = s\<lparr>PENDING_FRAME_TOOL := bm_remove frame_key (PENDING_FRAME_TOOL s)\<rparr>
                  in if pending_tool = TOOL_IDLE then (None, s1)
                     else if (case bm_get (THREAD_ACTIVE_TASK s1) tid of
                                Some task_ptr \<Rightarrow> task_ptr \<noteq> 0 \<and> task_ctx_contains_tool e task_ptr pending_tool s1
                              | None \<Rightarrow> False)
                     then (Some True, s1)
                     else apfst Some (start_cached_self_tool_root e tid frame_ptr parent_ptr pending_tool
                                        TOOL_CTX_FLAG_ASYNC_FRAME (frame_stash_push tid frame_ptr s1)))"

text \<open>Lines 297 to 340, a frame that already has a context.\<close>

definition enter_known_frame ::
  "probe_env \<Rightarrow> u32 \<Rightarrow> u64 \<Rightarrow> u64 \<Rightarrow> bpf_state \<Rightarrow> bool option \<times> bpf_state" where
  "enter_known_frame e tid frame_ptr parent_ptr s =
     (case bm_get (FRAME_CTX s) (py_object_key e frame_ptr) of
        None \<Rightarrow> (None, s)
      | Some ctx_id \<Rightarrow>
          let tool = tool_id_of s ctx_id
          in if flags_of s ctx_id AND TOOL_CTX_FLAG_PENDING_START \<noteq> 0
             then let s1 = s\<lparr>TOOL_CTX := bm_modify ctx_id
                               (\<lambda>c. c\<lparr>flags := flags c AND NOT TOOL_CTX_FLAG_PENDING_START\<rparr>) (TOOL_CTX s)\<rparr>;
                      (pushed, s2) = ctx_stack_push e tid ctx_id s1
                  in (Some True,
                      if pushed then announce_tool e tid ctx_id frame_ptr parent_ptr tool s2
                      else drop_frame_ctx e frame_ptr ctx_id s2)
             else let current = cached_frame_self_tool_id e frame_ptr s
             in if current \<noteq> TOOL_IDLE \<and> current \<noteq> tool
                then (None, case tool_stack_remove_frame_ctx tid frame_ptr ctx_id s of
                              (Some entry, s1) \<Rightarrow> close_tool_stack_entry e tid entry s1
                            | (None, s1) \<Rightarrow> end_frame e tid frame_ptr ctx_id tool s1)
                else (Some True, reactivate_frame e tid ctx_id frame_ptr parent_ptr tool s))"

text \<open>Lines 345 to 435, a LangChain tool root.\<close>

definition discard_root :: "probe_env \<Rightarrow> u32 \<Rightarrow> u64 \<Rightarrow> u64 \<Rightarrow> bpf_state \<Rightarrow> bpf_state" where
  "discard_root e tid frame_ptr ctx_id s =
     drop_frame_ctx e frame_ptr ctx_id (snd (ctx_stack_remove tid ctx_id s))"

definition nested_in_other_coroutine ::
  "probe_env \<Rightarrow> u64 \<Rightarrow> u64 \<Rightarrow> u32 \<Rightarrow> u64 option \<Rightarrow> bpf_state \<Rightarrow> bool" where
  "nested_in_other_coroutine e frame_ptr ctx_id current active s =
     (case active of
        None \<Rightarrow> False
      | Some c \<Rightarrow> c \<noteq> ctx_id \<and> tool_id_of s c \<noteq> TOOL_IDLE \<and> tool_id_of s c \<noteq> current \<and>
                  flags_of s c AND TOOL_CTX_FLAG_ASYNC_FRAME \<noteq> 0 \<and>
                  bm_get (PENDING_FRAME_TOOL s) (py_object_key e frame_ptr) = None)"

definition root_is_duplicate ::
  "probe_env \<Rightarrow> u32 \<Rightarrow> u64 \<Rightarrow> u64 \<Rightarrow> u32 \<Rightarrow> u32 \<Rightarrow> bpf_state \<Rightarrow> bool \<times> bpf_state" where
  "root_is_duplicate e tid frame_ptr ctx_id co_flags current s =
     (let (nested, s1) =
            (if co_flags AND CO_FLAGS_GENERATOR_MASK \<noteq> 0
             then let (active, t) = get_active_ctx tid s
                  in (nested_in_other_coroutine e frame_ptr ctx_id current active t, t)
             else (False, s))
      in if nested then (True, s1)
         else if (case bm_get (THREAD_ACTIVE_TASK s1) tid of
                    Some task_ptr \<Rightarrow> task_ptr \<noteq> 0 \<and> task_ctx_contains_tool e task_ptr current s1
                  | None \<Rightarrow> False)
         then (True, s1)
         else let (active, s2) = get_active_ctx tid s1
              in (case active of Some c \<Rightarrow> c \<noteq> ctx_id \<and> tool_id_of s2 c = current | None \<Rightarrow> False, s2))"

definition enter_root_lc ::
  "probe_env \<Rightarrow> u32 \<Rightarrow> u64 \<Rightarrow> u64 \<Rightarrow> u64 \<Rightarrow> u32 \<Rightarrow> bpf_state \<Rightarrow> bool \<times> bpf_state" where
  "enter_root_lc e tid frame_ptr parent_ptr code_ptr co_flags s =
     (case alloc_ctx_id e s of
        (None, s1) \<Rightarrow> (False, s1)
      | (Some ctx_id, s1) \<Rightarrow>
          let (opened, s2) = open_frame_ctx e tid frame_ptr ctx_id TOOL_IDLE (generator_flags co_flags) s1
          in if \<not> opened then (True, s2)
             else
               let (resolved, s3) =
                     (case find_root_rule CODE_KIND_TOOL_ROOT_LC s2 of
                        Some rule \<Rightarrow> extract_and_resolve e frame_ptr code_ptr rule ctx_id s2
                      | None \<Rightarrow> (TOOL_IDLE, s2));
                   current = (case bm_get (TOOL_CTX s3) ctx_id of Some c \<Rightarrow> tool_id c | None \<Rightarrow> resolved);
                   (duplicate, s4) =
                     (if current \<noteq> TOOL_IDLE then root_is_duplicate e tid frame_ptr ctx_id co_flags current s3
                      else (False, s3))
               in (True, if duplicate then discard_root e tid frame_ptr ctx_id s4
                         else announce_tool e tid ctx_id frame_ptr parent_ptr current s4))"

text \<open>Lines 436 to 461, a LangGraph root: the context is opened without a tool stack entry.\<close>

definition enter_root_lg :: "probe_env \<Rightarrow> u32 \<Rightarrow> u64 \<Rightarrow> u32 \<Rightarrow> bpf_state \<Rightarrow> bool \<times> bpf_state" where
  "enter_root_lg e tid frame_ptr co_flags s =
     (case alloc_ctx_id e s of
        (None, s1) \<Rightarrow> (False, s1)
      | (Some ctx_id, s1) \<Rightarrow>
          let (opened, s2) = open_frame_ctx e tid frame_ptr ctx_id TOOL_IDLE (generator_flags co_flags) s1
          in (True, if opened then emit_py_event e EVENT_TOOL_START ctx_id TOOL_IDLE s2 else s2))"

text \<open>Lines 462 to 470, a frame that names the tool of the context it runs in.\<close>

definition enter_id_rule :: "probe_env \<Rightarrow> u32 \<Rightarrow> u64 \<Rightarrow> u64 \<Rightarrow> bpf_state \<Rightarrow> bpf_state" where
  "enter_id_rule e tid frame_ptr code_ptr s =
     (case get_active_ctx tid s of
        (None, s1) \<Rightarrow> s1
      | (Some active_ctx, s1) \<Rightarrow>
          (case find_root_rule CODE_KIND_TOOL_ID_RULE s1 of
             None \<Rightarrow> s1
           | Some rule \<Rightarrow> snd (extract_and_resolve e frame_ptr code_ptr rule active_ctx s1)))"

definition enter_by_kind ::
  "probe_env \<Rightarrow> u32 \<Rightarrow> u64 \<Rightarrow> u64 \<Rightarrow> u64 \<Rightarrow> u32 \<Rightarrow> u8 \<Rightarrow> bpf_state \<Rightarrow> bool \<times> bpf_state" where
  "enter_by_kind e tid frame_ptr parent_ptr code_ptr co_flags kind s =
     (if kind = CODE_KIND_TOOL_ROOT_LC then enter_root_lc e tid frame_ptr parent_ptr code_ptr co_flags s
      else if kind = CODE_KIND_TOOL_ROOT_LG then enter_root_lg e tid frame_ptr co_flags s
      else if kind = CODE_KIND_TOOL_ID_RULE then (True, enter_id_rule e tid frame_ptr code_ptr s)
      else (True, s))"

text \<open>Lines 259 to 476, a frame of a kind some rule names.\<close>

definition enter_ruled_frame ::
  "probe_env \<Rightarrow> u32 \<Rightarrow> u64 \<Rightarrow> u64 \<Rightarrow> u32 \<Rightarrow> u8 \<Rightarrow> bool \<Rightarrow> bpf_state \<Rightarrow> bool \<times> bpf_state" where
  "enter_ruled_frame e tid frame_ptr code_ptr co_flags kind skip s =
     (case read_parent_ptr e s frame_ptr of
        None \<Rightarrow> (False, s)
      | Some parent_ptr \<Rightarrow>
          (case (if skip then (None, s) else enter_pending_frame e tid frame_ptr parent_ptr s) of
             (Some r, s1) \<Rightarrow> (r, s1)
           | (None, s1) \<Rightarrow>
               (case enter_known_frame e tid frame_ptr parent_ptr s1 of
                  (Some r, s2) \<Rightarrow> (r, s2)
                | (None, s2) \<Rightarrow>
                    enter_by_kind e tid frame_ptr parent_ptr code_ptr co_flags kind
                      (frame_stash_push tid frame_ptr s2))))"

text \<open>Lines 158 to 257 and the dispatch to the rest, once the code object has been read.\<close>

definition enter_frame_of_code ::
  "probe_env \<Rightarrow> u64 \<Rightarrow> u64 \<Rightarrow> u8 \<Rightarrow> u32 \<Rightarrow> bool \<Rightarrow> bpf_state \<Rightarrow> bool \<times> bpf_state" where
  "enter_frame_of_code e frame_ptr code_ptr owner co_flags skip s =
     (let tid = cur_tid e;
          (kind, s1) = (case bm_get (CODE_KIND s) \<lparr>ck_tgid = cur_tgid e, ck_code_ptr = code_ptr\<rparr> of
                          Some k \<Rightarrow> (k, s) | None \<Rightarrow> classify e (cur_tgid e) code_ptr s)
      in if kind = CODE_KIND_WORKITEM_CTOR \<or> kind = CODE_KIND_WORKITEM_RUN \<or>
            kind = CODE_KIND_THREAD_CTOR \<or> kind = CODE_KIND_THREAD_RUN
         then (True, s1)
         else if skip \<and> owner = 0 \<and> co_flags AND CO_FLAGS_GENERATOR_MASK \<noteq> 0
         then (True, if kind = CODE_KIND_TOOL_ROOT_LC
                     then case find_root_rule kind s1 of
                            Some rule \<Rightarrow> snd (extract_and_resolve e frame_ptr code_ptr rule 0 s1)
                          | None \<Rightarrow> s1
                     else s1)
         else if kind = CODE_KIND_IGNORE then enter_ignored_frame e tid frame_ptr code_ptr co_flags s1
         else enter_ruled_frame e tid frame_ptr code_ptr co_flags kind skip s1)"

definition handle_tool_frame_entry_for_ptr_inner ::
  "probe_env \<Rightarrow> u64 \<Rightarrow> bool \<Rightarrow> bpf_state \<Rightarrow> bool \<times> bpf_state" where
  "handle_tool_frame_entry_for_ptr_inner e frame_ptr skip s =
     (case py_off s OFF_FRAME_F_EXECUTABLE of
        None \<Rightarrow> (False, s)
      | Some off_exec \<Rightarrow>
          (case rd_u64 e (frame_ptr + off_exec) of
             None \<Rightarrow> (False, s)
           | Some code_ptr \<Rightarrow>
               if code_ptr = 0 then (True, s)
               else
                 (case (py_off s OFF_FRAME_OWNER, py_off s OFF_CODE_FLAGS) of
                    (Some off_owner, Some off_flags) \<Rightarrow>
                      enter_frame_of_code e frame_ptr code_ptr
                        (case rd_u8 e (frame_ptr + off_owner) of Some v \<Rightarrow> v | None \<Rightarrow> 255)
                        (case rd_u32 e (code_ptr + off_flags) of Some v \<Rightarrow> v | None \<Rightarrow> 0) skip s
                  | _ \<Rightarrow> (False, s))))"

definition handle_frame_entry :: "probe_env \<Rightarrow> bpf_state \<Rightarrow> bool \<times> bpf_state" where
  "handle_frame_entry e s =
     (case read_frame_from_ctx e s of
        None \<Rightarrow> (False, s) | Some frame_ptr \<Rightarrow> handle_tool_frame_entry_for_ptr_inner e frame_ptr True s)"

definition handle_frame_resume :: "probe_env \<Rightarrow> bpf_state \<Rightarrow> bool \<times> bpf_state" where
  "handle_frame_resume e s =
     (case read_frame_from_ctx e s of
        None \<Rightarrow> (False, s) | Some frame_ptr \<Rightarrow> handle_tool_frame_entry_for_ptr_inner e frame_ptr False s)"

definition handle_frame_func_entry :: "probe_env \<Rightarrow> bpf_state \<Rightarrow> bool \<times> bpf_state" where
  "handle_frame_func_entry e s =
     (case arg e 1 of
        None \<Rightarrow> (False, s) | Some frame_ptr \<Rightarrow> handle_tool_frame_entry_for_ptr_inner e frame_ptr True s)"

section \<open>Frame exit\<close>

definition read_register :: "probe_env \<Rightarrow> u32 \<Rightarrow> u64 option" where
  "read_register e reg_idx = (if 30 < unat reg_idx then None else reg e (unat reg_idx))"

definition handle_frame_exit_legacy :: "probe_env \<Rightarrow> u32 \<Rightarrow> bpf_state \<Rightarrow> bpf_state" where
  "handle_frame_exit_legacy e tid s =
     (case frame_stash_pop tid s of
        (None, s1) \<Rightarrow> s1
      | (Some frame_ptr, s1) \<Rightarrow>
          (case bm_get (FRAME_CTX s1) (py_object_key e frame_ptr) of
             None \<Rightarrow> s1
           | Some ctx_id \<Rightarrow>
               (case bm_get (TOOL_CTX s1) ctx_id of
                  Some c \<Rightarrow>
                    if flags c AND TOOL_CTX_FLAG_PENDING_START \<noteq> 0 then drop_frame_ctx e frame_ptr ctx_id s1
                    else if last_seen_ns c = 0 then frame_stash_push tid frame_ptr s1
                    else (case tool_stack_remove_frame_ctx tid frame_ptr ctx_id s1 of
                            (Some entry, s2) \<Rightarrow> close_tool_stack_entry e tid entry s2
                          | (None, s2) \<Rightarrow> end_frame e tid frame_ptr ctx_id (tool_id_of s2 ctx_id) s2)
                | None \<Rightarrow>
                    (case tool_stack_remove_frame_ctx tid frame_ptr ctx_id s1 of
                       (Some entry, s2) \<Rightarrow> close_tool_stack_entry e tid entry s2
                     | (None, s2) \<Rightarrow> end_frame e tid frame_ptr ctx_id (tool_id_of s2 ctx_id) s2))))"

text \<open>Both exit probes, once the parent frame has been read from their register.\<close>

definition exit_to_parent :: "probe_env \<Rightarrow> u64 \<Rightarrow> bpf_state \<Rightarrow> bpf_state" where
  "exit_to_parent e parent_ptr s =
     (let tid = cur_tid e
      in if parent_ptr = 0 then handle_frame_exit_legacy e tid s
         else let (handled, s1) = dispatch_exit_for_parent e tid parent_ptr s
              in if handled then s1
                 else case frame_stash_peek tid s1 of
                        None \<Rightarrow> handle_frame_exit_legacy e tid s1
                      | Some frame_ptr \<Rightarrow>
                          (case tool_stack_pop_if_frame_parent tid frame_ptr parent_ptr s1 of
                             (Some entry, s2) \<Rightarrow>
                               close_tool_stack_entry e tid entry (snd (frame_stash_pop tid s2))
                           | (None, s2) \<Rightarrow> handle_frame_exit_legacy e tid s2))"

definition handle_frame_exit_normal :: "probe_env \<Rightarrow> bpf_state \<Rightarrow> bool \<times> bpf_state" where
  "handle_frame_exit_normal e s =
     (case arr_get (PYTHON_OFFSETS s) OFF_FRAME_REG_IDX of
        None \<Rightarrow> (False, s)
      | Some reg_idx \<Rightarrow>
          (True, exit_to_parent e (case read_register e reg_idx of Some p \<Rightarrow> p | None \<Rightarrow> 0) s))"

definition handle_frame_exit_exception :: "probe_env \<Rightarrow> bpf_state \<Rightarrow> bool \<times> bpf_state" where
  "handle_frame_exit_exception e s =
     (case arr_get (PYTHON_OFFSETS s) OFF_EXCEPTION_FRAME_REG_IDX of
        None \<Rightarrow> (False, s)
      | Some reg_idx \<Rightarrow>
          (True, exit_to_parent e (case read_register e reg_idx of Some p \<Rightarrow> p | None \<Rightarrow> 0) s))"

section \<open>Invariants\<close>

lemma tool_stack_take_policy [frame_simps, simp]:
  "policy_view (snd (tool_stack_remove_frame_ctx t f c s)) = policy_view s"
  "policy_view (snd (tool_stack_pop_if_frame_parent t f c s)) = policy_view s"
  by (simp_all add: tool_stack_remove_frame_ctx_def tool_stack_pop_if_frame_parent_def)

lemma tool_stack_take_ok [ok_intros]:
  "state_ok s \<Longrightarrow> state_ok (snd (tool_stack_remove_frame_ctx t f c s))"
  "state_ok s \<Longrightarrow> state_ok (snd (tool_stack_pop_if_frame_parent t f c s))"
  by (auto simp: tool_stack_remove_frame_ctx_def tool_stack_pop_if_frame_parent_def intro!: ok_intros)

lemma drop_frame_ctx_frame [frame_simps, simp]:
  "policy_view (drop_frame_ctx e f c s) = policy_view s"
  by (simp add: drop_frame_ctx_def policy_view_def)

lemma drop_frame_ctx_ok [ok_intros]: "state_ok s \<Longrightarrow> state_ok (drop_frame_ctx e f c s)"
  by (simp add: drop_frame_ctx_def state_ok_def)

lemma ctx_insert_ok: "state_ok s \<Longrightarrow> c \<noteq> 0 \<Longrightarrow> state_ok (s\<lparr>TOOL_CTX := bm_insert c v (TOOL_CTX s)\<rparr>)"
  by (auto simp: state_ok_def dest: bm_get_insert_SomeD) (metis bm_get_insert_SomeD not_None_eq)

lemma frame_fields_frame [frame_simps, simp, ok_intros]:
  "policy_view (s\<lparr>TOOL_CTX := m\<rparr>) = policy_view s" "policy_view (s\<lparr>FRAME_CTX := f\<rparr>) = policy_view s"
  "policy_view (s\<lparr>PENDING_FRAME_TOOL := p\<rparr>) = policy_view s"
  "state_ok s \<Longrightarrow> sized 8192 f \<Longrightarrow> state_ok (s\<lparr>FRAME_CTX := f\<rparr>)" "state_ok s \<Longrightarrow> sized 8192 p \<Longrightarrow> state_ok (s\<lparr>PENDING_FRAME_TOOL := p\<rparr>)"
  by (simp_all add: policy_view_def state_ok_def)

lemma open_frame_ctx_policy [frame_simps, simp]:
  "policy_view (snd (open_frame_ctx e t f c tool fl s)) = policy_view s"
  by (auto simp: open_frame_ctx_def Let_def case_prod_beta)

lemma open_frame_ctx_ok [ok_intros]:
  "state_ok s \<Longrightarrow> c \<noteq> 0 \<Longrightarrow> state_ok (snd (open_frame_ctx e t f c tool fl s))"
  by (auto simp: open_frame_ctx_def Let_def case_prod_beta 
      intro!: drop_frame_ctx_ok ctx_stack_push_ok ctx_insert_ok frame_fields_frame(4) sized_ops(2) state_ok_sized)

lemma push_active_task_policy [frame_simps, simp]: "policy_view (push_active_task e t c tool s) = policy_view s"
  by (auto simp: push_active_task_def split: option.split)

lemma push_active_task_ok [ok_intros]: "state_ok s \<Longrightarrow> state_ok (push_active_task e t c tool s)"
  by (auto simp: push_active_task_def intro!: ok_intros split: option.split)

lemma announce_tool_policy [frame_simps, simp]: "policy_view (announce_tool e t c f p tool s) = policy_view s"
  by (simp add: announce_tool_def)

lemma announce_tool_ok [ok_intros]: "state_ok s \<Longrightarrow> state_ok (announce_tool e t c f p tool s)"
  by (auto simp: announce_tool_def intro!: ok_intros)

lemma reactivate_frame_policy [frame_simps, simp]: "policy_view (reactivate_frame e t c f p tool s) = policy_view s"
  by (auto simp: reactivate_frame_def Let_def split: option.split)

lemma reactivate_frame_ok [ok_intros]: "state_ok s \<Longrightarrow> state_ok (reactivate_frame e t c f p tool s)"
  by (auto simp: reactivate_frame_def Let_def intro!: ok_intros split: option.split)

lemma end_frame_policy [frame_simps, simp]: "policy_view (end_frame e t f c tool s) = policy_view s"
  by (simp add: end_frame_def)

lemma end_frame_ok [ok_intros]: "state_ok s \<Longrightarrow> state_ok (end_frame e t f c tool s)"
  by (auto simp: end_frame_def intro!: ok_intros)

lemma close_tool_stack_entry_policy [frame_simps, simp]: "policy_view (close_tool_stack_entry e t en s) = policy_view s"
  by (auto simp: close_tool_stack_entry_def split: option.split)

lemma close_tool_stack_entry_ok [ok_intros]: "state_ok s \<Longrightarrow> state_ok (close_tool_stack_entry e t en s)"
  by (auto simp: close_tool_stack_entry_def intro!: ok_intros split: option.split)

lemma start_self_policy [frame_simps, simp]:
  "policy_view (snd (start_cached_self_tool_root e t f p tool fl s)) = policy_view s"
  by (auto simp: start_cached_self_tool_root_def Let_def alloc_ctx_id_eq case_prod_beta) (simp_all add: policy_view_def)

lemma alloc_ok: "state_ok (s\<lparr>CTX_COUNTER := m\<rparr>) = state_ok s" "policy_view (s\<lparr>CTX_COUNTER := m\<rparr>) = policy_view s"
  by (simp_all add: state_ok_def policy_view_def)

lemmas alloc_simps = alloc_ctx_id_eq alloc_ok ctx_id_of_nonzero [OF next_val_nonzero]

lemma start_self_ok [ok_intros]:
  "state_ok s \<Longrightarrow> state_ok (snd (start_cached_self_tool_root e t f p tool fl s))"
  by (auto simp: start_cached_self_tool_root_def Let_def alloc_simps case_prod_beta
      intro!: announce_tool_ok open_frame_ctx_ok)

lemma start_parent_policy [frame_simps, simp]:
  "policy_view (snd (start_cached_parent_tool_if_needed e t p s)) = policy_view s"
  by (auto simp: start_cached_parent_tool_if_needed_def Let_def split: option.split)

lemma start_parent_ok [ok_intros]:
  "state_ok s \<Longrightarrow> state_ok (snd (start_cached_parent_tool_if_needed e t p s))"
  by (auto simp: start_cached_parent_tool_if_needed_def Let_def intro!: start_self_ok split: option.split)

lemma enter_impl_policy [frame_simps, simp]: "policy_view (snd (enter_impl_frame e t f p fl c s)) = policy_view s"
  by (auto simp: enter_impl_frame_def Let_def case_prod_beta split: option.split)

lemma enter_impl_ok [ok_intros]: "state_ok s \<Longrightarrow> state_ok (snd (enter_impl_frame e t f p fl c s))"
  by (auto simp: enter_impl_frame_def Let_def case_prod_beta intro!: ok_intros split: option.split)

lemma enter_ignored_policy [frame_simps, simp]: "policy_view (snd (enter_ignored_frame e t f d fl s)) = policy_view s"
  by (auto simp: enter_ignored_frame_def Let_def case_prod_beta split: option.split)

lemma enter_ignored_ok [ok_intros]: "state_ok s \<Longrightarrow> state_ok (snd (enter_ignored_frame e t f d fl s))"
  by (auto simp: enter_ignored_frame_def Let_def case_prod_beta intro!: ok_intros split: option.split)

lemma enter_pending_policy [frame_simps, simp]: "policy_view (snd (enter_pending_frame e t f p s)) = policy_view s"
  by (auto simp: enter_pending_frame_def Let_def split: option.split)

lemma enter_pending_ok [ok_intros]: "state_ok s \<Longrightarrow> state_ok (snd (enter_pending_frame e t f p s))"
  by (auto simp: enter_pending_frame_def Let_def intro!: start_self_ok split: option.split)

lemma enter_known_policy [frame_simps, simp]: "policy_view (snd (enter_known_frame e t f p s)) = policy_view s"
  by (auto simp: enter_known_frame_def Let_def case_prod_beta split: option.split)

lemma enter_known_ok [ok_intros]: "state_ok s \<Longrightarrow> state_ok (snd (enter_known_frame e t f p s))"
  by (auto simp: enter_known_frame_def Let_def case_prod_beta intro!: ok_intros split: option.split)

lemma root_is_duplicate_frame [frame_simps, simp, ok_intros]:
  "policy_view (snd (root_is_duplicate e t f c fl cur s)) = policy_view s"
  "state_ok s \<Longrightarrow> state_ok (snd (root_is_duplicate e t f c fl cur s))"
  by (auto simp: root_is_duplicate_def Let_def case_prod_beta)

lemma enter_root_lc_policy [frame_simps, simp]: "policy_view (snd (enter_root_lc e t f p d fl s)) = policy_view s"
  by (auto simp: enter_root_lc_def Let_def alloc_simps case_prod_beta discard_root_def split: option.split)

lemma enter_root_lc_ok [ok_intros]: "state_ok s \<Longrightarrow> state_ok (snd (enter_root_lc e t f p d fl s))"
  by (auto simp: enter_root_lc_def Let_def alloc_simps case_prod_beta discard_root_def
      intro!: ok_intros split: option.split)

lemma enter_other_policy [frame_simps, simp]:
  "policy_view (snd (enter_root_lg e t f fl s)) = policy_view s" "policy_view (enter_id_rule e t f d s) = policy_view s"
  by (auto simp: enter_root_lg_def enter_id_rule_def Let_def alloc_simps case_prod_beta split: option.split)

lemma enter_other_ok [ok_intros]:
  "state_ok s \<Longrightarrow> state_ok (snd (enter_root_lg e t f fl s))" "state_ok s \<Longrightarrow> state_ok (enter_id_rule e t f d s)"
  by (auto simp: enter_root_lg_def enter_id_rule_def Let_def alloc_simps case_prod_beta
      intro!: open_frame_ctx_ok split: option.split)

lemma enter_by_kind_policy [frame_simps, simp]: "policy_view (snd (enter_by_kind e t f p d fl k s)) = policy_view s"
  by (simp add: enter_by_kind_def)

lemma enter_by_kind_ok [ok_intros]: "state_ok s \<Longrightarrow> state_ok (snd (enter_by_kind e t f p d fl k s))"
  by (simp add: enter_by_kind_def enter_root_lc_ok enter_other_ok)

lemma enter_ruled_policy [frame_simps, simp]: "policy_view (snd (enter_ruled_frame e t f d fl k skip s)) = policy_view s"
  by (auto simp: enter_ruled_frame_def case_prod_beta split: option.split)

lemma enter_ruled_ok [ok_intros]: "state_ok s \<Longrightarrow> state_ok (snd (enter_ruled_frame e t f d fl k skip s))"
  by (auto simp: enter_ruled_frame_def case_prod_beta
      intro!: ok_intros split: option.split)

lemma enter_frame_of_code_policy [frame_simps, simp]:
  "policy_view (snd (enter_frame_of_code e f d ow fl skip s)) = policy_view s"
  by (auto simp: enter_frame_of_code_def Let_def case_prod_beta split: option.split)

lemma enter_frame_of_code_ok [ok_intros]:
  "state_ok s \<Longrightarrow> state_ok (snd (enter_frame_of_code e f d ow fl skip s))"
  by (auto simp: enter_frame_of_code_def Let_def case_prod_beta
      intro!: enter_ruled_ok enter_ignored_ok split: option.split)

lemma frame_entry_policy [frame_simps, simp]:
  "policy_view (snd (handle_tool_frame_entry_for_ptr_inner e f skip s)) = policy_view s"
  by (auto simp: handle_tool_frame_entry_for_ptr_inner_def split: option.split)

lemma frame_entry_ok [ok_intros]:
  "state_ok s \<Longrightarrow> state_ok (snd (handle_tool_frame_entry_for_ptr_inner e f skip s))"
  by (auto simp: handle_tool_frame_entry_for_ptr_inner_def intro!: enter_frame_of_code_ok split: option.split)

lemmas frame_handler_defs = handle_frame_entry_def handle_frame_resume_def handle_frame_func_entry_def

lemma frame_handlers_policy [frame_simps, simp]:
  "policy_view (snd (handle_frame_entry e s)) = policy_view s"
  "policy_view (snd (handle_frame_resume e s)) = policy_view s"
  "policy_view (snd (handle_frame_func_entry e s)) = policy_view s"
  by (auto simp: frame_handler_defs split: option.split)

lemma frame_handlers_ok [ok_intros]:
  "state_ok s \<Longrightarrow> state_ok (snd (handle_frame_entry e s))"
  "state_ok s \<Longrightarrow> state_ok (snd (handle_frame_resume e s))"
  "state_ok s \<Longrightarrow> state_ok (snd (handle_frame_func_entry e s))"
  by (auto simp: frame_handler_defs intro!: frame_entry_ok split: option.split)

lemma exit_legacy_policy [frame_simps, simp]: "policy_view (handle_frame_exit_legacy e t s) = policy_view s"
  by (auto simp: handle_frame_exit_legacy_def case_prod_beta split: option.split)

lemma exit_legacy_ok [ok_intros]: "state_ok s \<Longrightarrow> state_ok (handle_frame_exit_legacy e t s)"
  by (auto simp: handle_frame_exit_legacy_def case_prod_beta intro!: ok_intros split: option.split)

lemma exit_to_parent_policy [frame_simps, simp]: "policy_view (exit_to_parent e p s) = policy_view s"
  by (auto simp: exit_to_parent_def Let_def case_prod_beta split: option.split)

lemma exit_to_parent_ok [ok_intros]: "state_ok s \<Longrightarrow> state_ok (exit_to_parent e p s)"
  by (auto simp: exit_to_parent_def Let_def case_prod_beta intro!: ok_intros split: option.split)

lemma exit_handlers_policy [frame_simps, simp]:
  "policy_view (snd (handle_frame_exit_normal e s)) = policy_view s"
  "policy_view (snd (handle_frame_exit_exception e s)) = policy_view s"
  by (auto simp: handle_frame_exit_normal_def handle_frame_exit_exception_def split: option.split)

lemma exit_handlers_ok [ok_intros]:
  "state_ok s \<Longrightarrow> state_ok (snd (handle_frame_exit_normal e s))"
  "state_ok s \<Longrightarrow> state_ok (snd (handle_frame_exit_exception e s))"
  by (auto simp: handle_frame_exit_normal_def handle_frame_exit_exception_def intro!: exit_to_parent_ok
      split: option.split)

end
