(* ===== verification/Paths.thy ===== *)
theory Paths
  imports Prelude
begin

text \<open>
  Kernel objects and their paths: the null-checked accessors of
  \<^verbatim>\<open>src/ironscope-common/src/co_re/mod.rs\<close>, the bounded path buffer and the walk from a file to
  the root of the file system of \<^verbatim>\<open>path.rs\<close>, with the two clamps of \<^verbatim>\<open>utils.rs\<close>.
\<close>

section \<open>Kernel objects\<close>

text \<open>
  Kernel objects are addresses.  What the generated shims read from them is a parameter: each
  field of the record gives a field of a kernel structure, \<open>None\<close> where the running kernel does
  not have it.  \<open>k_read\<close> is the probe read of a number of bytes.
\<close>

record kernel_view =
  lsm_arg :: "nat \<Rightarrow> u64"
  shim_f_inode :: "u64 \<Rightarrow> u64 option"
  shim_f_path :: "u64 \<Rightarrow> u64 option"
  shim_i_ino :: "u64 \<Rightarrow> u64 option"
  shim_i_sb :: "u64 \<Rightarrow> u64 option"
  shim_s_dev :: "u64 \<Rightarrow> u64 option"
  shim_path_dentry :: "u64 \<Rightarrow> u64 option"
  shim_path_mnt :: "u64 \<Rightarrow> u64 option"
  shim_mount_from_vfsmount :: "u64 \<Rightarrow> u64"
  shim_mnt_root :: "u64 \<Rightarrow> u64 option"
  shim_mnt_parent :: "u64 \<Rightarrow> u64 option"
  shim_mnt_mountpoint :: "u64 \<Rightarrow> u64 option"
  shim_mount_mnt :: "u64 \<Rightarrow> u64 option"
  shim_d_parent :: "u64 \<Rightarrow> u64 option"
  shim_d_name :: "u64 \<Rightarrow> u64 option"
  shim_qstr_name :: "u64 \<Rightarrow> u64 option"
  shim_qstr_hash_len :: "u64 \<Rightarrow> u64 option"
  shim_bprm_file :: "u64 \<Rightarrow> u64 option"
  shim_sa_family :: "u64 \<Rightarrow> u16 option"
  shim_sin_addr :: "u64 \<Rightarrow> u32 option"
  shim_sin_port :: "u64 \<Rightarrow> u16 option"
  k_read :: "u64 \<Rightarrow> nat \<Rightarrow> u8 list option"

text \<open>Every accessor of a \<^verbatim>\<open>Core\<close> pointer checks for null first.\<close>

definition core_field :: "(u64 \<Rightarrow> 'a option) \<Rightarrow> u64 \<Rightarrow> 'a option" where
  "core_field f ptr = (if ptr = 0 then None else f ptr)"

definition qstr_len :: "kernel_view \<Rightarrow> u64 \<Rightarrow> u32 option" where
  "qstr_len k q = map_option (\<lambda>h. ucast (drop_bit 32 h)) (core_field (shim_qstr_hash_len k) q)"

section \<open>Clamps\<close>

definition bound_value_for_verifier :: "int \<Rightarrow> int \<Rightarrow> int \<Rightarrow> int" where
  "bound_value_for_verifier v lo hi = (if v < lo then lo else if v > hi then hi else v)"

definition cap_size :: "nat \<Rightarrow> nat \<Rightarrow> nat" where
  "cap_size n cap = (if cap \<le> n then cap else n mod cap)"

section \<open>The path buffer\<close>

abbreviation (input) MAX_PATH_LEN :: nat where "MAX_PATH_LEN \<equiv> 1024"
abbreviation (input) MAX_PATH_DEPTH :: nat where "MAX_PATH_DEPTH \<equiv> 128"
abbreviation (input) MAX_NAME :: nat where "MAX_NAME \<equiv> 255"

text \<open>The length never passes 1024 (\<open>path_ok\<close> below), so it is kept as a natural number.\<close>

record Path =
  p_buffer :: "u8 list"
  p_len :: nat
  p_depth :: nat

definition Path_default :: Path where
  "Path_default = \<lparr>p_buffer = replicate MAX_PATH_LEN 0, p_len = 0, p_depth = 0\<rparr>"

definition as_slice :: "Path \<Rightarrow> u8 list" where
  "as_slice p =
     (let len = nat (bound_value_for_verifier (int (p_len p)) 0 (int MAX_PATH_LEN - 1))
      in drop (length (p_buffer p) - len) (p_buffer p))"

definition path_is_empty :: "Path \<Rightarrow> bool" where
  "path_is_empty p \<longleftrightarrow> p_len p = 0"

definition space_left :: "Path \<Rightarrow> nat" where
  "space_left p = MAX_PATH_LEN - p_len p"

definition prepend_path_sep :: "Path \<Rightarrow> Path option" where
  "prepend_path_sep p =
     (let left = space_left p
      in if left < 1 then None
         else let i = left - 1
              in if length (p_buffer p) \<le> i then None
                 else Some (p\<lparr>p_buffer := (p_buffer p)[i := 0x2F], p_len := p_len p + 1\<rparr>))"

definition write_at :: "nat \<Rightarrow> 'a list \<Rightarrow> 'a list \<Rightarrow> 'a list" where
  "write_at i bs buf = take i buf @ bs @ drop (i + length bs) buf"

definition prepend_qstr_name :: "kernel_view \<Rightarrow> u64 \<Rightarrow> u32 \<Rightarrow> Path \<Rightarrow> Path option" where
  "prepend_qstr_name k name qlen p =
     (let left = space_left p; sz = unat (ucast qlen :: u8)
      in if MAX_NAME < unat qlen then None
         else if left < unat qlen then None
         else let i = left - sz
              in if length (p_buffer p) < i then None
                 else case k_read k name (cap_size (unat qlen) MAX_NAME) of
                        None \<Rightarrow> None
                      | Some bs \<Rightarrow> Some (p\<lparr>p_buffer := write_at i bs (p_buffer p),
                                            p_len := p_len p + sz, p_depth := p_depth p + 1\<rparr>))"

definition prepend_dentry :: "kernel_view \<Rightarrow> u64 \<Rightarrow> Path \<Rightarrow> Path option" where
  "prepend_dentry k entry p =
     (case core_field (shim_d_name k) entry of
        None \<Rightarrow> None
      | Some q \<Rightarrow>
          (case (core_field (shim_qstr_name k) q, qstr_len k q) of
             (Some name, Some len) \<Rightarrow> prepend_qstr_name k name len p
           | _ \<Rightarrow> None))"

section \<open>The walk to the root\<close>

text \<open>
  The \<^verbatim>\<open>for\<close> loop of \<^verbatim>\<open>core_resolve\<close>, with its iterations left as the first number.  The result
  is the entry the loop stopped at and the path so far; \<open>None\<close> is an early error return.
\<close>

fun resolve_loop :: "kernel_view \<Rightarrow> nat \<Rightarrow> u64 \<Rightarrow> u64 \<Rightarrow> u64 \<Rightarrow> u64 \<Rightarrow> Path \<Rightarrow> (u64 \<times> Path) option" where
  "resolve_loop k 0 entry mount mnt_parent mnt_root p = Some (entry, p)"
| "resolve_loop k (Suc n) entry mount mnt_parent mnt_root p =
     (if entry = mnt_root then
        if mount = mnt_parent then Some (entry, p)
        else case (core_field (shim_mnt_mountpoint k) mount, core_field (shim_mnt_parent k) mnt_parent,
                   Option.bind (core_field (shim_mount_mnt k) mnt_parent) (core_field (shim_mnt_root k))) of
               (Some entry', Some parent', Some root') \<Rightarrow> resolve_loop k n entry' mnt_parent parent' root' p
             | _ \<Rightarrow> None
      else
        case core_field (shim_d_parent k) entry of
          None \<Rightarrow> None
        | Some parent \<Rightarrow>
            if entry = parent then Some (entry, p)
            else case (if path_is_empty p then Some p else prepend_path_sep p) of
                   None \<Rightarrow> None
                 | Some p1 \<Rightarrow>
                     (case prepend_dentry k entry p1 of
                        None \<Rightarrow> None
                      | Some p2 \<Rightarrow>
                          if parent = 0 then Some (entry, p2)
                          else resolve_loop k n parent mount mnt_parent mnt_root p2))"

definition core_resolve :: "kernel_view \<Rightarrow> u64 \<Rightarrow> nat \<Rightarrow> Path \<Rightarrow> Path option" where
  "core_resolve k path max_depth p =
     (if path = 0 then Some p
      else case (core_field (shim_path_dentry k) path, core_field (shim_path_mnt k) path) of
             (Some entry, Some mnt) \<Rightarrow>
               let mount = shim_mount_from_vfsmount k mnt
               in (case (core_field (shim_mnt_parent k) mount, core_field (shim_mnt_root k) mnt) of
                     (Some mnt_parent, Some mnt_root) \<Rightarrow>
                       (case resolve_loop k max_depth entry mount mnt_parent mnt_root p of
                          None \<Rightarrow> None
                        | Some (entry', p') \<Rightarrow> prepend_dentry k entry' p')
                   | _ \<Rightarrow> None)
           | _ \<Rightarrow> None)"

definition core_resolve_file :: "kernel_view \<Rightarrow> u64 \<Rightarrow> nat \<Rightarrow> Path \<Rightarrow> Path option" where
  "core_resolve_file k f max_depth p =
     (if f = 0 then Some p
      else case core_field (shim_f_path k) f of
             None \<Rightarrow> None
           | Some path \<Rightarrow> core_resolve k path max_depth p)"

section \<open>What the buffer holds\<close>

definition path_holds :: "Path \<Rightarrow> u8 list \<Rightarrow> bool" where
  "path_holds p bs \<longleftrightarrow> length (p_buffer p) = MAX_PATH_LEN \<and> p_len p = length bs \<and>
     length bs \<le> MAX_PATH_LEN \<and> drop (MAX_PATH_LEN - length bs) (p_buffer p) = bs"

lemma path_holds_default: "path_holds Path_default []"
  by (simp add: path_holds_def Path_default_def)

lemma drop_write_at: "i \<le> length buf \<Longrightarrow> i + length bs \<le> length buf \<Longrightarrow>
    drop i (write_at i bs buf) = bs @ drop (i + length bs) buf"
  by (simp add: write_at_def)

lemma length_write_at: "i + length bs \<le> length buf \<Longrightarrow> length (write_at i bs buf) = length buf"
  by (simp add: write_at_def)

lemma prepend_sep_holds:
  assumes "path_holds p bs" "length bs < MAX_PATH_LEN"
  shows "\<exists>p'. prepend_path_sep p = Some p' \<and> path_holds p' (0x2F # bs)"
proof -
  let ?i = "MAX_PATH_LEN - length bs - 1"
  have i: "?i < length (p_buffer p)" "Suc ?i = MAX_PATH_LEN - length bs"
    using assms by (auto simp: path_holds_def)
  then have "drop ?i ((p_buffer p)[?i := 0x2F]) = 0x2F # drop (Suc ?i) (p_buffer p)"
    by (simp add: Cons_nth_drop_Suc [symmetric])
  with assms i show ?thesis
    by (auto simp: prepend_path_sep_def space_left_def Let_def path_holds_def simp del: drop_Suc)
qed

text \<open>An entry whose name the probe can read.\<close>

definition named :: "kernel_view \<Rightarrow> u64 \<Rightarrow> u8 list \<Rightarrow> bool" where
  "named k entry nm \<longleftrightarrow> entry \<noteq> 0 \<and> length nm \<le> MAX_NAME \<and>
     (\<exists>q a h. shim_d_name k entry = Some q \<and> q \<noteq> 0 \<and> shim_qstr_name k q = Some a \<and>
        shim_qstr_hash_len k q = Some h \<and> drop_bit 32 h = of_nat (length nm) \<and>
        k_read k a (length nm) = Some nm)"

lemma cap_size_name: "n \<le> MAX_NAME \<Longrightarrow> cap_size n MAX_NAME = n"
  by (auto simp: cap_size_def)

lemma prepend_qstr_holds:
  assumes holds: "path_holds p bs" and room: "length nm + length bs \<le> MAX_PATH_LEN"
    and short: "length nm \<le> MAX_NAME" and read: "k_read k a (length nm) = Some nm"
  shows "\<exists>p'. prepend_qstr_name k a (of_nat (length nm)) p = Some p' \<and> path_holds p' (nm @ bs)"
proof -
  let ?i = "MAX_PATH_LEN - length bs - length nm"
  have len: "unat (of_nat (length nm) :: u32) = length nm" "unat (ucast (of_nat (length nm) :: u32) :: u8) = length nm"
    using short by (simp_all add: unsigned_ucast_eq unsigned_of_nat take_bit_nat_eq_self)
  have i: "?i \<le> length (p_buffer p)" "?i + length nm = MAX_PATH_LEN - length bs" "length (p_buffer p) = MAX_PATH_LEN"
    "drop (MAX_PATH_LEN - length bs) (p_buffer p) = bs" "p_len p = length bs"
    using holds room by (auto simp: path_holds_def)
  have "drop ?i (write_at ?i nm (p_buffer p)) = nm @ bs" "length (write_at ?i nm (p_buffer p)) = MAX_PATH_LEN"
    using i by (simp_all add: drop_write_at length_write_at)
  moreover have "MAX_PATH_LEN - length (nm @ bs) = ?i" by simp
  ultimately show ?thesis
    using i room short read cap_size_name [OF short]
    by (auto simp: prepend_qstr_name_def Let_def space_left_def len path_holds_def)
qed

lemma prepend_dentry_holds:
  assumes "path_holds p bs" "length nm + length bs \<le> MAX_PATH_LEN" "named k entry nm"
  shows "\<exists>p'. prepend_dentry k entry p = Some p' \<and> path_holds p' (nm @ bs)"
proof -
  obtain q a h where q: "entry \<noteq> 0" "shim_d_name k entry = Some q" "q \<noteq> 0" "shim_qstr_name k q = Some a"
    "shim_qstr_hash_len k q = Some h" "drop_bit 32 h = of_nat (length nm)" "k_read k a (length nm) = Some nm"
    "length nm \<le> MAX_NAME"
    using assms(3) by (auto simp: named_def)
  have "(ucast (of_nat (length nm) :: u64) :: u32) = of_nat (length nm)"
    using q(8) by (simp add: word_eq_iff_unsigned unsigned_ucast_eq unsigned_of_nat take_bit_nat_eq_self)
  with q have "prepend_dentry k entry p = prepend_qstr_name k a (of_nat (length nm)) p"
    by (simp add: prepend_dentry_def core_field_def qstr_len_def)
  with prepend_qstr_holds [OF assms(1,2) q(8,7)] show ?thesis by simp
qed

section \<open>Walks\<close>

text \<open>
  Where the loop stands: the entry, its mount, the parent mount and the root of the mount.  A
  walk of \<open>m\<close> iterations collects the names of the entries it climbs from, outermost first; it
  crosses from the root of a mount to the entry it is mounted on without collecting a name.
\<close>

type_synonym position = "u64 \<times> u64 \<times> u64 \<times> u64"

inductive walk :: "kernel_view \<Rightarrow> position \<Rightarrow> nat \<Rightarrow> u8 list list \<Rightarrow> position \<Rightarrow> bool" for k where
  here: "walk k c 0 [] c"
| up: "walk k (par, mount, parent, root) m ns c \<Longrightarrow> entry \<noteq> root \<Longrightarrow> shim_d_parent k entry = Some par \<Longrightarrow>
    par \<noteq> entry \<Longrightarrow> par \<noteq> 0 \<Longrightarrow> named k entry nm \<Longrightarrow> nm \<noteq> [] \<Longrightarrow>
    walk k (entry, mount, parent, root) (Suc m) (ns @ [nm]) c"
| cross: "walk k (entry', parent, parent', root') m ns c \<Longrightarrow> mount \<noteq> parent \<Longrightarrow> mount \<noteq> 0 \<Longrightarrow> parent \<noteq> 0 \<Longrightarrow>
    shim_mnt_mountpoint k mount = Some entry' \<Longrightarrow> shim_mnt_parent k parent = Some parent' \<Longrightarrow>
    shim_mount_mnt k parent = Some v \<Longrightarrow> v \<noteq> 0 \<Longrightarrow> shim_mnt_root k v = Some root' \<Longrightarrow>
    walk k (root, mount, parent, root) (Suc m) ns c"

definition add_name :: "u8 list \<Rightarrow> u8 list \<Rightarrow> u8 list" where
  "add_name nm bs = (if bs = [] then nm else nm @ 0x2F # bs)"

lemma add_names_grow: "length bs \<le> length (foldr add_name ns bs)"
  by (induction ns) (auto simp: add_name_def)

lemma resolve_loop_walk:
  assumes "walk k (entry, mount, parent, root) m ns (entry', mount', parent', root')" "m \<le> n" "path_holds p bs"
    and "length (foldr add_name ns bs) \<le> MAX_PATH_LEN"
  shows "\<exists>p'. resolve_loop k n entry mount parent root p = resolve_loop k (n - m) entry' mount' parent' root' p' \<and>
           path_holds p' (foldr add_name ns bs)"
  using assms
proof (induction "(entry, mount, parent, root)" m ns "(entry', mount', parent', root')"
    arbitrary: entry mount parent root n p bs rule: walk.induct)
  case here
  then show ?case by auto
next
  case (up par mount parent root m ns entry nm)
  obtain l where n: "n = Suc l" "m \<le> l" using up.prems(1) by (cases n) auto
  have fits: "length (add_name nm bs) \<le> MAX_PATH_LEN"
    using up.prems(3) add_names_grow [of "add_name nm bs" ns] by simp
  obtain p1 where p1: "(if path_is_empty p then Some p else prepend_path_sep p) = Some p1"
    "path_holds p1 (if bs = [] then [] else 0x2F # bs)"
    using up.prems(2) prepend_sep_holds [of p bs] fits
    by (auto simp: path_is_empty_def path_holds_def add_name_def split: if_splits)
  obtain p2 where p2: "prepend_dentry k entry p1 = Some p2" "path_holds p2 (add_name nm bs)"
    using prepend_dentry_holds [OF p1(2) _ up.hyps(7)] fits by (auto simp: add_name_def split: if_splits)
  have step: "resolve_loop k n entry mount parent root p = resolve_loop k l par mount parent root p2"
    using up.hyps(3-7) p1(1) p2(1) n(1) by (simp add: core_field_def named_def)
  from up.hyps(2) [OF n(2) p2(2)] up.prems(3) show ?case
    unfolding step using n(1) by (simp del: resolve_loop.simps)
next
  case (cross e parent parent' root' m ns mount v root)
  obtain l where n: "n = Suc l" "m \<le> l" using cross.prems(1) by (cases n) auto
  have step: "resolve_loop k n root mount parent root p = resolve_loop k l e parent parent' root' p"
    using cross.hyps(3-) n(1) by (simp add: core_field_def)
  from cross.hyps(2) [OF n(2) cross.prems(2,3)] show ?case
    unfolding step using n(1) by (simp del: resolve_loop.simps)
qed

section \<open>Paths of files\<close>

text \<open>The position a file opens at, and the top of the file system.\<close>

definition file_at :: "kernel_view \<Rightarrow> u64 \<Rightarrow> position \<Rightarrow> bool" where
  "file_at k f c \<longleftrightarrow> (case c of (entry, mount, parent, root) \<Rightarrow>
     f \<noteq> 0 \<and> mount \<noteq> 0 \<and> shim_mnt_parent k mount = Some parent \<and>
     (\<exists>path mnt. shim_f_path k f = Some path \<and> path \<noteq> 0 \<and> shim_path_dentry k path = Some entry \<and>
        shim_path_mnt k path = Some mnt \<and> mnt \<noteq> 0 \<and> mount = shim_mount_from_vfsmount k mnt \<and>
        shim_mnt_root k mnt = Some root))"

definition at_fs_root :: "kernel_view \<Rightarrow> position \<Rightarrow> bool" where
  "at_fs_root k c \<longleftrightarrow> (case c of (entry, mount, parent, root) \<Rightarrow>
     entry = root \<and> mount = parent \<or> entry \<noteq> root \<and> entry \<noteq> 0 \<and> shim_d_parent k entry = Some entry)"

definition abs_path :: "u8 list list \<Rightarrow> u8 list" where
  "abs_path ns = (if ns = [] then [0x2F] else concat (map (\<lambda>nm. 0x2F # nm) ns))"

lemma resolve_loop_root:
  "at_fs_root k (entry, mount, parent, root) \<Longrightarrow> resolve_loop k n entry mount parent root p = Some (entry, p)"
  by (cases n) (auto simp: at_fs_root_def core_field_def)

lemma foldr_add_name_ne: "bs \<noteq> [] \<Longrightarrow> 0x2F # foldr add_name ns bs = concat (map (\<lambda>nm. 0x2F # nm) ns) @ 0x2F # bs"
proof (induction ns)
  case (Cons nm ns)
  then have "foldr add_name ns bs \<noteq> []"
    using add_names_grow [of bs ns] by auto
  with Cons show ?case by (simp add: add_name_def [of nm "foldr add_name ns bs"])
qed simp

lemma walk_names: "walk k c m ns c' \<Longrightarrow> nm \<in> set ns \<Longrightarrow> nm \<noteq> []"
  by (induction rule: walk.induct) auto

lemma abs_path_add_names:
  assumes "\<forall>nm \<in> set ns. nm \<noteq> []" shows "0x2F # foldr add_name ns [] = abs_path ns"
proof (cases ns rule: rev_cases)
  case (snoc ms nm)
  then have "nm \<noteq> []" using assms by simp
  from foldr_add_name_ne [OF this, of ms] snoc show ?thesis by (simp add: abs_path_def add_name_def)
qed (simp add: abs_path_def)

lemma as_slice_holds: "path_holds p bs \<Longrightarrow> length bs < MAX_PATH_LEN \<Longrightarrow> as_slice p = bs"
  by (auto simp: as_slice_def bound_value_for_verifier_def path_holds_def Let_def)

lemma core_resolve_file_walk:
  assumes opened: "file_at k f (entry, mount, parent, root)"
    and walk: "walk k (entry, mount, parent, root) m ns (e', m', p', r')" and m: "m \<le> n"
    and stop: "\<And>p. resolve_loop k (n - m) e' m' p' r' p = Some (e', p)" and nm: "named k e' nm"
    and fits: "length nm + length (foldr add_name ns []) \<le> MAX_PATH_LEN"
  shows "\<exists>p. core_resolve_file k f n Path_default = Some p \<and> path_holds p (nm @ foldr add_name ns [])"
proof -
  obtain q where q: "resolve_loop k n entry mount parent root Path_default = Some (e', q)"
    "path_holds q (foldr add_name ns [])"
    using resolve_loop_walk [OF walk m path_holds_default] fits stop by auto
  have "core_resolve_file k f n Path_default = prepend_dentry k e' q"
    using opened q(1) by (auto simp: file_at_def core_resolve_file_def core_resolve_def core_field_def Let_def
        simp del: resolve_loop.simps)
  with prepend_dentry_holds [OF q(2) fits nm] show ?thesis by simp
qed

text \<open>The path in a guard event is the file's absolute path.  For a file whose entries lead to the
  top of the file system in at most 128 steps, mount points crossed on the way included, and
  whose path is shorter than the buffer, the walk succeeds and the event carries \<open>/\<close> followed by
  the names on the way, separated by \<open>/\<close>.\<close>

theorem resolved_path_absolute:
  assumes opened: "file_at k f start" and walk: "walk k start m ns (entry, mount, parent, root)"
    and top: "at_fs_root k (entry, mount, parent, root)" "named k entry [0x2F]"
    and depth: "m \<le> MAX_PATH_DEPTH" and short: "length (abs_path ns) < MAX_PATH_LEN"
  shows "\<exists>p. core_resolve_file k f MAX_PATH_DEPTH Path_default = Some p \<and> as_slice p = abs_path ns"
proof -
  obtain e t pa ro where start: "start = (e, t, pa, ro)" by (cases start)
  have path: "0x2F # foldr add_name ns [] = abs_path ns"
    using walk_names [OF walk] by (intro abs_path_add_names) blast
  have "length [0x2F :: u8] + length (foldr add_name ns []) \<le> MAX_PATH_LEN"
    using short by (simp add: path [symmetric])
  from core_resolve_file_walk [OF opened [unfolded start] walk [unfolded start] depth
      resolve_loop_root [OF top(1)] top(2) this]
  obtain p where "core_resolve_file k f MAX_PATH_DEPTH Path_default = Some p" "path_holds p (abs_path ns)"
    using path by auto
  with as_slice_holds short show ?thesis by blast
qed

text \<open>A file \<^verbatim>\<open>/a\<close> on a single mount.\<close>

definition view_a :: kernel_view where
  "view_a = \<lparr>lsm_arg = (\<lambda>_. 1), shim_f_inode = (\<lambda>_. Some 10), shim_f_path = (\<lambda>_. Some 2), shim_i_ino = (\<lambda>_. Some 77),
     shim_i_sb = (\<lambda>_. Some 11), shim_s_dev = (\<lambda>_. Some 8), shim_path_dentry = (\<lambda>_. Some 3), shim_path_mnt = (\<lambda>_. Some 5),
     shim_mount_from_vfsmount = (\<lambda>_. 6), shim_mnt_root = (\<lambda>_. Some 4), shim_mnt_parent = (\<lambda>_. Some 6),
     shim_mnt_mountpoint = (\<lambda>_. None), shim_mount_mnt = (\<lambda>_. None), shim_d_parent = (\<lambda>_. Some 4),
     shim_d_name = (\<lambda>d. Some (d + 100)), shim_qstr_name = Some, shim_qstr_hash_len = (\<lambda>_. Some (push_bit 32 1)),
     shim_bprm_file = (\<lambda>_. Some 1), shim_sa_family = (\<lambda>_. Some 2), shim_sin_addr = (\<lambda>_. Some 0x0100007F),
     shim_sin_port = (\<lambda>_. Some 0xBB01), k_read = (\<lambda>a n. Some [if a = 103 then 0x61 else 0x2F])\<rparr>"

lemma view_a_names: "named view_a 3 [0x61]" "named view_a 4 [0x2F]"
  by (simp_all add: named_def view_a_def)

lemma view_a_file: "file_at view_a 1 (3, 6, 6, 4)"
  by (simp add: file_at_def view_a_def)

lemma view_a_walk: "walk view_a (3, 6, 6, 4) 1 [[0x61]] (4, 6, 6, 4)"
proof -
  have "shim_d_parent view_a 3 = Some 4" by (simp add: view_a_def)
  from walk.up [OF walk.here _ this _ _ view_a_names(1)] show ?thesis by simp
qed

theorem resolved_path_absolute_witness:
  "\<exists>p. core_resolve_file view_a 1 MAX_PATH_DEPTH Path_default = Some p \<and> as_slice p = [0x2F, 0x61]"
  using resolved_path_absolute [OF view_a_file view_a_walk _ view_a_names(2)]
  by (simp add: at_fs_root_def abs_path_def)

text \<open>A path deeper than the walk's limit is reported without the separator after its first name.
  When the 128 iterations end at an entry that is not the top, that entry's name is put directly
  in front of the next one.\<close>

theorem deep_path_glued:
  assumes opened: "file_at k f start" and walk: "walk k start MAX_PATH_DEPTH ns (entry, mount, parent, root)"
    and nm: "named k entry nm" and short: "length nm + length (foldr add_name ns []) < MAX_PATH_LEN"
  shows "\<exists>p. core_resolve_file k f MAX_PATH_DEPTH Path_default = Some p \<and> as_slice p = nm @ tl (abs_path ns)"
proof -
  obtain e t pa ro where start: "start = (e, t, pa, ro)" by (cases start)
  have path: "foldr add_name ns [] = tl (abs_path ns)"
    using abs_path_add_names [of ns] walk_names [OF walk] by (metis list.sel(3))
  obtain p where "core_resolve_file k f MAX_PATH_DEPTH Path_default = Some p" "path_holds p (nm @ tl (abs_path ns))"
    using core_resolve_file_walk [OF opened [unfolded start] walk [unfolded start] order.refl _ nm] short path by auto
  moreover have "length (nm @ tl (abs_path ns)) < MAX_PATH_LEN" using short path by simp
  ultimately show ?thesis using as_slice_holds by blast
qed
text \<open>A file below more than 128 directories, all named \<^verbatim>\<open>a\<close>.\<close>

definition view_deep :: kernel_view where
  "view_deep = view_a\<lparr>shim_d_parent := (\<lambda>d. Some (d + 1)), shim_mnt_root := (\<lambda>_. Some 1),
     k_read := (\<lambda>_ _. Some [0x61])\<rparr>"

lemma of_nat_small_ne: "i < 2000 \<Longrightarrow> j < 2000 \<Longrightarrow> i \<noteq> j \<Longrightarrow> (of_nat i :: u64) \<noteq> of_nat j"
proof
  assume "i < 2000" "j < 2000" "i \<noteq> j" "(of_nat i :: u64) = of_nat j"
  then have "unat (of_nat i :: u64) = unat (of_nat j :: u64)" by simp
  with \<open>i < 2000\<close> \<open>j < 2000\<close> \<open>i \<noteq> j\<close> show False by (simp add: unsigned_of_nat take_bit_nat_eq_self)
qed

lemma view_deep_names: "0 < n \<Longrightarrow> n < 1000 \<Longrightarrow> named view_deep (of_nat n) [0x61]"
proof -
  assume "0 < n" "n < 1000"
  then have "of_nat n \<noteq> (0 :: u64)" "of_nat n + 100 \<noteq> (0 :: u64)"
    using of_nat_small_ne [of n 0] of_nat_small_ne [of "n + 100" 0] by simp_all
  then show ?thesis by (simp add: named_def view_deep_def view_a_def)
qed

lemma view_deep_walk:
  "2 < n \<Longrightarrow> n + m < 1000 \<Longrightarrow>
   walk view_deep (of_nat n, 6, 6, 1) m (replicate m [0x61]) (of_nat (n + m), 6, 6, 1)"
proof (induction m arbitrary: n)
  case 0
  then show ?case by (simp add: walk.here)
next
  case (Suc m)
  have w: "(of_nat (Suc n) :: u64) = of_nat n + 1" by simp
  have "of_nat n \<noteq> (1 :: u64)" "of_nat n + 1 \<noteq> (0 :: u64)"
    using Suc.prems of_nat_small_ne [of n 1] of_nat_small_ne [of "n + 1" 0] by (simp_all add: add.commute)
  moreover have "walk view_deep (of_nat (Suc n), 6, 6, 1) m (replicate m [0x61]) (of_nat (Suc n + m), 6, 6, 1)"
    using Suc.prems by (intro Suc.IH) auto
  ultimately have "walk view_deep (of_nat n, 6, 6, 1) (Suc m) (replicate m [0x61] @ [[0x61]]) (of_nat (Suc n + m), 6, 6, 1)"
    using view_deep_names [of n] Suc.prems w by (intro walk.up) (auto simp: view_deep_def add.commute)
  then show ?case by (simp add: replicate_append_same)
qed

lemma foldr_add_name_replicate: "length (foldr add_name (replicate m [0x61]) []) \<le> 2 * m"
proof (induction m)
  case (Suc m)
  have "length (add_name [0x61] bs) \<le> length bs + 2" for bs by (simp add: add_name_def)
  from order.trans [OF this] Suc show ?case by simp
qed simp

theorem deep_path_glued_witness:
  "\<exists>p. core_resolve_file view_deep 1 MAX_PATH_DEPTH Path_default = Some p \<and>
     as_slice p = [0x61] @ tl (abs_path (replicate 128 [0x61]))"
proof (rule deep_path_glued)
  show "file_at view_deep 1 (of_nat 3, 6, 6, 1)" by (simp add: file_at_def view_deep_def view_a_def)
  show "walk view_deep (of_nat 3, 6, 6, 1) 128 (replicate 128 [0x61]) (of_nat (3 + 128), 6, 6, 1)"
    by (rule view_deep_walk) simp_all
  show "named view_deep (of_nat (3 + 128)) [0x61]" by (rule view_deep_names) simp_all
  show "length [0x61 :: u8] + length (foldr add_name (replicate 128 [0x61]) []) < MAX_PATH_LEN"
    using foldr_add_name_replicate [of 128] by simp
qed

end
