(* ===== verification/Guard.thy ===== *)
theory Guard
  imports Frames Paths
begin

text \<open>
  Enforcement: the event allocator (\<^verbatim>\<open>src/ironscope-ebpf/src/alloc.rs\<close>), emission of guard events
  (\<^verbatim>\<open>event_emit.rs\<close>), the prefix lookup of the network policy, and the security hooks with their
  monitoring fallbacks (\<^verbatim>\<open>lsm_hooks.rs\<close>).
\<close>

section \<open>The event allocator\<close>

abbreviation (input) HEAP_MAX_ALLOC_SIZE :: nat where "HEAP_MAX_ALLOC_SIZE \<equiv> 2048"
abbreviation (input) MAX_ALLOCS :: u32 where "MAX_ALLOCS \<equiv> 8"
abbreviation (input) SIZEOF_GUARD_EVENT :: nat where "SIZEOF_GUARD_EVENT \<equiv> 1352"
abbreviation (input) SIZEOF_PATH :: nat where "SIZEOF_PATH \<equiv> 1032"

definition ZEROS :: "u8 list" where
  "ZEROS = replicate HEAP_MAX_ALLOC_SIZE 0"

definition alloc_init :: "probe_env \<Rightarrow> bpf_state \<Rightarrow> bpf_state" where
  "alloc_init e s = s\<lparr>ALLOC_STATE := (ALLOC_STATE s)(smp_cpu e := 0)\<rparr>"

text \<open>\<open>True\<close> is \<^verbatim>\<open>Ok\<close>, a zeroed structure of the given size.\<close>

definition alloc_zero :: "probe_env \<Rightarrow> nat \<Rightarrow> bpf_state \<Rightarrow> bool \<times> bpf_state" where
  "alloc_zero e sizeof s =
     (let cpu = smp_cpu e; key = ALLOC_STATE s cpu
      in if MAX_ALLOCS \<le> key then (False, s)
         else if \<not> bm_room (HEAP s cpu) key then (False, s)
         else let s1 = s\<lparr>HEAP := (HEAP s)(cpu := bm_insert key ZEROS (HEAP s cpu))\<rparr>
              in case bm_get (HEAP s1 cpu) key of
                   None \<Rightarrow> (False, s1)
                 | Some slot \<Rightarrow>
                     if length slot < sizeof then (False, s1)
                     else (True, s1\<lparr>ALLOC_STATE := (ALLOC_STATE s1)(cpu := key + 1)\<rparr>))"

section \<open>Guard events\<close>

definition GuardEvent_zero :: GuardEvent where
  "GuardEvent_zero = \<lparr>ge_pid = 0, ge_tid = 0, ge_ppid = 0, ge_tool_id = 0, ge_ctx_id = 0, ge_ts_ns = 0, ge_kind = 0,
     ge_action = 0, ge_identity_state = 0, ge_policy_source = 0, ge_port = 0, ge_addr = 0, ge_child_pid = 0,
     ge_path_len = 0, ge_argv_len = 0, ge_path = replicate 1024 0\<rparr>"

definition copy_path_to_event :: "Path \<Rightarrow> GuardEvent \<Rightarrow> GuardEvent" where
  "copy_path_to_event p ev =
     (let path = as_slice p; len = min (length path) 1024
      in if len = 0 then ev
         else ev\<lparr>ge_path := write_at 0 (take len path) (ge_path ev), ge_path_len := of_nat len\<rparr>)"

definition submit_event :: "GuardEvent \<Rightarrow> bpf_state \<Rightarrow> bpf_state" where
  "submit_event ev s = s\<lparr>GUARD_EVENTS := rb_submit ev (GUARD_EVENTS s)\<rparr>"

text \<open>The fields every guard event has.\<close>

definition guard_event :: "probe_env \<Rightarrow> u8 \<Rightarrow> u32 \<Rightarrow> u64 \<Rightarrow> u8 \<Rightarrow> u8 \<Rightarrow> u8 \<Rightarrow> GuardEvent" where
  "guard_event e kind tool ctx_id identity source action =
     GuardEvent_zero\<lparr>ge_pid := cur_tgid e, ge_tid := cur_tid e, ge_kind := kind, ge_action := action,
       ge_tool_id := tool, ge_ctx_id := ctx_id, ge_identity_state := identity, ge_policy_source := source,
       ge_ts_ns := ktime e\<rparr>"

text \<open>The body \<^verbatim>\<open>try_emit_fs_event\<close> and \<^verbatim>\<open>try_emit_exec_event\<close> share; they differ in the kind.\<close>

definition try_emit_path_event ::
  "probe_env \<Rightarrow> kernel_view \<Rightarrow> u8 \<Rightarrow> u64 \<Rightarrow> u32 \<Rightarrow> u64 \<Rightarrow> u8 \<Rightarrow> u8 \<Rightarrow> u8 \<Rightarrow> bpf_state \<Rightarrow> bool \<times> bpf_state" where
  "try_emit_path_event e k kind f tool ctx_id identity source action s =
     (let (ok1, s1) = alloc_zero e SIZEOF_GUARD_EVENT (alloc_init e s)
      in if \<not> ok1 then (False, s1)
         else let (ok2, s2) = alloc_zero e SIZEOF_PATH s1
         in if \<not> ok2 then (False, s2)
            else case core_resolve_file k f MAX_PATH_DEPTH Path_default of
                   None \<Rightarrow> (False, s2)
                 | Some p \<Rightarrow>
                     (True, submit_event
                        (copy_path_to_event p (guard_event e kind tool ctx_id identity source action)) s2))"

definition emit_fs_event ::
  "probe_env \<Rightarrow> kernel_view \<Rightarrow> u64 \<Rightarrow> u32 \<Rightarrow> u64 \<Rightarrow> u8 \<Rightarrow> u8 \<Rightarrow> u8 \<Rightarrow> bpf_state \<Rightarrow> bpf_state" where
  "emit_fs_event e k f tool ctx_id identity source action s =
     snd (try_emit_path_event e k EVENT_FS_OPEN f tool ctx_id identity source action s)"

definition emit_exec_event ::
  "probe_env \<Rightarrow> kernel_view \<Rightarrow> u64 \<Rightarrow> u32 \<Rightarrow> u64 \<Rightarrow> u8 \<Rightarrow> u8 \<Rightarrow> u8 \<Rightarrow> bpf_state \<Rightarrow> bpf_state" where
  "emit_exec_event e k f tool ctx_id identity source action s =
     snd (try_emit_path_event e k EVENT_EXEC f tool ctx_id identity source action s)"

definition emit_net_event ::
  "probe_env \<Rightarrow> u32 \<Rightarrow> u32 \<Rightarrow> u64 \<Rightarrow> u8 \<Rightarrow> u8 \<Rightarrow> u8 \<Rightarrow> u32 \<Rightarrow> u16 \<Rightarrow> bpf_state \<Rightarrow> bpf_state" where
  "emit_net_event e pid tool ctx_id identity source action addr port s =
     (let (ok1, s1) = alloc_zero e SIZEOF_GUARD_EVENT (alloc_init e s)
      in if \<not> ok1 then s1
         else submit_event ((guard_event e EVENT_NET_CONNECT tool ctx_id identity source action)
                \<lparr>ge_pid := pid, ge_addr := addr, ge_port := port\<rparr>) s1)"

section \<open>Longest prefix match\<close>

text \<open>
  The trie compares keys bit by bit, in the order of their bytes in memory, high bit first; the
  machine is little endian.  A lookup with the full prefix finds the matching entry with the
  longest prefix.
\<close>

definition byte_bits :: "u8 \<Rightarrow> bool list" where
  "byte_bits b = map (bit b) [7, 6, 5, 4, 3, 2, 1, 0]"

definition net_bits :: "ToolNetData \<Rightarrow> bool list" where
  "net_bits d = concat (map byte_bits (le_bytes 4 (nd_tool_id d) @ le_bytes 4 (nd_addr d) @
     le_bytes 2 (nd_port d) @ [0, 0]))"

definition lpm_matches :: "u32 \<times> ToolNetData \<Rightarrow> ToolNetData \<Rightarrow> bool" where
  "lpm_matches key d \<longleftrightarrow> take (unat (fst key)) (net_bits (snd key)) = take (unat (fst key)) (net_bits d)"

primrec lpm_best ::
  "((u32 \<times> ToolNetData) \<times> u8) list \<Rightarrow> ToolNetData \<Rightarrow> ((u32 \<times> ToolNetData) \<times> u8) option" where
  "lpm_best [] d = None"
| "lpm_best (en # es) d =
     (case lpm_best es d of
        None \<Rightarrow> if lpm_matches (fst en) d then Some en else None
      | Some b \<Rightarrow> if lpm_matches (fst en) d \<and> fst (fst b) < fst (fst en) then Some en else Some b)"

definition lpm_get :: "((u32 \<times> ToolNetData) \<times> u8) list \<Rightarrow> ToolNetData \<Rightarrow> u8 option" where
  "lpm_get es d = map_option snd (lpm_best es d)"

section \<open>Decisions\<close>

definition enforce_permission :: "bool \<Rightarrow> bpf_state \<Rightarrow> int" where
  "enforce_permission denied s =
     (if \<not> denied then 0
      else case bm_get (IRONSCOPE_CONFIG s) 0 of
             None \<Rightarrow> 0
           | Some config \<Rightarrow> if mode config = MODE_ENFORCE then -1 else 0)"

definition identity_state :: "u64 \<Rightarrow> u32 \<Rightarrow> u32 \<Rightarrow> u8" where
  "identity_state ctx_id tool fl =
     (if ctx_id = 0 then IDENTITY_STATE_UNATTRIBUTED
      else if fl AND TOOL_CTX_FLAG_RESOLVER_ERROR \<noteq> 0 then IDENTITY_STATE_RESOLVER_ERROR
      else if tool = TOOL_IDLE then IDENTITY_STATE_UNKNOWN_TOOL
      else IDENTITY_STATE_KNOWN_TOOL)"

definition resolve_ctx :: "probe_env \<Rightarrow> u32 \<Rightarrow> bpf_state \<Rightarrow> (u64 \<times> u32 \<times> u8) \<times> bpf_state" where
  "resolve_ctx e tid s =
     (let (active, s1) = get_active_ctx tid (refresh_threadpool_worker_context e tid s)
      in case active of
           None \<Rightarrow> ((0, TOOL_IDLE, IDENTITY_STATE_UNATTRIBUTED), s1)
         | Some ctx_id \<Rightarrow>
             (case bm_get (TOOL_CTX s1) ctx_id of
                None \<Rightarrow> ((0, TOOL_IDLE, IDENTITY_STATE_UNATTRIBUTED), s1)
              | Some c \<Rightarrow> ((ctx_id, tool_id c, identity_state ctx_id (tool_id c) (flags c)), s1)))"

definition mark_ctx_seen :: "probe_env \<Rightarrow> u64 \<Rightarrow> bpf_state \<Rightarrow> bpf_state" where
  "mark_ctx_seen e ctx_id s =
     (if ctx_id = 0 then s
      else s\<lparr>TOOL_CTX := bm_modify ctx_id (\<lambda>c. c\<lparr>last_seen_ns := ktime e\<rparr>) (TOOL_CTX s)\<rparr>)"

definition identity_policy_decision :: "u8 \<Rightarrow> bpf_state \<Rightarrow> (bool \<times> u8) option" where
  "identity_policy_decision identity s =
     (case bm_get (IRONSCOPE_CONFIG s) 0 of
        None \<Rightarrow> None
      | Some config \<Rightarrow>
          if identity = IDENTITY_STATE_UNATTRIBUTED
          then Some (unattributed_policy config = UNATTRIBUTED_DENY, POLICY_SOURCE_UNATTRIBUTED)
          else if identity = IDENTITY_STATE_UNKNOWN_TOOL
          then Some (unknown_tool_policy config = UNKNOWN_TOOL_DENY, POLICY_SOURCE_UNKNOWN_TOOL)
          else if identity = IDENTITY_STATE_RESOLVER_ERROR
          then Some (resolver_error_policy config = RESOLVER_ERROR_DENY, POLICY_SOURCE_RESOLVER_ERROR)
          else None)"

definition decide_known_tool_permission :: "u8 option \<Rightarrow> u8 \<Rightarrow> bpf_state \<Rightarrow> bool \<times> u8" where
  "decide_known_tool_permission permission source s =
     (case permission of
        Some perm \<Rightarrow> (perm = PERM_DENY, source)
      | None \<Rightarrow>
          (case bm_get (IRONSCOPE_CONFIG s) 0 of
             None \<Rightarrow> (False, POLICY_SOURCE_DEFAULT_ALLOW)
           | Some config \<Rightarrow>
               if default_tool_policy config = DEFAULT_TOOL_DENY then (True, POLICY_SOURCE_DEFAULT_DENY)
               else (False, POLICY_SOURCE_DEFAULT_ALLOW)))"

definition is_protected_subject :: "u32 \<Rightarrow> u32 \<Rightarrow> bpf_state \<Rightarrow> bool \<times> bpf_state" where
  "is_protected_subject tgid tid s =
     (if bm_get (PROTECTED_TGIDS s) tgid \<noteq> None then (True, s)
      else let (active, s1) = get_active_ctx tid s in (active \<noteq> None, s1))"

definition audit_unprotected_python_thread :: "probe_env \<Rightarrow> u32 \<Rightarrow> u8 \<Rightarrow> bpf_state \<Rightarrow> bpf_state" where
  "audit_unprotected_python_thread e tid event_kind s =
     (if bm_get (FRAME_STASH_DEPTH s) tid \<noteq> None
      then emit_py_event_aux e EVENT_AUDIT_UNATTRIBUTED 0 0 (ucast event_kind) s else s)"

definition get_file_identity :: "kernel_view \<Rightarrow> u64 \<Rightarrow> (u32 \<times> u64) option" where
  "get_file_identity k f =
     (case core_field (shim_f_inode k) f of
        None \<Rightarrow> None
      | Some ino_obj \<Rightarrow>
          (case (core_field (shim_i_ino k) ino_obj,
                 Option.bind (core_field (shim_i_sb k) ino_obj) (core_field (shim_s_dev k))) of
             (Some ino, Some dev) \<Rightarrow> Some (ucast dev, ino)
           | _ \<Rightarrow> None))"

section \<open>The hooks\<close>

text \<open>
  The prologue the three enforcing hooks share (lines 143 to 157 for \<^verbatim>\<open>file_open\<close>): \<open>None\<close> for a
  subject outside the protected scope, otherwise the context, tool and identity it acts under.
\<close>

definition hook_subject :: "probe_env \<Rightarrow> u8 \<Rightarrow> bpf_state \<Rightarrow> (u64 \<times> u32 \<times> u8) option \<times> bpf_state" where
  "hook_subject e event_kind s =
     (let tid = cur_tid e;
          (protected, s1) = is_protected_subject (cur_tgid e) tid s
      in if \<not> protected then (None, audit_unprotected_python_thread e tid event_kind s1)
         else let ((ctx_id, tool, identity), s2) = resolve_ctx e tid s1;
                  s3 = mark_ctx_seen e ctx_id s2
              in (Some (ctx_id, tool, identity),
                  if ctx_id = 0 then emit_py_event_aux e EVENT_AUDIT_UNATTRIBUTED 0 0 (ucast event_kind) s3
                  else s3))"

definition decide :: "u8 \<Rightarrow> u8 option \<Rightarrow> bpf_state \<Rightarrow> bool \<times> u8" where
  "decide identity permission s =
     (case identity_policy_decision identity s of
        Some decision \<Rightarrow> decision
      | None \<Rightarrow>
          decide_known_tool_permission permission
            (if permission = None then POLICY_SOURCE_DEFAULT_ALLOW else POLICY_SOURCE_TOOL) s)"

definition action_of :: "bool \<Rightarrow> u8" where
  "action_of denied = (if denied then ACTION_DENY else ACTION_ALLOW)"

text \<open>\<open>None\<close> stands for \<^verbatim>\<open>Err\<close>, which the handlers turn into 0.\<close>

definition try_file_open :: "probe_env \<Rightarrow> kernel_view \<Rightarrow> bpf_state \<Rightarrow> int option \<times> bpf_state" where
  "try_file_open e k s =
     (case hook_subject e EVENT_FS_OPEN s of
        (None, s1) \<Rightarrow> (Some 0, s1)
      | (Some (ctx_id, tool, identity), s1) \<Rightarrow>
          let f = lsm_arg k 0
          in if f = 0 then (Some 0, s1)
             else case get_file_identity k f of
                    None \<Rightarrow> (None, s1)
                  | Some (dev, ino) \<Rightarrow>
                      let permission = bm_get (TOOL_FS_POLICY s1) \<lparr>fp_tool_id = tool, fp_dev = dev, fp_ino = ino\<rparr>;
                          (denied, source) = decide identity permission s1;
                          s2 = emit_fs_event e k f tool ctx_id identity source (action_of denied) s1
                      in (Some (enforce_permission denied s2), s2))"

definition handle_file_open :: "probe_env \<Rightarrow> kernel_view \<Rightarrow> bpf_state \<Rightarrow> int \<times> bpf_state" where
  "handle_file_open e k s =
     (case try_file_open e k s of (Some ret, s1) \<Rightarrow> (ret, s1) | (None, s1) \<Rightarrow> (0, s1))"

definition exec_permission :: "u32 \<Rightarrow> u32 \<Rightarrow> u64 \<Rightarrow> bpf_state \<Rightarrow> u8 option" where
  "exec_permission tool dev ino s =
     (case bm_get (TOOL_EXEC_POLICY s) \<lparr>xp_tool_id = tool, xp_dev = dev, xp_ino = ino\<rparr> of
        Some perm \<Rightarrow> Some perm
      | None \<Rightarrow> bm_get (TOOL_EXEC_POLICY s) \<lparr>xp_tool_id = tool, xp_dev = 0, xp_ino = 0\<rparr>)"

definition try_bprm_check :: "probe_env \<Rightarrow> kernel_view \<Rightarrow> bpf_state \<Rightarrow> int option \<times> bpf_state" where
  "try_bprm_check e k s =
     (case hook_subject e EVENT_EXEC s of
        (None, s1) \<Rightarrow> (Some 0, s1)
      | (Some (ctx_id, tool, identity), s1) \<Rightarrow>
          let bprm = lsm_arg k 0
          in if bprm = 0 then (Some 0, s1)
             else case core_field (shim_bprm_file k) bprm of
                    None \<Rightarrow> (None, s1)
                  | Some f \<Rightarrow>
                      (case get_file_identity k f of
                         None \<Rightarrow> (None, s1)
                       | Some (dev, ino) \<Rightarrow>
                           let (denied, source) = decide identity (exec_permission tool dev ino s1) s1;
                               s2 = emit_exec_event e k f tool ctx_id identity source (action_of denied) s1
                           in (Some (enforce_permission denied s2), s2)))"

definition handle_bprm_check :: "probe_env \<Rightarrow> kernel_view \<Rightarrow> bpf_state \<Rightarrow> int \<times> bpf_state" where
  "handle_bprm_check e k s =
     (case try_bprm_check e k s of (Some ret, s1) \<Rightarrow> (ret, s1) | (None, s1) \<Rightarrow> (0, s1))"

definition try_socket_connect :: "probe_env \<Rightarrow> kernel_view \<Rightarrow> bpf_state \<Rightarrow> int option \<times> bpf_state" where
  "try_socket_connect e k s =
     (case hook_subject e EVENT_NET_CONNECT s of
        (None, s1) \<Rightarrow> (Some 0, s1)
      | (Some (ctx_id, tool, identity), s1) \<Rightarrow>
          let sa = lsm_arg k 1
          in if sa = 0 then (Some 0, s1)
             else case core_field (shim_sa_family k) sa of
                    None \<Rightarrow> (None, s1)
                  | Some family \<Rightarrow>
                      if family \<noteq> 2 then (Some 0, s1)
                      else case (core_field (shim_sin_addr k) sa, core_field (shim_sin_port k) sa) of
                             (Some addr, Some port) \<Rightarrow>
                               let permission = lpm_get (TOOL_NET_POLICY s1)
                                     \<lparr>nd_tool_id = tool, nd_addr = addr, nd_port = port\<rparr>;
                                   (denied, source) = decide identity permission s1;
                                   s2 = emit_net_event e (cur_tgid e) tool ctx_id identity source
                                          (action_of denied) addr port s1
                               in (Some (enforce_permission denied s2), s2)
                           | _ \<Rightarrow> (None, s1))"

definition handle_socket_connect :: "probe_env \<Rightarrow> kernel_view \<Rightarrow> bpf_state \<Rightarrow> int \<times> bpf_state" where
  "handle_socket_connect e k s =
     (case try_socket_connect e k s of (Some ret, s1) \<Rightarrow> (ret, s1) | (None, s1) \<Rightarrow> (0, s1))"

section \<open>Monitoring fallbacks\<close>

text \<open>The prologue of the \<^verbatim>\<open>fentry\<close> handlers: \<open>None\<close> where they return for lack of a context.\<close>

definition monitor_subject :: "probe_env \<Rightarrow> u8 \<Rightarrow> bpf_state \<Rightarrow> (u64 \<times> u32 \<times> u8) option \<times> bpf_state" where
  "monitor_subject e event_kind s =
     (let tid = cur_tid e;
          ((ctx_id, tool, identity), s1) = resolve_ctx e tid s;
          s2 = mark_ctx_seen e ctx_id s1
      in if ctx_id = 0 then (None, audit_unprotected_python_thread e tid event_kind s2)
         else (Some (ctx_id, tool, identity), s2))"

definition handle_fentry_file_open :: "probe_env \<Rightarrow> kernel_view \<Rightarrow> bpf_state \<Rightarrow> bpf_state" where
  "handle_fentry_file_open e k s =
     (case monitor_subject e EVENT_FS_OPEN s of
        (None, s1) \<Rightarrow> s1
      | (Some (ctx_id, tool, identity), s1) \<Rightarrow>
          let f = lsm_arg k 0
          in if f = 0 then s1
             else emit_fs_event e k f tool ctx_id identity POLICY_SOURCE_MONITOR ACTION_ALLOW s1)"

definition handle_fentry_bprm_check :: "probe_env \<Rightarrow> kernel_view \<Rightarrow> bpf_state \<Rightarrow> bpf_state" where
  "handle_fentry_bprm_check e k s =
     (case monitor_subject e EVENT_EXEC s of
        (None, s1) \<Rightarrow> s1
      | (Some (ctx_id, tool, identity), s1) \<Rightarrow>
          let bprm = lsm_arg k 0
          in if bprm = 0 then s1
             else case core_field (shim_bprm_file k) bprm of
                    None \<Rightarrow> s1
                  | Some f \<Rightarrow> emit_exec_event e k f tool ctx_id identity POLICY_SOURCE_MONITOR ACTION_ALLOW s1)"

definition handle_fentry_socket_connect :: "probe_env \<Rightarrow> kernel_view \<Rightarrow> bpf_state \<Rightarrow> bpf_state" where
  "handle_fentry_socket_connect e k s =
     (case monitor_subject e EVENT_NET_CONNECT s of
        (None, s1) \<Rightarrow> s1
      | (Some (ctx_id, tool, identity), s1) \<Rightarrow>
          let sa = lsm_arg k 1
          in if sa = 0 then s1
             else case core_field (shim_sa_family k) sa of
                    None \<Rightarrow> s1
                  | Some family \<Rightarrow>
                      if family \<noteq> 2 then s1
                      else case (core_field (shim_sin_addr k) sa, core_field (shim_sin_port k) sa) of
                             (Some addr, Some port) \<Rightarrow>
                               emit_net_event e (cur_tgid e) tool ctx_id identity POLICY_SOURCE_MONITOR
                                 ACTION_ALLOW addr port s1
                           | _ \<Rightarrow> s1)"

section \<open>Invariants\<close>

lemma heap_ok_room:
  assumes "heap_ok m" "k < 8" shows "bm_room m k"
proof (cases "bm_get m k")
  case None
  let ?keys = "map fst (bm_entries m)"
  have keys: "set ?keys \<subseteq> {j. j < 8}" "k \<notin> set ?keys" "distinct ?keys"
    using assms(1) None by (auto simp: heap_ok_def bm_get_def bm_wf_def map_of_eq_None_iff)
  have small: "{j :: u32. j < 8} = of_nat ` {..<8}"
  proof
    show "{j :: u32. j < 8} \<subseteq> of_nat ` {..<8}"
    proof
      fix j :: u32 assume "j \<in> {j. j < 8}"
      then have "unat j < 8" by (simp add: word_less_nat_alt)
      then show "j \<in> of_nat ` {..<8}" by (intro image_eqI [of _ _ "unat j"]) auto
    qed
  qed (auto simp: word_less_nat_alt unsigned_of_nat take_bit_nat_eq_self)
  have "card (insert k (set ?keys)) \<le> card {j :: u32. j < 8}"
    using keys assms(2) by (intro card_mono) (auto simp: small [symmetric] intro: finite_subset [of _ "of_nat ` {..<8}"])
  also have "\<dots> \<le> 8" using card_image_le [of "{..<8 :: nat}" "of_nat :: nat \<Rightarrow> u32"] by (simp add: small)
  finally have "length (bm_entries m) < 8" using distinct_card [OF keys(3)] keys(2) by simp
  with assms(1) show ?thesis by (simp add: bm_room_def heap_ok_def)
qed (auto intro: bm_room_present)

lemma heap_ok_insert: "heap_ok m \<Longrightarrow> k < 8 \<Longrightarrow> heap_ok (bm_insert k v m)"
  using heap_ok_room [of m k] by (auto simp: heap_ok_def bm_get_insert split: if_splits)

lemma alloc_frame [frame_simps, simp]:
  "policy_view (alloc_init e s) = policy_view s" "state_ok (alloc_init e s) = state_ok s"
  "policy_view (snd (alloc_zero e n s)) = policy_view s"
  by (auto simp: alloc_init_def alloc_zero_def Let_def policy_view_def state_ok_def split: option.split)

lemma alloc_fields_ok:
  "state_ok (s\<lparr>ALLOC_STATE := a\<rparr>) = state_ok s"
  "state_ok s \<Longrightarrow> heap_ok m \<Longrightarrow> state_ok (s\<lparr>HEAP := (HEAP s)(cpu := m)\<rparr>)"
  by (simp_all add: state_ok_def)

lemma alloc_zero_ok [ok_intros]:
  assumes ok: "state_ok s" shows "state_ok (snd (alloc_zero e n s))"
proof (cases "ALLOC_STATE s (smp_cpu e) < 8")
  case True
  then have "heap_ok (bm_insert (ALLOC_STATE s (smp_cpu e)) ZEROS (HEAP s (smp_cpu e)))"
    using ok by (intro heap_ok_insert) (simp_all add: state_ok_def)
  from alloc_fields_ok(2) [OF ok this] ok show ?thesis
    by (simp add: alloc_zero_def Let_def alloc_fields_ok(1) split: option.split)
qed (use ok in \<open>simp add: alloc_zero_def Let_def not_less\<close>)

lemma submit_event_frame [frame_simps, simp]:
  "policy_view (submit_event ev s) = policy_view s" "state_ok (submit_event ev s) = state_ok s"
  by (simp_all add: submit_event_def policy_view_def state_ok_def)

lemma emit_path_policy [frame_simps, simp]:
  "policy_view (snd (try_emit_path_event e k kind f tool c i src a s)) = policy_view s"
  by (auto simp: try_emit_path_event_def Let_def case_prod_beta split: option.split)

lemma emit_path_ok [ok_intros]:
  "state_ok s \<Longrightarrow> state_ok (snd (try_emit_path_event e k kind f tool c i src a s))"
  by (auto simp: try_emit_path_event_def Let_def case_prod_beta intro!: alloc_zero_ok split: option.split)

lemma emit_guard_policy [frame_simps, simp]:
  "policy_view (emit_fs_event e k f tool c i src a s) = policy_view s"
  "policy_view (emit_exec_event e k f tool c i src a s) = policy_view s"
  "policy_view (emit_net_event e p tool c i src a ad po s) = policy_view s"
  by (auto simp: emit_fs_event_def emit_exec_event_def emit_net_event_def Let_def case_prod_beta)

lemma emit_guard_ok [ok_intros]:
  "state_ok s \<Longrightarrow> state_ok (emit_fs_event e k f tool c i src a s)"
  "state_ok s \<Longrightarrow> state_ok (emit_exec_event e k f tool c i src a s)"
  "state_ok s \<Longrightarrow> state_ok (emit_net_event e p tool c i src a ad po s)"
  by (auto simp: emit_fs_event_def emit_exec_event_def emit_net_event_def Let_def case_prod_beta
      intro!: emit_path_ok alloc_zero_ok)

lemma mark_ctx_seen_frame [frame_simps, simp, ok_intros]:
  "policy_view (mark_ctx_seen e c s) = policy_view s" "state_ok s \<Longrightarrow> state_ok (mark_ctx_seen e c s)"
  by (simp_all add: mark_ctx_seen_def policy_view_def state_ok_def)

lemma subject_parts_frame [frame_simps, simp, ok_intros]:
  "policy_view (snd (is_protected_subject g t s)) = policy_view s"
  "state_ok s \<Longrightarrow> state_ok (snd (is_protected_subject g t s))"
  "policy_view (audit_unprotected_python_thread e t kd s) = policy_view s"
  "state_ok s \<Longrightarrow> state_ok (audit_unprotected_python_thread e t kd s)"
  "policy_view (snd (resolve_ctx e t s)) = policy_view s"
  by (auto simp: is_protected_subject_def audit_unprotected_python_thread_def resolve_ctx_def Let_def
      case_prod_beta split: option.split)

lemma resolve_ctx_ok [ok_intros]: "state_ok s \<Longrightarrow> state_ok (snd (resolve_ctx e t s))"
  by (auto simp: resolve_ctx_def Let_def case_prod_beta intro!: ok_intros split: option.split)

lemma subjects_policy [frame_simps, simp]:
  "policy_view (snd (hook_subject e kd s)) = policy_view s"
  "policy_view (snd (monitor_subject e kd s)) = policy_view s"
  by (simp_all add: hook_subject_def monitor_subject_def Let_def case_prod_beta)

lemma subjects_ok [ok_intros]:
  "state_ok s \<Longrightarrow> state_ok (snd (hook_subject e kd s))"
  "state_ok s \<Longrightarrow> state_ok (snd (monitor_subject e kd s))"
  by (simp_all add: hook_subject_def monitor_subject_def Let_def case_prod_beta resolve_ctx_ok)

lemmas hook_defs = handle_file_open_def handle_bprm_check_def handle_socket_connect_def

lemma try_file_open_keeps:
  "policy_view (snd (try_file_open e k s)) = policy_view s \<and> (state_ok s \<longrightarrow> state_ok (snd (try_file_open e k s)))"
proof (cases "hook_subject e EVENT_FS_OPEN s")
  case (Pair r s1)
  then have "policy_view s1 = policy_view s" "state_ok s \<Longrightarrow> state_ok s1"
    using subjects_policy(1) [of e EVENT_FS_OPEN s] subjects_ok(1) [of s e EVENT_FS_OPEN] by auto
  with Pair show ?thesis
    by (auto simp: try_file_open_def Let_def intro!: emit_guard_ok split: option.split prod.split)
qed

lemma try_bprm_check_keeps:
  "policy_view (snd (try_bprm_check e k s)) = policy_view s \<and> (state_ok s \<longrightarrow> state_ok (snd (try_bprm_check e k s)))"
proof (cases "hook_subject e EVENT_EXEC s")
  case (Pair r s1)
  then have "policy_view s1 = policy_view s" "state_ok s \<Longrightarrow> state_ok s1"
    using subjects_policy(1) [of e EVENT_EXEC s] subjects_ok(1) [of s e EVENT_EXEC] by auto
  with Pair show ?thesis
    by (auto simp: try_bprm_check_def Let_def intro!: emit_guard_ok split: option.split prod.split)
qed

lemma try_socket_connect_keeps:
  "policy_view (snd (try_socket_connect e k s)) = policy_view s \<and> (state_ok s \<longrightarrow> state_ok (snd (try_socket_connect e k s)))"
proof (cases "hook_subject e EVENT_NET_CONNECT s")
  case (Pair r s1)
  then have "policy_view s1 = policy_view s" "state_ok s \<Longrightarrow> state_ok s1"
    using subjects_policy(1) [of e EVENT_NET_CONNECT s] subjects_ok(1) [of s e EVENT_NET_CONNECT] by auto
  with Pair show ?thesis
    by (auto simp: try_socket_connect_def Let_def intro!: emit_guard_ok split: option.split prod.split)
qed

lemma hook_states:
  "snd (handle_file_open e k s) = snd (try_file_open e k s)"
  "snd (handle_bprm_check e k s) = snd (try_bprm_check e k s)"
  "snd (handle_socket_connect e k s) = snd (try_socket_connect e k s)"
  by (simp_all add: hook_defs split: prod.split option.split)

lemmas hooks_policy [frame_simps, simp] =
  try_file_open_keeps [THEN conjunct1, folded hook_states] try_bprm_check_keeps [THEN conjunct1, folded hook_states]
  try_socket_connect_keeps [THEN conjunct1, folded hook_states]

lemmas hooks_ok [ok_intros] =
  try_file_open_keeps [THEN conjunct2, rule_format, folded hook_states]
  try_bprm_check_keeps [THEN conjunct2, rule_format, folded hook_states]
  try_socket_connect_keeps [THEN conjunct2, rule_format, folded hook_states]

lemma handle_fentry_file_open_keeps:
  "policy_view (handle_fentry_file_open e k s) = policy_view s \<and> (state_ok s \<longrightarrow> state_ok (handle_fentry_file_open e k s))"
proof (cases "monitor_subject e EVENT_FS_OPEN s")
  case (Pair r s1)
  then have "policy_view s1 = policy_view s" "state_ok s \<Longrightarrow> state_ok s1"
    using subjects_policy(2) [of e EVENT_FS_OPEN s] subjects_ok(2) [of s e EVENT_FS_OPEN] by auto
  with Pair show ?thesis
    by (auto simp: handle_fentry_file_open_def Let_def intro!: emit_guard_ok split: option.split prod.split)
qed

lemma handle_fentry_bprm_check_keeps:
  "policy_view (handle_fentry_bprm_check e k s) = policy_view s \<and> (state_ok s \<longrightarrow> state_ok (handle_fentry_bprm_check e k s))"
proof (cases "monitor_subject e EVENT_EXEC s")
  case (Pair r s1)
  then have "policy_view s1 = policy_view s" "state_ok s \<Longrightarrow> state_ok s1"
    using subjects_policy(2) [of e EVENT_EXEC s] subjects_ok(2) [of s e EVENT_EXEC] by auto
  with Pair show ?thesis
    by (auto simp: handle_fentry_bprm_check_def Let_def intro!: emit_guard_ok split: option.split prod.split)
qed

lemma handle_fentry_socket_connect_keeps:
  "policy_view (handle_fentry_socket_connect e k s) = policy_view s \<and> (state_ok s \<longrightarrow> state_ok (handle_fentry_socket_connect e k s))"
proof (cases "monitor_subject e EVENT_NET_CONNECT s")
  case (Pair r s1)
  then have "policy_view s1 = policy_view s" "state_ok s \<Longrightarrow> state_ok s1"
    using subjects_policy(2) [of e EVENT_NET_CONNECT s] subjects_ok(2) [of s e EVENT_NET_CONNECT] by auto
  with Pair show ?thesis
    by (auto simp: handle_fentry_socket_connect_def Let_def intro!: emit_guard_ok split: option.split prod.split)
qed

lemmas monitors_policy [frame_simps, simp] = handle_fentry_file_open_keeps [THEN conjunct1]
  handle_fentry_bprm_check_keeps [THEN conjunct1] handle_fentry_socket_connect_keeps [THEN conjunct1]

lemmas monitors_ok [ok_intros] = handle_fentry_file_open_keeps [THEN conjunct2, rule_format]
  handle_fentry_bprm_check_keeps [THEN conjunct2, rule_format]
  handle_fentry_socket_connect_keeps [THEN conjunct2, rule_format]

end
