(* ===== verification/Verdicts.thy ===== *)
theory Verdicts
  imports Guard
begin

text \<open>
  What the security hooks of \<^verbatim>\<open>lsm_hooks.rs\<close> decide: longest prefix match as a specification of the
  network lookup, the verdict of each hook as a function of the attributed identity and the
  installed policy, and the events that report it.
\<close>

section \<open>Longest prefix match, as a specification\<close>

lemma lpm_best_None: "lpm_best es d = None \<longleftrightarrow> (\<forall>en \<in> set es. \<not> lpm_matches (fst en) d)"
  by (induction es) (auto split: option.split)

lemma lpm_best_Some:
  "lpm_best es d = Some b \<Longrightarrow> b \<in> set es \<and> lpm_matches (fst b) d \<and>
     (\<forall>en \<in> set es. lpm_matches (fst en) d \<longrightarrow> fst (fst en) \<le> fst (fst b))"
proof (induction es arbitrary: b)
  case (Cons en es)
  show ?case
  proof (cases "lpm_best es d")
    case None
    with Cons.prems lpm_best_None [of es d] show ?thesis by (auto split: if_splits)
  next
    case (Some c)
    with Cons.prems Cons.IH [OF Some] show ?thesis
      by (auto split: if_splits)
  qed
qed simp

text \<open>The network lookup is longest prefix match.  It finds nothing exactly when no installed entry
  covers the destination; otherwise it returns the permission of an entry that covers it and
  whose prefix no covering entry exceeds.\<close>

theorem lpm_get_longest:
  "case lpm_get es d of
     None \<Rightarrow> (\<forall>en \<in> set es. \<not> lpm_matches (fst en) d)
   | Some perm \<Rightarrow> \<exists>b \<in> set es. snd b = perm \<and> lpm_matches (fst b) d \<and>
                    (\<forall>en \<in> set es. lpm_matches (fst en) d \<longrightarrow> fst (fst en) \<le> fst (fst b))"
proof (cases "lpm_best es d")
  case None
  then show ?thesis using lpm_best_None [of es d] by (simp add: lpm_get_def)
next
  case (Some b)
  then show ?thesis using lpm_best_Some [OF Some] by (auto simp: lpm_get_def)
qed

text \<open>Tool 9 may connect anywhere but to one host: the entry of the host decides.\<close>

definition host_rules :: "((u32 \<times> ToolNetData) \<times> u8) list" where
  "host_rules = [((32, \<lparr>nd_tool_id = 9, nd_addr = 0, nd_port = 0\<rparr>), PERM_ALLOW),
     ((64, \<lparr>nd_tool_id = 9, nd_addr = 0x0100007F, nd_port = 0\<rparr>), PERM_DENY)]"

theorem lpm_get_longest_witness:
  "\<exists>b \<in> set host_rules. snd b = PERM_DENY \<and>
     (\<forall>en \<in> set host_rules. lpm_matches (fst en) \<lparr>nd_tool_id = 9, nd_addr = 0x0100007F, nd_port = 80\<rparr> \<longrightarrow>
        fst (fst en) \<le> fst (fst b))"
proof -
  let ?d = "\<lparr>nd_tool_id = 9, nd_addr = 0x0100007F, nd_port = 80\<rparr>"
  have "lpm_get host_rules ?d = Some PERM_DENY" by code_simp
  then show ?thesis using lpm_get_longest [of host_rules ?d] by auto
qed

lemma length_byte_bits [simp]: "length (byte_bits b) = 8"
  by (simp add: byte_bits_def)

lemma byte_bits_eq_iff: "byte_bits a = byte_bits b \<longleftrightarrow> a = b"
proof
  assume eq: "byte_bits a = byte_bits b"
  have "bit a n = bit b n" if "n < 8" for n
    using eq that by (simp add: byte_bits_def less_Suc_eq numeral_eq_Suc) auto
  then show "a = b" by (intro bit_word_eqI) simp
qed simp

definition bytes_bits :: "u8 list \<Rightarrow> bool list" where
  "bytes_bits bs = concat (map byte_bits bs)"

lemma length_bytes_bits [simp]: "length (bytes_bits bs) = 8 * length bs"
  by (induction bs) (simp_all add: bytes_bits_def)

lemma bytes_bits_eq_iff: "length as = length bs \<Longrightarrow> bytes_bits as = bytes_bits bs \<longleftrightarrow> as = bs"
  by (induction as bs rule: list_induct2) (simp_all add: bytes_bits_def byte_bits_eq_iff)

lemma net_bits_parts:
  "net_bits d = bytes_bits (le_bytes 4 (nd_tool_id d)) @ bytes_bits (le_bytes 4 (nd_addr d)) @
     bytes_bits (le_bytes 2 (nd_port d) @ [0, 0])"
  by (simp add: net_bits_def bytes_bits_def)

lemma cidr_matches:
  assumes "n \<le> 32"
  shows "lpm_matches (of_nat (32 + n), d) d' \<longleftrightarrow>
           nd_tool_id d = nd_tool_id d' \<and>
           take n (bytes_bits (le_bytes 4 (nd_addr d))) = take n (bytes_bits (le_bytes 4 (nd_addr d')))"
proof -
  have plen: "unat (of_nat (32 + n) :: u32) = 32 + n"
    using assms by (simp only: unsigned_of_nat) (simp add: take_bit_nat_eq_self)
  have pre: "take (32 + n) (net_bits x) =
      bytes_bits (le_bytes 4 (nd_tool_id x)) @ take n (bytes_bits (le_bytes 4 (nd_addr x)))" for x
    using assms by (simp add: net_bits_parts)
  show ?thesis
    by (simp only: lpm_matches_def fst_conv snd_conv plen pre)
       (simp add: append_eq_append_conv bytes_bits_eq_iff le_bytes_eq_iff)
qed

text \<open>An entry with prefix length \<open>32 + n\<close> covers a destination exactly when it was installed for
  the same tool and the first \<open>n\<close> bits of the two addresses agree, taking the octets of an
  address in network order; the port plays no part.\<close>

theorem cidr_entry_matches:
  assumes "n \<le> 32"
  shows "lpm_matches (of_nat (32 + n), d) d' \<longleftrightarrow>
           nd_tool_id d = nd_tool_id d' \<and>
           take n (bytes_bits (le_bytes 4 (nd_addr d))) = take n (bytes_bits (le_bytes 4 (nd_addr d')))"
  using assms by (rule cidr_matches)

theorem cidr_entry_matches_witness:
  "lpm_matches (of_nat (32 + 8), \<lparr>nd_tool_id = 7, nd_addr = 0x0000000A, nd_port = 0\<rparr>)
     \<lparr>nd_tool_id = 7, nd_addr = 0x0403020A, nd_port = 0xBB01\<rparr>"
proof -
  have "take 8 (bytes_bits (le_bytes 4 (0x0000000A :: u32))) = take 8 (bytes_bits (le_bytes 4 (0x0403020A :: u32)))"
    by code_simp
  then show ?thesis by (subst cidr_entry_matches) simp_all
qed

section \<open>Verdicts\<close>

text \<open>What the policy says of an access, given the identity of the subject and the tool's own rule.\<close>

definition denies :: "IronScopeConfig \<Rightarrow> u8 \<Rightarrow> u8 option \<Rightarrow> bool" where
  "denies config identity permission \<longleftrightarrow>
     (if identity = IDENTITY_STATE_UNATTRIBUTED then unattributed_policy config = UNATTRIBUTED_DENY
      else if identity = IDENTITY_STATE_UNKNOWN_TOOL then unknown_tool_policy config = UNKNOWN_TOOL_DENY
      else if identity = IDENTITY_STATE_RESOLVER_ERROR then resolver_error_policy config = RESOLVER_ERROR_DENY
      else case permission of Some perm \<Rightarrow> perm = PERM_DENY | None \<Rightarrow> default_tool_policy config = DEFAULT_TOOL_DENY)"

definition verdict :: "bpf_state \<Rightarrow> u8 \<Rightarrow> u8 option \<Rightarrow> int" where
  "verdict s identity permission =
     (case bm_get (IRONSCOPE_CONFIG s) 0 of
        None \<Rightarrow> 0
      | Some config \<Rightarrow> if mode config = MODE_ENFORCE \<and> denies config identity permission then -1 else 0)"

text \<open>The context, tool and identity a hook attributes the current thread to.\<close>

definition hook_identity :: "probe_env \<Rightarrow> bpf_state \<Rightarrow> (u64 \<times> u32 \<times> u8) option" where
  "hook_identity e s = fst (hook_subject e EVENT_FS_OPEN s)"

lemma hook_subject_fst: "fst (hook_subject e kd s) = hook_identity e s"
  by (simp add: hook_identity_def hook_subject_def Let_def case_prod_beta)

lemma policy_view_fields:
  assumes "policy_view s = policy_view t"
  shows "IRONSCOPE_CONFIG s = IRONSCOPE_CONFIG t" "TOOL_FS_POLICY s = TOOL_FS_POLICY t"
    "TOOL_EXEC_POLICY s = TOOL_EXEC_POLICY t" "TOOL_NET_POLICY s = TOOL_NET_POLICY t"
  using assms by (simp_all add: policy_view_def)

lemma decide_denies:
  "bm_get (IRONSCOPE_CONFIG s) 0 = Some config \<Longrightarrow> fst (decide identity permission s) = denies config identity permission"
  by (auto simp: decide_def identity_policy_decision_def decide_known_tool_permission_def denies_def split: option.split)

lemma enforce_decide:
  assumes "IRONSCOPE_CONFIG s2 = IRONSCOPE_CONFIG s1" "IRONSCOPE_CONFIG s1 = IRONSCOPE_CONFIG s"
  shows "enforce_permission (fst (decide identity permission s1)) s2 = verdict s identity permission"
  using assms decide_denies [of s1 _ identity permission]
  by (auto simp: enforce_permission_def verdict_def split: option.split)

lemma hook_subject_view:
  assumes "hook_subject e kd s = (subject, s1)"
  shows "subject = hook_identity e s" "policy_view s1 = policy_view s"
  using hook_subject_fst [of e kd s] subjects_policy(1) [of e kd s] assms by simp_all

lemmas emit_guard_view = emit_guard_policy [THEN policy_view_fields(1)]

lemma file_open_unfold:
  assumes "hook_subject e EVENT_FS_OPEN s = (Some (ctx_id, tool, identity), s1)"
    and "get_file_identity k (lsm_arg k 0) = Some (dev, ino)"
  shows "handle_file_open e k s =
    (let permission = bm_get (TOOL_FS_POLICY s) \<lparr>fp_tool_id = tool, fp_dev = dev, fp_ino = ino\<rparr>;
         d = decide identity permission s1;
         s2 = emit_fs_event e k (lsm_arg k 0) tool ctx_id identity (snd d) (action_of (fst d)) s1
     in (verdict s identity permission, s2))"
proof -
  have f: "lsm_arg k 0 \<noteq> 0" using assms(2) by (auto simp: get_file_identity_def core_field_def split: if_splits)
  note view = policy_view_fields [OF hook_subject_view(2) [OF assms(1)]]
  from f assms view show ?thesis
    by (simp add: handle_file_open_def try_file_open_def Let_def case_prod_beta
        enforce_decide [OF emit_guard_view(1) view(1)])
qed

lemma file_open_ret:
  "fst (handle_file_open e k s) =
     (case (hook_identity e s, get_file_identity k (lsm_arg k 0)) of
        (Some (ctx_id, tool, identity), Some (dev, ino)) \<Rightarrow>
          verdict s identity (bm_get (TOOL_FS_POLICY s) \<lparr>fp_tool_id = tool, fp_dev = dev, fp_ino = ino\<rparr>)
      | _ \<Rightarrow> 0)"
proof (cases "hook_subject e EVENT_FS_OPEN s")
  case (Pair subject s1)
  note subj = hook_subject_view(1) [OF Pair]
  show ?thesis
  proof (cases "subject = None \<or> get_file_identity k (lsm_arg k 0) = None")
    case True
    with Pair subj show ?thesis
      by (auto simp: handle_file_open_def try_file_open_def Let_def split: option.split)
  next
    case False
    then obtain ctx_id tool identity dev ino where
      "subject = Some (ctx_id, tool, identity)" "get_file_identity k (lsm_arg k 0) = Some (dev, ino)" by auto
    with Pair subj [symmetric] file_open_unfold [of e s ctx_id tool identity s1 k dev ino] show ?thesis
      by (simp add: Let_def)
  qed
qed

text \<open>C24: the verdict of the file hook.  It refuses an access exactly when the subject is in the protected
  scope, the file's device and inode can be read, the mode is \<open>enforce\<close>, and the policy denies
  the access to the tool the thread is attributed to; in every other case, an unreadable file
  included, it allows.  Refreshing the attribution does not change what the policy says.\<close>

theorem file_open_verdict:
  "fst (handle_file_open e k s) =
     (case (hook_identity e s, get_file_identity k (lsm_arg k 0)) of
        (Some (ctx_id, tool, identity), Some (dev, ino)) \<Rightarrow>
          verdict s identity (bm_get (TOOL_FS_POLICY s) \<lparr>fp_tool_id = tool, fp_dev = dev, fp_ino = ino\<rparr>)
      | _ \<Rightarrow> 0)"
  by (rule file_open_ret)

lemma bprm_check_ret:
  "fst (handle_bprm_check e k s) =
     (case (hook_identity e s, Option.bind (core_field (shim_bprm_file k) (lsm_arg k 0)) (get_file_identity k)) of
        (Some (ctx_id, tool, identity), Some (dev, ino)) \<Rightarrow>
          verdict s identity
            (case bm_get (TOOL_EXEC_POLICY s) \<lparr>xp_tool_id = tool, xp_dev = dev, xp_ino = ino\<rparr> of
               Some perm \<Rightarrow> Some perm
             | None \<Rightarrow> bm_get (TOOL_EXEC_POLICY s) \<lparr>xp_tool_id = tool, xp_dev = 0, xp_ino = 0\<rparr>)
      | _ \<Rightarrow> 0)"
proof (cases "hook_subject e EVENT_EXEC s")
  case (Pair subject s1)
  note subj = hook_subject_view(1) [OF Pair]
  note view = policy_view_fields [OF hook_subject_view(2) [OF Pair]]
  show ?thesis
    unfolding handle_bprm_check_def try_bprm_check_def Pair subj [symmetric]
    by (auto simp: Let_def exec_permission_def view(3) core_field_def case_prod_beta
        enforce_decide [OF emit_guard_view(2) view(1)] split: option.split)
qed

text \<open>C25: the verdict of the exec hook.  As for files, with the rule for the executable itself taking
  precedence over the tool's wildcard rule.\<close>

theorem bprm_check_verdict:
  "fst (handle_bprm_check e k s) =
     (case (hook_identity e s, Option.bind (core_field (shim_bprm_file k) (lsm_arg k 0)) (get_file_identity k)) of
        (Some (ctx_id, tool, identity), Some (dev, ino)) \<Rightarrow>
          verdict s identity
            (case bm_get (TOOL_EXEC_POLICY s) \<lparr>xp_tool_id = tool, xp_dev = dev, xp_ino = ino\<rparr> of
               Some perm \<Rightarrow> Some perm
             | None \<Rightarrow> bm_get (TOOL_EXEC_POLICY s) \<lparr>xp_tool_id = tool, xp_dev = 0, xp_ino = 0\<rparr>)
      | _ \<Rightarrow> 0)"
  by (rule bprm_check_ret)

lemma socket_connect_ret:
  "fst (handle_socket_connect e k s) =
     (case (hook_identity e s, core_field (shim_sa_family k) (lsm_arg k 1),
            core_field (shim_sin_addr k) (lsm_arg k 1), core_field (shim_sin_port k) (lsm_arg k 1)) of
        (Some (ctx_id, tool, identity), Some family, Some addr, Some port) \<Rightarrow>
          if family = 2
          then verdict s identity
                 (lpm_get (TOOL_NET_POLICY s) \<lparr>nd_tool_id = tool, nd_addr = addr, nd_port = port\<rparr>)
          else 0
      | _ \<Rightarrow> 0)"
proof (cases "hook_subject e EVENT_NET_CONNECT s")
  case (Pair subject s1)
  note subj = hook_subject_view(1) [OF Pair]
  note view = policy_view_fields [OF hook_subject_view(2) [OF Pair]]
  show ?thesis
    unfolding handle_socket_connect_def try_socket_connect_def Pair subj [symmetric]
    by (auto simp: Let_def view(4) core_field_def case_prod_beta
        enforce_decide [OF emit_guard_view(3) view(1)] split: option.split)
qed

text \<open>C26: the verdict of the connect hook.  A connection to an IPv4 destination is judged by the most
  specific network rule of the tool; any other address family is allowed.\<close>

theorem socket_connect_verdict:
  "fst (handle_socket_connect e k s) =
     (case (hook_identity e s, core_field (shim_sa_family k) (lsm_arg k 1),
            core_field (shim_sin_addr k) (lsm_arg k 1), core_field (shim_sin_port k) (lsm_arg k 1)) of
        (Some (ctx_id, tool, identity), Some family, Some addr, Some port) \<Rightarrow>
          if family = 2
          then verdict s identity
                 (lpm_get (TOOL_NET_POLICY s) \<lparr>nd_tool_id = tool, nd_addr = addr, nd_port = port\<rparr>)
          else 0
      | _ \<Rightarrow> 0)"
  by (rule socket_connect_ret)

lemma verdict_cases:
  "verdict s identity permission = 0 \<or>
   verdict s identity permission = -1 \<and> (\<exists>config. bm_get (IRONSCOPE_CONFIG s) 0 = Some config \<and> mode config = MODE_ENFORCE)"
  by (auto simp: verdict_def split: option.split)

text \<open>A hook returns 0 or \<open>-1\<close>, and \<open>-1\<close> only when the installed mode is \<open>enforce\<close>.\<close>

definition may_return :: "bpf_state \<Rightarrow> int \<Rightarrow> bool" where
  "may_return s r \<longleftrightarrow>
     r = 0 \<or> r = -1 \<and> (\<exists>config. bm_get (IRONSCOPE_CONFIG s) 0 = Some config \<and> mode config = MODE_ENFORCE)"

lemma verdict_may_return: "may_return s 0" "may_return s (verdict s identity permission)"
  using verdict_cases by (simp_all add: may_return_def)

lemma hook_returns:
  "may_return s (fst (handle_file_open e k s))" "may_return s (fst (handle_bprm_check e k s))"
  "may_return s (fst (handle_socket_connect e k s))"
  by (simp_all add: file_open_ret bprm_check_ret socket_connect_ret verdict_may_return
      split: option.split prod.split)

section \<open>Attributed threads\<close>

text \<open>
  A thread that is not running a work item of a thread pool: the search of its frames finds
  none and no pool worker is recorded for it.
\<close>

definition not_pool_worker :: "probe_env \<Rightarrow> u32 \<Rightarrow> bpf_state \<Rightarrow> bool" where
  "not_pool_worker e tid s \<longleftrightarrow> fst (find_mapped_work_item_in_current_chain e tid s) = None \<and>
     bm_get (THREADPOOL_WORKER_FRAME s) tid = None \<and> bm_get (THREADPOOL_WORKER_CTX s) tid = None"

lemma worker_kind_code_kind: "\<exists>m. snd (worker_kind_for_frame e g f s) = s\<lparr>CODE_KIND := m\<rparr>"
proof -
  have "\<exists>m. s = s\<lparr>CODE_KIND := m\<rparr>" by (rule exI [of _ "CODE_KIND s"]) simp
  then show ?thesis
    by (auto simp: worker_kind_for_frame_def set_code_kind_def Let_def split: option.split)
qed

lemma chain_code_kind: "\<exists>m. snd (find_mapped_work_item_in_current_chain e tid s) = s\<lparr>CODE_KIND := m\<rparr>"
proof -
  have refl: "\<exists>m. u = u\<lparr>CODE_KIND := m\<rparr>" for u :: bpf_state by (rule exI [of _ "CODE_KIND u"]) simp
  have "\<exists>m. snd (chain_loop e f n u) = u\<lparr>CODE_KIND := m\<rparr>" for f n u
  proof (induction n arbitrary: f u)
    case (Suc n)
    obtain m where m: "snd (worker_kind_for_frame e (cur_tgid e) f u) = u\<lparr>CODE_KIND := m\<rparr>"
      using worker_kind_code_kind by blast
    show ?case
      using Suc.IH [of "worker_read_parent_ptr e (u\<lparr>CODE_KIND := m\<rparr>) f" "u\<lparr>CODE_KIND := m\<rparr>"] m refl [of u]
      by (auto simp: Let_def case_prod_beta split: option.split)
  qed (use refl in simp)
  with refl [of s] show ?thesis by (auto simp: find_mapped_work_item_in_current_chain_def split: option.split)
qed

lemma refresh_not_pool_worker:
  assumes "not_pool_worker e tid s" shows "\<exists>m. refresh_threadpool_worker_context e tid s = s\<lparr>CODE_KIND := m\<rparr>"
proof -
  obtain m where m: "snd (find_mapped_work_item_in_current_chain e tid s) = s\<lparr>CODE_KIND := m\<rparr>"
    using chain_code_kind by blast
  then have "find_mapped_work_item_in_current_chain e tid s = (None, s\<lparr>CODE_KIND := m\<rparr>)"
    using assms by (metis not_pool_worker_def prod.collapse)
  then have "refresh_threadpool_worker_context e tid s = s\<lparr>CODE_KIND := m\<rparr>"
    using assms by (simp add: refresh_threadpool_worker_context_def not_pool_worker_def
        bind_threadpool_worker_context_def bind_new_worker_ctx_def)
  then show ?thesis by blast
qed

lemma hook_subject_attributed:
  assumes "not_pool_worker e (cur_tid e) s" "state_ok s"
    and "bm_get (THREAD_ACTIVE_CTX s) (cur_tid e) = Some c" "bm_get (TOOL_CTX s) c = Some ctx"
  shows "\<exists>m. hook_subject e kd s = (Some (c, tool_id ctx, identity_state c (tool_id ctx) (flags ctx)),
           mark_ctx_seen e c (s\<lparr>CODE_KIND := m\<rparr>))"
proof -
  have c: "c \<noteq> 0" using assms(2,4) by (metis state_ok_zero option.distinct(1))
  have active: "get_active_ctx (cur_tid e) s = (Some c, s)"
    using assms(3,4) by (simp add: get_active_ctx_def ctx_is_live_def)
  obtain m where m: "refresh_threadpool_worker_context e (cur_tid e) s = s\<lparr>CODE_KIND := m\<rparr>"
    using refresh_not_pool_worker [OF assms(1)] by blast
  have "get_active_ctx (cur_tid e) (s\<lparr>CODE_KIND := m\<rparr>) = (Some c, s\<lparr>CODE_KIND := m\<rparr>)"
    using assms(3,4) by (simp add: get_active_ctx_def ctx_is_live_def)
  with active m c assms(4) show ?thesis
    by (intro exI [of _ m]) (simp add: hook_subject_def is_protected_subject_def resolve_ctx_def Let_def)
qed

lemma alloc_zero_first:
  assumes "state_ok s" "n \<le> 2048" "ALLOC_STATE s (smp_cpu e) < 8"
  shows "fst (alloc_zero e n s)" "ALLOC_STATE (snd (alloc_zero e n s)) (smp_cpu e) = ALLOC_STATE s (smp_cpu e) + 1"
    "GUARD_EVENTS (snd (alloc_zero e n s)) = GUARD_EVENTS s"
proof -
  have heap: "heap_ok (HEAP s (smp_cpu e))" using assms(1) by (simp add: state_ok_def)
  have "length ZEROS = 2048" by (simp add: ZEROS_def)
  with heap_ok_room [OF heap assms(3)] assms(2,3)
  show "fst (alloc_zero e n s)" "ALLOC_STATE (snd (alloc_zero e n s)) (smp_cpu e) = ALLOC_STATE s (smp_cpu e) + 1"
    "GUARD_EVENTS (snd (alloc_zero e n s)) = GUARD_EVENTS s"
    by (simp_all add: alloc_zero_def Let_def bm_get_insert not_le)
qed

lemma emit_path_reports:
  assumes "state_ok s" "core_resolve_file k f MAX_PATH_DEPTH Path_default = Some p"
  shows "GUARD_EVENTS (snd (try_emit_path_event e k kd f tool c identity source action s)) =
           rb_submit (copy_path_to_event p (guard_event e kd tool c identity source action)) (GUARD_EVENTS s)"
proof -
  let ?s0 = "alloc_init e s"
  have ok0: "state_ok ?s0" "ALLOC_STATE ?s0 (smp_cpu e) = 0" "GUARD_EVENTS ?s0 = GUARD_EVENTS s"
    using assms(1) by (auto simp: alloc_init_def state_ok_def)
  note a1 = alloc_zero_first [OF ok0(1), of SIZEOF_GUARD_EVENT e]
  let ?s1 = "snd (alloc_zero e SIZEOF_GUARD_EVENT ?s0)"
  note a2 = alloc_zero_first [OF alloc_zero_ok [OF ok0(1)], of SIZEOF_PATH e SIZEOF_GUARD_EVENT e]
  show ?thesis
    using a1 a2 ok0 assms(2) by (simp add: try_emit_path_event_def Let_def case_prod_beta submit_event_def)
qed

lemma decide_tool_deny:
  assumes "bm_get (IRONSCOPE_CONFIG s) 0 = Some config"
  shows "decide IDENTITY_STATE_KNOWN_TOOL (Some PERM_DENY) s = (True, POLICY_SOURCE_TOOL)"
  using assms by (simp add: decide_def identity_policy_decision_def decide_known_tool_permission_def)

text \<open>An access by a thread whose active context has a resolved tool that a rule denies the file to.\<close>

definition denied_open :: "probe_env \<Rightarrow> kernel_view \<Rightarrow> u64 \<Rightarrow> ToolCtx \<Rightarrow> bpf_state \<Rightarrow> bool" where
  "denied_open e k c ctx s \<longleftrightarrow> state_ok s \<and> not_pool_worker e (cur_tid e) s \<and>
     bm_get (THREAD_ACTIVE_CTX s) (cur_tid e) = Some c \<and> bm_get (TOOL_CTX s) c = Some ctx \<and>
     tool_id ctx \<noteq> TOOL_IDLE \<and> flags ctx AND TOOL_CTX_FLAG_RESOLVER_ERROR = 0 \<and>
     (case get_file_identity k (lsm_arg k 0) of
        None \<Rightarrow> False
      | Some (dev, ino) \<Rightarrow>
          bm_get (TOOL_FS_POLICY s) \<lparr>fp_tool_id = tool_id ctx, fp_dev = dev, fp_ino = ino\<rparr> = Some PERM_DENY)"

lemma denied_open_run:
  assumes d: "denied_open e k c ctx s" and cfg: "bm_get (IRONSCOPE_CONFIG s) 0 = Some config"
  shows "\<exists>s1. handle_file_open e k s = (if mode config = MODE_ENFORCE then -1 else 0,
    emit_fs_event e k (lsm_arg k 0) (tool_id ctx) c IDENTITY_STATE_KNOWN_TOOL POLICY_SOURCE_TOOL ACTION_DENY s1) \<and>
    state_ok s1 \<and> GUARD_EVENTS s1 = GUARD_EVENTS s"
proof -
  obtain dev ino where fid: "get_file_identity k (lsm_arg k 0) = Some (dev, ino)"
    and rule: "bm_get (TOOL_FS_POLICY s) \<lparr>fp_tool_id = tool_id ctx, fp_dev = dev, fp_ino = ino\<rparr> = Some PERM_DENY"
    using d by (auto simp: denied_open_def split: option.splits)
  have "c \<noteq> 0" using d by (metis denied_open_def state_ok_zero option.distinct(1))
  then have known: "identity_state c (tool_id ctx) (flags ctx) = IDENTITY_STATE_KNOWN_TOOL"
    using d by (simp add: identity_state_def denied_open_def)
  obtain m where subject: "hook_subject e EVENT_FS_OPEN s =
      (Some (c, tool_id ctx, IDENTITY_STATE_KNOWN_TOOL), mark_ctx_seen e c (s\<lparr>CODE_KIND := m\<rparr>))" (is "_ = (_, ?s1)")
    using hook_subject_attributed [of e s c ctx EVENT_FS_OPEN] d known by (auto simp: denied_open_def)
  have s1: "IRONSCOPE_CONFIG ?s1 = IRONSCOPE_CONFIG s" "GUARD_EVENTS ?s1 = GUARD_EVENTS s"
    by (simp_all add: mark_ctx_seen_def)
  with cfg have cfg': "bm_get (IRONSCOPE_CONFIG ?s1) 0 = Some config" by simp
  have "state_ok ?s1" using subjects_ok(1) [of s e EVENT_FS_OPEN] d subject by (simp add: denied_open_def)
  with s1(2) show ?thesis
    by (intro exI [of _ ?s1])
       (simp add: file_open_unfold [OF subject fid] rule decide_tool_deny [OF cfg'] verdict_def cfg denies_def
          action_of_def)
qed

text \<open>C23: enforcement follows the tool.  When the thread's active context belongs to a resolved tool and a
  rule denies that tool the file, opening the file is refused in enforce mode and allowed in
  every other mode.  Either way, if the file's path resolves and the event ring has room, exactly
  one guard event is appended: a denial, for this thread, context and tool, by the tool's own rule.\<close>

theorem tool_deny_rule_enforced:
  assumes d: "denied_open e k c ctx s" and cfg: "bm_get (IRONSCOPE_CONFIG s) 0 = Some config"
    and path: "core_resolve_file k (lsm_arg k 0) MAX_PATH_DEPTH Path_default = Some p"
    and ring: "rb_can_reserve (GUARD_EVENTS s) (rb_log (GUARD_EVENTS s))"
    and run: "handle_file_open e k s = (ret, s')"
  shows "ret = (if mode config = MODE_ENFORCE then -1 else 0) \<and>
    (\<exists>ev. rb_log (GUARD_EVENTS s') = rb_log (GUARD_EVENTS s) @ [ev] \<and> ge_kind ev = EVENT_FS_OPEN \<and>
       ge_action ev = ACTION_DENY \<and> ge_pid ev = cur_tgid e \<and> ge_tid ev = cur_tid e \<and> ge_ctx_id ev = c \<and>
       ge_tool_id ev = tool_id ctx \<and> ge_policy_source ev = POLICY_SOURCE_TOOL)"
proof -
  obtain s1 where run': "handle_file_open e k s = (if mode config = MODE_ENFORCE then -1 else 0,
      emit_fs_event e k (lsm_arg k 0) (tool_id ctx) c IDENTITY_STATE_KNOWN_TOOL POLICY_SOURCE_TOOL ACTION_DENY s1)"
      (is "_ = (_, ?s2)") and s1: "state_ok s1" "GUARD_EVENTS s1 = GUARD_EVENTS s"
    using denied_open_run [OF d cfg] by blast
  then have s': "s' = ?s2" and ret: "ret = (if mode config = MODE_ENFORCE then -1 else 0)" using run by simp_all
  from emit_path_reports [OF s1(1) path] s1(2) ring ret
  show ?thesis
    unfolding s' emit_fs_event_def
    by (simp add: rb_submit_def copy_path_to_event_def guard_event_def Let_def)
qed

text \<open>A tool with identifier 9 that a rule denies the file of \<open>view_a\<close>, in enforce mode.\<close>

definition guard_state :: bpf_state where
  "guard_state = state0\<lparr>THREAD_ACTIVE_CTX := bm_insert 7 42 (bm_empty 4096 Hash),
     TOOL_CTX := bm_insert 42 (new_tool_ctx env0 9 TOOL_CTX_FLAG_RESOLVED) (bm_empty 4096 Hash),
     TOOL_FS_POLICY := bm_insert \<lparr>fp_tool_id = 9, fp_dev = 8, fp_ino = 77\<rparr> PERM_DENY (bm_empty 1024 Hash),
     IRONSCOPE_CONFIG := bm_insert 0 (IronScopeConfig_default\<lparr>mode := MODE_ENFORCE\<rparr>) (bm_empty 1 Hash)\<rparr>"

lemma heap_ok_empty [simp]: "heap_ok (bm_empty 8 Hash)"
  by (simp add: heap_ok_def bm_empty_def bm_wf_def bm_get_def)

lemma init_state_ok: "state_ok (init_state ev cg cp cr)"
proof -
  have "maps_ok (init_state ev cg cp cr)" unfolding maps_ok_def by (simp only: init_state_def bpf_state.simps sized_ops simp_thms)
  then show ?thesis unfolding state_ok_def by (simp add: init_state_def)
qed

lemma state0_ok: "state_ok state0"
  unfolding state0_def by (rule init_state_ok)

lemma guard_state_maps:
  "bm_get (THREAD_ACTIVE_CTX guard_state) 7 = Some 42"
  "bm_get (TOOL_CTX guard_state) 42 = Some (new_tool_ctx env0 9 TOOL_CTX_FLAG_RESOLVED)"
  "bm_get (TOOL_FS_POLICY guard_state) \<lparr>fp_tool_id = 9, fp_dev = 8, fp_ino = 77\<rparr> = Some PERM_DENY"
  "bm_get (IRONSCOPE_CONFIG guard_state) 0 = Some (IronScopeConfig_default\<lparr>mode := MODE_ENFORCE\<rparr>)"
  "rb_can_reserve (GUARD_EVENTS guard_state) l"
  by (simp_all add: guard_state_def bm_get_insert bm_room_empty) (simp add: state0_def init_state_def empty_ring_def)

lemma guard_state_denied: "denied_open env0 view_a 42 (new_tool_ctx env0 9 TOOL_CTX_FLAG_RESOLVED) guard_state"
proof -
  have tid: "cur_tid env0 = 7" by (simp add: cur_tid_def env0_def)
  have idle: "THREAD_TSTATE guard_state = bm_empty 4096 Hash" "THREAD_CURRENT_FRAME guard_state = bm_empty 4096 Hash"
    "THREADPOOL_WORKER_FRAME guard_state = bm_empty 4096 Hash" "THREADPOOL_WORKER_CTX guard_state = bm_empty 4096 Hash"
    by (simp_all add: guard_state_def state0_def init_state_def)
  have "state_ok guard_state"
    using state0_ok by (simp add: guard_state_def state_ok_def bm_get_insert bm_room_empty)
  moreover have "not_pool_worker env0 7 guard_state"
    by (simp add: not_pool_worker_def find_mapped_work_item_in_current_chain_def read_tstate_current_frame_def idle)
  ultimately show ?thesis
    using guard_state_maps
    by (simp add: denied_open_def tid new_tool_ctx_def) (simp add: view_a_def get_file_identity_def core_field_def)
qed

theorem tool_deny_rule_enforced_witness:
  "fst (handle_file_open env0 view_a guard_state) = -1"
proof -
  obtain p where "core_resolve_file view_a 1 MAX_PATH_DEPTH Path_default = Some p"
    using core_resolve_file_walk [OF view_a_file view_a_walk _ resolve_loop_root view_a_names(2), of MAX_PATH_DEPTH]
    by (auto simp: at_fs_root_def add_name_def)
  moreover have "lsm_arg view_a 0 = 1" by (simp add: view_a_def)
  ultimately show ?thesis
    using tool_deny_rule_enforced [OF guard_state_denied guard_state_maps(4) _ guard_state_maps(5)
        prod.collapse [symmetric]] by simp
qed

text \<open>A refusal can go unreported.  If the path of the file does not resolve, for instance because it
  is longer than the buffer, the access is refused all the same but no guard event is written.\<close>

theorem refusal_without_path_unreported:
  assumes d: "denied_open e k c ctx s" and cfg: "bm_get (IRONSCOPE_CONFIG s) 0 = Some config" "mode config = MODE_ENFORCE"
    and path: "core_resolve_file k (lsm_arg k 0) MAX_PATH_DEPTH Path_default = None"
  shows "fst (handle_file_open e k s) = -1 \<and> GUARD_EVENTS (snd (handle_file_open e k s)) = GUARD_EVENTS s"
proof -
  have alloc: "GUARD_EVENTS (snd (alloc_zero e n u)) = GUARD_EVENTS u" "GUARD_EVENTS (alloc_init e u) = GUARD_EVENTS u" for n u
    by (simp_all add: alloc_zero_def alloc_init_def Let_def split: option.split)
  have "GUARD_EVENTS (emit_fs_event e k (lsm_arg k 0) tool c i src a u) = GUARD_EVENTS u" for tool i src a u
    by (simp add: emit_fs_event_def try_emit_path_event_def path Let_def case_prod_beta alloc)
  with denied_open_run [OF d cfg(1)] cfg(2) show ?thesis by auto
qed

text \<open>The same file where the names cannot be read.\<close>

theorem refusal_without_path_unreported_witness:
  "fst (handle_file_open env0 (view_a\<lparr>k_read := \<lambda>_ _. None\<rparr>) guard_state) = -1"
proof -
  let ?k = "view_a\<lparr>k_read := \<lambda>_ _. None\<rparr>"
  have "denied_open env0 ?k 42 (new_tool_ctx env0 9 TOOL_CTX_FLAG_RESOLVED) guard_state"
  proof -
    have "get_file_identity ?k = get_file_identity view_a" "lsm_arg ?k = lsm_arg view_a"
      by (simp_all add: get_file_identity_def fun_eq_iff split: option.split)
    with guard_state_denied show ?thesis by (simp add: denied_open_def)
  qed
  moreover have "core_resolve_file ?k (lsm_arg ?k 0) 128 Path_default = None"
    by (simp add: core_resolve_file_def core_resolve_def view_a_def core_field_def Let_def numeral_eq_Suc
        prepend_dentry_def prepend_qstr_name_def qstr_len_def path_is_empty_def Path_default_def)
  ultimately show ?thesis
    using refusal_without_path_unreported [OF _ guard_state_maps(4), where k = ?k] by simp
qed

end
