(* ===== verification/Brackets.thy ===== *)
theory Brackets
  imports Verdicts
begin

text \<open>
  A tool call from the entry of its root frame to the exit of that frame, on a thread that runs no
  asyncio task: what the entry probe of \<^verbatim>\<open>frame_probes.rs\<close> leaves behind, and that the exit probe
  takes exactly that back.
\<close>

section \<open>What a thread shows\<close>

text \<open>A thread whose context stack and tool stack are the given lists, the top of the first being active.\<close>

definition thread_at :: "bpf_state \<Rightarrow> u32 \<Rightarrow> u64 list \<Rightarrow> ToolStackEntry list \<Rightarrow> bool" where
  "thread_at s tid xs ts \<longleftrightarrow> ctx_stack_is s tid xs \<and> tool_stack_is s tid ts \<and>
     bm_get (THREAD_ACTIVE_CTX s) tid = top_of xs"

definition no_task :: "bpf_state \<Rightarrow> u32 \<Rightarrow> bool" where
  "no_task s tid \<longleftrightarrow> bm_get (THREAD_ACTIVE_TASK s) tid \<in> {None, Some 0}"

text \<open>
  A frame that is open as a tool call: its context is on top of the thread's stack and carried by
  the frame alone, and the tool stack and the stash name the frame last.
\<close>

definition in_tool_frame ::
  "probe_env \<Rightarrow> u64 \<Rightarrow> u64 \<Rightarrow> u64 \<Rightarrow> u32 \<Rightarrow> u64 list \<Rightarrow> ToolStackEntry list \<Rightarrow> bpf_state \<Rightarrow> bool" where
  "in_tool_frame e f parent c tool xs ts s \<longleftrightarrow>
     thread_at s (cur_tid e) (xs @ [c])
       (ts @ [\<lparr>ts_ctx_id = c, ts_frame_ptr = f, ts_parent_ptr = parent, ts_tool_id = tool\<rparr>]) \<and>
     bm_get (FRAME_CTX s) (py_object_key e f) = Some c \<and> frame_stash_peek (cur_tid e) s = Some f \<and>
     no_task s (cur_tid e) \<and> (\<exists>ctx. bm_get (TOOL_CTX s) c = Some ctx \<and> carrier_count ctx = 1)"

text \<open>The maps that say where a thread is.\<close>

definition thread_maps :: "bpf_state \<Rightarrow> _" where
  "thread_maps s = (THREAD_CTX_STACK s, THREAD_CTX_DEPTH s, THREAD_ACTIVE_CTX s, THREAD_ACTIVE_TASK s,
     TOOL_STACK s, TOOL_STACK_DEPTH s, FRAME_CTX s, FRAME_ENTRY_STASH s, FRAME_STASH_DEPTH s,
     WORKER_RUN_DEPTH s)"

lemma thread_maps_same:
  assumes "thread_maps s' = thread_maps s"
  shows "thread_at s' = thread_at s" "no_task s' = no_task s" "FRAME_CTX s' = FRAME_CTX s"
    "frame_stash_peek t s' = frame_stash_peek t s" "THREAD_ACTIVE_CTX s' = THREAD_ACTIVE_CTX s"
    "THREAD_ACTIVE_TASK s' = THREAD_ACTIVE_TASK s" "WORKER_RUN_DEPTH s' = WORKER_RUN_DEPTH s"
  using assms
  by (auto simp: thread_maps_def thread_at_def [abs_def] no_task_def [abs_def] ctx_stack_is_def tool_stack_is_def
      ctx_depth_def tool_depth_def frame_stash_peek_def fun_eq_iff split: option.split)

section \<open>Resolution leaves the thread alone\<close>

lemma emit_thread_maps [simp]:
  "thread_maps (emit_event ev s) = thread_maps s" "thread_maps (emit_py_event e k c t s) = thread_maps s"
  "thread_maps (emit_resolver_event rv s) = thread_maps s"
  by (simp_all add: thread_maps_def emit_defs emit_resolver_event_def)

lemma field_thread_maps [simp]:
  "thread_maps (s\<lparr>TOOL_CTX := m1\<rparr>) = thread_maps s" "thread_maps (s\<lparr>TOOL_OBJ := m2\<rparr>) = thread_maps s"
  "thread_maps (s\<lparr>PENDING_TOOL_RESOLVE := m3\<rparr>) = thread_maps s" "thread_maps (s\<lparr>CTX_COUNTER := m4\<rparr>) = thread_maps s"
  by (simp_all add: thread_maps_def)

lemmas resolve_defs = resolve_slot_obj_def resolve_slot_name_def set_ctx_tool_id_def mark_resolver_error_def
  emit_audit_unresolved_def emit_resolver_candidate_def emit_resolver_failed_def

lemma extract_thread_maps [simp]: "thread_maps (snd (extract_and_resolve e f d r c s)) = thread_maps s"
  by (auto simp: extract_and_resolve_def resolve_defs Let_def split: option.split)

lemma extract_carriers [simp]:
  "map_option carrier_count (bm_get (TOOL_CTX (snd (extract_and_resolve e f d r c s))) k) =
   map_option carrier_count (bm_get (TOOL_CTX s) k)"
proof -
  have "map_option carrier_count (bm_get (TOOL_CTX (emit_py_event e kd c' t u)) k) =
      map_option carrier_count (bm_get (TOOL_CTX u) k)" for kd c' t u by (simp add: emit_py_event_def)
  moreover have "TOOL_CTX (emit_resolver_event rv u) = TOOL_CTX u" for rv u by (simp add: emit_resolver_event_def)
  ultimately show ?thesis
    by (auto simp: extract_and_resolve_def resolve_defs Let_def option.map_comp comp_def split: option.split)
qed


lemma ring_kept [simp]:
  "rb_can_reserve (PY_EVENTS (emit_py_event e k c t s)) = rb_can_reserve (PY_EVENTS s)"
  "rb_can_reserve (PY_EVENTS (emit_resolver_event rv s)) = rb_can_reserve (PY_EVENTS s)"
  "rb_can_reserve (PY_EVENTS (snd (extract_and_resolve e f d r c s))) = rb_can_reserve (PY_EVENTS s)"
proof -
  show 1: "rb_can_reserve (PY_EVENTS (emit_py_event e k c t s)) = rb_can_reserve (PY_EVENTS s)" for k c t s
    by (simp add: emit_defs)
  show 2: "rb_can_reserve (PY_EVENTS (emit_resolver_event rv s)) = rb_can_reserve (PY_EVENTS s)" for s rv
    by (simp add: emit_resolver_event_def)
  show "rb_can_reserve (PY_EVENTS (snd (extract_and_resolve e f d r c s))) = rb_can_reserve (PY_EVENTS s)"
    by (auto simp: extract_and_resolve_def resolve_defs Let_def 1 2 split: option.split)
qed

lemma emit_py_event_logs:
  "ring_ready s \<Longrightarrow> \<exists>ev. rb_log (PY_EVENTS (emit_py_event e k c t s)) = rb_log (PY_EVENTS s) @ [ev] \<and>
     pe_kind ev = k \<and> pe_ctx_id ev = c \<and> pe_tool_id ev = t"
  by (simp add: emit_defs ring_ready_def rb_submit_def)

section \<open>Opening\<close>

text \<open>
  The frame at \<open>f\<close> runs a code object known to be a LangChain tool root that is no generator, and
  was called from the frame at \<open>parent\<close>.
\<close>

definition lc_root :: "probe_env \<Rightarrow> bpf_state \<Rightarrow> u64 \<Rightarrow> u64 \<Rightarrow> bool" where
  "lc_root e s f parent \<longleftrightarrow> read_parent_ptr e s f = Some parent \<and>
     (case (py_off s OFF_FRAME_F_EXECUTABLE, py_off s OFF_FRAME_OWNER, py_off s OFF_CODE_FLAGS) of
        (Some off_exec, Some off_owner, Some off_flags) \<Rightarrow>
          (case rd_u64 e (f + off_exec) of
             Some code \<Rightarrow>
               code \<noteq> 0 \<and>
               bm_get (CODE_KIND s) \<lparr>ck_tgid = cur_tgid e, ck_code_ptr = code\<rparr> = Some CODE_KIND_TOOL_ROOT_LC \<and>
               (case rd_u32 e (code + off_flags) of Some v \<Rightarrow> v AND CO_FLAGS_GENERATOR_MASK = 0 | None \<Rightarrow> True)
           | None \<Rightarrow> False)
      | _ \<Rightarrow> False)"

text \<open>No map the entry writes is full.\<close>

definition frame_room :: "probe_env \<Rightarrow> bpf_state \<Rightarrow> u64 \<Rightarrow> nat \<Rightarrow> nat \<Rightarrow> bool" where
  "frame_room e s f n m \<longleftrightarrow>
     (let tid = cur_tid e
      in bm_room (TOOL_CTX s) (ctx_id_of (smp_cpu e) (next_val s (smp_cpu e))) \<and>
         bm_room (FRAME_CTX s) (py_object_key e f) \<and>
         bm_room (THREAD_CTX_STACK s) (ctx_stack_key tid n) \<and> bm_room (THREAD_CTX_DEPTH s) tid \<and>
         bm_room (THREAD_ACTIVE_CTX s) tid \<and> bm_room (TOOL_STACK s) (tool_stack_key tid m) \<and>
         bm_room (TOOL_STACK_DEPTH s) tid \<and> bm_room (FRAME_STASH_DEPTH s) tid \<and>
         bm_room (FRAME_ENTRY_STASH s) (frame_stash_key tid (stash_depth tid s)) \<and> stash_depth tid s \<noteq> -1)"

lemma entry_of_lc_root:
  assumes "lc_root e s f parent" "bm_get (FRAME_CTX s) (py_object_key e f) = None"
    "skip \<or> bm_get (PENDING_FRAME_TOOL s) (py_object_key e f) = None"
  obtains code co where "co AND CO_FLAGS_GENERATOR_MASK = 0"
    "handle_tool_frame_entry_for_ptr_inner e f skip s =
       enter_root_lc e (cur_tid e) f parent code co (frame_stash_push (cur_tid e) f s)"
proof -
  from assms(1) obtain oe oo ofl code where
    o: "read_parent_ptr e s f = Some parent" "py_off s OFF_FRAME_F_EXECUTABLE = Some oe"
      "py_off s OFF_FRAME_OWNER = Some oo" "py_off s OFF_CODE_FLAGS = Some ofl"
      "rd_u64 e (f + oe) = Some code" "code \<noteq> 0"
      "bm_get (CODE_KIND s) \<lparr>ck_tgid = cur_tgid e, ck_code_ptr = code\<rparr> = Some CODE_KIND_TOOL_ROOT_LC"
    and fl: "case rd_u32 e (code + ofl) of Some v \<Rightarrow> v AND CO_FLAGS_GENERATOR_MASK = 0 | None \<Rightarrow> True"
    by (auto simp: lc_root_def split: option.splits prod.splits)
  define co where "co = (case rd_u32 e (code + ofl) of Some v \<Rightarrow> v | None \<Rightarrow> 0)"
  have co: "co AND CO_FLAGS_GENERATOR_MASK = 0" using fl by (simp add: co_def split: option.splits)
  have "(if skip then (None, s) else enter_pending_frame e (cur_tid e) f parent s) = (None, s)"
    using assms(2,3) by (auto simp: enter_pending_frame_def Let_def)
  then have "handle_tool_frame_entry_for_ptr_inner e f skip s =
       enter_root_lc e (cur_tid e) f parent code co (frame_stash_push (cur_tid e) f s)"
    using o(6) assms(2)
    by (simp add: handle_tool_frame_entry_for_ptr_inner_def o enter_frame_of_code_def Let_def co_def [symmetric] co
        enter_ruled_frame_def enter_known_frame_def enter_by_kind_def)
  with co show ?thesis by (rule that)
qed

text \<open>
  The context just pushed is the active one, so a frame on a thread without a task is never taken
  for a duplicate: the first and the third test of the source compare the context with itself.
\<close>

lemma fresh_root_no_duplicate:
  assumes "bm_get (THREAD_ACTIVE_CTX s) tid = Some c" "ctx_is_live s c" "no_task s tid"
  shows "root_is_duplicate e tid f c co cur s = (False, s)"
  using assms
  by (auto simp: root_is_duplicate_def get_active_ctx_def nested_in_other_coroutine_def no_task_def Let_def)

lemma stash_push_peek:
  assumes "bm_room (FRAME_STASH_DEPTH s) tid" "bm_room (FRAME_ENTRY_STASH s) (frame_stash_key tid (stash_depth tid s))"
    "stash_depth tid s \<noteq> -1"
  shows "frame_stash_peek tid (frame_stash_push tid f s) = Some f"
proof -
  have "stash_depth tid s + 1 \<noteq> 0" using assms(3) by (metis add_eq_0_iff2)
  then show ?thesis
    by (simp add: frame_stash_peek_def frame_stash_push_def Let_def bm_get_insert [OF assms(1)] bm_get_insert [OF assms(2)])
qed

lemma open_frame_ctx_at:
  assumes at: "thread_at s tid xs ts" and lt: "length xs < 8"
    and room: "bm_room (THREAD_CTX_STACK s) (ctx_stack_key tid (length xs))" "bm_room (THREAD_CTX_DEPTH s) tid"
      "bm_room (THREAD_ACTIVE_CTX s) tid" "bm_room (TOOL_CTX s) c" "bm_room (FRAME_CTX s) (py_object_key e f)"
  obtains s' where "open_frame_ctx e tid f c tool fl s = (True, s')" "thread_at s' tid (xs @ [c]) ts"
    "\<And>b ys us. b \<noteq> tid \<Longrightarrow> thread_at s b ys us \<Longrightarrow> thread_at s' b ys us"
    "bm_get (FRAME_CTX s') (py_object_key e f) = Some c" "bm_get (TOOL_CTX s') c = Some (new_tool_ctx e tool fl)"
    "no_task s' = no_task s" "TOOL_STACK s' = TOOL_STACK s" "TOOL_STACK_DEPTH s' = TOOL_STACK_DEPTH s"
    "PY_EVENTS s' = PY_EVENTS s" "\<And>t. frame_stash_peek t s' = frame_stash_peek t s"
    "WORKER_RUN_DEPTH s' = WORKER_RUN_DEPTH s"
proof -
  let ?s1 = "s\<lparr>TOOL_CTX := bm_insert c (new_tool_ctx e tool fl) (TOOL_CTX s),
               FRAME_CTX := bm_insert (py_object_key e f) c (FRAME_CTX s)\<rparr>"
  let ?s2 = "snd (ctx_stack_push e tid c ?s1)"
  have ctx1: "ctx_stack_is ?s1 = ctx_stack_is s" by (simp add: fun_eq_iff ctx_stack_is_def ctx_depth_def)
  have is1: "ctx_stack_is ?s1 tid xs" using at by (simp only: ctx1) (simp add: thread_at_def)
  then have d: "ctx_depth tid ?s1 < 8" using lt by (simp add: ctx_stack_is_def)
  note P = ctx_stack_push_holds [where e = e and c = c, OF is1 lt]
  note eq = ctx_stack_push_ok_case [where e = e and c = c, OF d]
  have act: "THREAD_ACTIVE_CTX ?s2 = bm_insert tid c (THREAD_ACTIVE_CTX s)" by (simp add: eq set_active_def)
  have ts2: "tool_stack_is ?s2 = tool_stack_is s"
    by (simp add: eq set_active_def fun_eq_iff tool_stack_is_def tool_depth_def)
  have st2: "ctx_stack_is ?s2 tid (xs @ [c])" using room by (intro P) simp_all
  have oth: "ctx_stack_is ?s2 b ys" if "b \<noteq> tid" "ctx_stack_is s b ys" for b ys
    using room that by (intro P) (simp_all add: ctx1)
  show ?thesis
  proof (rule that [of ?s2])
    show "open_frame_ctx e tid f c tool fl s = (True, ?s2)" by (simp add: open_frame_ctx_def eq)
    show "thread_at ?s2 tid (xs @ [c]) ts"
      using at st2 by (simp add: thread_at_def ts2 act bm_get_insert room top_of_def)
    show "thread_at ?s2 b ys us" if "b \<noteq> tid" "thread_at s b ys us" for b ys us
      using that oth by (simp add: thread_at_def ts2 act bm_get_insert room)
  qed (simp_all add: eq set_active_def bm_get_insert room no_task_def fun_eq_iff frame_stash_peek_def split: option.split)
qed

lemma announce_tool_at:
  assumes at: "thread_at s tid xs ts" and lt: "length ts < 8" and nt: "no_task s tid"
    and room: "bm_room (TOOL_STACK s) (tool_stack_key tid (length ts))" "bm_room (TOOL_STACK_DEPTH s) tid"
  obtains s' where
    "announce_tool e tid c f parent tool s = emit_py_event e EVENT_TOOL_START c tool s'"
    "thread_at s' tid xs (ts @ [\<lparr>ts_ctx_id = c, ts_frame_ptr = f, ts_parent_ptr = parent, ts_tool_id = tool\<rparr>])"
    "\<And>b ys us. b \<noteq> tid \<Longrightarrow> thread_at s b ys us \<Longrightarrow> thread_at s' b ys us"
    "FRAME_CTX s' = FRAME_CTX s" "TOOL_CTX s' = TOOL_CTX s" "no_task s' = no_task s" "PY_EVENTS s' = PY_EVENTS s"
    "\<And>t. frame_stash_peek t s' = frame_stash_peek t s" "WORKER_RUN_DEPTH s' = WORKER_RUN_DEPTH s"
proof -
  let ?s' = "tool_stack_push tid c f parent tool s"
  from at have ts: "tool_stack_is s tid ts" by (simp add: thread_at_def)
  then have d: "tool_depth tid s < 8" using lt by (simp add: tool_stack_is_def)
  note P = tool_stack_push_holds [where c = c and f = f and p = parent and t = tool, OF ts lt room]
  note eq = tool_stack_push_ok_case [OF d]
  have ctx: "ctx_stack_is ?s' = ctx_stack_is s" "THREAD_ACTIVE_CTX ?s' = THREAD_ACTIVE_CTX s"
    by (simp_all add: eq fun_eq_iff ctx_stack_is_def ctx_depth_def)
  show ?thesis
  proof (rule that [of ?s'])
    have "bm_get (THREAD_ACTIVE_TASK (emit_py_event e EVENT_TOOL_START c tool ?s')) tid \<in> {None, Some 0}"
      using nt by (simp add: no_task_def emit_defs eq)
    then show "announce_tool e tid c f parent tool s = emit_py_event e EVENT_TOOL_START c tool ?s'"
      by (auto simp: announce_tool_def push_active_task_def)
  qed (use at P in \<open>simp_all add: thread_at_def ctx\<close>,
       simp_all add: eq no_task_def fun_eq_iff frame_stash_peek_def split: option.split)
qed

lemma enter_root_lc_at:
  fixes s :: bpf_state and e :: probe_env
  assumes at: "thread_at s tid xs ts" and lt: "length xs < 8" "length ts < 8" and nt: "no_task s tid"
    and room: "bm_room (THREAD_CTX_STACK s) (ctx_stack_key tid (length xs))" "bm_room (THREAD_CTX_DEPTH s) tid"
      "bm_room (THREAD_ACTIVE_CTX s) tid" "bm_room (FRAME_CTX s) (py_object_key e f)"
      "bm_room (TOOL_STACK s) (tool_stack_key tid (length ts))" "bm_room (TOOL_STACK_DEPTH s) tid"
      "bm_room (TOOL_CTX s) (ctx_id_of (smp_cpu e) (next_val s (smp_cpu e)))"
  defines "c \<equiv> ctx_id_of (smp_cpu e) (next_val s (smp_cpu e))"
  obtains tool s' where
    "enter_root_lc e tid f parent code co s = (True, emit_py_event e EVENT_TOOL_START c tool s')"
    "thread_at s' tid (xs @ [c]) (ts @ [\<lparr>ts_ctx_id = c, ts_frame_ptr = f, ts_parent_ptr = parent, ts_tool_id = tool\<rparr>])"
    "\<And>b ys us. b \<noteq> tid \<Longrightarrow> thread_at s b ys us \<Longrightarrow> thread_at s' b ys us"
    "bm_get (FRAME_CTX s') (py_object_key e f) = Some c" "\<And>t. frame_stash_peek t s' = frame_stash_peek t s"
    "no_task s' = no_task s" "\<exists>ctx. bm_get (TOOL_CTX s') c = Some ctx \<and> carrier_count ctx = 1"
    "rb_can_reserve (PY_EVENTS s') = rb_can_reserve (PY_EVENTS s)" "WORKER_RUN_DEPTH s' = WORKER_RUN_DEPTH s"
proof -
  let ?s1 = "s\<lparr>CTX_COUNTER := (CTX_COUNTER s)(smp_cpu e := next_val s (smp_cpu e) + 1)\<rparr>"
  note same1 = thread_maps_same [OF field_thread_maps(4) [where s = s]]
  obtain s2 where s2: "open_frame_ctx e tid f c TOOL_IDLE (generator_flags co) ?s1 = (True, s2)"
    "thread_at s2 tid (xs @ [c]) ts" "\<And>b ys us. b \<noteq> tid \<Longrightarrow> thread_at s b ys us \<Longrightarrow> thread_at s2 b ys us"
    "bm_get (FRAME_CTX s2) (py_object_key e f) = Some c"
    "bm_get (TOOL_CTX s2) c = Some (new_tool_ctx e TOOL_IDLE (generator_flags co))"
    "no_task s2 = no_task s" "TOOL_STACK s2 = TOOL_STACK s" "TOOL_STACK_DEPTH s2 = TOOL_STACK_DEPTH s"
    "PY_EVENTS s2 = PY_EVENTS s" "\<And>t. frame_stash_peek t s2 = frame_stash_peek t s"
    "WORKER_RUN_DEPTH s2 = WORKER_RUN_DEPTH s"
    by (rule open_frame_ctx_at [of ?s1 tid xs ts c e f TOOL_IDLE "generator_flags co"]) (use at lt room in \<open>simp_all add: c_def same1\<close>)
  obtain resolved s3 where s3: "(case find_root_rule CODE_KIND_TOOL_ROOT_LC s2 of
        Some rule \<Rightarrow> extract_and_resolve e f code rule c s2 | None \<Rightarrow> (TOOL_IDLE, s2)) = (resolved, s3)"
    by fastforce
  then have "s3 = s2 \<or> (\<exists>r. s3 = snd (extract_and_resolve e f code r c s2))"
    by (auto split: option.splits simp: eq_snd_iff)
  then have maps3: "thread_maps s3 = thread_maps s2"
    and car3: "map_option carrier_count (bm_get (TOOL_CTX s3) c) = map_option carrier_count (bm_get (TOOL_CTX s2) c)"
    and ring3: "rb_can_reserve (PY_EVENTS s3) = rb_can_reserve (PY_EVENTS s2)"
    by auto
  note same3 = thread_maps_same [OF maps3]
  obtain ctx where ctx: "bm_get (TOOL_CTX s3) c = Some ctx" "carrier_count ctx = 1"
    using car3 by (auto simp: s2(5) new_tool_ctx_def)
  have tool3: "TOOL_STACK s3 = TOOL_STACK s" "TOOL_STACK_DEPTH s3 = TOOL_STACK_DEPTH s"
    using maps3 s2(7,8) by (simp_all add: thread_maps_def)
  have at3: "thread_at s3 tid (xs @ [c]) ts" by (simp add: same3 s2)
  then have act: "bm_get (THREAD_ACTIVE_CTX s3) tid = Some c" by (simp add: thread_at_def top_of_def)
  have nt3: "no_task s3 tid" by (simp add: same3 s2 nt)
  have dup: "root_is_duplicate e tid f c co (tool_id ctx) s3 = (False, s3)"
    by (rule fresh_root_no_duplicate [OF act _ nt3]) (simp add: ctx_is_live_def ctx)
  have run: "enter_root_lc e tid f parent code co s = (True, announce_tool e tid c f parent (tool_id ctx) s3)"
    by (simp add: enter_root_lc_def alloc_ctx_id_eq c_def [symmetric] s2(1) s3 ctx dup Let_def)
  obtain s' where s': "announce_tool e tid c f parent (tool_id ctx) s3 = emit_py_event e EVENT_TOOL_START c (tool_id ctx) s'"
    "thread_at s' tid (xs @ [c]) (ts @ [\<lparr>ts_ctx_id = c, ts_frame_ptr = f, ts_parent_ptr = parent, ts_tool_id = tool_id ctx\<rparr>])"
    "\<And>b ys us. b \<noteq> tid \<Longrightarrow> thread_at s3 b ys us \<Longrightarrow> thread_at s' b ys us"
    "FRAME_CTX s' = FRAME_CTX s3" "TOOL_CTX s' = TOOL_CTX s3" "no_task s' = no_task s3" "PY_EVENTS s' = PY_EVENTS s3"
    "\<And>t. frame_stash_peek t s' = frame_stash_peek t s3" "WORKER_RUN_DEPTH s' = WORKER_RUN_DEPTH s3"
    by (rule announce_tool_at [OF at3 lt(2) nt3, of e c f parent "tool_id ctx"]) (use room in \<open>simp_all add: tool3\<close>)
  show ?thesis
    by (rule that [of "tool_id ctx" s'])
       (use s2 s' ctx in \<open>simp_all add: run same3 ring3\<close>)
qed

lemma tool_frame_opens_aux:
  fixes s :: bpf_state and e :: probe_env
  assumes at: "thread_at s (cur_tid e) xs ts" and lt: "length xs < 8" "length ts < 8"
    and nt: "no_task s (cur_tid e)" and root: "lc_root e s f parent"
    and new: "bm_get (FRAME_CTX s) (py_object_key e f) = None"
      "skip \<or> bm_get (PENDING_FRAME_TOOL s) (py_object_key e f) = None"
    and room: "frame_room e s f (length xs) (length ts)" "ring_ready s"
    and run: "handle_tool_frame_entry_for_ptr_inner e f skip s = (ok, s')"
  shows "\<exists>tool c. ok \<and> c = ctx_id_of (smp_cpu e) (next_val s (smp_cpu e)) \<and>
           in_tool_frame e f parent c tool xs ts s' \<and>
           (let ev = last (rb_log (PY_EVENTS s'))
            in pe_kind ev = EVENT_TOOL_START \<and> pe_ctx_id ev = c \<and> pe_tool_id ev = tool) \<and>
           (\<forall>b ys us. b \<noteq> cur_tid e \<longrightarrow> thread_at s b ys us \<longrightarrow> thread_at s' b ys us) \<and>
           WORKER_RUN_DEPTH s' = WORKER_RUN_DEPTH s \<and> ring_ready s'"
proof -
  let ?t = "cur_tid e" and ?c = "ctx_id_of (smp_cpu e) (next_val s (smp_cpu e))"
  let ?u = "frame_stash_push ?t f s"
  have u: "thread_at ?u = thread_at s" "no_task ?u = no_task s" "next_val ?u = next_val s"
    by (simp_all add: fun_eq_iff thread_at_def no_task_def ctx_stack_is_def tool_stack_is_def ctx_depth_def
        tool_depth_def next_val_def frame_stash_push_def Let_def)
  have peek: "frame_stash_peek ?t ?u = Some f" using room by (intro stash_push_peek) (simp_all add: frame_room_def Let_def)
  obtain code co where "handle_tool_frame_entry_for_ptr_inner e f skip s = enter_root_lc e ?t f parent code co ?u"
    by (rule entry_of_lc_root [OF root new])
  moreover obtain tool s1 where s1:
    "enter_root_lc e ?t f parent code co ?u = (True, emit_py_event e EVENT_TOOL_START ?c tool s1)"
    "thread_at s1 ?t (xs @ [?c]) (ts @ [\<lparr>ts_ctx_id = ?c, ts_frame_ptr = f, ts_parent_ptr = parent, ts_tool_id = tool\<rparr>])"
    "\<And>b ys us. b \<noteq> ?t \<Longrightarrow> thread_at s b ys us \<Longrightarrow> thread_at s1 b ys us"
    "bm_get (FRAME_CTX s1) (py_object_key e f) = Some ?c" "\<And>t. frame_stash_peek t s1 = frame_stash_peek t ?u"
    "no_task s1 = no_task s" "\<exists>ctx. bm_get (TOOL_CTX s1) ?c = Some ctx \<and> carrier_count ctx = 1"
    "rb_can_reserve (PY_EVENTS s1) = rb_can_reserve (PY_EVENTS s)" "WORKER_RUN_DEPTH s1 = WORKER_RUN_DEPTH s"
    by (rule enter_root_lc_at [of ?u ?t xs ts e f parent code co])
       (use at lt nt room(1) in \<open>simp_all add: u, simp_all add: frame_room_def frame_stash_push_def Let_def\<close>)
  ultimately have s': "ok" "s' = emit_py_event e EVENT_TOOL_START ?c tool s1" using run by simp_all
  note same = thread_maps_same [OF emit_thread_maps(2)]
  have "in_tool_frame e f parent ?c tool xs ts s'"
    using s1 nt by (simp add: in_tool_frame_def s'(2) same peek) (simp add: emit_defs)
  moreover have "\<exists>ev. rb_log (PY_EVENTS s') = rb_log (PY_EVENTS s1) @ [ev] \<and> pe_kind ev = EVENT_TOOL_START \<and>
      pe_ctx_id ev = ?c \<and> pe_tool_id ev = tool"
    using room(2) s1(8) unfolding s'(2) by (intro emit_py_event_logs) (simp add: ring_ready_def)
  moreover have "ring_ready s'" using room(2) s1(8) by (simp add: s'(2) ring_ready_def)
  ultimately show ?thesis using s'(1) s1(3,9) by (auto simp: s'(2) same Let_def)
qed

text \<open>C3: entering the frame of a LangChain tool that is no generator, on a thread that runs no task
  and has stacked fewer than eight contexts and tools, by whichever of the three entry probes,
  opens the call: a context never used before is pushed on the thread's stack and made active with
  the frame as its only carrier, the tool stack records the call and \<^verbatim>\<open>TOOL_START\<close> is the last event
  reported.  What every other thread shows stays as it is, and so do the worker runs.\<close>

theorem tool_frame_opens:
  fixes s :: bpf_state and e :: probe_env
  assumes at: "thread_at s (cur_tid e) xs ts" and lt: "length xs < 8" "length ts < 8"
    and nt: "no_task s (cur_tid e)" and root: "lc_root e s f parent"
    and new: "bm_get (FRAME_CTX s) (py_object_key e f) = None"
      "skip \<or> bm_get (PENDING_FRAME_TOOL s) (py_object_key e f) = None"
    and room: "frame_room e s f (length xs) (length ts)" "ring_ready s"
    and run: "handle_tool_frame_entry_for_ptr_inner e f skip s = (ok, s')"
  shows "\<exists>tool c. ok \<and> c = ctx_id_of (smp_cpu e) (next_val s (smp_cpu e)) \<and>
           in_tool_frame e f parent c tool xs ts s' \<and>
           (let ev = last (rb_log (PY_EVENTS s'))
            in pe_kind ev = EVENT_TOOL_START \<and> pe_ctx_id ev = c \<and> pe_tool_id ev = tool) \<and>
           (\<forall>b ys us. b \<noteq> cur_tid e \<longrightarrow> thread_at s b ys us \<longrightarrow> thread_at s' b ys us) \<and>
           WORKER_RUN_DEPTH s' = WORKER_RUN_DEPTH s \<and> ring_ready s'"
  using assms by (rule tool_frame_opens_aux)

lemma ctx_stack_remove_active_other:
  assumes "b \<noteq> tid" "bm_room (THREAD_ACTIVE_CTX s) tid"
  shows "bm_get (THREAD_ACTIVE_CTX (snd (ctx_stack_remove tid c s))) b = bm_get (THREAD_ACTIVE_CTX s) b"
  using assms
  by (simp add: ctx_stack_remove_def set_active_def clear_active_def Let_def bm_get_insert split: option.split)

section \<open>Closing\<close>

lemma tool_stack_remove_frame:
  obtains m d where "snd (tool_stack_pop_if_frame_parent tid f p s) = s\<lparr>TOOL_STACK := m, TOOL_STACK_DEPTH := d\<rparr>"
  by (rule that [where m = "TOOL_STACK (snd (tool_stack_pop_if_frame_parent tid f p s))"
        and d = "TOOL_STACK_DEPTH (snd (tool_stack_pop_if_frame_parent tid f p s))"])
     (simp add: tool_stack_pop_if_frame_parent_def tool_stack_remove_where_def Let_def split: option.split)

lemma ctx_stack_remove_frame:
  obtains m d a where "snd (ctx_stack_remove tid c s) =
    s\<lparr>THREAD_CTX_STACK := m, THREAD_CTX_DEPTH := d, THREAD_ACTIVE_CTX := a\<rparr>"
  by (rule that [where m = "THREAD_CTX_STACK (snd (ctx_stack_remove tid c s))"
        and d = "THREAD_CTX_DEPTH (snd (ctx_stack_remove tid c s))"
        and a = "THREAD_ACTIVE_CTX (snd (ctx_stack_remove tid c s))"])
     (simp add: ctx_stack_remove_def set_active_def clear_active_def Let_def split: option.split)

lemma frame_stash_pop_frame:
  obtains m d where "snd (frame_stash_pop tid s) = s\<lparr>FRAME_ENTRY_STASH := m, FRAME_STASH_DEPTH := d\<rparr>"
  by (rule that [where m = "FRAME_ENTRY_STASH (snd (frame_stash_pop tid s))"
        and d = "FRAME_STASH_DEPTH (snd (frame_stash_pop tid s))"])
     (simp add: frame_stash_pop_def Let_def split: option.split)

lemma remove1_by_last: "\<forall>x\<in>set xs. \<not> P x \<Longrightarrow> P y \<Longrightarrow> remove1_by P (xs @ [y]) = xs \<and> find P (xs @ [y]) = Some y"
  by (induction xs) auto

lemma remove1_last: "c \<notin> set xs \<Longrightarrow> remove1 c (xs @ [c]) = xs"
  by (simp add: remove1_append)

lemma carrier_dec_last:
  "bm_get (TOOL_CTX s) c = Some ctx \<Longrightarrow> carrier_count ctx = 1 \<Longrightarrow>
   carrier_dec e c s = (emit_py_event e EVENT_TOOL_CONTEXT_END c (tool_id ctx) s)\<lparr>TOOL_CTX := bm_remove c (TOOL_CTX s)\<rparr>"
  by (simp add: carrier_dec_def Let_def emit_defs bm_remove_modify)

lemma finish_tool_close_at:
  assumes at: "thread_at s tid (xs @ [ts_ctx_id en]) ts" and wf: "bm_wf (THREAD_CTX_STACK s)"
    and new: "ts_ctx_id en \<notin> set xs"
    and fr: "bm_get (FRAME_CTX s) (py_object_key e (ts_frame_ptr en)) = Some (ts_ctx_id en)"
    and ctx: "bm_get (TOOL_CTX s) (ts_ctx_id en) = Some ctx" "carrier_count ctx = 1" and ring: "ring_ready s"
  obtains s' f1 f2 where "finish_tool_close e tid en s = (True, s')" "thread_at s' tid xs ts"
    "bm_get (FRAME_CTX s') (py_object_key e (ts_frame_ptr en)) = None" "\<not> ctx_is_live s' (ts_ctx_id en)"
    "rb_log (PY_EVENTS s') = rb_log (PY_EVENTS s) @ [f1, f2]"
    "pe_kind f1 = EVENT_TOOL_FRAME_END" "pe_kind f2 = EVENT_TOOL_CONTEXT_END" "pe_ctx_id f1 = ts_ctx_id en"
    "pe_ctx_id f2 = ts_ctx_id en" "\<And>b ys us. b \<noteq> tid \<Longrightarrow> thread_at s b ys us \<Longrightarrow> thread_at s' b ys us"
proof -
  let ?c = "ts_ctx_id en"
  let ?s1 = "s\<lparr>FRAME_CTX := bm_remove (py_object_key e (ts_frame_ptr en)) (FRAME_CTX s)\<rparr>"
  obtain r s2 where run: "ctx_stack_remove tid ?c ?s1 = (r, s2)" by fastforce
  obtain m d a where s2: "s2 = ?s1\<lparr>THREAD_CTX_STACK := m, THREAD_CTX_DEPTH := d, THREAD_ACTIVE_CTX := a\<rparr>"
    by (rule ctx_stack_remove_frame [of tid ?c ?s1]) (simp add: run)
  let ?s3 = "emit_py_event e EVENT_TOOL_FRAME_END ?c (ts_tool_id en) s2"
  let ?s' = "carrier_dec e ?c ?s3"
  have is1: "ctx_stack_is ?s1 = ctx_stack_is s" by (simp add: fun_eq_iff ctx_stack_is_def ctx_depth_def)
  have act: "bm_get (THREAD_ACTIVE_CTX s) tid = Some ?c" using at by (simp add: thread_at_def top_of_def)
  note L = ctx_stack_remove_list [OF _ _ _ run, of "xs @ [?c]"]
  have st2: "ctx_stack_is s2 tid xs \<and> bm_get (THREAD_ACTIVE_CTX s2) tid = top_of xs \<and>
      (\<forall>b ys. b \<noteq> tid \<longrightarrow> ctx_stack_is s b ys \<longrightarrow> ctx_stack_is s2 b ys)"
    using at wf bm_room_present [OF act] L by (simp add: is1 thread_at_def remove1_last [OF new])
  have others: "bm_get (THREAD_ACTIVE_CTX s2) b = bm_get (THREAD_ACTIVE_CTX s) b" if "b \<noteq> tid" for b
    using ctx_stack_remove_active_other [OF that, where c = ?c and s = ?s1] bm_room_present [OF act] by (simp add: run)
  have tools: "tool_stack_is s2 = tool_stack_is s" by (simp add: s2 fun_eq_iff tool_stack_is_def tool_depth_def)
  have ctx3: "bm_get (TOOL_CTX ?s3) ?c = Some ctx" by (simp add: s2 emit_defs ctx)
  have dec: "?s' = (emit_py_event e EVENT_TOOL_CONTEXT_END ?c (tool_id ctx) ?s3)\<lparr>TOOL_CTX := bm_remove ?c (TOOL_CTX s)\<rparr>"
    using carrier_dec_last [OF ctx3 ctx(2)] by (simp add: s2 emit_defs)
  have maps: "thread_maps ?s' = thread_maps s2" by (simp add: dec)
  have rdy: "ring_ready s2" "ring_ready ?s3" using ring by (simp_all add: ring_ready_def) (simp_all add: s2)
  obtain f1 where f1: "rb_log (PY_EVENTS ?s3) = rb_log (PY_EVENTS s2) @ [f1]" "pe_kind f1 = EVENT_TOOL_FRAME_END"
    "pe_ctx_id f1 = ?c" using emit_py_event_logs [OF rdy(1)] by blast
  obtain f2 where f2: "rb_log (PY_EVENTS (emit_py_event e EVENT_TOOL_CONTEXT_END ?c (tool_id ctx) ?s3)) =
      rb_log (PY_EVENTS ?s3) @ [f2]" "pe_kind f2 = EVENT_TOOL_CONTEXT_END" "pe_ctx_id f2 = ?c"
    using emit_py_event_logs [OF rdy(2)] by blast
  have "rb_log (PY_EVENTS ?s') = rb_log (PY_EVENTS s2) @ [f1, f2]" unfolding dec by (simp add: f1 f2)
  then have log: "rb_log (PY_EVENTS ?s') = rb_log (PY_EVENTS s) @ [f1, f2]" by (simp add: s2)
  show ?thesis
  proof (rule that [OF _ _ _ _ log f1(2) f2(2) f1(3) f2(3)])
    show "finish_tool_close e tid en s = (True, ?s')" by (simp add: finish_tool_close_def fr run Let_def)
    show "thread_at ?s' tid xs ts"
      using st2 at by (simp add: thread_maps_same [OF maps]) (simp add: thread_at_def tools)
    show "thread_at ?s' b ys us" if "b \<noteq> tid" "thread_at s b ys us" for b ys us
      using st2 that by (simp add: thread_maps_same [OF maps]) (simp add: thread_at_def tools others)
    show "bm_get (FRAME_CTX ?s') (py_object_key e (ts_frame_ptr en)) = None"
      by (simp add: thread_maps_same [OF maps]) (simp add: s2 emit_defs)
    show "\<not> ctx_is_live ?s' ?c" by (simp add: dec ctx_is_live_def)
  qed
qed

text \<open>C4: leaving the frame of an open tool call, by return or by exception, ends the call: the
  thread shows what it showed before the call, the context is gone together with the frame's entry,
  and exactly \<^verbatim>\<open>TOOL_FRAME_END\<close> and \<^verbatim>\<open>TOOL_CONTEXT_END\<close> of that context are reported.\<close>

theorem tool_frame_closes:
  assumes op: "(exit_probe, idx) \<in> {(handle_frame_exit_normal, OFF_FRAME_REG_IDX),
      (handle_frame_exit_exception, OFF_EXCEPTION_FRAME_REG_IDX)}"
    and reg: "arr_get (PYTHON_OFFSETS s) idx = Some r" "read_register e r = Some parent" "parent \<noteq> 0"
    and inn: "in_tool_frame e f parent c tool xs ts s" and ok: "state_ok s" "ring_ready s"
    and new: "c \<notin> set xs" "\<forall>en \<in> set ts. ts_frame_ptr en \<noteq> f"
    and work: "worker_stack_pop_for_parent (cur_tid e) parent s = (None, s)"
    and run: "exit_probe e s = (done, s')"
  shows "done \<and> thread_at s' (cur_tid e) xs ts \<and> bm_get (FRAME_CTX s') (py_object_key e f) = None \<and>
         \<not> ctx_is_live s' c \<and>
         (\<exists>f1 f2. rb_log (PY_EVENTS s') = rb_log (PY_EVENTS s) @ [f1, f2] \<and>
            pe_kind f1 = EVENT_TOOL_FRAME_END \<and> pe_kind f2 = EVENT_TOOL_CONTEXT_END \<and>
            pe_ctx_id f1 = c \<and> pe_ctx_id f2 = c) \<and>
         (\<forall>b ys us. b \<noteq> cur_tid e \<longrightarrow> thread_at s b ys us \<longrightarrow> thread_at s' b ys us)"
proof -
  let ?t = "cur_tid e"
  let ?en = "\<lparr>ts_ctx_id = c, ts_frame_ptr = f, ts_parent_ptr = parent, ts_tool_id = tool\<rparr>"
  let ?P = "\<lambda>en. ts_frame_ptr en = f \<and> ts_parent_ptr en = parent"
  from inn obtain ctx where i: "thread_at s ?t (xs @ [c]) (ts @ [?en])" "bm_get (FRAME_CTX s) (py_object_key e f) = Some c"
    "frame_stash_peek ?t s = Some f" "no_task s ?t" "bm_get (TOOL_CTX s) c = Some ctx" "carrier_count ctx = 1"
    by (auto simp: in_tool_frame_def)
  have "sized 4096 (TOOL_STACK s)" "sized 32768 (THREAD_CTX_STACK s)" using ok(1) by simp_all
  then have wf: "bm_wf (TOOL_STACK s)" "bm_wf (THREAD_CTX_STACK s)" by (simp_all add: sized_def)
  have lst: "remove1_by ?P (ts @ [?en]) = ts" "find ?P (ts @ [?en]) = Some ?en"
    using remove1_by_last [of ts ?P ?en] new(2) by auto
  let ?pop = "tool_stack_pop_if_frame_parent ?t f parent"
  have "tool_stack_is s ?t (ts @ [?en])" using i(1) by (simp add: thread_at_def)
  then have T: "fst (?pop s) = find ?P (ts @ [?en]) \<and> tool_stack_is (snd (?pop s)) ?t (remove1_by ?P (ts @ [?en])) \<and>
      (find ?P (ts @ [?en]) = None \<longrightarrow> snd (?pop s) = s) \<and>
      (\<forall>b ys. b \<noteq> ?t \<longrightarrow> tool_stack_is s b ys \<longrightarrow> tool_stack_is (snd (?pop s)) b ys)"
    by (rule tool_stack_remove_list [OF _ wf(1)]) (rule insertI2, rule insertI1)
  obtain m d where s2: "snd (?pop s) = s\<lparr>TOOL_STACK := m, TOOL_STACK_DEPTH := d\<rparr>"
    by (rule tool_stack_remove_frame)
  let ?s2 = "s\<lparr>TOOL_STACK := m, TOOL_STACK_DEPTH := d\<rparr>"
  have pop: "?pop s = (Some ?en, ?s2)" using T unfolding lst s2 [symmetric] by (simp add: prod_eq_iff)
  have st2: "tool_stack_is ?s2 ?t ts" "\<And>b ys. b \<noteq> ?t \<Longrightarrow> tool_stack_is s b ys \<Longrightarrow> tool_stack_is ?s2 b ys"
    using T unfolding lst s2 by blast+
  obtain m3 d3 where s3: "snd (frame_stash_pop ?t ?s2) = ?s2\<lparr>FRAME_ENTRY_STASH := m3, FRAME_STASH_DEPTH := d3\<rparr>"
    by (rule frame_stash_pop_frame)
  let ?s3 = "?s2\<lparr>FRAME_ENTRY_STASH := m3, FRAME_STASH_DEPTH := d3\<rparr>"
  have at3: "thread_at ?s3 b ys us = (ctx_stack_is s b ys \<and> tool_stack_is ?s2 b us \<and> bm_get (THREAD_ACTIVE_CTX s) b = top_of ys)"
    for b ys us by (simp add: thread_at_def ctx_stack_is_def tool_stack_is_def ctx_depth_def tool_depth_def)
  obtain s4 f1 f2 where s4: "finish_tool_close e ?t ?en ?s3 = (True, s4)" "thread_at s4 ?t xs ts"
    "bm_get (FRAME_CTX s4) (py_object_key e f) = None" "\<not> ctx_is_live s4 c"
    "rb_log (PY_EVENTS s4) = rb_log (PY_EVENTS s) @ [f1, f2]" "pe_kind f1 = EVENT_TOOL_FRAME_END"
    "pe_kind f2 = EVENT_TOOL_CONTEXT_END" "pe_ctx_id f1 = c" "pe_ctx_id f2 = c"
    "\<And>b ys us. b \<noteq> ?t \<Longrightarrow> thread_at ?s3 b ys us \<Longrightarrow> thread_at s4 b ys us"
    by (rule finish_tool_close_at [of ?s3 ?t xs ?en ts e ctx])
       (use i ok(2) wf new(1) st2(1) in \<open>simp_all add: at3, simp_all add: thread_at_def ring_ready_def\<close>)
  have "close_tool_stack_entry e ?t ?en ?s3 = s4"
    using i(2,4) s4(1) by (auto simp: close_tool_stack_entry_def no_task_def)
  then have "exit_to_parent e parent s = s4"
    using reg(3) by (simp add: exit_to_parent_def dispatch_exit_for_parent_def work i(3) pop s3)
  then have "done" "s' = s4"
    using op run reg by (auto simp: handle_frame_exit_normal_def handle_frame_exit_exception_def)
  moreover have "thread_at s4 b ys us" if "b \<noteq> ?t" "thread_at s b ys us" for b ys us
    by (rule s4(10) [OF that(1)]) (use that st2(2) [OF that(1)] in \<open>unfold at3, simp add: thread_at_def\<close>)
  ultimately show ?thesis using s4(2-9) by blast
qed

section \<open>A call\<close>

text \<open>
  A frame at \<open>0x1000\<close>, called from the frame at \<open>0x2000\<close>, that runs the code object at \<open>0x3000\<close>,
  a LangChain root.
\<close>

definition frame_env :: probe_env where
  "frame_env = env0\<lparr>
     arg := (\<lambda>i. if i = 1 then Some 0x1000 else None),
     reg := (\<lambda>i. if i = 3 then Some 0x2000 else None),
     rd_u64 := (\<lambda>a. if a = 0x1000 then Some 0x3000 else if a = 0x1008 then Some 0x2000 else None)\<rparr>"

definition frame_state :: bpf_state where
  "frame_state = state0\<lparr>
     PYTHON_OFFSETS := (replicate 64 0)[6 := 8, 7 := 70, 10 := 3, 11 := 48, 16 := 3],
     CODE_KIND := bm_insert \<lparr>ck_tgid = 5, ck_code_ptr = 0x3000\<rparr> CODE_KIND_TOOL_ROOT_LC (CODE_KIND state0)\<rparr>"

definition frame_state_open :: bpf_state where
  "frame_state_open = snd (handle_frame_func_entry frame_env frame_state)"

lemma frame_env_ids [simp]: "cur_tgid frame_env = 5" "cur_tid frame_env = 7" "smp_cpu frame_env = 1"
  by (simp_all add: frame_env_def env0_def cur_tgid_def cur_tid_def)

lemma frame_env_reads [simp]:
  "arg frame_env (Suc 0) = Some 0x1000" "reg frame_env 3 = Some 0x2000" "rd_u32 frame_env a = None"
  "rd_u64 frame_env 0x1000 = Some 0x3000" "rd_u64 frame_env 0x1008 = Some 0x2000"
  by (simp_all add: frame_env_def env0_def)

lemma frame_state_maps [simp]:
  "TOOL_CTX frame_state = bm_empty 4096 Hash" "THREAD_ACTIVE_TASK frame_state = bm_empty 4096 Hash"
  "FRAME_STASH_DEPTH frame_state = bm_empty 4096 Hash" "THREAD_CTX_STACK frame_state = bm_empty 32768 Hash"
  "THREAD_CTX_DEPTH frame_state = bm_empty 4096 Hash" "THREAD_ACTIVE_CTX frame_state = bm_empty 4096 Hash"
  "TOOL_STACK frame_state = bm_empty 4096 Hash" "TOOL_STACK_DEPTH frame_state = bm_empty 4096 Hash"
  "WORKER_RUN_DEPTH frame_state = bm_empty 1024 Hash" "CTX_COUNTER frame_state = (\<lambda>_. 0)"
  "bm_get (FRAME_CTX frame_state) k = None" "bm_room (FRAME_CTX frame_state) k"
  "bm_room (FRAME_ENTRY_STASH frame_state) j" "ring_ready frame_state"
  by (simp_all add: frame_state_def state0_def init_state_def bm_room_empty ring_ready_def empty_ring_def)

lemma frame_state_at: "thread_at frame_state 7 [] []" "no_task frame_state 7" "lc_root frame_env frame_state 0x1000 0x2000"
  "frame_room frame_env frame_state 0x1000 0 0"
proof -
  show "thread_at frame_state 7 [] []" "no_task frame_state 7"
    by (simp_all add: thread_at_def no_task_def ctx_stack_is_def tool_stack_is_def ctx_depth_def tool_depth_def
        stack_holds_def top_of_def)
  have off: "py_off frame_state 0 = Some 0" "py_off frame_state 6 = Some 8" "py_off frame_state 7 = Some 70"
    "py_off frame_state 11 = Some 48"
    by (simp_all add: frame_state_def py_off_def arr_get_def)
  have kind: "bm_get (CODE_KIND frame_state) \<lparr>ck_tgid = 5, ck_code_ptr = 0x3000\<rparr> = Some CODE_KIND_TOOL_ROOT_LC"
    by (simp add: frame_state_def state0_def init_state_def bm_get_insert bm_room_empty)
  show "lc_root frame_env frame_state 0x1000 0x2000"
    by (simp add: lc_root_def read_parent_ptr_def off kind)
  show "frame_room frame_env frame_state 0x1000 0 0" by (simp add: frame_room_def bm_room_empty stash_depth_def)
qed

lemma frame_state_ok: "state_ok frame_state"
proof -
  have "sized 8192 (CODE_KIND state0)" using state0_ok by simp
  then show ?thesis unfolding frame_state_def using state0_ok by (simp add: state_ok_def)
qed

theorem tool_frame_opens_witness:
  "\<exists>tool. in_tool_frame frame_env 0x1000 0x2000 (ctx_id_of 1 1) tool [] [] frame_state_open"
proof -
  let ?r = "handle_tool_frame_entry_for_ptr_inner frame_env 0x1000 True frame_state"
  have "?r = (fst ?r, frame_state_open)" by (simp add: frame_state_open_def handle_frame_func_entry_def)
  from tool_frame_opens [OF _ _ _ _ frame_state_at(3) _ _ _ _ this, of "[]" "[]"] frame_state_at show ?thesis
    by (auto simp: next_val_def)
qed

theorem tool_frame_closes_witness:
  "thread_at (snd (handle_frame_exit_normal frame_env frame_state_open)) 7 [] []"
proof -
  let ?r = "handle_tool_frame_entry_for_ptr_inner frame_env 0x1000 True frame_state"
  have r: "?r = (fst ?r, frame_state_open)" by (simp add: frame_state_open_def handle_frame_func_entry_def)
  from tool_frame_opens_aux [OF _ _ _ _ frame_state_at(3) _ _ _ _ r, of "[]" "[]"] frame_state_at
  obtain tool where inn: "in_tool_frame frame_env 0x1000 0x2000 (ctx_id_of 1 1) tool [] [] frame_state_open"
    and wd: "WORKER_RUN_DEPTH frame_state_open = WORKER_RUN_DEPTH frame_state" "ring_ready frame_state_open"
    by (auto simp: next_val_def)
  have off: "PYTHON_OFFSETS frame_state_open = PYTHON_OFFSETS frame_state"
    using frame_handlers_policy [of frame_env frame_state] by (simp add: frame_state_open_def policy_view_def)
  have ok: "state_ok frame_state_open" unfolding frame_state_open_def by (intro frame_handlers_ok frame_state_ok)
  have pop: "worker_stack_pop_for_parent 7 0x2000 frame_state_open = (None, frame_state_open)"
    by (simp add: worker_stack_pop_for_parent_def worker_stack_remove_top2_def worker_depth_def wd)
  let ?e = "handle_frame_exit_normal frame_env frame_state_open"
  have reg: "arr_get (PYTHON_OFFSETS frame_state_open) OFF_FRAME_REG_IDX = Some 3" "read_register frame_env 3 = Some 0x2000"
    by (simp_all add: off read_register_def) (simp add: frame_state_def arr_get_def)
  have "(handle_frame_exit_normal, OFF_FRAME_REG_IDX) \<in> {(handle_frame_exit_normal, OFF_FRAME_REG_IDX),
      (handle_frame_exit_exception, OFF_EXCEPTION_FRAME_REG_IDX)}" by simp
  from tool_frame_closes [OF this reg _ inn ok wd(2), of "fst ?e" "snd ?e"] pop show ?thesis by simp
qed

end
