(* ===== verification/Texts.thy ===== *)
theory Texts
  imports Prelude
begin

text \<open>
  The string functions of the standard library that the user-space side of ironscope calls:
  splitting, trimming, reading numbers and IPv4 addresses, and printing them.  A string is the
  list of its UTF-8 bytes.
\<close>

definition utf8 :: "string \<Rightarrow> u8 list" where
  "utf8 s = map of_char s"

section \<open>Splitting and trimming\<close>

text \<open>\<^verbatim>\<open>str::split\<close> at a character: one piece more than there are separators.\<close>

fun split_on :: "char \<Rightarrow> string \<Rightarrow> string list" where
  "split_on c [] = [[]]"
| "split_on c (x # xs) =
     (if x = c then [] # split_on c xs
      else case split_on c xs of [] \<Rightarrow> [[x]] | p # ps \<Rightarrow> (x # p) # ps)"

text \<open>\<^verbatim>\<open>rsplitn(2, c)\<close>: what follows the last separator first, then what precedes it.\<close>

definition rsplitn2 :: "char \<Rightarrow> string \<Rightarrow> string list" where
  "rsplitn2 c s =
     (if c \<in> set s
      then [rev (takeWhile (\<lambda>x. x \<noteq> c) (rev s)), rev (tl (dropWhile (\<lambda>x. x \<noteq> c) (rev s)))]
      else [s])"

definition strip_prefix :: "string \<Rightarrow> string \<Rightarrow> string option" where
  "strip_prefix pat s = (if take (length pat) s = pat then Some (drop (length pat) s) else None)"

definition ends_with :: "'a list \<Rightarrow> 'a list \<Rightarrow> bool" where
  "ends_with pat s \<longleftrightarrow> length pat \<le> length s \<and> drop (length s - length pat) s = pat"

text \<open>\<^verbatim>\<open>trim_end_matches\<close> removes a suffix as often as it is there.\<close>

function trim_end_matches :: "string \<Rightarrow> string \<Rightarrow> string" where
  "trim_end_matches pat s =
     (if pat \<noteq> [] \<and> ends_with pat s then trim_end_matches pat (take (length s - length pat) s) else s)"
  by pat_completeness auto
termination
proof (relation "measure (\<lambda>(pat, s). length s)")
  fix pat s :: string
  assume "pat \<noteq> [] \<and> ends_with pat s"
  then show "((pat, take (length s - length pat) s), pat, s) \<in> measure (\<lambda>(pat, s). length s)"
    by (cases s) (auto simp: ends_with_def)
qed simp

declare trim_end_matches.simps [simp del]

text \<open>The ASCII white space that \<^verbatim>\<open>str::trim\<close> removes.\<close>

definition is_space :: "char \<Rightarrow> bool" where
  "is_space c \<longleftrightarrow> (let n = (of_char c :: nat) in n = 32 \<or> 9 \<le> n \<and> n \<le> 13)"

definition trim :: "string \<Rightarrow> string" where
  "trim s = rev (dropWhile is_space (rev (dropWhile is_space s)))"

section \<open>Numbers\<close>

definition digit_val :: "char \<Rightarrow> nat option" where
  "digit_val c = (let n = of_char c in if 48 \<le> n \<and> n \<le> 57 then Some (n - 48) else None)"

fun digits_val :: "nat \<Rightarrow> string \<Rightarrow> nat option" where
  "digits_val acc [] = Some acc"
| "digits_val acc (c # cs) =
     (case digit_val c of None \<Rightarrow> None | Some d \<Rightarrow> digits_val (10 * acc + d) cs)"

text \<open>\<^verbatim>\<open>parse\<close> to an unsigned type with the given largest value; one leading plus sign is accepted.\<close>

definition parse_uint :: "int \<Rightarrow> string \<Rightarrow> nat option" where
  "parse_uint largest s =
     (let ds = (case s of [] \<Rightarrow> [] | c # r \<Rightarrow> if c = CHR ''+'' then r else s)
      in if ds = [] then None
         else case digits_val 0 ds of
                None \<Rightarrow> None
              | Some n \<Rightarrow> if int n \<le> largest then Some n else None)"

fun string_of_nat :: "nat \<Rightarrow> string" where
  "string_of_nat n =
     (if n < 10 then [char_of (48 + n)] else string_of_nat (n div 10) @ [char_of (48 + n mod 10)])"

declare string_of_nat.simps [simp del]

text \<open>The format \<^verbatim>\<open>{:#x}\<close>.\<close>

definition hex_digit :: "nat \<Rightarrow> char" where
  "hex_digit n = (if n < 10 then char_of (48 + n) else char_of (87 + n))"

fun hex_digits :: "nat \<Rightarrow> string" where
  "hex_digits n = (if n < 16 then [hex_digit n] else hex_digits (n div 16) @ [hex_digit (n mod 16)])"

declare hex_digits.simps [simp del]

definition hex_string :: "'a::len word \<Rightarrow> string" where
  "hex_string w = ''0x'' @ hex_digits (unat w)"

section \<open>IPv4 addresses\<close>

text \<open>\<^verbatim>\<open>Ipv4Addr::from_str\<close>: four decimal octets of at most three digits without leading zeros.\<close>

definition parse_octet :: "string \<Rightarrow> u8 option" where
  "parse_octet s =
     (if s = [] \<or> 3 < length s \<or> 1 < length s \<and> hd s = CHR ''0'' then None
      else case digits_val 0 s of
             None \<Rightarrow> None
           | Some n \<Rightarrow> if n \<le> 255 then Some (of_nat n) else None)"

definition parse_octets :: "string \<Rightarrow> u8 list option" where
  "parse_octets s =
     (let parts = map parse_octet (split_on (CHR ''.'') s)
      in if length parts = 4 \<and> None \<notin> set parts then Some (map the parts) else None)"

fun join :: "string \<Rightarrow> string list \<Rightarrow> string" where
  "join sep [] = []"
| "join sep [s] = s"
| "join sep (s # t # ss) = s @ sep @ join sep (t # ss)"

definition octets_to_string :: "u8 list \<Rightarrow> string" where
  "octets_to_string bs = join ''.'' (map (\<lambda>b. string_of_nat (unat b)) bs)"

section \<open>Laws\<close>

lemma split_on_single: "c \<notin> set s \<Longrightarrow> split_on c s = [s]"
  by (induction s) auto

lemma split_on_append: "c \<notin> set s \<Longrightarrow> split_on c (s @ c # t) = s # split_on c t"
  by (induction s) auto

lemma split_on_join:
  "ss \<noteq> [] \<Longrightarrow> \<forall>s \<in> set ss. c \<notin> set s \<Longrightarrow> split_on c (join [c] ss) = ss"
  by (induction ss rule: induct_list012) (simp_all add: split_on_single split_on_append)

lemma digit_val_char: "n < 10 \<Longrightarrow> digit_val (char_of (48 + n)) = Some n"
  by (simp add: digit_val_def)

lemma digits_val_append:
  "digits_val acc (s @ t) = (case digits_val acc s of None \<Rightarrow> None | Some n \<Rightarrow> digits_val n t)"
  by (induction acc s rule: digits_val.induct) (simp_all split: option.split)

lemma digits_string_of_nat [simp]: "digits_val 0 (string_of_nat n) = Some n"
proof (induction n rule: string_of_nat.induct)
  case (1 n)
  show ?case
  proof (cases "n < 10")
    case False
    with 1 show ?thesis by (subst string_of_nat.simps) (simp add: digits_val_append digit_val_char)
  qed (subst string_of_nat.simps, simp add: digit_val_char)
qed

lemma string_of_nat_ne [simp]: "string_of_nat n \<noteq> []"
  by (subst string_of_nat.simps) simp

lemma digits_of_nat:
  "c \<in> set (string_of_nat n) \<Longrightarrow> (\<exists>d < (10 :: nat). c = char_of (48 + d))"
proof (induction n rule: string_of_nat.induct)
  case (1 n)
  show ?case
  proof (cases "n < 10")
    case True
    with "1.prems" show ?thesis by (subst (asm) string_of_nat.simps) auto
  next
    case False
    from "1.prems" False consider "c \<in> set (string_of_nat (n div 10))" | "c = char_of (48 + n mod 10)"
      by (subst (asm) string_of_nat.simps) auto
    then show ?thesis
      by cases (use "1.IH" False in blast, use pos_mod_bound in \<open>auto intro!: exI [of _ "n mod 10"]\<close>)
  qed
qed

lemma digit_char_ne: "d < (10 :: nat) \<Longrightarrow> of_char c \<notin> {48..57 :: nat} \<Longrightarrow> c \<noteq> char_of (48 + d)"
  by auto

lemma string_of_nat_no: "of_char c \<notin> {48..57 :: nat} \<Longrightarrow> c \<notin> set (string_of_nat n)"
  using digits_of_nat digit_char_ne by blast

lemma length_string_of_nat: "n < 10 ^ Suc k \<Longrightarrow> length (string_of_nat n) \<le> Suc k"
proof (induction k arbitrary: n)
  case 0
  then show ?case by (subst string_of_nat.simps) simp
next
  case (Suc k)
  then have "n div 10 < 10 ^ Suc k" by auto
  with Suc.IH [OF this] show ?case by (subst string_of_nat.simps) simp
qed

lemma hd_string_of_nat: "0 < n \<Longrightarrow> hd (string_of_nat n) \<noteq> CHR ''0''"
proof (induction n rule: string_of_nat.induct)
  case (1 n)
  show ?case
  proof (cases "n < 10")
    case True
    with "1.prems" show ?thesis by (subst string_of_nat.simps) (simp add: char_of_eq_iff take_bit_nat_eq_self)
  next
    case False
    with 1 show ?thesis by (subst string_of_nat.simps) simp
  qed
qed

lemma parse_uint_string_of_nat: "int n \<le> largest \<Longrightarrow> parse_uint largest (string_of_nat n) = Some n"
proof -
  assume n: "int n \<le> largest"
  have "CHR ''+'' \<notin> set (string_of_nat n)" by (rule string_of_nat_no) simp
  then have "hd (string_of_nat n) \<noteq> CHR ''+''" by (metis hd_in_set string_of_nat_ne)
  then have "(case string_of_nat n of [] \<Rightarrow> [] | c # r \<Rightarrow> if c = CHR ''+'' then r else string_of_nat n) = string_of_nat n"
    by (cases "string_of_nat n") simp_all
  with n show ?thesis by (simp add: parse_uint_def)
qed

lemma parse_octet_string_of_nat: "parse_octet (string_of_nat (unat b)) = Some b"
proof -
  have b: "unat b \<le> 255" using unsigned_less [where 'a = nat, of b] by simp
  have "length (string_of_nat (unat b)) \<le> 3" using b length_string_of_nat [of "unat b" 2] by simp
  moreover have "\<not> (1 < length (string_of_nat (unat b)) \<and> hd (string_of_nat (unat b)) = CHR ''0'')"
    using hd_string_of_nat [of "unat b"] length_string_of_nat [of "unat b" 0] by (cases "unat b = 0") auto
  ultimately show ?thesis using b by (auto simp: parse_octet_def)
qed

text \<open>Reading a printed address gives the address back.\<close>

lemma parse_octets_to_string: "length bs = 4 \<Longrightarrow> parse_octets (octets_to_string bs) = Some bs"
proof -
  assume len: "length bs = 4"
  then have "split_on (CHR ''.'') (octets_to_string bs) = map (\<lambda>b. string_of_nat (unat b)) bs"
    by (auto simp: octets_to_string_def string_of_nat_no intro!: split_on_join)
  then show ?thesis
    using len by (simp add: parse_octets_def Let_def comp_def image_image parse_octet_string_of_nat)
qed

lemma parse_octets_length: "parse_octets s = Some bs \<Longrightarrow> length bs = 4"
  by (auto simp: parse_octets_def Let_def split: if_splits)

end
