(* ===== verification/Resolver.thy ===== *)
theory Resolver
  imports Texts Hashing
begin

text \<open>
  The user-space resolver under \<^verbatim>\<open>src/ironscope/src/python_runtime\<close>: reading the memory of the
  interpreter (\<^verbatim>\<open>process_reader.rs\<close>), decoding its objects (\<^verbatim>\<open>cpython.rs\<close> with the layout of
  \<^verbatim>\<open>cpython_312.rs\<close>) and naming the tool behind an object (\<^verbatim>\<open>langchain.rs\<close>).  A failed read or a
  refused layout is \<open>None\<close>; strings are their UTF-8 bytes.
\<close>

section \<open>Reading another process\<close>

text \<open>
  What the two system interfaces give for a number of bytes at an address of the process; either
  may fail or come back short.
\<close>

record ProcessReader =
  process_vm_readv :: "u64 \<Rightarrow> nat \<Rightarrow> u8 list option"
  proc_mem :: "u64 \<Rightarrow> nat \<Rightarrow> u8 list option"

definition exactly :: "nat \<Rightarrow> u8 list option \<Rightarrow> u8 list option" where
  "exactly n r = (case r of None \<Rightarrow> None | Some bs \<Rightarrow> if length bs = n then Some bs else None)"

definition read_exact_at :: "ProcessReader \<Rightarrow> u64 \<Rightarrow> nat \<Rightarrow> u8 list option" where
  "read_exact_at r addr n =
     (if n = 0 then Some []
      else if addr = 0 then None
      else case exactly n (process_vm_readv r addr n) of
             Some bs \<Rightarrow> Some bs
           | None \<Rightarrow> exactly n (proc_mem r addr n))"

definition read_u8 :: "ProcessReader \<Rightarrow> u64 \<Rightarrow> u8 option" where
  "read_u8 r addr = map_option from_ne_bytes (read_exact_at r addr 1)"

definition read_u32 :: "ProcessReader \<Rightarrow> u64 \<Rightarrow> u32 option" where
  "read_u32 r addr = map_option from_ne_bytes (read_exact_at r addr 4)"

definition read_u64 :: "ProcessReader \<Rightarrow> u64 \<Rightarrow> u64 option" where
  "read_u64 r addr = map_option from_ne_bytes (read_exact_at r addr 8)"

definition read_i64 :: "ProcessReader \<Rightarrow> u64 \<Rightarrow> int option" where
  "read_i64 r addr = map_option sint (read_u64 r addr)"

section \<open>Text\<close>

text \<open>Well-formed UTF-8, by the table of the Unicode standard.\<close>

definition in_range :: "u8 \<Rightarrow> u8 \<Rightarrow> u8 \<Rightarrow> bool" where
  "in_range lo hi b \<longleftrightarrow> lo \<le> b \<and> b \<le> hi"

definition second_byte :: "u8 \<Rightarrow> u8 \<Rightarrow> bool" where
  "second_byte a b \<longleftrightarrow>
     (if a = 0xE0 then in_range 0xA0 0xBF b else if a = 0xED then in_range 0x80 0x9F b
      else if a = 0xF0 then in_range 0x90 0xBF b else if a = 0xF4 then in_range 0x80 0x8F b
      else in_range 0x80 0xBF b)"

abbreviation (input) "continuation \<equiv> in_range 0x80 0xBF"

fun valid_utf8 :: "u8 list \<Rightarrow> bool" where
  "valid_utf8 [] = True"
| "valid_utf8 (a # bs) =
     (if a < 0x80 then valid_utf8 bs
      else if in_range 0xC2 0xDF a then
        (case bs of b # r \<Rightarrow> continuation b \<and> valid_utf8 r | _ \<Rightarrow> False)
      else if in_range 0xE0 0xEF a then
        (case bs of b # c # r \<Rightarrow> second_byte a b \<and> continuation c \<and> valid_utf8 r | _ \<Rightarrow> False)
      else if in_range 0xF0 0xF4 a then
        (case bs of b # c # d # r \<Rightarrow> second_byte a b \<and> continuation c \<and> continuation d \<and> valid_utf8 r | _ \<Rightarrow> False)
      else False)"

definition from_utf8 :: "u8 list \<Rightarrow> u8 list option" where
  "from_utf8 bs = (if valid_utf8 bs then Some bs else None)"

definition is_scalar :: "u32 \<Rightarrow> bool" where
  "is_scalar cp \<longleftrightarrow> cp < 0x110000 \<and> \<not> (0xD800 \<le> cp \<and> cp \<le> 0xDFFF)"

text \<open>\<^verbatim>\<open>String::push\<close>: the UTF-8 form of a character.\<close>

definition encode_utf8 :: "u32 \<Rightarrow> u8 list" where
  "encode_utf8 cp =
     (let tail = (\<lambda>n. 0x80 OR (ucast (drop_bit n cp) AND 0x3F)) in
      if cp < 0x80 then [ucast cp]
      else if cp < 0x800 then [0xC0 OR ucast (drop_bit 6 cp), tail 0]
      else if cp < 0x10000 then [0xE0 OR ucast (drop_bit 12 cp), tail 6, tail 0]
      else [0xF0 OR ucast (drop_bit 18 cp), tail 12, tail 6, tail 0])"

fun from_utf16 :: "u16 list \<Rightarrow> u8 list option" where
  "from_utf16 [] = Some []"
| "from_utf16 (u # us) =
     (if u < 0xD800 \<or> 0xDFFF < u then map_option ((@) (encode_utf8 (ucast u))) (from_utf16 us)
      else case us of
             v # r \<Rightarrow>
               if u < 0xDC00 \<and> 0xDC00 \<le> v \<and> v \<le> 0xDFFF
               then map_option ((@) (encode_utf8 (0x10000 + push_bit 10 (ucast (u - 0xD800)) + ucast (v - 0xDC00))))
                      (from_utf16 r)
               else None
           | [] \<Rightarrow> None)"

fun from_ucs4 :: "u32 list \<Rightarrow> u8 list option" where
  "from_ucs4 [] = Some []"
| "from_ucs4 (cp # cps) = (if is_scalar cp then map_option ((@) (encode_utf8 cp)) (from_ucs4 cps) else None)"

text \<open>\<^verbatim>\<open>chunks_exact\<close> with the bytes of each chunk put together; a shorter rest is dropped.\<close>

function chunks_exact :: "nat \<Rightarrow> u8 list \<Rightarrow> 'a::len word list" where
  "chunks_exact n bs = (if n = 0 \<or> length bs < n then [] else from_ne_bytes (take n bs) # chunks_exact n (drop n bs))"
  by pat_completeness auto
termination
  by (relation "measure (\<lambda>(n, bs). length bs)") auto

declare chunks_exact.simps [simp del]

definition read_c_string :: "ProcessReader \<Rightarrow> u64 \<Rightarrow> nat \<Rightarrow> u8 list option" where
  "read_c_string r addr max_len =
     (if max_len = 0 then None
      else case read_exact_at r addr max_len of
             None \<Rightarrow> None
           | Some buf \<Rightarrow> from_utf8 (takeWhile (\<lambda>b. b \<noteq> 0) buf))"

section \<open>The layout of the interpreter\<close>

record PythonVersion =
  pv_major :: u8
  pv_minor :: u8
  pv_micro :: u8

record CpythonOffsets =
  ob_type :: u64
  unicode_length :: u64
  unicode_state :: u64
  unicode_compact_ascii_data :: u64
  unicode_compact_non_ascii_data :: u64
  type_tp_name :: u64
  type_tp_basicsize :: u64
  type_tp_itemsize :: u64
  type_tp_dictoffset :: u64
  managed_dict_ptr_from_object :: int
  dict_ma_used :: u64
  dict_ma_keys :: u64
  dict_ma_values :: u64
  dict_keys_log2_size :: u64
  dict_keys_log2_index_bytes :: u64
  dict_keys_kind :: u64
  dict_keys_nentries :: u64
  dict_keys_indices :: u64
  dict_key_entry_size :: u64
  dict_unicode_entry_size :: u64
  dict_key_entry_key :: u64
  dict_key_entry_value :: u64
  dict_unicode_entry_key :: u64
  dict_unicode_entry_value :: u64
  code_filename :: u64
  code_qualname :: u64
  frame_executable :: u64
  frame_localsplus :: u64

record CpythonProfile =
  cp_version :: PythonVersion
  pointer_width :: u8
  debug_build :: bool
  offsets :: CpythonOffsets

definition profile_312 :: "PythonVersion \<Rightarrow> CpythonProfile" where
  "profile_312 version =
     \<lparr>cp_version = version, pointer_width = 8, debug_build = False,
      offsets =
        \<lparr>ob_type = 8, unicode_length = 16, unicode_state = 32, unicode_compact_ascii_data = 40,
         unicode_compact_non_ascii_data = 72, type_tp_name = 24, type_tp_basicsize = 32,
         type_tp_itemsize = 40, type_tp_dictoffset = 288, managed_dict_ptr_from_object = -24,
         dict_ma_used = 16, dict_ma_keys = 32, dict_ma_values = 40, dict_keys_log2_size = 8,
         dict_keys_log2_index_bytes = 9, dict_keys_kind = 10, dict_keys_nentries = 24,
         dict_keys_indices = 32, dict_key_entry_size = 24, dict_unicode_entry_size = 16,
         dict_key_entry_key = 8, dict_key_entry_value = 16, dict_unicode_entry_key = 0,
         dict_unicode_entry_value = 8, code_filename = 112, code_qualname = 128,
         frame_executable = 16, frame_localsplus = 72\<rparr>\<rparr>"

definition for_version :: "PythonVersion \<Rightarrow> u8 \<Rightarrow> CpythonProfile option" where
  "for_version version width =
     (if pv_major version \<noteq> 3 then None
      else if pv_minor version = 12 \<and> width = 8 then Some (profile_312 version)
      else None)"

text \<open>The answer of the version probe, as JSON: the fields may be absent or of another type.\<close>

datatype json = JNum nat | JArr "json list" | JOther

definition as_u8 :: "json \<Rightarrow> u8 option" where
  "as_u8 j = (case j of JNum n \<Rightarrow> if n < 256 then Some (of_nat n) else None | _ \<Rightarrow> None)"

record DetectedPython =
  dp_version :: PythonVersion
  dp_pointer_width :: u8

text \<open>Running the interpreter of the process is a parameter: the JSON object it prints, or \<open>None\<close>.\<close>

definition detect_python :: "(string \<Rightarrow> json option) option \<Rightarrow> DetectedPython option" where
  "detect_python output =
     (case output of
        None \<Rightarrow> None
      | Some get \<Rightarrow>
          (case (get ''version'', get ''pointer_width'') of
             (Some (JArr [major, minor, micro]), Some width) \<Rightarrow>
               (case (as_u8 major, as_u8 minor, as_u8 micro, as_u8 width) of
                  (Some a, Some b, Some c, Some w) \<Rightarrow>
                    Some \<lparr>dp_version = \<lparr>pv_major = a, pv_minor = b, pv_micro = c\<rparr>, dp_pointer_width = w\<rparr>
                | _ \<Rightarrow> None)
           | _ \<Rightarrow> None))"

record LiveCpythonResolver =
  lr_reader :: ProcessReader
  lr_profile :: CpythonProfile

definition detect_for_pid :: "ProcessReader \<Rightarrow> (string \<Rightarrow> json option) option \<Rightarrow> LiveCpythonResolver option" where
  "detect_for_pid reader output =
     (case detect_python output of
        None \<Rightarrow> None
      | Some d \<Rightarrow>
          map_option (\<lambda>p. \<lparr>lr_reader = reader, lr_profile = p\<rparr>) (for_version (dp_version d) (dp_pointer_width d)))"

section \<open>Objects\<close>

abbreviation (input) MAX_UNICODE_BYTES :: int where "MAX_UNICODE_BYTES \<equiv> 16384"
abbreviation (input) MAX_C_STRING :: nat where "MAX_C_STRING \<equiv> 4096"
abbreviation (input) MAX_DICT_ENTRIES :: int where "MAX_DICT_ENTRIES \<equiv> 4096"

abbreviation off :: "LiveCpythonResolver \<Rightarrow> CpythonOffsets" where
  "off c \<equiv> offsets (lr_profile c)"

definition read_usize :: "LiveCpythonResolver \<Rightarrow> u64 \<Rightarrow> u64 option" where
  "read_usize c addr =
     (if pointer_width (lr_profile c) = 8 then read_u64 (lr_reader c) addr
      else if pointer_width (lr_profile c) = 4 then map_option ucast (read_u32 (lr_reader c) addr)
      else None)"

definition read_isize :: "LiveCpythonResolver \<Rightarrow> u64 \<Rightarrow> int option" where
  "read_isize c addr =
     (if pointer_width (lr_profile c) = 8 then read_i64 (lr_reader c) addr
      else if pointer_width (lr_profile c) = 4 then map_option sint (read_u32 (lr_reader c) addr)
      else None)"

definition live_read_type_ptr :: "LiveCpythonResolver \<Rightarrow> u64 \<Rightarrow> u64 option" where
  "live_read_type_ptr c obj = read_usize c (obj + ob_type (off c))"

definition read_type_name :: "LiveCpythonResolver \<Rightarrow> u64 \<Rightarrow> u8 list option" where
  "read_type_name c obj =
     Option.bind (live_read_type_ptr c obj) (\<lambda>type_ptr.
     Option.bind (read_usize c (type_ptr + type_tp_name (off c))) (\<lambda>tp_name.
     read_c_string (lr_reader c) tp_name MAX_C_STRING))"

text \<open>The representation of a string from its state word: where its data is and how wide a character.\<close>

definition unicode_data :: "LiveCpythonResolver \<Rightarrow> u64 \<Rightarrow> u32 \<Rightarrow> (u64 \<times> nat) option" where
  "unicode_data c obj state =
     (let kind = drop_bit 2 state AND 7
      in if drop_bit 5 state AND 1 \<noteq> 1 then None
         else if drop_bit 6 state AND 1 = 1 then Some (obj + unicode_compact_ascii_data (off c), 1)
         else if kind = 1 then Some (obj + unicode_compact_non_ascii_data (off c), 1)
         else if kind = 2 then Some (obj + unicode_compact_non_ascii_data (off c), 2)
         else if kind = 4 then Some (obj + unicode_compact_non_ascii_data (off c), 4)
         else None)"

definition decode_unicode :: "nat \<Rightarrow> u8 list \<Rightarrow> u8 list option" where
  "decode_unicode width buf =
     (if width = 1 then from_utf8 buf else if width = 2 then from_utf16 (chunks_exact 2 buf)
      else from_ucs4 (chunks_exact 4 buf))"

definition read_unicode :: "LiveCpythonResolver \<Rightarrow> u64 \<Rightarrow> u8 list option" where
  "read_unicode c obj =
     Option.bind (read_isize c (obj + unicode_length (off c))) (\<lambda>len.
     if len < 0 \<or> MAX_UNICODE_BYTES < len then None
     else
       Option.bind (read_u32 (lr_reader c) (obj + unicode_state (off c))) (\<lambda>state.
       Option.bind (unicode_data c obj state) (\<lambda>(data_addr, width).
       if MAX_UNICODE_BYTES < len * int width then None
       else Option.bind (read_exact_at (lr_reader c) data_addr (nat len * width)) (decode_unicode width))))"

definition read_dict_value_from_split_values :: "LiveCpythonResolver \<Rightarrow> u64 \<Rightarrow> nat \<Rightarrow> u64 option option" where
  "read_dict_value_from_split_values c vals index =
     map_option (\<lambda>v. if v \<noteq> 0 then Some v else None)
       (read_usize c (vals + of_nat index * ucast (pointer_width (lr_profile c))))"

text \<open>The key and the value of an entry, by the kind of the key table; a split table keeps its values apart.\<close>

definition dict_entry :: "LiveCpythonResolver \<Rightarrow> u8 \<Rightarrow> u64 \<Rightarrow> u64 \<Rightarrow> nat \<Rightarrow> (u64 \<times> u64) option" where
  "dict_entry c kind vals entries idx =
     (if kind = 1 \<or> kind = 2 then
        let entry = entries + of_nat idx * dict_unicode_entry_size (off c) in
        Option.bind (read_usize c (entry + dict_unicode_entry_key (off c))) (\<lambda>key_ptr.
        map_option (Pair key_ptr)
          (if vals = 0 then read_usize c (entry + dict_unicode_entry_value (off c))
           else map_option (\<lambda>v. case v of Some w \<Rightarrow> w | None \<Rightarrow> 0) (read_dict_value_from_split_values c vals idx)))
      else
        let entry = entries + of_nat idx * dict_key_entry_size (off c) in
        Option.bind (read_usize c (entry + dict_key_entry_key (off c))) (\<lambda>key_ptr.
        map_option (Pair key_ptr) (read_usize c (entry + dict_key_entry_value (off c)))))"

fun dict_scan :: "LiveCpythonResolver \<Rightarrow> (nat \<Rightarrow> (u64 \<times> u64) option) \<Rightarrow> u8 list \<Rightarrow> nat \<Rightarrow> nat \<Rightarrow> u64 option option" where
  "dict_scan c entry key idx 0 = Some None"
| "dict_scan c entry key idx (Suc n) =
     Option.bind (entry idx) (\<lambda>(key_ptr, value_ptr).
       if key_ptr = 0 \<or> value_ptr = 0 then dict_scan c entry key (Suc idx) n
       else if (case read_unicode c key_ptr of Some name \<Rightarrow> name | None \<Rightarrow> []) = key then Some (Some value_ptr)
       else dict_scan c entry key (Suc idx) n)"

definition align_up :: "u64 \<Rightarrow> u64 \<Rightarrow> u64" where
  "align_up value align = (value + align - 1) AND NOT (align - 1)"

definition read_dict_item :: "LiveCpythonResolver \<Rightarrow> u64 \<Rightarrow> u8 list \<Rightarrow> u64 option option" where
  "read_dict_item c dict key =
     Option.bind (read_isize c (dict + dict_ma_used (off c))) (\<lambda>used.
     if used \<le> 0 then Some None
     else
       Option.bind (read_usize c (dict + dict_ma_keys (off c))) (\<lambda>keys.
       Option.bind (read_usize c (dict + dict_ma_values (off c))) (\<lambda>vals.
       if keys = 0 then Some None
       else
         Option.bind (read_u8 (lr_reader c) (keys + dict_keys_kind (off c))) (\<lambda>kind.
         Option.bind (read_u8 (lr_reader c) (keys + dict_keys_log2_index_bytes (off c))) (\<lambda>log2.
         if 64 \<le> log2 then None
         else
           Option.bind (read_isize c (keys + dict_keys_nentries (off c))) (\<lambda>nentries.
           if nentries < 0 \<or> MAX_DICT_ENTRIES < nentries then None
           else
             let entries = align_up (keys + dict_keys_indices (off c) + push_bit (unat log2) 1) 8
             in dict_scan c (dict_entry c kind vals entries) key 0 (nat nentries)))))))"

text \<open>An address before or after an object; going below zero fails.\<close>

definition offset_addr :: "u64 \<Rightarrow> int \<Rightarrow> u64 option" where
  "offset_addr obj offset =
     (if 0 \<le> offset then Some (obj + of_int offset)
      else if - offset \<le> uint obj then Some (obj - of_int (- offset)) else None)"

definition read_negative_dictoffset_dict :: "LiveCpythonResolver \<Rightarrow> u64 \<Rightarrow> u64 \<Rightarrow> int \<Rightarrow> u64 option" where
  "read_negative_dictoffset_dict c obj type_ptr dictoffset =
     Option.bind (read_isize c (type_ptr + type_tp_itemsize (off c))) (\<lambda>itemsize.
     if itemsize \<noteq> 0 then None
     else
       Option.bind (read_isize c (type_ptr + type_tp_basicsize (off c))) (\<lambda>basicsize.
       if basicsize + dictoffset < - (2 ^ 63) \<or> 2 ^ 63 \<le> basicsize + dictoffset then None
       else Option.bind (offset_addr obj (basicsize + dictoffset)) (read_usize c)))"

definition checked_offset :: "u64 \<Rightarrow> int \<Rightarrow> u64 option" where
  "checked_offset obj offset =
     (if 0 \<le> offset \<and> 2 ^ 64 \<le> uint obj + offset then None else offset_addr obj offset)"

text \<open>Where an attribute dictionary is, by the sign of \<^verbatim>\<open>tp_dictoffset\<close>.\<close>

definition attr_dict :: "LiveCpythonResolver \<Rightarrow> u64 \<Rightarrow> u64 \<Rightarrow> int \<Rightarrow> u64 option" where
  "attr_dict c obj type_ptr dictoffset =
     (let managed = managed_dict_ptr_from_object (off c) in
      if dictoffset = -1 then Option.bind (offset_addr obj managed) (read_usize c)
      else if 0 < dictoffset then read_usize c (obj + of_int dictoffset)
      else
        case Option.bind (checked_offset obj managed) (read_usize c) of
          Some candidate \<Rightarrow>
            if candidate \<noteq> 0 \<and> read_type_name c candidate = Some (utf8 ''dict'') then Some candidate
            else read_negative_dictoffset_dict c obj type_ptr dictoffset
        | None \<Rightarrow> read_negative_dictoffset_dict c obj type_ptr dictoffset)"

definition read_attr :: "LiveCpythonResolver \<Rightarrow> u64 \<Rightarrow> u8 list \<Rightarrow> u64 option option" where
  "read_attr c obj key =
     Option.bind (live_read_type_ptr c obj) (\<lambda>type_ptr.
     Option.bind (read_isize c (type_ptr + type_tp_dictoffset (off c))) (\<lambda>dictoffset.
     if dictoffset = 0 then Some None
     else
       Option.bind (attr_dict c obj type_ptr dictoffset) (\<lambda>dict_ptr.
       if dict_ptr = 0 then Some None else read_dict_item c dict_ptr key)))"

definition read_code_filename :: "LiveCpythonResolver \<Rightarrow> u64 \<Rightarrow> u8 list option" where
  "read_code_filename c code = Option.bind (read_usize c (code + code_filename (off c))) (read_unicode c)"

definition read_code_qualname :: "LiveCpythonResolver \<Rightarrow> u64 \<Rightarrow> u8 list option" where
  "read_code_qualname c code = Option.bind (read_usize c (code + code_qualname (off c))) (read_unicode c)"

section \<open>Tools\<close>

text \<open>The trait \<^verbatim>\<open>CpythonResolver\<close>, as far as the tool resolver uses it, and its live implementation.\<close>

record CpythonResolver =
  rs_attr :: "u64 \<Rightarrow> u8 list \<Rightarrow> u64 option option"
  rs_unicode :: "u64 \<Rightarrow> u8 list option"
  rs_filename :: "u64 \<Rightarrow> u8 list option"
  rs_qualname :: "u64 \<Rightarrow> u8 list option"

definition live :: "LiveCpythonResolver \<Rightarrow> CpythonResolver" where
  "live c = \<lparr>rs_attr = read_attr c, rs_unicode = read_unicode c, rs_filename = read_code_filename c,
             rs_qualname = read_code_qualname c\<rparr>"

datatype LangChainCodeKind = ToolBoundary | Other

definition classify_code :: "CpythonResolver \<Rightarrow> u64 \<Rightarrow> LangChainCodeKind option" where
  "classify_code r code =
     Option.bind (rs_qualname r code) (\<lambda>qualname.
     if qualname \<notin> set (map utf8 [''BaseTool.run'', ''BaseTool.arun'', ''BaseTool.invoke'', ''BaseTool.ainvoke''])
     then Some Other
     else map_option (\<lambda>filename. if ends_with (utf8 ''langchain_core/tools/base.py'') filename then ToolBoundary else Other)
            (rs_filename r code))"

record ResolvedLangChainTool =
  rt_name :: "u8 list"
  rt_tool_id :: u32

definition resolve_tool :: "CpythonResolver \<Rightarrow> u64 \<Rightarrow> ResolvedLangChainTool option" where
  "resolve_tool r tool_obj =
     (case rs_attr r tool_obj (utf8 ''name'') of
        Some (Some name_ptr) \<Rightarrow>
          Option.bind (rs_unicode r name_ptr) (\<lambda>name.
          if name = [] then None else Some \<lparr>rt_name = name, rt_tool_id = user_fnv1a_32 name\<rparr>)
      | _ \<Rightarrow> None)"

end
