(* ===== verification/Trail.thy ===== *)
theory Trail
  imports Resolver Guard
begin

text \<open>
  The user-space side of a run, from \<^verbatim>\<open>src/ironscope/src/main.rs\<close>: the three ring buffers drained
  into the audit trail, the resolver's answers written back into the kernel maps, and the report
  of \<^verbatim>\<open>final_state.rs\<close> computed from the trail.
\<close>

section \<open>The audit trail\<close>

record RuntimePyEvent =
  rp_kind :: u8
  rp_kind_str :: string
  rp_ctx_id :: u64
  rp_tool_id :: u32
  rp_pid :: u32
  rp_tid :: u32
  rp_ts_ns :: u64
  rp_carrier_ptr :: u64
  rp_aux :: u64

record ResolverProtocolEvent =
  rv_kind :: u8
  rv_kind_str :: string
  rv_code_kind :: u8
  rv_ctx_id :: u64
  rv_self_ptr :: u64
  rv_type_ptr :: u64
  rv_frame_ptr :: u64
  rv_code_ptr :: u64
  rv_ts_ns :: u64
  rv_pid :: u32
  rv_tid :: u32

record GuardAuditEvent =
  ga_kind :: u8
  ga_kind_str :: string
  ga_ctx_id :: u64
  ga_tool_id :: u32
  ga_tool_name :: "u8 list"
  ga_identity_state :: string
  ga_policy_source :: string
  ga_path :: "u8 list"
  ga_addr :: "string option"
  ga_port :: "u16 option"
  ga_action :: string
  ga_ts_ns :: u64
  ga_pid :: u32
  ga_tid :: u32

definition event_kind_str :: "u8 \<Rightarrow> string" where
  "event_kind_str kind =
     (if kind = EVENT_TOOL_START then ''tool_start'' else if kind = EVENT_TOOL_FRAME_END then ''tool_frame_end''
      else if kind = EVENT_TOOL_CONTEXT_END then ''tool_context_end'' else if kind = EVENT_TASK_BIND then ''TASK_BIND''
      else if kind = EVENT_TASK_UNBIND then ''TASK_UNBIND'' else if kind = EVENT_WORKER_BIND then ''WORKER_BIND''
      else if kind = EVENT_WORKER_UNBIND then ''WORKER_UNBIND''
      else if kind = EVENT_WORKER_CARRIER_BIND then ''WORKER_CARRIER_BIND''
      else if kind = EVENT_WORKER_CARRIER_UNBIND then ''WORKER_CARRIER_UNBIND''
      else if kind = EVENT_CHILD_CTX_BIND then ''CHILD_CTX_BIND'' else if kind = EVENT_CHILD_CTX_UNBIND then ''CHILD_CTX_UNBIND''
      else if kind = EVENT_AUDIT_UNATTRIBUTED then ''AUDIT_UNATTRIBUTED''
      else if kind = EVENT_AUDIT_UNRESOLVED then ''AUDIT_UNRESOLVED''
      else if kind = EVENT_AUDIT_STACK_OVERFLOW then ''AUDIT_STACK_OVERFLOW''
      else if kind = EVENT_AUDIT_BUILD_MISMATCH then ''AUDIT_BUILD_MISMATCH''
      else if kind = EVENT_DEALLOC_CLEANUP then ''DEALLOC_CLEANUP''
      else if kind = EVENT_RESOLVER_CANDIDATE then ''RESOLVER_CANDIDATE''
      else if kind = EVENT_RESOLVER_RESOLVED then ''RESOLVER_RESOLVED''
      else if kind = EVENT_RESOLVER_FAILED then ''RESOLVER_FAILED'' else ''UNKNOWN'')"

definition guard_event_kind_str :: "u8 \<Rightarrow> string" where
  "guard_event_kind_str kind =
     (if kind = EVENT_FS_OPEN then ''FILE_OPEN'' else if kind = EVENT_EXEC then ''EXEC''
      else if kind = EVENT_NET_CONNECT then ''CONNECT'' else if kind = EVENT_FORK then ''FORK''
      else if kind = EVENT_EXIT then ''EXIT'' else ''UNKNOWN'')"

definition identity_state_str :: "u8 \<Rightarrow> string" where
  "identity_state_str identity =
     (if identity = IDENTITY_STATE_KNOWN_TOOL then ''known_tool''
      else if identity = IDENTITY_STATE_UNKNOWN_TOOL then ''unknown_tool''
      else if identity = IDENTITY_STATE_RESOLVER_ERROR then ''resolver_error''
      else if identity = IDENTITY_STATE_UNATTRIBUTED then ''unattributed'' else ''invalid'')"

definition policy_source_str :: "u8 \<Rightarrow> string" where
  "policy_source_str source =
     (if source = POLICY_SOURCE_DEFAULT_ALLOW then ''default_allow'' else if source = POLICY_SOURCE_TOOL then ''tool''
      else if source = POLICY_SOURCE_UNATTRIBUTED then ''unattributed''
      else if source = POLICY_SOURCE_UNKNOWN_TOOL then ''unknown_tool''
      else if source = POLICY_SOURCE_RESOLVER_ERROR then ''resolver_error''
      else if source = POLICY_SOURCE_MONITOR then ''monitor''
      else if source = POLICY_SOURCE_DEFAULT_DENY then ''default_deny'' else ''invalid'')"

definition tool_name_or_hex :: "(u32 \<rightharpoonup> u8 list) \<Rightarrow> u32 \<Rightarrow> u8 list" where
  "tool_name_or_hex table tool =
     (case table tool of Some name \<Rightarrow> name | None \<Rightarrow> utf8 (''unknown_'' @ hex_string tool))"

definition guard_tool_name :: "u32 \<Rightarrow> u8 \<Rightarrow> (u32 \<rightharpoonup> u8 list) \<Rightarrow> u8 list" where
  "guard_tool_name tool identity table =
     (if identity = IDENTITY_STATE_KNOWN_TOOL then tool_name_or_hex table tool
      else if identity = IDENTITY_STATE_UNKNOWN_TOOL then utf8 ''unknown''
      else if identity = IDENTITY_STATE_RESOLVER_ERROR then utf8 ''resolver_error''
      else if identity = IDENTITY_STATE_UNATTRIBUTED then utf8 ''unattributed''
      else utf8 ''invalid_identity'')"

text \<open>\<^verbatim>\<open>String::from_utf8_lossy\<close>: each ill-formed piece becomes one replacement character.\<close>

abbreviation (input) "REPLACEMENT \<equiv> [0xEF, 0xBF, 0xBD :: u8]"

fun from_utf8_lossy :: "u8 list \<Rightarrow> u8 list" where
  "from_utf8_lossy [] = []"
| "from_utf8_lossy (a # bs) =
     (if a < 0x80 then a # from_utf8_lossy bs
      else if in_range 0xC2 0xDF a then
        (case bs of
           [] \<Rightarrow> REPLACEMENT
         | b # r \<Rightarrow> if continuation b then a # b # from_utf8_lossy r else REPLACEMENT @ from_utf8_lossy bs)
      else if in_range 0xE0 0xEF a then
        (case bs of
           [] \<Rightarrow> REPLACEMENT
         | b # cs \<Rightarrow>
             if \<not> second_byte a b then REPLACEMENT @ from_utf8_lossy bs
             else (case cs of
                     [] \<Rightarrow> REPLACEMENT
                   | c # r \<Rightarrow> if continuation c then a # b # c # from_utf8_lossy r else REPLACEMENT @ from_utf8_lossy cs))
      else if in_range 0xF0 0xF4 a then
        (case bs of
           [] \<Rightarrow> REPLACEMENT
         | b # cs \<Rightarrow>
             if \<not> second_byte a b then REPLACEMENT @ from_utf8_lossy bs
             else (case cs of
                     [] \<Rightarrow> REPLACEMENT
                   | c # ds \<Rightarrow>
                       if \<not> continuation c then REPLACEMENT @ from_utf8_lossy cs
                       else (case ds of
                               [] \<Rightarrow> REPLACEMENT
                             | d # r \<Rightarrow>
                                 if continuation d then a # b # c # d # from_utf8_lossy r
                                 else REPLACEMENT @ from_utf8_lossy ds)))
      else REPLACEMENT @ from_utf8_lossy bs)"

definition extract_guard_path :: "GuardEvent \<Rightarrow> u8 list" where
  "extract_guard_path ev =
     (let len = min (unat (ge_path_len ev)) 1024
      in from_utf8_lossy (takeWhile (\<lambda>b. b \<noteq> 0) (take len (ge_path ev))))"

text \<open>The address is kept in network order, so its bytes in memory are its octets.\<close>

definition format_guard_ipv4 :: "u32 \<Rightarrow> string" where
  "format_guard_ipv4 addr = octets_to_string (le_bytes 4 addr)"

definition from_be16 :: "u16 \<Rightarrow> u16" where
  "from_be16 w = push_bit 8 w OR drop_bit 8 w"

section \<open>The event loop\<close>

text \<open>What the loop keeps: the trail, the names learned so far and the attached resolvers.\<close>

record runtime =
  rt_py_events :: "RuntimePyEvent list"
  rt_resolver_events :: "ResolverProtocolEvent list"
  rt_guard_events :: "GuardAuditEvent list"
  rt_tool_names :: "u32 \<rightharpoonup> u8 list"
  rt_resolvers :: "u32 \<rightharpoonup> LiveCpythonResolver"

definition runtime_init :: runtime where
  "runtime_init = \<lparr>rt_py_events = [], rt_resolver_events = [], rt_guard_events = [],
     rt_tool_names = Map.empty, rt_resolvers = Map.empty\<rparr>"

definition audit_py_event :: "PyEvent \<Rightarrow> RuntimePyEvent" where
  "audit_py_event ev =
     \<lparr>rp_kind = pe_kind ev, rp_kind_str = event_kind_str (pe_kind ev), rp_ctx_id = pe_ctx_id ev,
      rp_tool_id = pe_tool_id ev, rp_pid = pe_pid ev, rp_tid = pe_tid ev, rp_ts_ns = pe_ts_ns ev,
      rp_carrier_ptr = pe_carrier_ptr ev, rp_aux = pe_aux ev\<rparr>"

definition on_py_event :: "PyEvent \<Rightarrow> runtime \<Rightarrow> runtime" where
  "on_py_event ev rt = rt\<lparr>rt_py_events := rt_py_events rt @ [audit_py_event ev]\<rparr>"

definition audit_guard_event :: "(u32 \<rightharpoonup> u8 list) \<Rightarrow> GuardEvent \<Rightarrow> GuardAuditEvent" where
  "audit_guard_event table ev =
     \<lparr>ga_kind = ge_kind ev, ga_kind_str = guard_event_kind_str (ge_kind ev), ga_ctx_id = ge_ctx_id ev,
      ga_tool_id = ge_tool_id ev, ga_tool_name = guard_tool_name (ge_tool_id ev) (ge_identity_state ev) table,
      ga_identity_state = identity_state_str (ge_identity_state ev),
      ga_policy_source = policy_source_str (ge_policy_source ev), ga_path = extract_guard_path ev,
      ga_addr = (if ge_kind ev = EVENT_NET_CONNECT then Some (format_guard_ipv4 (ge_addr ev)) else None),
      ga_port = (if ge_kind ev = EVENT_NET_CONNECT then Some (from_be16 (ge_port ev)) else None),
      ga_action = (if ge_action ev = ACTION_DENY then ''deny'' else ''allow''),
      ga_ts_ns = ge_ts_ns ev, ga_pid = ge_pid ev, ga_tid = ge_tid ev\<rparr>"

definition on_guard_event :: "GuardEvent \<Rightarrow> runtime \<Rightarrow> runtime" where
  "on_guard_event ev rt = rt\<lparr>rt_guard_events := rt_guard_events rt @ [audit_guard_event (rt_tool_names rt) ev]\<rparr>"

definition audit_resolver_event :: "ResolverEvent \<Rightarrow> ResolverProtocolEvent" where
  "audit_resolver_event ev =
     \<lparr>rv_kind = re_kind ev, rv_kind_str = event_kind_str (re_kind ev), rv_code_kind = re_code_kind ev,
      rv_ctx_id = re_ctx_id ev, rv_self_ptr = re_self_ptr ev, rv_type_ptr = re_type_ptr ev,
      rv_frame_ptr = re_frame_ptr ev, rv_code_ptr = re_code_ptr ev, rv_ts_ns = re_ts_ns ev,
      rv_pid = re_pid ev, rv_tid = re_tid ev\<rparr>"

definition resolver_failed_event :: "ResolverEvent \<Rightarrow> ResolverProtocolEvent" where
  "resolver_failed_event ev =
     (audit_resolver_event ev)\<lparr>rv_kind := EVENT_RESOLVER_FAILED, rv_kind_str := event_kind_str EVENT_RESOLVER_FAILED\<rparr>"

subsection \<open>Writing back\<close>

definition mark_tool_ctx_resolver_error :: "ToolCtx \<Rightarrow> ToolCtx" where
  "mark_tool_ctx_resolver_error ctx =
     ctx\<lparr>tool_id := TOOL_IDLE,
         flags := (flags ctx AND NOT TOOL_CTX_FLAG_RESOLVED) OR TOOL_CTX_FLAG_RESOLVER_ERROR,
         generation := generation ctx + 1\<rparr>"

definition set_resolved :: "u32 \<Rightarrow> ToolCtx \<Rightarrow> ToolCtx" where
  "set_resolved tool ctx =
     ctx\<lparr>tool_id := tool, flags := flags ctx OR TOOL_CTX_FLAG_RESOLVED, generation := generation ctx + 1\<rparr>"

text \<open>
  The loop reads a context with one system call and writes it with another.  \<open>write_ctx\<close> is the
  second: it inserts the value computed from what was read, and fails when a context that is gone
  by then finds the map full.
\<close>

definition write_ctx :: "u64 \<Rightarrow> ToolCtx \<Rightarrow> bpf_state \<Rightarrow> bool \<times> bpf_state" where
  "write_ctx ctx_id ctx s =
     (if bm_room (TOOL_CTX s) ctx_id then (True, s\<lparr>TOOL_CTX := bm_insert ctx_id ctx (TOOL_CTX s)\<rparr>) else (False, s))"

text \<open>The result is \<open>Some False\<close> for context 0, \<open>None\<close> for an error.\<close>

definition mark_tool_ctx_map_resolver_error :: "u64 \<Rightarrow> bpf_state \<Rightarrow> bool option \<times> bpf_state" where
  "mark_tool_ctx_map_resolver_error ctx_id s =
     (if ctx_id = 0 then (Some False, s)
      else case bm_get (TOOL_CTX s) ctx_id of
             None \<Rightarrow> (None, s)
           | Some ctx \<Rightarrow>
               let (ok, s1) = write_ctx ctx_id (mark_tool_ctx_resolver_error ctx) s
               in (if ok then Some True else None, s1))"

definition fail_resolution :: "ResolverEvent \<Rightarrow> runtime \<times> bpf_state \<Rightarrow> runtime \<times> bpf_state" where
  "fail_resolution ev = (\<lambda>(rt, s).
     let (marked, s1) = mark_tool_ctx_map_resolver_error (re_ctx_id ev) s
     in (if marked = Some True
         then rt\<lparr>rt_resolver_events := rt_resolver_events rt @ [resolver_failed_event ev]\<rparr> else rt, s1))"

text \<open>Events of the context that were recorded before its tool was known get the tool now.\<close>

definition backfill :: "u64 \<Rightarrow> u32 \<Rightarrow> RuntimePyEvent list \<Rightarrow> RuntimePyEvent list" where
  "backfill ctx_id tool =
     map (\<lambda>prior. if rp_ctx_id prior = ctx_id \<and> rp_tool_id prior = TOOL_IDLE then prior\<lparr>rp_tool_id := tool\<rparr> else prior)"

definition publish_ctx :: "u64 \<Rightarrow> u32 \<Rightarrow> runtime \<times> bpf_state \<Rightarrow> runtime \<times> bpf_state" where
  "publish_ctx ctx_id tool = (\<lambda>(rt, s).
     if ctx_id = 0 then (rt, s)
     else case bm_get (TOOL_CTX s) ctx_id of
            None \<Rightarrow> (rt, s)
          | Some ctx \<Rightarrow>
              let (ok, s1) = write_ctx ctx_id (set_resolved tool ctx) s
              in (if ok then rt\<lparr>rt_py_events := backfill ctx_id tool (rt_py_events rt)\<rparr> else rt, s1))"

definition publish_obj :: "ResolverEvent \<Rightarrow> u32 \<Rightarrow> bpf_state \<Rightarrow> bpf_state" where
  "publish_obj ev tool s =
     s\<lparr>TOOL_OBJ := bm_insert \<lparr>pk_tgid = re_pid ev, pk_ptr = re_self_ptr ev\<rparr>
         \<lparr>oc_type_ptr = re_type_ptr ev, oc_tool_id = tool, oc_name_hash = tool, oc_generation = 0\<rparr> (TOOL_OBJ s)\<rparr>"

definition resolve_candidate :: "LiveCpythonResolver \<Rightarrow> ResolverEvent \<Rightarrow> ResolvedLangChainTool option" where
  "resolve_candidate c ev =
     (if re_code_kind ev = CODE_KIND_IGNORE then resolve_tool (live c) (re_self_ptr ev)
      else case classify_code (live c) (re_code_ptr ev) of
             Some ToolBoundary \<Rightarrow> resolve_tool (live c) (re_self_ptr ev)
           | _ \<Rightarrow> None)"

definition finish_resolution :: "LiveCpythonResolver \<Rightarrow> ResolverEvent \<Rightarrow> runtime \<times> bpf_state \<Rightarrow> runtime \<times> bpf_state" where
  "finish_resolution c ev = (\<lambda>(rt, s).
     case resolve_candidate c ev of
       None \<Rightarrow> fail_resolution ev (rt, s)
     | Some tool \<Rightarrow>
         let (rt1, s1) = publish_ctx (re_ctx_id ev) (rt_tool_id tool) (rt, publish_obj ev (rt_tool_id tool) s)
         in (rt1\<lparr>rt_tool_names := (rt_tool_names rt1)(rt_tool_id tool \<mapsto> rt_name tool)\<rparr>, s1))"

text \<open>Attaching a resolver to a process is a parameter: \<^verbatim>\<open>detect_for_pid\<close> on the process.\<close>

definition attach_resolver ::
  "(u32 \<Rightarrow> LiveCpythonResolver option) \<Rightarrow> ResolverEvent \<Rightarrow> runtime \<times> bpf_state \<Rightarrow> runtime \<times> bpf_state" where
  "attach_resolver detect ev = (\<lambda>(rt, s).
     if rt_resolvers rt (re_pid ev) \<noteq> None then (rt, s)
     else case detect (re_pid ev) of
            Some c \<Rightarrow> (rt\<lparr>rt_resolvers := (rt_resolvers rt)(re_pid ev \<mapsto> c)\<rparr>, s)
          | None \<Rightarrow> fail_resolution ev (rt, s))"

definition on_resolver_event ::
  "(u32 \<Rightarrow> LiveCpythonResolver option) \<Rightarrow> ResolverEvent \<Rightarrow> runtime \<times> bpf_state \<Rightarrow> runtime \<times> bpf_state" where
  "on_resolver_event detect ev = (\<lambda>(rt, s).
     let rt1 = rt\<lparr>rt_resolver_events := rt_resolver_events rt @ [audit_resolver_event ev]\<rparr> in
     if re_kind ev \<noteq> EVENT_RESOLVER_CANDIDATE then (rt1, s)
     else
       let (rt2, s2) = attach_resolver detect ev (rt1, s) in
       (case rt_resolvers rt2 (re_pid ev) of
          None \<Rightarrow> (rt2, s2)
        | Some c \<Rightarrow> finish_resolution c ev (rt2, s2)))"

text \<open>One round of the loop: the records drained from the three rings, in the order the loop drains them.\<close>

definition drain ::
  "(u32 \<Rightarrow> LiveCpythonResolver option) \<Rightarrow> PyEvent list \<Rightarrow> ResolverEvent list \<Rightarrow> GuardEvent list \<Rightarrow>
     runtime \<times> bpf_state \<Rightarrow> runtime \<times> bpf_state" where
  "drain detect pys ress guards = (\<lambda>(rt, s).
     let (rt1, s1) = fold (on_resolver_event detect) ress (fold on_py_event pys rt, s)
     in (fold on_guard_event guards rt1, s1))"

end
