(* ===== verification/Policy.thy ===== *)
theory Policy
  imports Texts Hashing Guard
begin

text \<open>
  The policy file and its compilation: the sections of \<^verbatim>\<open>src/ironscope/src/config.rs\<close> with their
  defaults, the compiler of \<^verbatim>\<open>compiler.rs\<close> that turns paths into inodes, destinations into
  prefixes and names into identifiers, and \<^verbatim>\<open>populate_maps\<close> of \<^verbatim>\<open>main.rs\<close>, which installs the
  result in the kernel maps the hooks read.
\<close>

section \<open>The policy file\<close>

record AgentDef =
  ag_pid :: "u32 option"

record FsPolicy =
  fs_allow :: "string list"
  fs_deny :: "string list"

record ExecPolicy =
  exec_allow :: "string list"
  exec_deny :: "string list"

record NetPolicy =
  net_allow :: "string list"
  net_deny :: "string list"

record ToolDef =
  td_name :: string
  td_fs :: "FsPolicy option"
  td_exec :: "ExecPolicy option"
  td_net :: "NetPolicy option"

record IronScopeSection =
  sec_agents :: "AgentDef list"
  sec_tools :: "ToolDef list"
  sec_mode :: string
  sec_unknown_tool_policy :: string
  sec_resolver_error_policy :: string
  sec_agent_child_scope :: string
  sec_default_tool_policy :: string

text \<open>The section as the document gives it: every field may be absent.\<close>

record yaml_section =
  y_agents :: "AgentDef list option"
  y_tools :: "ToolDef list option"
  y_mode :: "string option"
  y_unknown_tool_policy :: "string option"
  y_resolver_error_policy :: "string option"
  y_agent_child_scope :: "string option"
  y_default_tool_policy :: "string option"

definition or_else :: "'a \<Rightarrow> 'a option \<Rightarrow> 'a" where
  "or_else d x = (case x of None \<Rightarrow> d | Some v \<Rightarrow> v)"

definition section_of_yaml :: "yaml_section \<Rightarrow> IronScopeSection" where
  "section_of_yaml y =
     \<lparr>sec_agents = or_else [] (y_agents y), sec_tools = or_else [] (y_tools y),
      sec_mode = or_else ''monitor'' (y_mode y),
      sec_unknown_tool_policy = or_else ''allow'' (y_unknown_tool_policy y),
      sec_resolver_error_policy = or_else ''deny'' (y_resolver_error_policy y),
      sec_agent_child_scope = or_else ''protect_only_tool_children'' (y_agent_child_scope y),
      sec_default_tool_policy = or_else ''allow'' (y_default_tool_policy y)\<rparr>"

text \<open>Reading the file and the YAML syntax are parameters; both may fail.\<close>

definition load ::
  "(string \<Rightarrow> string option) \<Rightarrow> (string \<Rightarrow> yaml_section option) \<Rightarrow> string \<Rightarrow> IronScopeSection option" where
  "load read_file parse_yaml path =
     (case read_file path of None \<Rightarrow> None | Some content \<Rightarrow> map_option section_of_yaml (parse_yaml content))"

section \<open>The compiler\<close>

record CompiledPolicy =
  cp_tool_name_to_id :: "string \<rightharpoonup> u32"
  cp_agent_pids :: "u32 list"
  cp_fs_rules :: "(ToolPolicyKey \<times> u8) list"
  cp_exec_rules :: "(ToolExecKey \<times> u8) list"
  cp_net_rules :: "(ToolNetKey \<times> u8) list"
  cp_mode :: u8
  cp_unknown_tool_policy :: u8
  cp_resolver_error_policy :: u8
  cp_child_scope :: u8
  cp_default_tool_policy :: u8

text \<open>Why a policy is refused: the field and the value that is not one of its choices.\<close>

datatype policy_error = Invalid string string

text \<open>
  What the compiler asks the host: the device and inode of a path, the addresses of a name, the
  contents of \<^verbatim>\<open>/etc/resolv.conf\<close>, and the order in which a hash set lists its elements.
\<close>

datatype SocketAddr = V4 "u8 list" | V6

record host =
  host_metadata :: "string \<Rightarrow> (u64 \<times> u64) option"
  host_socket_addrs :: "string \<Rightarrow> SocketAddr list option"
  host_resolv_conf :: "string option"
  host_set_order :: "u32 list \<Rightarrow> u32 list"

definition userspace_dev_to_kernel_dev :: "u64 \<Rightarrow> u32" where
  "userspace_dev_to_kernel_dev dev =
     (let major = (drop_bit 8 dev AND 0xfff) OR (drop_bit 32 dev AND NOT 0xfff);
          minor = (dev AND 0xff) OR (drop_bit 12 dev AND NOT 0xff)
      in push_bit 20 (ucast major) OR ucast minor)"

definition resolve_path_inode :: "host \<Rightarrow> string \<Rightarrow> (u32 \<times> u64) option" where
  "resolve_path_inode h path =
     map_option (\<lambda>(dev, ino). (userspace_dev_to_kernel_dev dev, ino)) (host_metadata h path)"

definition parse_ipv4 :: "string \<Rightarrow> u32 option" where
  "parse_ipv4 s = map_option from_ne_bytes (parse_octets s)"

definition to_be16 :: "u16 \<Rightarrow> u16" where
  "to_be16 w = push_bit 8 w OR drop_bit 8 w"

text \<open>The first address of a lookup, if it is an IPv4 one.\<close>

definition first_v4 :: "SocketAddr list option \<Rightarrow> u32 option" where
  "first_v4 r = (case r of Some (V4 octets # _) \<Rightarrow> Some (from_ne_bytes octets) | _ \<Rightarrow> None)"

definition parse_net_rule :: "host \<Rightarrow> u32 \<Rightarrow> string \<Rightarrow> ToolNetKey option" where
  "parse_net_rule h tool entry =
     (let slash = split_on (CHR ''/'') entry; colon = rsplitn2 (CHR '':'') entry in
      if CHR ''/'' \<in> set entry \<and> length slash = 2 then
        case (parse_ipv4 (slash ! 0), parse_uint (2 ^ 32 - 1) (slash ! 1)) of
          (Some addr, Some prefix) \<Rightarrow>
            Some \<lparr>nk_prefixlen = 32 + of_nat prefix, nk_tool_id = tool, nk_addr = addr, nk_port = 0\<rparr>
        | _ \<Rightarrow> None
      else if CHR '':'' \<in> set entry \<and> length colon = 2 then
        case parse_uint (2 ^ 16 - 1) (colon ! 0) of
          None \<Rightarrow> None
        | Some port \<Rightarrow>
            (case (case parse_ipv4 (colon ! 1) of
                     Some ip \<Rightarrow> Some ip
                   | None \<Rightarrow> first_v4 (host_socket_addrs h (colon ! 1 @ '':'' @ string_of_nat port))) of
               None \<Rightarrow> None
             | Some addr \<Rightarrow>
                 Some \<lparr>nk_prefixlen = 96, nk_tool_id = tool, nk_addr = addr, nk_port = to_be16 (of_nat port)\<rparr>)
      else
        map_option (\<lambda>addr. \<lparr>nk_prefixlen = 64, nk_tool_id = tool, nk_addr = addr, nk_port = 0\<rparr>)
          (first_v4 (host_socket_addrs h (entry @ '':443''))))"

text \<open>One rule per entry that has a key, in the order of the entries.\<close>

definition keyed_rules :: "('p \<Rightarrow> 'k option) \<Rightarrow> u8 \<Rightarrow> 'p list \<Rightarrow> ('k \<times> u8) list" where
  "keyed_rules key perm ps = List.map_filter (\<lambda>p. map_option (\<lambda>k. (k, perm)) (key p)) ps"

definition allow_deny_rules :: "('p \<Rightarrow> 'k option) \<Rightarrow> 'p list \<Rightarrow> 'p list \<Rightarrow> ('k \<times> u8) list" where
  "allow_deny_rules key allow deny = keyed_rules key PERM_ALLOW allow @ keyed_rules key PERM_DENY deny"

definition fs_key :: "host \<Rightarrow> u32 \<Rightarrow> string \<Rightarrow> ToolPolicyKey option" where
  "fs_key h tool path =
     map_option (\<lambda>(dev, ino). \<lparr>fp_tool_id = tool, fp_dev = dev, fp_ino = ino\<rparr>)
       (resolve_path_inode h (trim_end_matches ''/*'' (trim_end_matches ''/**'' path)))"

definition exec_key :: "host \<Rightarrow> u32 \<Rightarrow> string \<Rightarrow> ToolExecKey option" where
  "exec_key h tool path =
     (if path = ''*'' then Some \<lparr>xp_tool_id = tool, xp_dev = 0, xp_ino = 0\<rparr>
      else map_option (\<lambda>(dev, ino). \<lparr>xp_tool_id = tool, xp_dev = dev, xp_ino = ino\<rparr>)
             (resolve_path_inode h path))"

definition compile_fs_rules :: "host \<Rightarrow> u32 \<Rightarrow> FsPolicy \<Rightarrow> (ToolPolicyKey \<times> u8) list \<Rightarrow> (ToolPolicyKey \<times> u8) list" where
  "compile_fs_rules h tool policy rules = rules @ allow_deny_rules (fs_key h tool) (fs_allow policy) (fs_deny policy)"

definition compile_exec_rules :: "host \<Rightarrow> u32 \<Rightarrow> ExecPolicy \<Rightarrow> (ToolExecKey \<times> u8) list \<Rightarrow> (ToolExecKey \<times> u8) list" where
  "compile_exec_rules h tool policy rules =
     rules @ allow_deny_rules (exec_key h tool) (exec_allow policy) (exec_deny policy)"

definition compile_net_rules :: "host \<Rightarrow> u32 \<Rightarrow> NetPolicy \<Rightarrow> (ToolNetKey \<times> u8) list \<Rightarrow> (ToolNetKey \<times> u8) list" where
  "compile_net_rules h tool policy rules =
     rules @ allow_deny_rules (parse_net_rule h tool) (net_allow policy) (net_deny policy)"

definition inject_dns_allows :: "u32 \<Rightarrow> u32 list \<Rightarrow> (ToolNetKey \<times> u8) list \<Rightarrow> (ToolNetKey \<times> u8) list" where
  "inject_dns_allows tool dns_ips rules =
     rules @ map (\<lambda>ip. (\<lparr>nk_prefixlen = 64, nk_tool_id = tool, nk_addr = ip, nk_port = 0\<rparr>, PERM_ALLOW)) dns_ips"

definition nameserver_of_line :: "string \<Rightarrow> u32 option" where
  "nameserver_of_line line =
     (case strip_prefix ''nameserver'' (trim line) of
        None \<Rightarrow> None
      | Some rest \<Rightarrow> parse_ipv4 (trim rest))"

definition discover_dns_resolver_ips :: "host \<Rightarrow> u32 list" where
  "discover_dns_resolver_ips h =
     (let listed = (case host_resolv_conf h of
                      None \<Rightarrow> []
                    | Some contents \<Rightarrow>
                        fold (\<lambda>line ips. case nameserver_of_line line of
                                           None \<Rightarrow> ips
                                         | Some ip \<Rightarrow> if ip \<in> set ips then ips else ips @ [ip])
                          (split_on (CHR 0x0A) contents) [])
      in if listed = [] then List.map_filter parse_ipv4 [''127.0.0.53'', ''127.0.0.1''] else listed)"

definition compile_allow_deny_policy :: "string \<Rightarrow> u8 \<Rightarrow> u8 \<Rightarrow> string \<Rightarrow> policy_error + u8" where
  "compile_allow_deny_policy value allow_value deny_value field_name =
     (if value = ''allow'' then Inr allow_value else if value = ''deny'' then Inr deny_value
      else Inl (Invalid field_name value))"

definition compile_child_scope :: "string \<Rightarrow> policy_error + u8" where
  "compile_child_scope value =
     (if value = ''protect_only_tool_children'' then Inr CHILD_SCOPE_TOOL_ONLY
      else if value = ''protect_all_children'' then Inr CHILD_SCOPE_ALL
      else Inl (Invalid ''agent_child_scope'' value))"

definition compile_mode :: "string \<Rightarrow> policy_error + u8" where
  "compile_mode value =
     (if value = ''monitor'' then Inr MODE_MONITOR else if value = ''enforce'' then Inr MODE_ENFORCE
      else Inl (Invalid ''mode'' value))"

definition and_then :: "'e + 'a \<Rightarrow> ('a \<Rightarrow> 'e + 'b) \<Rightarrow> 'e + 'b" where
  "and_then r f = (case r of Inl err \<Rightarrow> Inl err | Inr x \<Rightarrow> f x)"

text \<open>The rules of the tools, in the order of the file.\<close>

record rule_lists =
  rl_names :: "string \<rightharpoonup> u32"
  rl_fs :: "(ToolPolicyKey \<times> u8) list"
  rl_exec :: "(ToolExecKey \<times> u8) list"
  rl_net :: "(ToolNetKey \<times> u8) list"

definition when_some :: "'a option \<Rightarrow> ('a \<Rightarrow> 'b \<Rightarrow> 'b) \<Rightarrow> 'b \<Rightarrow> 'b" where
  "when_some x f y = (case x of None \<Rightarrow> y | Some v \<Rightarrow> f v y)"

definition compile_tool :: "host \<Rightarrow> u32 \<Rightarrow> ToolDef \<Rightarrow> rule_lists \<Rightarrow> rule_lists" where
  "compile_tool h tool t r =
     \<lparr>rl_names = (rl_names r)(td_name t \<mapsto> tool),
      rl_fs = when_some (td_fs t) (compile_fs_rules h tool) (rl_fs r),
      rl_exec = when_some (td_exec t) (compile_exec_rules h tool) (rl_exec r),
      rl_net = when_some (td_net t) (compile_net_rules h tool) (rl_net r)\<rparr>"

definition compile_tools :: "host \<Rightarrow> (nat \<Rightarrow> string \<Rightarrow> u32) \<Rightarrow> ToolDef list \<Rightarrow> rule_lists" where
  "compile_tools h tool_id_for ts =
     fold (\<lambda>(i, t). compile_tool h (tool_id_for i (td_name t)) t) (enumerate 0 ts)
       \<lparr>rl_names = Map.empty, rl_fs = [], rl_exec = [], rl_net = []\<rparr>"

definition add_dns_allows :: "host \<Rightarrow> (ToolNetKey \<times> u8) list \<Rightarrow> (ToolNetKey \<times> u8) list" where
  "add_dns_allows h rules =
     (let tools = host_set_order h (map (nk_tool_id \<circ> fst) rules); dns_ips = discover_dns_resolver_ips h
      in if tools = [] \<or> dns_ips = [] then rules else fold (\<lambda>tool. inject_dns_allows tool dns_ips) tools rules)"

definition compile_with_tool_ids ::
  "host \<Rightarrow> (nat \<Rightarrow> string \<Rightarrow> u32) \<Rightarrow> IronScopeSection \<Rightarrow> policy_error + CompiledPolicy" where
  "compile_with_tool_ids h tool_id_for config =
     (let r = compile_tools h tool_id_for (sec_tools config); net = add_dns_allows h (rl_net r) in
      and_then (compile_mode (sec_mode config)) (\<lambda>md.
      and_then (compile_allow_deny_policy (sec_unknown_tool_policy config)
                  UNKNOWN_TOOL_ALLOW UNKNOWN_TOOL_DENY ''unknown_tool_policy'') (\<lambda>unknown.
      and_then (compile_allow_deny_policy (sec_resolver_error_policy config)
                  RESOLVER_ERROR_ALLOW RESOLVER_ERROR_DENY ''resolver_error_policy'') (\<lambda>resolver.
      and_then (compile_allow_deny_policy (sec_default_tool_policy config)
                  DEFAULT_TOOL_ALLOW DEFAULT_TOOL_DENY ''default_tool_policy'') (\<lambda>default_tool.
      and_then (compile_child_scope (sec_agent_child_scope config)) (\<lambda>scope.
        Inr \<lparr>cp_tool_name_to_id = rl_names r, cp_agent_pids = List.map_filter ag_pid (sec_agents config),
             cp_fs_rules = rl_fs r, cp_exec_rules = rl_exec r, cp_net_rules = net, cp_mode = md,
             cp_unknown_tool_policy = unknown, cp_resolver_error_policy = resolver,
             cp_child_scope = scope, cp_default_tool_policy = default_tool\<rparr>))))))"

definition compile_with_hashed_tool_ids :: "host \<Rightarrow> IronScopeSection \<Rightarrow> policy_error + CompiledPolicy" where
  "compile_with_hashed_tool_ids h = compile_with_tool_ids h (\<lambda>_ name. user_fnv1a_32 (utf8 name))"

section \<open>Installation\<close>

definition configured_agent_pids :: "IronScopeSection \<Rightarrow> u32 list option" where
  "configured_agent_pids config =
     (let pids = List.map_filter ag_pid (sec_agents config) in if pids = [] then None else Some pids)"

text \<open>Insertion from user space stops at the first failure, and the start-up with it.\<close>

fun insert_all :: "('k \<times> 'v) list \<Rightarrow> ('k, 'v) bpf_map \<Rightarrow> ('k, 'v) bpf_map option" where
  "insert_all [] m = Some m"
| "insert_all ((k, v) # r) m = (if bm_room m k then insert_all r (bm_insert k v m) else None)"

text \<open>The trie takes prefixes of at most 96 bits and 256 entries; an entry with the same prefix is replaced.\<close>

definition lpm_insert ::
  "u32 \<times> ToolNetData \<Rightarrow> u8 \<Rightarrow> ((u32 \<times> ToolNetData) \<times> u8) list \<Rightarrow> ((u32 \<times> ToolNetData) \<times> u8) list option" where
  "lpm_insert key perm es =
     (let same = (\<lambda>en. fst (fst en) = fst key \<and> lpm_matches key (snd (fst en)))
      in if 96 < fst key then None
         else if list_ex same es then Some (map (\<lambda>en. if same en then (key, perm) else en) es)
         else if length es < 256 then Some (es @ [(key, perm)]) else None)"

definition net_key :: "ToolNetKey \<Rightarrow> u32 \<times> ToolNetData" where
  "net_key key = (nk_prefixlen key, \<lparr>nd_tool_id = nk_tool_id key, nd_addr = nk_addr key, nd_port = nk_port key\<rparr>)"

fun lpm_insert_all ::
  "(ToolNetKey \<times> u8) list \<Rightarrow> ((u32 \<times> ToolNetData) \<times> u8) list \<Rightarrow> ((u32 \<times> ToolNetData) \<times> u8) list option" where
  "lpm_insert_all [] es = Some es"
| "lpm_insert_all ((key, perm) # r) es =
     (case lpm_insert (net_key key) perm es of None \<Rightarrow> None | Some es' \<Rightarrow> lpm_insert_all r es')"

definition compiled_config :: "CompiledPolicy \<Rightarrow> IronScopeConfig" where
  "compiled_config compiled =
     \<lparr>mode = cp_mode compiled, discover = 1, unattributed_policy = UNATTRIBUTED_AUDIT_ONLY,
      unknown_tool_policy = cp_unknown_tool_policy compiled,
      resolver_error_policy = cp_resolver_error_policy compiled,
      child_scope = cp_child_scope compiled, default_tool_policy = cp_default_tool_policy compiled\<rparr>"

definition populate_maps :: "CompiledPolicy \<Rightarrow> bpf_state \<Rightarrow> bpf_state option" where
  "populate_maps compiled s =
     (case insert_all (cp_fs_rules compiled) (TOOL_FS_POLICY s) of
        None \<Rightarrow> None
      | Some fs \<Rightarrow>
     (case insert_all (cp_exec_rules compiled) (TOOL_EXEC_POLICY s) of
        None \<Rightarrow> None
      | Some ex \<Rightarrow>
     (case lpm_insert_all (cp_net_rules compiled) (TOOL_NET_POLICY s) of
        None \<Rightarrow> None
      | Some net \<Rightarrow>
     (case insert_all (map (\<lambda>pid. (pid, 1)) (cp_agent_pids compiled)) (PROTECTED_TGIDS s) of
        None \<Rightarrow> None
      | Some tgids \<Rightarrow>
     (case insert_all [(0, compiled_config compiled)] (IRONSCOPE_CONFIG s) of
        None \<Rightarrow> None
      | Some cfg \<Rightarrow>
          Some (s\<lparr>TOOL_FS_POLICY := fs, TOOL_EXEC_POLICY := ex, TOOL_NET_POLICY := net,
                  PROTECTED_TGIDS := tgids, IRONSCOPE_CONFIG := cfg\<rparr>))))))"

end
