(* ===== verification/Compilation.thy ===== *)
theory Compilation
  imports Policy Verdicts
begin

text \<open>
  What compilation and installation promise: which policies are refused, that what the tables
  answer is what the file says, with a denial winning over a permission, and how destinations
  and devices are encoded.
\<close>

section \<open>Refused policies\<close>

text \<open>The fields with a choice, their values and what they may be, in the order they are checked.\<close>

definition section_choices :: "IronScopeSection \<Rightarrow> (string \<times> string \<times> string list) list" where
  "section_choices config =
     [(''mode'', sec_mode config, [''monitor'', ''enforce'']),
      (''unknown_tool_policy'', sec_unknown_tool_policy config, [''allow'', ''deny'']),
      (''resolver_error_policy'', sec_resolver_error_policy config, [''allow'', ''deny'']),
      (''default_tool_policy'', sec_default_tool_policy config, [''allow'', ''deny'']),
      (''agent_child_scope'', sec_agent_child_scope config, [''protect_only_tool_children'', ''protect_all_children''])]"

definition first_invalid :: "IronScopeSection \<Rightarrow> (string \<times> string \<times> string list) option" where
  "first_invalid config = List.find (\<lambda>(field, value, choices). value \<notin> set choices) (section_choices config)"

definition settings_of :: "IronScopeSection \<Rightarrow> IronScopeConfig" where
  "settings_of config =
     \<lparr>mode = (if sec_mode config = ''enforce'' then MODE_ENFORCE else MODE_MONITOR), discover = 1,
      unattributed_policy = UNATTRIBUTED_AUDIT_ONLY,
      unknown_tool_policy = (if sec_unknown_tool_policy config = ''deny'' then UNKNOWN_TOOL_DENY else UNKNOWN_TOOL_ALLOW),
      resolver_error_policy =
        (if sec_resolver_error_policy config = ''deny'' then RESOLVER_ERROR_DENY else RESOLVER_ERROR_ALLOW),
      child_scope =
        (if sec_agent_child_scope config = ''protect_all_children'' then CHILD_SCOPE_ALL else CHILD_SCOPE_TOOL_ONLY),
      default_tool_policy =
        (if sec_default_tool_policy config = ''deny'' then DEFAULT_TOOL_DENY else DEFAULT_TOOL_ALLOW)\<rparr>"

lemmas field_compilers = compile_mode_def compile_allow_deny_policy_def compile_child_scope_def and_then_def

definition policy_of :: "host \<Rightarrow> (nat \<Rightarrow> string \<Rightarrow> u32) \<Rightarrow> IronScopeSection \<Rightarrow> CompiledPolicy" where
  "policy_of h f config =
     (let r = compile_tools h f (sec_tools config); set = settings_of config
      in \<lparr>cp_tool_name_to_id = rl_names r, cp_agent_pids = List.map_filter ag_pid (sec_agents config),
          cp_fs_rules = rl_fs r, cp_exec_rules = rl_exec r, cp_net_rules = add_dns_allows h (rl_net r),
          cp_mode = mode set, cp_unknown_tool_policy = unknown_tool_policy set,
          cp_resolver_error_policy = resolver_error_policy set, cp_child_scope = child_scope set,
          cp_default_tool_policy = default_tool_policy set\<rparr>)"

lemma compile_eq:
  "compile_with_tool_ids h f config =
     (case first_invalid config of Some (field, value, _) \<Rightarrow> Inl (Invalid field value) | None \<Rightarrow> Inr (policy_of h f config))"
  by (simp add: compile_with_tool_ids_def policy_of_def first_invalid_def section_choices_def settings_of_def
      field_compilers Let_def)

lemma compiled_policy_of: "compiled_config (policy_of h f config) = settings_of config"
  by (simp add: compiled_config_def policy_of_def settings_of_def Let_def)

text \<open>C38: a policy is refused exactly when one of its choices is not one the program knows, and the error
  names the first such field with its value; otherwise the settings compiled for the kernel are
  the ones the file asks for.\<close>

theorem compile_accepts:
  "case first_invalid config of
     Some (field, value, choices) \<Rightarrow> compile_with_hashed_tool_ids h config = Inl (Invalid field value)
   | None \<Rightarrow> \<exists>c. compile_with_hashed_tool_ids h config = Inr c \<and> compiled_config c = settings_of config"
  by (auto simp: compile_with_hashed_tool_ids_def compile_eq compiled_policy_of split: option.split)

section \<open>Tables\<close>

lemma insert_all_get:
  "insert_all rules m = Some m' \<Longrightarrow>
   bm_get m' k = (case map_of (rev rules) k of Some v \<Rightarrow> Some v | None \<Rightarrow> bm_get m k)"
proof (induction rules m rule: insert_all.induct)
  case (2 k' v r m)
  from "2.prems" have room: "bm_room m k'" and r: "insert_all r (bm_insert k' v m) = Some m'"
    by (auto split: if_splits)
  from "2.IH" [OF room r] room show ?case by (simp add: bm_get_insert map_add_def split: option.split)
qed simp

lemma keyed_rules_get:
  "map_of (rev (keyed_rules key perm ps)) k = (if \<exists>p \<in> set ps. key p = Some k then Some perm else None)"
  by (induction ps) (auto simp: keyed_rules_def List.map_filter_def map_add_def split: option.split)

text \<open>What a tool's own entries say of a key: a denial wins.\<close>

definition entries_say :: "('p \<Rightarrow> 'k option) \<Rightarrow> 'p list \<Rightarrow> 'p list \<Rightarrow> 'k \<Rightarrow> u8 option" where
  "entries_say key allow deny k =
     (if \<exists>p \<in> set deny. key p = Some k then Some PERM_DENY
      else if \<exists>p \<in> set allow. key p = Some k then Some PERM_ALLOW else None)"

lemma allow_deny_get: "map_of (rev (allow_deny_rules key allow deny)) k = entries_say key allow deny k"
  by (simp add: allow_deny_rules_def entries_say_def map_add_def keyed_rules_get split: option.split)

text \<open>
  A table of rules whose keys name the tool they are for: with distinct tools the entries of one
  cannot shadow those of another.
\<close>

locale rule_table =
  fixes key :: "u32 \<Rightarrow> 'p \<Rightarrow> 'k option"
    and owner :: "'k \<Rightarrow> u32"
  assumes owner_key: "key t p = Some k \<Longrightarrow> owner k = t"
begin

lemma other_tool_silent: "owner k \<noteq> t \<Longrightarrow> entries_say (key t) allow deny k = None"
  using owner_key by (auto simp: entries_say_def)

lemma table_none:
  "owner k \<notin> fst ` set ts \<Longrightarrow>
   map_of (rev (concat (map (\<lambda>(t, allow, deny). allow_deny_rules (key t) allow deny) ts))) k = None"
  by (induction ts) (auto simp: map_add_def allow_deny_get other_tool_silent split: option.split)

lemma table_lookup:
  assumes "distinct (map fst ts)" "(t, allow, deny) \<in> set ts" "owner k = t"
  shows "map_of (rev (concat (map (\<lambda>(t, allow, deny). allow_deny_rules (key t) allow deny) ts))) k =
           entries_say (key t) allow deny k"
  using assms
proof (induction ts)
  case (Cons x ts)
  obtain t' allow' deny' where x: "x = (t', allow', deny')" by (cases x)
  show ?case
  proof (cases "(t, allow, deny) = x")
    case True
    then have "owner k \<notin> fst ` set ts" using Cons.prems x by auto
    from table_none [OF this] True x show ?thesis by (simp add: map_add_def allow_deny_get)
  next
    case False
    with Cons.prems have "(t, allow, deny) \<in> set ts" "t' \<noteq> t" using x by (auto simp: image_iff rev_image_eqI)
    with Cons x show ?thesis by (simp add: map_add_def allow_deny_get other_tool_silent split: option.split)
  qed
qed simp

end

interpretation fs_table: rule_table "fs_key h" fp_tool_id
  by unfold_locales (auto simp: fs_key_def)

interpretation exec_table: rule_table "exec_key h" xp_tool_id
  by unfold_locales (auto simp: exec_key_def split: if_splits)

text \<open>The tools of a file by identifier, each with its own lists.\<close>

definition hashed_id :: "ToolDef \<Rightarrow> u32" where
  "hashed_id t = user_fnv1a_32 (utf8 (td_name t))"

definition fs_lists :: "ToolDef \<Rightarrow> string list \<times> string list" where
  "fs_lists t = (case td_fs t of None \<Rightarrow> ([], []) | Some p \<Rightarrow> (fs_allow p, fs_deny p))"

definition exec_lists :: "ToolDef \<Rightarrow> string list \<times> string list" where
  "exec_lists t = (case td_exec t of None \<Rightarrow> ([], []) | Some p \<Rightarrow> (exec_allow p, exec_deny p))"

definition net_lists :: "ToolDef \<Rightarrow> string list \<times> string list" where
  "net_lists t = (case td_net t of None \<Rightarrow> ([], []) | Some p \<Rightarrow> (net_allow p, net_deny p))"

lemma allow_deny_nil [simp]: "allow_deny_rules key [] [] = []"
  by (simp add: allow_deny_rules_def keyed_rules_def List.map_filter_def)

lemma compile_tool_lists:
  "rl_fs (compile_tool h i t r) = rl_fs r @ allow_deny_rules (fs_key h i) (fst (fs_lists t)) (snd (fs_lists t))"
  "rl_exec (compile_tool h i t r) = rl_exec r @ allow_deny_rules (exec_key h i) (fst (exec_lists t)) (snd (exec_lists t))"
  "rl_net (compile_tool h i t r) = rl_net r @ allow_deny_rules (parse_net_rule h i) (fst (net_lists t)) (snd (net_lists t))"
  by (simp_all add: compile_tool_def when_some_def fs_lists_def exec_lists_def net_lists_def compile_fs_rules_def
      compile_exec_rules_def compile_net_rules_def split: option.split)

lemma fold_enumerate_snd: "fold (\<lambda>(i, t). f t) (enumerate n ts) r = fold f ts r"
  by (induction ts arbitrary: n r) simp_all

lemma compile_tools_lists:
  fixes h :: host and ts :: "ToolDef list"
  defines "r \<equiv> compile_tools h (\<lambda>_ name. user_fnv1a_32 (utf8 name)) ts"
  shows
    "rl_fs r = concat (map (\<lambda>(t, allow, deny). allow_deny_rules (fs_key h t) allow deny) (map (\<lambda>t. (hashed_id t, fs_lists t)) ts))"
    "rl_exec r = concat (map (\<lambda>(t, allow, deny). allow_deny_rules (exec_key h t) allow deny) (map (\<lambda>t. (hashed_id t, exec_lists t)) ts))"
    "rl_net r = concat (map (\<lambda>(t, allow, deny). allow_deny_rules (parse_net_rule h t) allow deny) (map (\<lambda>t. (hashed_id t, net_lists t)) ts))"
proof -
  let ?step = "\<lambda>t. compile_tool h (hashed_id t) t"
  have r: "r = fold ?step ts \<lparr>rl_names = Map.empty, rl_fs = [], rl_exec = [], rl_net = []\<rparr>"
    by (simp add: r_def compile_tools_def hashed_id_def [symmetric] fold_enumerate_snd)
  have "rl_fs (fold ?step ts r0) = rl_fs r0 @
      concat (map (\<lambda>(t, allow, deny). allow_deny_rules (fs_key h t) allow deny) (map (\<lambda>t. (hashed_id t, fs_lists t)) ts))"
    "rl_exec (fold ?step ts r0) = rl_exec r0 @
      concat (map (\<lambda>(t, allow, deny). allow_deny_rules (exec_key h t) allow deny) (map (\<lambda>t. (hashed_id t, exec_lists t)) ts))"
    "rl_net (fold ?step ts r0) = rl_net r0 @
      concat (map (\<lambda>(t, allow, deny). allow_deny_rules (parse_net_rule h t) allow deny) (map (\<lambda>t. (hashed_id t, net_lists t)) ts))"
    for r0
    by (induction ts arbitrary: r0) (simp_all add: compile_tool_lists case_prod_beta)
  then show
    "rl_fs r = concat (map (\<lambda>(t, allow, deny). allow_deny_rules (fs_key h t) allow deny) (map (\<lambda>t. (hashed_id t, fs_lists t)) ts))"
    "rl_exec r = concat (map (\<lambda>(t, allow, deny). allow_deny_rules (exec_key h t) allow deny) (map (\<lambda>t. (hashed_id t, exec_lists t)) ts))"
    "rl_net r = concat (map (\<lambda>(t, allow, deny). allow_deny_rules (parse_net_rule h t) allow deny) (map (\<lambda>t. (hashed_id t, net_lists t)) ts))"
    by (simp_all add: r)
qed

text \<open>A policy that was compiled from a file and installed in maps that were still empty.\<close>

definition installed :: "host \<Rightarrow> IronScopeSection \<Rightarrow> bpf_state \<Rightarrow> bool" where
  "installed h config s \<longleftrightarrow>
     (\<exists>c s0. compile_with_hashed_tool_ids h config = Inr c \<and> populate_maps c s0 = Some s \<and>
        TOOL_FS_POLICY s0 = bm_empty 1024 Hash \<and> TOOL_EXEC_POLICY s0 = bm_empty 256 Hash \<and> TOOL_NET_POLICY s0 = [] \<and>
        IRONSCOPE_CONFIG s0 = bm_empty 1 Hash)"

lemma populate_fields:
  assumes "populate_maps c s0 = Some s"
  shows "insert_all (cp_fs_rules c) (TOOL_FS_POLICY s0) = Some (TOOL_FS_POLICY s)"
    "insert_all (cp_exec_rules c) (TOOL_EXEC_POLICY s0) = Some (TOOL_EXEC_POLICY s)"
    "lpm_insert_all (cp_net_rules c) (TOOL_NET_POLICY s0) = Some (TOOL_NET_POLICY s)"
    "insert_all (map (\<lambda>pid. (pid, 1)) (cp_agent_pids c)) (PROTECTED_TGIDS s0) = Some (PROTECTED_TGIDS s)"
    "insert_all [(0, compiled_config c)] (IRONSCOPE_CONFIG s0) = Some (IRONSCOPE_CONFIG s)"
  using assms by (auto simp: populate_maps_def simp del: insert_all.simps split: option.splits)

lemma installed_tables:
  assumes "installed h config s"
  shows "bm_get (TOOL_FS_POLICY s) k =
           map_of (rev (rl_fs (compile_tools h (\<lambda>_ name. user_fnv1a_32 (utf8 name)) (sec_tools config)))) k"
    "bm_get (TOOL_EXEC_POLICY s) k' =
           map_of (rev (rl_exec (compile_tools h (\<lambda>_ name. user_fnv1a_32 (utf8 name)) (sec_tools config)))) k'"
    "bm_get (IRONSCOPE_CONFIG s) 0 = Some (settings_of config)"
    "lpm_insert_all (add_dns_allows h (rl_net (compile_tools h (\<lambda>_ name. user_fnv1a_32 (utf8 name)) (sec_tools config)))) []
       = Some (TOOL_NET_POLICY s)"
proof -
  obtain c s0 where c: "compile_with_hashed_tool_ids h config = Inr c" and s: "populate_maps c s0 = Some s"
    and empty: "TOOL_FS_POLICY s0 = bm_empty 1024 Hash" "TOOL_EXEC_POLICY s0 = bm_empty 256 Hash" "TOOL_NET_POLICY s0 = []"
      "IRONSCOPE_CONFIG s0 = bm_empty 1 Hash"
    using assms by (auto simp: installed_def)
  from c have pol: "c = policy_of h (\<lambda>_ name. user_fnv1a_32 (utf8 name)) config"
    by (auto simp: compile_with_hashed_tool_ids_def compile_eq split: option.splits)
  note f = populate_fields [OF s]
  show "bm_get (TOOL_FS_POLICY s) k =
           map_of (rev (rl_fs (compile_tools h (\<lambda>_ name. user_fnv1a_32 (utf8 name)) (sec_tools config)))) k"
    using insert_all_get [OF f(1), of k] by (simp add: empty pol policy_of_def Let_def split: option.split)
  show "bm_get (TOOL_EXEC_POLICY s) k' =
           map_of (rev (rl_exec (compile_tools h (\<lambda>_ name. user_fnv1a_32 (utf8 name)) (sec_tools config)))) k'"
    using insert_all_get [OF f(2), of k'] by (simp add: empty pol policy_of_def Let_def split: option.split)
  show "bm_get (IRONSCOPE_CONFIG s) 0 = Some (settings_of config)"
    using insert_all_get [OF f(5), of 0] by (simp add: pol compiled_policy_of)
  show "lpm_insert_all (add_dns_allows h (rl_net (compile_tools h (\<lambda>_ name. user_fnv1a_32 (utf8 name)) (sec_tools config)))) []
       = Some (TOOL_NET_POLICY s)"
    using f(3) by (simp add: empty pol policy_of_def Let_def)
qed

lemma installed_fs_get:
  assumes "installed h config s" "distinct (map hashed_id (sec_tools config))" "t \<in> set (sec_tools config)"
  shows "bm_get (TOOL_FS_POLICY s) \<lparr>fp_tool_id = hashed_id t, fp_dev = dev, fp_ino = ino\<rparr> =
    entries_say (fs_key h (hashed_id t)) (fst (fs_lists t)) (snd (fs_lists t))
      \<lparr>fp_tool_id = hashed_id t, fp_dev = dev, fp_ino = ino\<rparr>"
  unfolding installed_tables(1) [OF assms(1)] compile_tools_lists(1)
  by (rule fs_table.table_lookup) (use assms in \<open>auto simp: comp_def\<close>)

lemma installed_exec_get:
  assumes "installed h config s" "distinct (map hashed_id (sec_tools config))" "t \<in> set (sec_tools config)"
  shows "bm_get (TOOL_EXEC_POLICY s) \<lparr>xp_tool_id = hashed_id t, xp_dev = dev, xp_ino = ino\<rparr> =
    entries_say (exec_key h (hashed_id t)) (fst (exec_lists t)) (snd (exec_lists t))
      \<lparr>xp_tool_id = hashed_id t, xp_dev = dev, xp_ino = ino\<rparr>"
  unfolding installed_tables(2) [OF assms(1)] compile_tools_lists(2)
  by (rule exec_table.table_lookup) (use assms in \<open>auto simp: comp_def\<close>)

text \<open>A path of the policy names an inode: its globs are cut off and what is left resolves to it.\<close>

definition names_inode :: "host \<Rightarrow> u32 \<Rightarrow> u64 \<Rightarrow> string \<Rightarrow> bool" where
  "names_inode h dev ino p \<longleftrightarrow>
     resolve_path_inode h (trim_end_matches ''/*'' (trim_end_matches ''/**'' p)) = Some (dev, ino)"

lemma fs_key_iff: "fs_key h i p = Some \<lparr>fp_tool_id = i, fp_dev = dev, fp_ino = ino\<rparr> \<longleftrightarrow> names_inode h dev ino p"
  by (auto simp: fs_key_def names_inode_def split: option.splits)

lemma exec_key_iff:
  "exec_key h i p = Some \<lparr>xp_tool_id = i, xp_dev = dev, xp_ino = ino\<rparr> \<longleftrightarrow>
     (if p = ''*'' then dev = 0 \<and> ino = 0 else resolve_path_inode h p = Some (dev, ino))"
  by (auto simp: exec_key_def split: option.splits)

subsection \<open>Room\<close>

lemma length_insert_le: "length (bm_entries (bm_insert k v m)) \<le> Suc (length (bm_entries m))"
  by (auto simp: bm_insert_def Let_def le_SucI length_filter_le split: map_kind.split)

lemma insert_all_succeeds:
  "length (bm_entries m) + length rules \<le> bm_max m \<Longrightarrow> \<exists>m'. insert_all rules m = Some m'"
proof (induction rules m rule: insert_all.induct)
  case (2 k v r m)
  then have room: "bm_room m k" by (simp add: bm_room_def)
  have "length (bm_entries (bm_insert k v m)) + length r \<le> bm_max (bm_insert k v m)"
    using "2.prems" length_insert_le [of k v m] by simp
  from "2.IH" [OF room this] room show ?case by simp
qed simp

lemma lpm_insert_some:
  "fst key \<le> 96 \<Longrightarrow> length es < 256 \<Longrightarrow> \<exists>es'. lpm_insert key perm es = Some es' \<and> length es' \<le> Suc (length es)"
  by (auto simp: lpm_insert_def Let_def not_less)

lemma lpm_insert_all_succeeds:
  "length es + length rules \<le> 256 \<Longrightarrow> list_all (\<lambda>r. nk_prefixlen (fst r) \<le> 96) rules \<Longrightarrow>
   \<exists>es'. lpm_insert_all rules es = Some es'"
proof (induction rules es rule: lpm_insert_all.induct)
  case (2 key perm r es)
  then obtain es' where es': "lpm_insert (net_key key) perm es = Some es'" "length es' \<le> Suc (length es)"
    using lpm_insert_some [of "net_key key" es perm] by (auto simp: net_key_def)
  with "2.prems" have "length es' + length r \<le> 256" by simp
  from "2.IH" [OF es'(1) this] "2.prems" es'(1) show ?case by simp
qed simp

lemma policy_installs:
  assumes "compile_with_hashed_tool_ids h config = Inr c"
    and "length (cp_fs_rules c) \<le> 1024" "length (cp_exec_rules c) \<le> 256" "length (cp_agent_pids c) \<le> 4096"
    and "length (cp_net_rules c) \<le> 256" "list_all (\<lambda>r. nk_prefixlen (fst r) \<le> 96) (cp_net_rules c)"
  shows "\<exists>s. populate_maps c (init_state ev cg cp cr) = Some s \<and> installed h config s"
proof -
  let ?s0 = "init_state ev cg cp cr"
  have empty: "TOOL_FS_POLICY ?s0 = bm_empty 1024 Hash" "TOOL_EXEC_POLICY ?s0 = bm_empty 256 Hash"
    "TOOL_NET_POLICY ?s0 = []" "PROTECTED_TGIDS ?s0 = bm_empty 4096 Hash" "IRONSCOPE_CONFIG ?s0 = bm_empty 1 Hash"
    by (simp_all add: init_state_def)
  have "\<exists>m'. insert_all (cp_fs_rules c) (bm_empty 1024 Hash) = Some m'"
    "\<exists>m'. insert_all (cp_exec_rules c) (bm_empty 256 Hash) = Some m'"
    "\<exists>m'. insert_all (map (\<lambda>pid. (pid, 1 :: u8)) (cp_agent_pids c)) (bm_empty 4096 Hash) = Some m'"
    "\<exists>m'. insert_all [(0 :: u32, compiled_config c)] (bm_empty 1 Hash) = Some m'"
    by (rule insert_all_succeeds, use assms in \<open>simp add: bm_empty_def\<close>)+
  moreover have "\<exists>es. lpm_insert_all (cp_net_rules c) [] = Some es"
    by (rule lpm_insert_all_succeeds) (use assms in simp_all)
  ultimately obtain s where s: "populate_maps c ?s0 = Some s"
    by (auto simp: populate_maps_def empty simp del: insert_all.simps)
  with assms(1) empty show ?thesis by (auto simp: installed_def)
qed

text \<open>C39: a compiled policy that fits the maps is installed: with at most 1024 file rules, 256 exec rules,
  256 network rules with prefixes of at most 96 bits, and 4096 agents, no insertion into the maps
  of the freshly loaded object fails.\<close>

theorem fitting_policy_installs:
  assumes "compile_with_hashed_tool_ids h config = Inr c"
    and "length (cp_fs_rules c) \<le> 1024" "length (cp_exec_rules c) \<le> 256" "length (cp_agent_pids c) \<le> 4096"
    and "length (cp_net_rules c) \<le> 256" "list_all (\<lambda>r. nk_prefixlen (fst r) \<le> 96) (cp_net_rules c)"
  shows "\<exists>s. populate_maps c (init_state ev cg cp cr) = Some s \<and> installed h config s"
  using assms by (rule policy_installs)

text \<open>
  A policy with one tool: it may read a directory but not one file of it, run anything but one
  program, and connect to one network except its name server.
\<close>

definition host0 :: host where
  "host0 = \<lparr>host_metadata = (\<lambda>p. if p = ''/etc'' then Some (0x801, 2) else if p = ''/etc/shadow'' then Some (0x801, 77)
       else if p = ''/bin/rm'' then Some (0x801, 90) else None),
     host_socket_addrs = (\<lambda>_. None), host_resolv_conf = Some ''nameserver 10.0.0.2'', host_set_order = remdups\<rparr>"

definition tool0 :: ToolDef where
  "tool0 = \<lparr>td_name = ''bash'',
     td_fs = Some \<lparr>fs_allow = [''/etc/**'', ''/etc/shadow''], fs_deny = [''/etc/shadow'']\<rparr>,
     td_exec = Some \<lparr>exec_allow = [''*''], exec_deny = [''/bin/rm'']\<rparr>,
     td_net = Some \<lparr>net_allow = [''10.0.0.0/8''], net_deny = [''10.0.0.2/32'']\<rparr>\<rparr>"

definition config0 :: IronScopeSection where
  "config0 = \<lparr>sec_agents = [\<lparr>ag_pid = Some 5\<rparr>], sec_tools = [tool0], sec_mode = ''enforce'',
     sec_unknown_tool_policy = ''allow'', sec_resolver_error_policy = ''deny'',
     sec_agent_child_scope = ''protect_only_tool_children'', sec_default_tool_policy = ''allow''\<rparr>"

definition policy0 :: CompiledPolicy where
  "policy0 = policy_of host0 (\<lambda>_ name. user_fnv1a_32 (utf8 name)) config0"

lemma policy0_compiled: "compile_with_hashed_tool_ids host0 config0 = Inr policy0"
  by (simp add: compile_with_hashed_tool_ids_def compile_eq policy0_def first_invalid_def section_choices_def config0_def)

lemma policy0_size:
  "length (cp_fs_rules policy0) \<le> 1024" "length (cp_exec_rules policy0) \<le> 256" "length (cp_agent_pids policy0) \<le> 4096"
  "length (cp_net_rules policy0) \<le> 256" "list_all (\<lambda>r. nk_prefixlen (fst r) \<le> 96) (cp_net_rules policy0)"
proof -
  have "length (cp_fs_rules policy0) = 3" "length (cp_exec_rules policy0) = 2" "length (cp_agent_pids policy0) = 1"
    "length (cp_net_rules policy0) = 3" by code_simp+
  then show "length (cp_fs_rules policy0) \<le> 1024" "length (cp_exec_rules policy0) \<le> 256"
    "length (cp_agent_pids policy0) \<le> 4096" "length (cp_net_rules policy0) \<le> 256" by simp_all
  show "list_all (\<lambda>r. nk_prefixlen (fst r) \<le> 96) (cp_net_rules policy0)" by code_simp
qed

theorem fitting_policy_installs_witness:
  "\<exists>s. populate_maps policy0 state0 = Some s \<and> installed host0 config0 s"
  unfolding state0_def by (rule fitting_policy_installs [OF policy0_compiled policy0_size])

lemma policy0_installs: "\<exists>s. populate_maps policy0 state0 = Some s \<and> installed host0 config0 s"
  unfolding state0_def by (rule policy_installs [OF policy0_compiled policy0_size])

section \<open>File and exec rules\<close>

text \<open>C36: the file table answers what the policy file says.  When the names of the tools have different
  hashes, the kernel's lookup for a tool and an inode gives a denial if a denied path of that tool
  resolves to the inode, else a permission if an allowed one does, and else nothing.\<close>

theorem configured_fs_rules:
  assumes "installed h config s" "distinct (map hashed_id (sec_tools config))"
    and "t \<in> set (sec_tools config)" "td_fs t = Some policy"
  shows "bm_get (TOOL_FS_POLICY s) \<lparr>fp_tool_id = hashed_id t, fp_dev = dev, fp_ino = ino\<rparr> =
    (if list_ex (names_inode h dev ino) (fs_deny policy) then Some PERM_DENY
     else if list_ex (names_inode h dev ino) (fs_allow policy) then Some PERM_ALLOW else None)"
  using installed_fs_get [OF assms(1-3), of dev ino] assms(4)
  by (simp add: entries_say_def fs_lists_def list_ex_iff fs_key_iff)

text \<open>The file that both lists of the tool name is denied.\<close>

theorem configured_fs_rules_witness:
  "\<exists>s. installed host0 config0 s \<and>
     bm_get (TOOL_FS_POLICY s) \<lparr>fp_tool_id = hashed_id tool0, fp_dev = 0x800001, fp_ino = 77\<rparr> = Some PERM_DENY"
proof -
  obtain s where s: "installed host0 config0 s" using policy0_installs by blast
  have "list_ex (names_inode host0 0x800001 77) [''/etc/shadow'']" by code_simp
  then show ?thesis
    using configured_fs_rules [OF s, where t = tool0 and dev = "0x800001" and ino = 77] s
    by (auto simp: config0_def tool0_def)
qed

text \<open>C37: the exec table as the exec hook reads it: a rule for the program itself decides before the
  wildcard, and among rules of the same kind a denial decides before a permission.  Inode 0 of
  device 0, which no file has, stands for the wildcard.\<close>

theorem configured_exec_rules:
  fixes dev :: u32 and ino :: u64
  assumes "installed h config s" "distinct (map hashed_id (sec_tools config))"
    and "t \<in> set (sec_tools config)" "td_exec t = Some policy" "ino \<noteq> 0"
    and no_zero: "\<And>p. resolve_path_inode h p \<noteq> Some (0, 0)"
  defines "this_program \<equiv> list_ex (\<lambda>p. p \<noteq> ''*'' \<and> resolve_path_inode h p = Some (dev, ino))"
  shows "exec_permission (hashed_id t) dev ino s =
    (if this_program (exec_deny policy) then Some PERM_DENY
     else if this_program (exec_allow policy) then Some PERM_ALLOW
     else if ''*'' \<in> set (exec_deny policy) then Some PERM_DENY
     else if ''*'' \<in> set (exec_allow policy) then Some PERM_ALLOW else None)"
proof -
  note get = installed_exec_get [OF assms(1-3)]
  have one: "(\<exists>p \<in> set ps. exec_key h (hashed_id t) p = Some \<lparr>xp_tool_id = hashed_id t, xp_dev = dev, xp_ino = ino\<rparr>)
      \<longleftrightarrow> this_program ps" for ps
    using assms(5) by (auto simp: exec_key_iff this_program_def list_ex_iff)
  have wild: "(\<exists>p \<in> set ps. exec_key h (hashed_id t) p = Some \<lparr>xp_tool_id = hashed_id t, xp_dev = 0, xp_ino = 0\<rparr>)
      \<longleftrightarrow> ''*'' \<in> set ps" for ps
    using no_zero by (auto simp: exec_key_iff)
  show ?thesis
    using get [of dev ino] get [of 0 0] assms(4)
    by (simp add: exec_permission_def entries_say_def exec_lists_def one wild)
qed

text \<open>The tool may run every program but the one it is denied.\<close>

theorem configured_exec_rules_witness:
  "\<exists>s. installed host0 config0 s \<and> exec_permission (hashed_id tool0) 0x800001 90 s = Some PERM_DENY \<and>
     exec_permission (hashed_id tool0) 0x800001 91 s = Some PERM_ALLOW"
proof -
  obtain s where s: "installed host0 config0 s" using policy0_installs by blast
  have z: "resolve_path_inode host0 p \<noteq> Some (0, 0)" for p by (simp add: resolve_path_inode_def host0_def)
  have d: "userspace_dev_to_kernel_dev 0x801 = 0x800001" by code_simp
  have r: "resolve_path_inode host0 ''/bin/rm'' = Some (0x800001, 90)" by (simp add: resolve_path_inode_def host0_def d)
  show ?thesis
    using configured_exec_rules [OF s _ _ _ _ z, where t = tool0 and dev = "0x800001" and ino = 90]
      configured_exec_rules [OF s _ _ _ _ z, where t = tool0 and dev = "0x800001" and ino = 91] s r
    by (auto simp: config0_def tool0_def)
qed

section \<open>Network rules\<close>

lemma rsplitn2_append: "c \<notin> set t \<Longrightarrow> rsplitn2 c (s @ c # t) = [t, s]"
  by (simp add: rsplitn2_def takeWhile_append dropWhile_append takeWhile_eq_all_conv [THEN iffD2])

lemma octets_no: "of_char c \<notin> insert 46 {48..57 :: nat} \<Longrightarrow> c \<notin> set (octets_to_string bs)"
proof -
  assume c: "of_char c \<notin> insert 46 {48..57 :: nat}"
  then have ne: "c \<noteq> CHR ''.''" "c \<notin> set (string_of_nat n)" for n
    using string_of_nat_no [of c n] by auto
  have "c \<notin> set (join ''.'' ss)" if "\<forall>s \<in> set ss. c \<notin> set s" for ss
    using that ne(1) by (induction ss rule: induct_list012) auto
  then show ?thesis using ne(2) by (simp add: octets_to_string_def)
qed

lemma parse_ipv4_octets: "length os = 4 \<Longrightarrow> parse_ipv4 (octets_to_string os) = Some (from_ne_bytes os)"
  by (simp add: parse_ipv4_def parse_octets_to_string)

lemma le_bytes_from_octets: "length os = 4 \<Longrightarrow> le_bytes 4 (from_ne_bytes os :: u32) = os"
  using le_bytes_from by (auto simp: length_Suc_conv numeral_eq_Suc)

lemma parse_cidr:
  assumes "length os = 4" "n < 2 ^ 32"
  shows "parse_net_rule h tool (octets_to_string os @ ''/'' @ string_of_nat n) =
    Some \<lparr>nk_prefixlen = 32 + of_nat n, nk_tool_id = tool, nk_addr = from_ne_bytes os, nk_port = 0\<rparr>"
proof -
  have "CHR ''/'' \<notin> set (octets_to_string os)" "CHR ''/'' \<notin> set (string_of_nat n)"
    by (rule octets_no, simp) (rule string_of_nat_no, simp)
  then have "split_on (CHR ''/'') (octets_to_string os @ ''/'' @ string_of_nat n) = [octets_to_string os, string_of_nat n]"
    by (simp add: split_on_append split_on_single)
  moreover have "parse_uint (2 ^ 32 - 1) (string_of_nat n) = Some n"
    by (rule parse_uint_string_of_nat) (use assms(2) in simp)
  ultimately show ?thesis
    using parse_ipv4_octets [OF assms(1)] by (simp add: parse_net_rule_def Let_def)
qed

text \<open>A network of the policy file reaches the kernel as written.  An entry printed as four octets, a
  slash and a length of at most 32 compiles to a key that covers exactly the destinations of its
  tool whose address agrees with the octets in the first that many bits.\<close>

theorem cidr_rule_compiles:
  assumes "length os = 4" "n \<le> 32"
  shows "\<exists>key. parse_net_rule h tool (octets_to_string os @ ''/'' @ string_of_nat n) = Some key \<and>
    lpm_matches (net_key key) d =
      (nd_tool_id d = tool \<and> take n (bytes_bits (le_bytes 4 (nd_addr d))) = take n (bytes_bits os))"
proof -
  have "32 + of_nat n = (of_nat (32 + n) :: u32)" by simp
  with cidr_matches [OF assms(2)] parse_cidr [OF assms(1), of n h tool] assms show ?thesis
    by (auto simp: net_key_def le_bytes_from_octets simp del: of_nat_add)
qed

lemma bytes_bits_append: "bytes_bits (as @ bs) = bytes_bits as @ bytes_bits bs"
  by (simp add: bytes_bits_def)

lemma full_prefix_matches:
  "lpm_matches (96, x) y \<longleftrightarrow> nd_tool_id x = nd_tool_id y \<and> nd_addr x = nd_addr y \<and> nd_port x = nd_port y"
proof -
  have "lpm_matches (96, x) y \<longleftrightarrow> net_bits x = net_bits y" by (simp add: lpm_matches_def net_bits_parts)
  then show ?thesis
    by (simp add: net_bits_parts append_eq_append_conv bytes_bits_eq_iff le_bytes_eq_iff)
qed

lemma host_port_matches:
  assumes "length os = 4" "port < 2 ^ 16"
  shows "\<exists>key. parse_net_rule h tool (octets_to_string os @ '':'' @ string_of_nat port) = Some key \<and>
    lpm_matches (net_key key) d =
      (nd_tool_id d = tool \<and> le_bytes 4 (nd_addr d) = os \<and> nd_port d = to_be16 (of_nat port))"
proof -
  let ?entry = "octets_to_string os @ '':'' @ string_of_nat port"
  have no: "CHR ''/'' \<notin> set ?entry" "CHR '':'' \<notin> set (string_of_nat port)"
    using octets_no [of "CHR ''/''" os] string_of_nat_no [of "CHR ''/''" port] string_of_nat_no [of "CHR '':''" port]
    by simp_all
  have "parse_uint (2 ^ 16 - 1) (string_of_nat port) = Some port"
    by (rule parse_uint_string_of_nat) (use assms(2) in simp)
  with no parse_ipv4_octets [OF assms(1)] have p: "parse_net_rule h tool ?entry =
      Some \<lparr>nk_prefixlen = 96, nk_tool_id = tool, nk_addr = from_ne_bytes os, nk_port = to_be16 (of_nat port)\<rparr>"
    by (simp add: parse_net_rule_def Let_def rsplitn2_append)
  with p full_prefix_matches show ?thesis
    by (auto simp: net_key_def le_bytes_from_octets [OF assms(1)] from_le_bytes dest: arg_cong [of _ _ "le_bytes 4"])
qed

text \<open>A host with a port compiles to a key that covers exactly the connections of the tool to that
  address and port.\<close>

theorem host_port_rule_compiles:
  assumes "length os = 4" "port < 2 ^ 16"
  shows "\<exists>key. parse_net_rule h tool (octets_to_string os @ '':'' @ string_of_nat port) = Some key \<and>
    lpm_matches (net_key key) d =
      (nd_tool_id d = tool \<and> le_bytes 4 (nd_addr d) = os \<and> nd_port d = to_be16 (of_nat port))"
  using assms by (rule host_port_matches)

theorem cidr_rule_compiles_witness:
  "\<exists>key. parse_net_rule host0 9 ''10.1.0.0/16'' = Some key \<and>
     lpm_matches (net_key key) \<lparr>nd_tool_id = 9, nd_addr = 0x0403010A, nd_port = 0xBB01\<rparr>"
proof -
  have "octets_to_string [10, 1, 0, 0] @ ''/'' @ string_of_nat 16 = ''10.1.0.0/16''" by code_simp
  moreover have "take 16 (bytes_bits (le_bytes 4 (0x0403010A :: u32))) = take 16 (bytes_bits [10, 1, 0, 0])" by code_simp
  ultimately show ?thesis
    using cidr_rule_compiles [of "[10, 1, 0, 0]" 16 host0 9 "\<lparr>nd_tool_id = 9, nd_addr = 0x0403010A, nd_port = 0xBB01\<rparr>"]
    by simp
qed

theorem host_port_rule_compiles_witness:
  "\<exists>key. parse_net_rule host0 9 ''10.1.0.4:443'' = Some key \<and>
     lpm_matches (net_key key) \<lparr>nd_tool_id = 9, nd_addr = 0x0400010A, nd_port = 0xBB01\<rparr>"
proof -
  have "octets_to_string [10, 1, 0, 4] @ '':'' @ string_of_nat 443 = ''10.1.0.4:443''" by code_simp
  moreover have "le_bytes 4 (0x0400010A :: u32) = [10, 1, 0, 4]" "to_be16 443 = 0xBB01" by code_simp+
  ultimately show ?thesis
    using host_port_rule_compiles [of "[10, 1, 0, 4]" 443 host0 9 "\<lparr>nd_tool_id = 9, nd_addr = 0x0400010A, nd_port = 0xBB01\<rparr>"]
    by simp
qed



section \<open>Device numbers\<close>

text \<open>The device number of \<^verbatim>\<open>stat\<close>, as the C library composes it, and the one the kernel keeps in the super block.\<close>

definition makedev :: "u32 \<Rightarrow> u32 \<Rightarrow> u64" where
  "makedev major minor =
     push_bit 8 (ucast (major AND 0xfff)) OR push_bit 32 (ucast (major AND NOT 0xfff)) OR
     ucast (minor AND 0xff) OR push_bit 12 (ucast (minor AND NOT 0xff))"

definition MKDEV :: "u32 \<Rightarrow> u32 \<Rightarrow> u32" where
  "MKDEV major minor = push_bit 20 major OR minor"

lemma dev_masks: "(0xfff :: u64) = mask 12" "(0xff :: u64) = mask 8" "(0xfff :: u32) = mask 12" "(0xff :: u32) = mask 8"
  by (simp_all add: mask_eq_exp_minus_1)

lemma small_bits: "unat w < 2 ^ k \<Longrightarrow> bit w i \<Longrightarrow> i < k" for w :: u32
proof -
  assume "unat w < 2 ^ k" and b: "bit w i"
  then have "take_bit k w = w"
    by (simp add: word_eq_iff_unsigned [where 'a = nat] unsigned_take_bit_eq take_bit_nat_eq_self)
  with b show "i < k" by (metis bit_take_bit_iff)
qed

lemma makedev_major:
  assumes "\<And>i. bit major i \<Longrightarrow> i < 12" "\<And>i. bit minor i \<Longrightarrow> i < 20"
  shows "(drop_bit 8 (makedev major minor) AND 0xfff) OR (drop_bit 32 (makedev major minor) AND NOT 0xfff) = ucast major"
proof (rule bit_word_eqI)
  fix n assume n: "n < LENGTH(64)"
  have z: "\<not> bit major i" if "12 \<le> i" for i using assms(1) that by fastforce
  have y: "\<not> bit minor i" if "20 \<le> i" for i using assms(2) that by fastforce
  show "bit ((drop_bit 8 (makedev major minor) AND 0xfff) OR (drop_bit 32 (makedev major minor) AND NOT 0xfff)) n = bit (ucast major :: u64) n"
    using n unfolding makedev_def dev_masks
    by (cases "n < 12") (simp_all add: bit_simps z y, auto)
qed

lemma makedev_minor:
  assumes "\<And>i. bit major i \<Longrightarrow> i < 12" "\<And>i. bit minor i \<Longrightarrow> i < 20"
  shows "(makedev major minor AND 0xff) OR (drop_bit 12 (makedev major minor) AND NOT 0xff) = ucast minor"
proof (rule bit_word_eqI)
  fix n assume n: "n < LENGTH(64)"
  have z: "\<not> bit major i" if "12 \<le> i" for i using assms(1) that by fastforce
  have y: "\<not> bit minor i" if "20 \<le> i" for i using assms(2) that by fastforce
  show "bit ((makedev major minor AND 0xff) OR (drop_bit 12 (makedev major minor) AND NOT 0xff)) n = bit (ucast minor :: u64) n"
    using n unfolding makedev_def dev_masks
    by (cases "n < 8"; cases "n < 20") (simp_all add: bit_simps z y, use assms(1) in blast)
qed

text \<open>The device of a rule is the device the hooks see: for every device number the kernel can represent,
  twelve bits of major and twenty of minor, the conversion gives the kernel's own encoding.\<close>

theorem device_encoding_agrees:
  assumes "major < 2 ^ 12" "minor < 2 ^ 20"
  shows "userspace_dev_to_kernel_dev (makedev major minor) = MKDEV major minor"
proof -
  have "unat major < 2 ^ 12" "unat minor < 2 ^ 20" using assms by (simp_all add: word_less_nat_alt)
  note b = this [THEN small_bits]
  have "(ucast (ucast w :: u64) :: u32) = w" for w :: u32 by (rule bit_word_eqI) (simp add: bit_simps)
  with makedev_major [of major minor] makedev_minor [of major minor] b show ?thesis
    by (simp add: userspace_dev_to_kernel_dev_def MKDEV_def)
qed

theorem device_encoding_agrees_witness: "userspace_dev_to_kernel_dev (makedev 259 0x12345) = 0x10312345"
proof -
  have "MKDEV 259 0x12345 = 0x10312345" by code_simp
  then show ?thesis using device_encoding_agrees [of 259 "0x12345"] by simp
qed

section \<open>Name servers\<close>

lemma parse_octets_fallback: "discover_dns_resolver_ips h \<noteq> []"
proof -
  have "List.map_filter parse_ipv4 [''127.0.0.53'', ''127.0.0.1''] = [0x3500007F, 0x0100007F]" by code_simp
  then show ?thesis by (simp add: discover_dns_resolver_ips_def Let_def)
qed

definition dns_rules :: "u32 \<Rightarrow> u32 list \<Rightarrow> (ToolNetKey \<times> u8) list" where
  "dns_rules tool ips = map (\<lambda>ip. (\<lparr>nk_prefixlen = 64, nk_tool_id = tool, nk_addr = ip, nk_port = 0\<rparr>, PERM_ALLOW)) ips"

lemma add_dns_allows_eq:
  "add_dns_allows h rules = rules @
     concat (map (\<lambda>tool. dns_rules tool (discover_dns_resolver_ips h)) (host_set_order h (map (nk_tool_id \<circ> fst) rules)))"
proof -
  have "fold (\<lambda>tool. inject_dns_allows tool ips) tools rules = rules @ concat (map (\<lambda>tool. dns_rules tool ips) tools)" for tools ips
    by (induction tools arbitrary: rules) (simp_all add: inject_dns_allows_def dns_rules_def)
  then show ?thesis by (simp add: add_dns_allows_def Let_def parse_octets_fallback)
qed

text \<open>A list of trie entries answers a prefix with a permission.\<close>

definition same_prefix :: "u32 \<times> ToolNetData \<Rightarrow> (u32 \<times> ToolNetData) \<times> u8 \<Rightarrow> bool" where
  "same_prefix key en \<longleftrightarrow> fst (fst en) = fst key \<and> lpm_matches key (snd (fst en))"

definition answers :: "u32 \<times> ToolNetData \<Rightarrow> u8 \<Rightarrow> ((u32 \<times> ToolNetData) \<times> u8) list \<Rightarrow> bool" where
  "answers key perm es \<longleftrightarrow> list_ex (same_prefix key) es \<and> list_all (\<lambda>en. same_prefix key en \<longrightarrow> snd en = perm) es"

lemma lpm_insert_eq:
  "lpm_insert key perm es =
     (if 96 < fst key then None
      else if list_ex (same_prefix key) es then Some (map (\<lambda>en. if same_prefix key en then (key, perm) else en) es)
      else if length es < 256 then Some (es @ [(key, perm)]) else None)"
  by (simp add: lpm_insert_def same_prefix_def [abs_def] Let_def)

lemma same_prefix_refl: "same_prefix key (key, perm)"
  by (simp add: same_prefix_def lpm_matches_def)

lemma same_prefix_trans: "same_prefix key en \<Longrightarrow> same_prefix key' en \<Longrightarrow> same_prefix key (key', perm)"
  by (auto simp: same_prefix_def lpm_matches_def)

lemma same_prefix_back: "same_prefix key (key', perm) \<Longrightarrow> same_prefix key' en \<Longrightarrow> same_prefix key en"
  by (auto simp: same_prefix_def lpm_matches_def)

lemma lpm_insert_answers: "lpm_insert key perm es = Some es' \<Longrightarrow> answers key perm es'"
  by (auto simp: lpm_insert_eq answers_def list_ex_iff list_all_iff same_prefix_refl simp del: if_image_distrib
      split: if_splits)

lemma lpm_insert_set: "lpm_insert key perm es = Some es' \<Longrightarrow> set es' \<subseteq> insert (key, perm) (set es)"
  by (auto simp: lpm_insert_eq split: if_splits)

lemma lpm_insert_keeps:
  assumes ins: "lpm_insert key' perm es = Some es'" and ans: "answers key perm es"
  shows "answers key perm es'"
proof -
  obtain en where en: "en \<in> set es" "same_prefix key en" using ans by (auto simp: answers_def list_ex_iff)
  have "snd x = perm" if "x \<in> set es'" "same_prefix key x" for x
    using that ans lpm_insert_set [OF ins] by (fastforce simp: answers_def list_all_iff)
  moreover have "\<exists>x \<in> set es'. same_prefix key x"
  proof (cases "same_prefix key' en")
    case True
    with ins en(1) have "(key', perm) \<in> set es'" by (auto simp: lpm_insert_eq list_ex_iff image_iff split: if_splits)
    with same_prefix_trans [OF en(2) True] show ?thesis by blast
  next
    case False
    with ins en(1) have "en \<in> set es'" by (auto simp: lpm_insert_eq split: if_splits)
    with en(2) show ?thesis by blast
  qed
  ultimately show ?thesis by (simp add: answers_def list_ex_iff list_all_iff)
qed

lemma lpm_insert_all_answers:
  "lpm_insert_all rules es = Some es' \<Longrightarrow> list_all (\<lambda>r. snd r = perm) rules \<Longrightarrow>
   answers key perm es \<or> key \<in> (net_key \<circ> fst) ` set rules \<Longrightarrow> answers key perm es'"
proof (induction rules es rule: lpm_insert_all.induct)
  case (2 k p r es)
  then obtain es1 where es1: "lpm_insert (net_key k) p es = Some es1" "lpm_insert_all r es1 = Some es'" and p: "p = perm"
    by (auto split: option.splits)
  consider "answers key perm es" | "key = net_key k" | "key \<in> (net_key \<circ> fst) ` set r"
    using "2.prems"(3) by auto
  then have "answers key perm es1 \<or> key \<in> (net_key \<circ> fst) ` set r"
    by cases (use lpm_insert_answers [OF es1(1)] lpm_insert_keeps [OF es1(1) [unfolded p]] p in simp_all)
  with "2.IH" [OF es1] "2.prems"(2) show ?case by simp
qed simp

lemma lpm_insert_all_append:
  "lpm_insert_all (r1 @ r2) es = (case lpm_insert_all r1 es of None \<Rightarrow> None | Some es1 \<Rightarrow> lpm_insert_all r2 es1)"
  by (induction r1 es rule: lpm_insert_all.induct) (simp_all split: option.split)

lemma lpm_insert_all_lengths:
  "lpm_insert_all rules es = Some es' \<Longrightarrow> list_all (\<lambda>r. nk_prefixlen (fst r) \<le> b) rules \<Longrightarrow>
   list_all (\<lambda>en. fst (fst en) \<le> b) es \<Longrightarrow> list_all (\<lambda>en. fst (fst en) \<le> b) es'"
proof (induction rules es rule: lpm_insert_all.induct)
  case (2 k p r es)
  then obtain es1 where es1: "lpm_insert (net_key k) p es = Some es1" "lpm_insert_all r es1 = Some es'"
    by (auto split: option.splits)
  have k: "nk_prefixlen k \<le> b" and es: "en \<in> set es \<Longrightarrow> fst (fst en) \<le> b" for en
    using "2.prems"(2,3) by (simp_all add: list_all_iff)
  have "fst (fst en) \<le> b" if "en \<in> set es1" for en
  proof -
    from that lpm_insert_set [OF es1(1)] consider "en = (net_key k, p)" | "en \<in> set es" by blast
    then show ?thesis by cases (use k es in \<open>simp_all add: net_key_def\<close>)
  qed
  then have "list_all (\<lambda>en. fst (fst en) \<le> b) es1" by (simp add: list_all_iff)
  with "2.IH" [OF es1] "2.prems"(2) show ?case by simp
qed simp

lemma longest_answers:
  assumes "answers key perm es" "lpm_matches key d" "list_all (\<lambda>en. fst (fst en) \<le> fst key) es"
  shows "lpm_get es d = Some perm"
proof -
  obtain en where en: "en \<in> set es" "same_prefix key en" using assms(1) by (auto simp: answers_def list_ex_iff)
  then have "lpm_matches (fst en) d" using assms(2) by (simp add: same_prefix_def lpm_matches_def)
  with en(1) obtain b where b: "lpm_best es d = Some b" using lpm_best_None [of es d] by blast
  from lpm_best_Some [OF b] have mem: "b \<in> set es" "lpm_matches (fst b) d"
    and le: "fst (fst en) \<le> fst (fst b)" using en(1) \<open>lpm_matches (fst en) d\<close> by auto
  have "fst (fst b) \<le> fst key" using assms(3) mem(1) by (simp add: list_all_iff)
  with le en(2) have eq: "fst (fst b) = fst key" by (simp add: same_prefix_def)
  with mem(2) assms(2) have "same_prefix key b" by (simp add: same_prefix_def lpm_matches_def)
  with assms(1) mem(1) have "snd b = perm" by (simp add: answers_def list_all_iff)
  with b show ?thesis by (simp add: lpm_get_def)
qed

text \<open>Name servers cannot be denied by address.  If a tool has any network rule and no rule of the file is
  for a port, then a connection of the tool to a name server of the host is allowed, whatever the
  file says of the server's address: the permission added by the compiler replaces the rule.\<close>

theorem dns_allow_overrides_deny:
  fixes h :: host and config :: IronScopeSection
  defines "rules \<equiv> rl_net (compile_tools h (\<lambda>_ name. user_fnv1a_32 (utf8 name)) (sec_tools config))"
  assumes "installed h config s" "\<And>xs. set (host_set_order h xs) = set xs"
    and short: "list_all (\<lambda>r. nk_prefixlen (fst r) \<le> 64) rules"
    and tool: "tool \<in> (nk_tool_id \<circ> fst) ` set rules" and ip: "ip \<in> set (discover_dns_resolver_ips h)"
  shows "lpm_get (TOOL_NET_POLICY s) \<lparr>nd_tool_id = tool, nd_addr = ip, nd_port = port\<rparr> = Some PERM_ALLOW"
proof -
  let ?key = "net_key \<lparr>nk_prefixlen = 64, nk_tool_id = tool, nk_addr = ip, nk_port = 0\<rparr>"
  let ?dns = "concat (map (\<lambda>tool. dns_rules tool (discover_dns_resolver_ips h)) (host_set_order h (map (nk_tool_id \<circ> fst) rules)))"
  obtain es where es: "lpm_insert_all rules [] = Some es" "lpm_insert_all ?dns es = Some (TOOL_NET_POLICY s)"
    using installed_tables(4) [OF assms(2)] unfolding rules_def [symmetric] add_dns_allows_eq lpm_insert_all_append
    by (auto split: option.splits)
  have dns: "list_all (\<lambda>r. snd r = PERM_ALLOW) ?dns" "list_all (\<lambda>r. nk_prefixlen (fst r) \<le> 64) ?dns"
    by (auto simp: list_all_iff dns_rules_def)
  have "?key \<in> (net_key \<circ> fst) ` set ?dns"
    using tool ip assms(3) by (auto simp: dns_rules_def image_iff)
  with lpm_insert_all_answers [OF es(2) dns(1)] have "answers ?key PERM_ALLOW (TOOL_NET_POLICY s)" by simp
  moreover have "list_all (\<lambda>en. fst (fst en) \<le> 64) (TOOL_NET_POLICY s)"
    using lpm_insert_all_lengths [OF es(2) dns(2) lpm_insert_all_lengths [OF es(1) short]] by simp
  moreover have "lpm_matches ?key \<lparr>nd_tool_id = tool, nd_addr = ip, nd_port = port\<rparr>"
    by (simp add: net_key_def lpm_matches_def net_bits_parts)
  ultimately show ?thesis by (intro longest_answers [of ?key]) (simp_all add: net_key_def)
qed

text \<open>The policy above denies its tool the name server, and the kernel allows it.\<close>

theorem dns_allow_overrides_deny_witness:
  "''10.0.0.2/32'' \<in> set (snd (net_lists tool0)) \<and> (\<exists>s. installed host0 config0 s \<and>
     lpm_get (TOOL_NET_POLICY s) \<lparr>nd_tool_id = hashed_id tool0, nd_addr = 0x0200000A, nd_port = 0x3500\<rparr> = Some PERM_ALLOW)"
proof -
  obtain s where s: "installed host0 config0 s" using policy0_installs by blast
  have "set (host_set_order host0 xs) = set xs" for xs by (simp add: host0_def)
  moreover have "list_all (\<lambda>r. nk_prefixlen (fst r) \<le> 64)
      (rl_net (compile_tools host0 (\<lambda>_ name. user_fnv1a_32 (utf8 name)) (sec_tools config0)))" by code_simp
  moreover have "list_ex (\<lambda>t. t = hashed_id tool0) (map (nk_tool_id \<circ> fst)
      (rl_net (compile_tools host0 (\<lambda>_ name. user_fnv1a_32 (utf8 name)) (sec_tools config0))))"
    "list_ex (\<lambda>ip. ip = 0x0200000A) (discover_dns_resolver_ips host0)" by code_simp+
  ultimately show ?thesis
    using dns_allow_overrides_deny [OF s, where tool = "hashed_id tool0" and ip = "0x0200000A" and port = "0x3500"] s
    by (auto simp: list_ex_iff net_lists_def tool0_def [THEN arg_cong [of _ _ td_net]])
qed

end
