(* ===== verification/Report.thy ===== *)
theory Report
  imports Trail Compilation
begin

text \<open>
  The report at the end of a run, from \<^verbatim>\<open>main.rs\<close> and \<^verbatim>\<open>final_state.rs\<close>: the counts over the
  audit trail, the check that guarded accesses fall between the start and the end of their tool
  context, and the sizes of the kernel maps; and what the trail says of the kernel's events.
\<close>

section \<open>Counts\<close>

definition count_kind :: "u8 \<Rightarrow> RuntimePyEvent list \<Rightarrow> nat" where
  "count_kind kind evs = length (filter (\<lambda>e. rp_kind e = kind) evs)"

record ToolDispatchInfo =
  td_dispatch_name :: "u8 list"
  td_dispatch_count :: u32

definition count_dispatch ::
  "(u32 \<rightharpoonup> u8 list) \<Rightarrow> RuntimePyEvent \<Rightarrow> (string \<rightharpoonup> ToolDispatchInfo) \<Rightarrow> (string \<rightharpoonup> ToolDispatchInfo)" where
  "count_dispatch table ev m =
     (let key = hex_string (rp_tool_id ev);
          entry = (case m key of
                     Some info \<Rightarrow> info
                   | None \<Rightarrow> \<lparr>td_dispatch_name = tool_name_or_hex table (rp_tool_id ev), td_dispatch_count = 0\<rparr>)
      in m(key \<mapsto> entry\<lparr>td_dispatch_count := td_dispatch_count entry + 1\<rparr>))"

definition tool_dispatches :: "(u32 \<rightharpoonup> u8 list) \<Rightarrow> RuntimePyEvent list \<Rightarrow> (string \<rightharpoonup> ToolDispatchInfo)" where
  "tool_dispatches table evs =
     fold (count_dispatch table) (filter (\<lambda>e. rp_kind e = EVENT_TOOL_END \<and> rp_tool_id e \<noteq> 0) evs) Map.empty"

section \<open>Brackets\<close>

definition bracket_step ::
  "RuntimePyEvent \<Rightarrow> (u64 \<rightharpoonup> u64) \<times> (u64 \<Rightarrow> (u64 \<times> u64) list) \<Rightarrow> (u64 \<rightharpoonup> u64) \<times> (u64 \<Rightarrow> (u64 \<times> u64) list)" where
  "bracket_step ev = (\<lambda>(open_starts, brackets).
     if rp_kind ev = EVENT_TOOL_START then (open_starts(rp_ctx_id ev \<mapsto> rp_ts_ns ev), brackets)
     else if rp_kind ev = EVENT_TOOL_END then
       (case open_starts (rp_ctx_id ev) of
          None \<Rightarrow> (open_starts, brackets)
        | Some start_ts \<Rightarrow>
            (open_starts(rp_ctx_id ev := None),
             brackets(rp_ctx_id ev := brackets (rp_ctx_id ev) @ [(start_ts, rp_ts_ns ev)])))
     else (open_starts, brackets))"

text \<open>A context that is still open lasts to the end of time.\<close>

definition brackets_of :: "RuntimePyEvent list \<Rightarrow> u64 \<Rightarrow> (u64 \<times> u64) list" where
  "brackets_of evs =
     (let (open_starts, brackets) = fold bracket_step evs (Map.empty, \<lambda>_. [])
      in (\<lambda>c. case open_starts c of None \<Rightarrow> brackets c | Some start_ts \<Rightarrow> brackets c @ [(start_ts, -1)]))"

definition in_bracket :: "RuntimePyEvent list \<Rightarrow> GuardAuditEvent \<Rightarrow> bool" where
  "in_bracket evs ge =
     list_ex (\<lambda>(s, e). s \<le> ga_ts_ns ge \<and> ga_ts_ns ge \<le> e) (brackets_of evs (ga_ctx_id ge))"

definition bracket_violations :: "RuntimePyEvent list \<Rightarrow> GuardAuditEvent list \<Rightarrow> nat" where
  "bracket_violations evs ges = length (filter (\<lambda>ge. ga_ctx_id ge \<noteq> 0 \<and> \<not> in_bracket evs ge) ges)"

section \<open>The report\<close>

record BracketCheck =
  total_guard_events :: u32
  attributed_guard_events :: u32
  bc_bracket_violations :: u32

record RuntimeFinalState =
  tool_ctx_count :: u32
  task_ctx_count :: u32
  task_ctx_stack_count :: u32
  task_ctx_depth_count :: u32
  pending_tool_close_count :: u32
  pending_frame_tool_count :: u32
  fork_ctx_count :: u32
  workitem_ctx_count :: u32
  pythread_obj_ctx_count :: u32
  pythread_obj_thread_count :: u32
  frame_ctx_count :: u32
  thread_active_ctx_count :: u32
  thread_active_task_count :: u32
  thread_ctx_stack_count :: u32
  thread_ctx_depth_count :: u32
  threadpool_worker_frame_count :: u32
  threadpool_worker_ctx_count :: u32
  threadpool_workitem_thread_count :: u32
  thread_current_frame_count :: u32
  thread_tstate_count :: u32
  frame_entry_stash_count :: u32
  frame_stash_depth_count :: u32
  worker_run_stack_count :: u32
  worker_run_carrier_count :: u32
  worker_run_active_count :: u32

definition map_count :: "('k, 'v) bpf_map \<Rightarrow> u32" where
  "map_count m = of_nat (length (bm_entries m))"

definition final_state :: "bpf_state \<Rightarrow> RuntimeFinalState" where
  "final_state s =
     \<lparr>tool_ctx_count = map_count (TOOL_CTX s), task_ctx_count = map_count (TASK_CTX s),
      task_ctx_stack_count = map_count (TASK_CTX_STACK s), task_ctx_depth_count = map_count (TASK_CTX_DEPTH s),
      pending_tool_close_count = map_count (PENDING_TOOL_CLOSE s),
      pending_frame_tool_count = map_count (PENDING_FRAME_TOOL s), fork_ctx_count = map_count (FORK_CTX s),
      workitem_ctx_count = map_count (WORKITEM_CTX s), pythread_obj_ctx_count = map_count (PYTHREAD_OBJ_CTX s),
      pythread_obj_thread_count = map_count (PYTHREAD_OBJ_THREAD s), frame_ctx_count = map_count (FRAME_CTX s),
      thread_active_ctx_count = map_count (THREAD_ACTIVE_CTX s), thread_active_task_count = map_count (THREAD_ACTIVE_TASK s),
      thread_ctx_stack_count = map_count (THREAD_CTX_STACK s), thread_ctx_depth_count = map_count (THREAD_CTX_DEPTH s),
      threadpool_worker_frame_count = map_count (THREADPOOL_WORKER_FRAME s),
      threadpool_worker_ctx_count = map_count (THREADPOOL_WORKER_CTX s),
      threadpool_workitem_thread_count = map_count (THREADPOOL_WORKITEM_THREAD s),
      thread_current_frame_count = map_count (THREAD_CURRENT_FRAME s), thread_tstate_count = map_count (THREAD_TSTATE s),
      frame_entry_stash_count = map_count (FRAME_ENTRY_STASH s), frame_stash_depth_count = map_count (FRAME_STASH_DEPTH s),
      worker_run_stack_count = map_count (WORKER_RUN_STACK s), worker_run_carrier_count = map_count (WORKER_RUN_CARRIER s),
      worker_run_active_count = map_count (WORKER_RUN_DEPTH s)\<rparr>"

record RuntimeAuditReport =
  rep_py_events :: "RuntimePyEvent list"
  rep_resolver_events :: "ResolverProtocolEvent list"
  rep_guard_events :: "GuardAuditEvent list"
  rep_balanced :: bool
  rep_orphan_frame_ctx :: u32
  rep_tool_dispatches :: "string \<rightharpoonup> ToolDispatchInfo"
  rep_audit_unresolved :: u32
  rep_audit_unattributed :: u32
  rep_task_bind_count :: u32
  rep_task_unbind_count :: u32
  rep_worker_bind_count :: u32
  rep_worker_unbind_count :: u32
  rep_stack_overflow_count :: u32
  rep_dealloc_cleanup_count :: u32
  rep_bracket_check :: BracketCheck
  rep_final_state :: RuntimeFinalState

definition audit_report :: "runtime \<Rightarrow> bpf_state \<Rightarrow> RuntimeAuditReport" where
  "audit_report rt s =
     (let evs = rt_py_events rt; ges = rt_guard_events rt;
          starts = count_kind EVENT_TOOL_START evs; ends = count_kind EVENT_TOOL_END evs
      in \<lparr>rep_py_events = evs, rep_resolver_events = rt_resolver_events rt, rep_guard_events = ges,
          rep_balanced = (starts = ends), rep_orphan_frame_ctx = of_nat (starts - ends),
          rep_tool_dispatches = tool_dispatches (rt_tool_names rt) evs,
          rep_audit_unresolved = of_nat (count_kind EVENT_AUDIT_UNRESOLVED evs),
          rep_audit_unattributed = of_nat (count_kind EVENT_AUDIT_UNATTRIBUTED evs),
          rep_task_bind_count = of_nat (count_kind EVENT_TASK_BIND evs),
          rep_task_unbind_count = of_nat (count_kind EVENT_TASK_UNBIND evs),
          rep_worker_bind_count = of_nat (count_kind EVENT_WORKER_BIND evs),
          rep_worker_unbind_count = of_nat (count_kind EVENT_WORKER_UNBIND evs),
          rep_stack_overflow_count = of_nat (count_kind EVENT_AUDIT_STACK_OVERFLOW evs),
          rep_dealloc_cleanup_count = of_nat (count_kind EVENT_DEALLOC_CLEANUP evs),
          rep_bracket_check = \<lparr>total_guard_events = of_nat (length ges),
             attributed_guard_events = of_nat (length (filter (\<lambda>e. ga_ctx_id e \<noteq> 0) ges)),
             bc_bracket_violations = of_nat (bracket_violations evs ges)\<rparr>,
          rep_final_state = final_state s\<rparr>)"

section \<open>Laws of the report\<close>

text \<open>The starts and ends of a context, in the order of the trail, with their times.\<close>

definition marks :: "u64 \<Rightarrow> RuntimePyEvent list \<Rightarrow> (u8 \<times> u64) list" where
  "marks c evs = map (\<lambda>e. (rp_kind e, rp_ts_ns e))
     (filter (\<lambda>e. rp_ctx_id e = c \<and> (rp_kind e = EVENT_TOOL_START \<or> rp_kind e = EVENT_TOOL_END)) evs)"

definition mark_step :: "u8 \<times> u64 \<Rightarrow> u64 option \<times> (u64 \<times> u64) list \<Rightarrow> u64 option \<times> (u64 \<times> u64) list" where
  "mark_step m = (\<lambda>(opened, bs).
     if fst m = EVENT_TOOL_START then (Some (snd m), bs)
     else case opened of None \<Rightarrow> (opened, bs) | Some t \<Rightarrow> (None, bs @ [(t, snd m)]))"

lemma brackets_by_context:
  "fold bracket_step evs (o1, b1) = (o2, b2) \<Longrightarrow> (o2 c, b2 c) = fold mark_step (marks c evs) (o1 c, b1 c)"
proof (induction evs arbitrary: o1 b1)
  case (Cons ev evs)
  obtain o' b' where st: "bracket_step ev (o1, b1) = (o', b')" by fastforce
  with Cons.prems have "fold bracket_step evs (o', b') = (o2, b2)" by simp
  note IH = Cons.IH [OF this]
  have "fold mark_step (marks c [ev]) (o1 c, b1 c) = (o' c, b' c)"
    using st by (auto simp: marks_def bracket_step_def mark_step_def split: if_splits option.splits)
  moreover have "marks c (ev # evs) = marks c [ev] @ marks c evs" by (simp add: marks_def)
  ultimately show ?case using IH by simp
qed (simp add: marks_def)

lemma brackets_of_marks:
  "brackets_of evs c =
     (case fold mark_step (marks c evs) (None, []) of
        (None, bs) \<Rightarrow> bs | (Some t, bs) \<Rightarrow> bs @ [(t, -1)])"
proof -
  obtain o2 b2 where f: "fold bracket_step evs (Map.empty, \<lambda>_. []) = (o2, b2)" by fastforce
  from brackets_by_context [OF f, of c, symmetric] show ?thesis
    by (simp add: brackets_of_def f split: option.split)
qed

lemma audit_guard_fields [simp]:
  "ga_ctx_id (audit_guard_event table ev) = ge_ctx_id ev" "ga_ts_ns (audit_guard_event table ev) = ge_ts_ns ev"
  by (simp_all add: audit_guard_event_def)

text \<open>C28: the bracket check judges a guarded access by the life of its context.  When the trail has one start
  of the context, at time \<open>a\<close>, and after it no more than one end, the access counts as a violation
  exactly if it is attributed and its time is before \<open>a\<close> or after the end.\<close>

theorem bracket_check_exact:
  assumes "marks (ga_ctx_id ge) evs = (EVENT_TOOL_START, a) # map (Pair EVENT_TOOL_END) ends" "length ends \<le> 1"
  shows "bracket_violations evs [ge] =
    (if ga_ctx_id ge \<noteq> 0 \<and> (ga_ts_ns ge < a \<or> list_ex (\<lambda>b. b < ga_ts_ns ge) ends) then 1 else 0)"
proof -
  have top: "t \<le> (- 1 :: u64)" for t by (rule word_order.extremum)
  consider "ends = []" | b where "ends = [b]" using assms(2) by (cases ends) auto
  then have "in_bracket evs ge \<longleftrightarrow> a \<le> ga_ts_ns ge \<and> list_all (\<lambda>b. ga_ts_ns ge \<le> b) ends"
    by cases (simp_all add: in_bracket_def brackets_of_marks assms(1) mark_step_def top)
  then show ?thesis by (auto simp: bracket_violations_def list_ex_iff list_all_iff not_le)
qed

text \<open>A context that is open from 10 to 20, and an access at 25.\<close>

theorem bracket_check_exact_witness:
  "bracket_violations
     [audit_py_event \<lparr>pe_pid = 1, pe_tid = 1, pe_ts_ns = 10, pe_kind = EVENT_TOOL_START, pe_ctx_id = 42, pe_tool_id = 9,
        pe_carrier_ptr = 0, pe_aux = 0\<rparr>,
      audit_py_event \<lparr>pe_pid = 1, pe_tid = 1, pe_ts_ns = 20, pe_kind = EVENT_TOOL_END, pe_ctx_id = 42, pe_tool_id = 9,
        pe_carrier_ptr = 0, pe_aux = 0\<rparr>]
     [audit_guard_event Map.empty (GuardEvent_default\<lparr>ge_ctx_id := 42, ge_ts_ns := 25\<rparr>)] = 1"
  by (subst bracket_check_exact [where a = 10 and ends = "[20]"])
     (simp_all add: marks_def audit_py_event_def)

section \<open>Reported destinations\<close>

lemma from_to_be16: "to_be16 (from_be16 p) = p"
  by (rule bit_word_eqI) (auto simp: to_be16_def from_be16_def bit_simps)

text \<open>C29: a reported connection can be pasted into a policy.  The address and port that the trail shows for a
  connection, written as a rule, compile to a key that covers exactly that destination.\<close>

theorem reported_destination_roundtrip:
  fixes table :: "u32 \<rightharpoonup> u8 list"
  assumes "ge_kind ev = EVENT_NET_CONNECT"
  defines "ga \<equiv> audit_guard_event table ev"
  shows "\<exists>addr port key. ga_addr ga = Some addr \<and> ga_port ga = Some port \<and>
    parse_net_rule h tool (addr @ '':'' @ string_of_nat (unat port)) = Some key \<and>
    lpm_matches (net_key key) d = (nd_tool_id d = tool \<and> nd_addr d = ge_addr ev \<and> nd_port d = ge_port ev)"
proof -
  let ?a = "format_guard_ipv4 (ge_addr ev)" and ?p = "from_be16 (ge_port ev)"
  have "unat ?p < 2 ^ 16" using unsigned_less [where 'a = nat, of ?p] by simp
  from host_port_matches [OF length_le_bytes this, of h tool "ge_addr ev" d]
  show ?thesis
    using assms(1) by (auto simp: ga_def audit_guard_event_def format_guard_ipv4_def from_to_be16 le_bytes_eq_iff)
qed

theorem reported_destination_roundtrip_witness:
  "\<exists>addr port key. parse_net_rule host0 9 (addr @ '':'' @ string_of_nat (unat (port :: u16))) = Some key \<and>
     lpm_matches (net_key key) \<lparr>nd_tool_id = 9, nd_addr = 0x0400010A, nd_port = 0xBB01\<rparr>"
  using reported_destination_roundtrip [of "GuardEvent_default\<lparr>ge_kind := EVENT_NET_CONNECT, ge_addr := 0x0400010A, ge_port := 0xBB01\<rparr>"
      Map.empty host0 9 "\<lparr>nd_tool_id = 9, nd_addr = 0x0400010A, nd_port = 0xBB01\<rparr>"]
  by auto

section \<open>Reported paths\<close>

lemma lossy_valid: "valid_utf8 bs \<Longrightarrow> from_utf8_lossy bs = bs"
proof (induction bs rule: valid_utf8.induct)
  case (2 a bs)
  consider "a < 0x80" | "\<not> a < 0x80" "in_range 0xC2 0xDF a"
    | "\<not> a < 0x80" "\<not> in_range 0xC2 0xDF a" "in_range 0xE0 0xEF a"
    | "\<not> a < 0x80" "\<not> in_range 0xC2 0xDF a" "\<not> in_range 0xE0 0xEF a" "in_range 0xF0 0xF4 a"
    using "2.prems" by (metis valid_utf8.simps(2))
  then show ?case
  proof cases
    case 1
    with 2 show ?thesis by (simp del: not_less)
  next
    case 2
    with "2.prems" obtain b r where "bs = b # r" "continuation b" "valid_utf8 r"
      by (cases bs) (simp_all del: not_less)
    with 2 "2.IH"(2) show ?thesis by (simp del: not_less valid_utf8.simps)
  next
    case 3
    with "2.prems" obtain b c r where "bs = b # c # r" "second_byte a b" "continuation c" "valid_utf8 r"
      by (cases bs rule: remdups_adj.cases) (simp_all del: not_less)
    with 3 "2.IH"(3) show ?thesis by (simp del: not_less valid_utf8.simps)
  next
    case 4
    with "2.prems" obtain b c d r where "bs = b # c # d # r" "second_byte a b" "continuation c" "continuation d" "valid_utf8 r"
      by (simp del: not_less split: list.splits)
    with 4 "2.IH"(4) show ?thesis by (simp del: not_less valid_utf8.simps)
  qed
qed simp

lemma audited_path:
  assumes "length (as_slice p) < 1024" "valid_utf8 (as_slice p)" "list_all (\<lambda>b. b \<noteq> 0) (as_slice p)"
  shows "extract_guard_path (copy_path_to_event p (guard_event e kd tool c identity source action)) = as_slice p"
proof -
  let ?bs = "as_slice p"
  have "length ?bs < 2 ^ 16" using assms(1) by simp
  then have len: "unat (of_nat (length ?bs) :: u16) = length ?bs"
    by (simp only: unsigned_of_nat) (simp add: take_bit_nat_eq_self)
  have nonzero: "takeWhile (\<lambda>b. b \<noteq> 0) ?bs = ?bs"
    using assms(3) by (simp add: takeWhile_eq_all_conv list_all_iff)
  show ?thesis
  proof (cases "?bs = []")
    case True
    then show ?thesis
      by (simp add: extract_guard_path_def copy_path_to_event_def guard_event_def GuardEvent_zero_def [THEN arg_cong [of _ _ ge_path_len]])
  next
    case False
    then show ?thesis
      using assms(1) len lossy_valid [OF assms(2)]
      by (simp add: extract_guard_path_def copy_path_to_event_def write_at_def Let_def nonzero)
  qed
qed

text \<open>C27: the path in the audit trail is the file's absolute path.  For a file whose names, joined from the root
  of the file system through its mounts, are well-formed UTF-8 of fewer than 1024 bytes, the event
  that a hook writes is shown with exactly that path.\<close>

theorem reported_path_absolute:
  assumes "file_at k f start" "walk k start m ns (entry, mount, parent, root)"
    and "at_fs_root k (entry, mount, parent, root)" "named k entry [0x2F]"
    and "m \<le> MAX_PATH_DEPTH" "length (abs_path ns) < MAX_PATH_LEN"
    and "valid_utf8 (abs_path ns)" "list_all (\<lambda>b. b \<noteq> 0) (abs_path ns)" "state_ok s"
  shows "\<exists>ev. GUARD_EVENTS (emit_fs_event e k f tool c identity source action s) = rb_submit ev (GUARD_EVENTS s) \<and>
    ga_path (audit_guard_event table ev) = abs_path ns"
proof -
  obtain p where p: "core_resolve_file k f MAX_PATH_DEPTH Path_default = Some p" "as_slice p = abs_path ns"
    using resolved_path_absolute [OF assms(1-6)] by blast
  have "extract_guard_path (copy_path_to_event p (guard_event e EVENT_FS_OPEN tool c identity source action)) = abs_path ns"
    using audited_path [of p] assms(6-8) p(2) by simp
  with emit_path_reports [OF assms(9) p(1)] show ?thesis
    by (auto simp: emit_fs_event_def audit_guard_event_def)
qed

theorem reported_path_absolute_witness:
  "\<exists>ev. GUARD_EVENTS (emit_fs_event env0 view_a 1 9 42 IDENTITY_STATE_KNOWN_TOOL POLICY_SOURCE_TOOL ACTION_DENY state0) =
     rb_submit ev (GUARD_EVENTS state0) \<and> ga_path (audit_guard_event Map.empty ev) = utf8 ''/a''"
proof -
  have "abs_path [[0x61]] = utf8 ''/a''" "valid_utf8 (abs_path [[0x61]])" "list_all (\<lambda>b. b \<noteq> 0) (abs_path [[0x61]])"
    by code_simp+
  then show ?thesis
    using reported_path_absolute [OF view_a_file view_a_walk _ view_a_names(2) _ _ _ _ state0_ok]
    by (simp add: at_fs_root_def utf8_def)
qed

end
