(* ===== verification/Resolution.thy ===== *)
theory Resolution
  imports Resolver
begin

text \<open>
  What the resolver makes of the interpreter's objects: strings in each of their representations,
  dictionaries, and tools by the name their attribute dictionary gives them.
\<close>

section \<open>Strings\<close>

datatype py_repr = Ascii | Ucs1 | Ucs2 | Ucs4

primrec width_of :: "py_repr \<Rightarrow> nat" where
  "width_of Ascii = 1"
| "width_of Ucs1 = 1"
| "width_of Ucs2 = 2"
| "width_of Ucs4 = 4"

primrec fits :: "py_repr \<Rightarrow> u32 \<Rightarrow> bool" where
  "fits Ascii cp = (cp < 0x80)"
| "fits Ucs1 cp = (cp < 0x100)"
| "fits Ucs2 cp = (cp < 0x10000)"
| "fits Ucs4 cp = True"

definition data_offset :: "LiveCpythonResolver \<Rightarrow> py_repr \<Rightarrow> u64" where
  "data_offset c rep =
     (if rep = Ascii then unicode_compact_ascii_data (off c) else unicode_compact_non_ascii_data (off c))"

text \<open>A compact string object of the interpreter with given code points.\<close>

definition str_object :: "LiveCpythonResolver \<Rightarrow> u64 \<Rightarrow> py_repr \<Rightarrow> u32 list \<Rightarrow> bool" where
  "str_object c obj rep cps \<longleftrightarrow>
     read_isize c (obj + unicode_length (off c)) = Some (int (length cps)) \<and>
     (\<exists>state. read_u32 (lr_reader c) (obj + unicode_state (off c)) = Some state \<and>
        drop_bit 5 state AND 1 = 1 \<and>
        (if rep = Ascii then drop_bit 6 state AND 1 = 1
         else drop_bit 6 state AND 1 \<noteq> 1 \<and> drop_bit 2 state AND 7 = of_nat (width_of rep))) \<and>
     read_exact_at (lr_reader c) (obj + data_offset c rep) (length cps * width_of rep) =
       Some (concat (map (le_bytes (width_of rep)) cps)) \<and>
     list_all (fits rep) cps \<and> int (length cps * width_of rep) \<le> MAX_UNICODE_BYTES"

lemma read_str_object:
  assumes "str_object c obj rep cps"
  shows "read_unicode c obj = decode_unicode (width_of rep) (concat (map (le_bytes (width_of rep)) cps))"
proof -
  have "int (length cps) \<le> int (length cps * width_of rep)" by (cases rep) simp_all
  also have "\<dots> \<le> 16384" using assms by (simp only: str_object_def)
  finally have len: "\<not> (int (length cps) < 0 \<or> 16384 < int (length cps))" by simp
  obtain state where "read_u32 (lr_reader c) (obj + unicode_state (off c)) = Some state"
    "unicode_data c obj state = Some (obj + data_offset c rep, width_of rep)"
    using assms by (cases rep) (auto simp: str_object_def unicode_data_def data_offset_def Let_def)
  with assms len show ?thesis by (auto simp: str_object_def read_unicode_def)
qed

lemma valid_utf8_ascii: "list_all (\<lambda>b. b < 0x80) bs \<Longrightarrow> valid_utf8 bs"
  by (induction bs) simp_all

lemma chunks_exact_concat:
  "0 < n \<Longrightarrow> chunks_exact n (concat (map (le_bytes n) cps)) = map (\<lambda>cp. from_ne_bytes (le_bytes n cp)) cps"
proof (induction cps)
  case (Cons cp cps)
  then show ?case by (subst chunks_exact.simps) simp
qed (simp add: chunks_exact.simps)

lemma le_bytes_1: "le_bytes (Suc 0) w = [ucast w]"
  by (simp add: le_bytes_def)

lemma le_bytes_2: "le_bytes 2 w = [ucast w, ucast (drop_bit 8 w)]"
  by (simp add: le_bytes_def upt_rec)

lemma from_le_bytes_2: "from_ne_bytes (le_bytes 2 cp) = (ucast cp :: u16)" for cp :: u32
proof (rule bit_word_eqI)
  fix n assume n: "n < LENGTH(16)"
  have "bit (from_ne_bytes (le_bytes 2 cp) :: u16) n \<longleftrightarrow> n < 8 \<and> bit cp n \<or> 8 \<le> n \<and> n - 8 < 8 \<and> bit cp n"
    using n by (auto simp: from_ne_bytes_def le_bytes_2 bit_simps)
  with n show "bit (from_ne_bytes (le_bytes 2 cp) :: u16) n = bit (ucast cp :: u16) n"
    by (auto simp: bit_simps)
qed

lemma decode_ascii: "list_all (fits Ascii) cps \<Longrightarrow>
  decode_unicode (Suc 0) (concat (map (le_bytes (Suc 0)) cps)) = Some (concat (map encode_utf8 cps))"
proof -
  assume a: "list_all (fits Ascii) cps"
  have e: "encode_utf8 cp = [ucast cp]" if "fits Ascii cp" for cp using that by (simp add: encode_utf8_def Let_def)
  have s: "(ucast cp :: u8) < 0x80" if "fits Ascii cp" for cp
    using that by (simp add: word_less_nat_alt unsigned_ucast_eq take_bit_nat_eq_self)
  have "concat (map (le_bytes (Suc 0)) cps) = concat (map encode_utf8 cps)"
    using a e by (induction cps) (simp_all add: le_bytes_1)
  moreover have "list_all (\<lambda>b. b < 0x80) (concat (map (le_bytes (Suc 0)) cps) :: u8 list)"
    using a s by (induction cps) (simp_all add: le_bytes_1)
  ultimately show ?thesis by (simp add: decode_unicode_def from_utf8_def valid_utf8_ascii)
qed

lemma decode_ucs4: "list_all is_scalar cps \<Longrightarrow>
  decode_unicode 4 (concat (map (le_bytes 4) cps)) = Some (concat (map encode_utf8 cps))"
proof -
  assume "list_all is_scalar cps"
  then have "from_ucs4 cps = Some (concat (map encode_utf8 cps))" by (induction cps) simp_all
  then show ?thesis by (simp add: decode_unicode_def chunks_exact_concat from_le_bytes)
qed

lemma decode_ucs2: "list_all is_scalar cps \<Longrightarrow> list_all (fits Ucs2) cps \<Longrightarrow>
  decode_unicode 2 (concat (map (le_bytes 2) cps)) = Some (concat (map encode_utf8 cps))"
proof -
  assume sc: "list_all is_scalar cps" and ft: "list_all (fits Ucs2) cps"
  have u: "ucast (ucast cp :: u16) = cp" "(ucast cp :: u16) < 0xD800 \<or> 0xDFFF < (ucast cp :: u16)"
    if "is_scalar cp" "fits Ucs2 cp" for cp :: u32
  proof -
    have "unat cp < 65536" using that by (simp add: word_less_nat_alt)
    then have un: "unat (ucast cp :: u16) = unat cp" by (simp add: unsigned_ucast_eq take_bit_nat_eq_self)
    then show "ucast (ucast cp :: u16) = cp"
      by (simp add: word_eq_iff_unsigned [where 'a = nat] unsigned_ucast_eq unsigned_take_bit_eq take_bit_nat_eq_self)
    show "(ucast cp :: u16) < 0xD800 \<or> 0xDFFF < (ucast cp :: u16)"
      using that(1) un by (auto simp: is_scalar_def word_less_nat_alt word_le_nat_alt)
  qed
  have "from_utf16 (map (\<lambda>cp. ucast cp) cps) = Some (concat (map encode_utf8 cps))"
    using sc ft by (induction cps) (simp_all add: u)
  then show ?thesis by (simp add: decode_unicode_def chunks_exact_concat from_le_bytes_2)
qed


text \<open>A string stored with one byte to the character but not ASCII is taken for UTF-8: its Latin-1 bytes
  are the result if they happen to be well formed, and the name is refused otherwise.\<close>

theorem latin1_read_as_utf8:
  assumes "str_object c obj Ucs1 (map ucast bs)"
  shows "read_unicode c obj = (if valid_utf8 bs then Some bs else None)"
proof -
  have "(ucast (ucast b :: u32) :: u8) = b" for b by (rule bit_word_eqI) (simp add: bit_simps)
  then have "concat (map (le_bytes (Suc 0)) (map ucast bs :: u32 list)) = bs"
    by (induction bs) (simp_all add: le_bytes_1)
  then show ?thesis
    unfolding read_str_object [OF assms] by (simp add: decode_unicode_def from_utf8_def)
qed

section \<open>Dictionaries\<close>

definition key_text :: "LiveCpythonResolver \<Rightarrow> u64 \<Rightarrow> u8 list" where
  "key_text c k = (case read_unicode c k of Some name \<Rightarrow> name | None \<Rightarrow> [])"

text \<open>A dictionary of the interpreter with given entries, unused ones included.\<close>

definition dict_object :: "LiveCpythonResolver \<Rightarrow> u64 \<Rightarrow> (u64 \<times> u64) list \<Rightarrow> bool" where
  "dict_object c dict items \<longleftrightarrow>
     (\<exists>used keys vals kind log2.
        read_isize c (dict + dict_ma_used (off c)) = Some used \<and> 0 < used \<and>
        read_usize c (dict + dict_ma_keys (off c)) = Some keys \<and> keys \<noteq> 0 \<and>
        read_usize c (dict + dict_ma_values (off c)) = Some vals \<and>
        read_u8 (lr_reader c) (keys + dict_keys_kind (off c)) = Some kind \<and>
        read_u8 (lr_reader c) (keys + dict_keys_log2_index_bytes (off c)) = Some log2 \<and> log2 < 64 \<and>
        read_isize c (keys + dict_keys_nentries (off c)) = Some (int (length items)) \<and> length items \<le> 4096 \<and>
        map (dict_entry c kind vals (align_up (keys + dict_keys_indices (off c) + push_bit (unat log2) 1) 8))
          [0..<length items] = map Some items)"

definition lookup_item :: "LiveCpythonResolver \<Rightarrow> u8 list \<Rightarrow> (u64 \<times> u64) list \<Rightarrow> u64 option" where
  "lookup_item c key items =
     map_option snd (List.find (\<lambda>(k, v). k \<noteq> 0 \<and> v \<noteq> 0 \<and> key_text c k = key) items)"

lemma dict_scan_find:
  "map entry [idx..<idx + length items] = map Some items \<Longrightarrow>
   dict_scan c entry key idx (length items) = Some (lookup_item c key items)"
proof (induction items arbitrary: idx)
  case (Cons it items)
  have "[idx..<idx + length (it # items)] = idx # [Suc idx..<Suc idx + length items]"
    by (simp add: upt_conv_Cons del: upt_Suc)
  with Cons.prems have "entry idx = Some it" "map entry [Suc idx..<Suc idx + length items] = map Some items"
    by (simp_all del: upt_Suc)
  with Cons.IH [of "Suc idx"] show ?case
    by (cases it) (auto simp: lookup_item_def key_text_def)
qed (simp add: lookup_item_def)

lemma read_dict_object: "dict_object c dict items \<Longrightarrow> read_dict_item c dict key = Some (lookup_item c key items)"
  using dict_scan_find [of _ 0 items c key]
  by (auto simp: dict_object_def read_dict_item_def Let_def not_le)

text \<open>Looking up a name in a dictionary of the interpreter, whichever the layout of its key table, gives
  the value of the first used entry whose key reads as that name, and nothing if there is none.\<close>

theorem read_dict_item_finds:
  assumes "dict_object c dict items"
  shows "read_dict_item c dict key = Some (lookup_item c key items)"
  using assms by (rule read_dict_object)

section \<open>Tools\<close>

text \<open>An instance whose attribute dictionary is managed by the interpreter.\<close>

definition managed_object :: "LiveCpythonResolver \<Rightarrow> u64 \<Rightarrow> u64 \<Rightarrow> bool" where
  "managed_object c obj dict \<longleftrightarrow> dict \<noteq> 0 \<and>
     Option.bind (live_read_type_ptr c obj) (\<lambda>tp. read_isize c (tp + type_tp_dictoffset (off c))) = Some (-1) \<and>
     Option.bind (offset_addr obj (managed_dict_ptr_from_object (off c))) (read_usize c) = Some dict"

lemma read_managed_attr:
  assumes "managed_object c obj dict" "dict_object c dict items"
  shows "read_attr c obj key = Some (lookup_item c key items)"
proof -
  obtain tp where "live_read_type_ptr c obj = Some tp" "read_isize c (tp + type_tp_dictoffset (off c)) = Some (-1)"
    using assms(1) by (auto simp: managed_object_def bind_eq_Some_conv)
  with assms show ?thesis
    by (simp add: managed_object_def read_attr_def attr_dict_def Let_def read_dict_object)
qed

lemma resolve_named_tool:
  assumes "managed_object c obj dict" "dict_object c dict items" "lookup_item c (utf8 ''name'') items = Some str"
    and "read_unicode c str = Some name" "name \<noteq> []"
  shows "resolve_tool (live c) obj = Some \<lparr>rt_name = name, rt_tool_id = user_fnv1a_32 name\<rparr>"
  using assms read_managed_attr [OF assms(1,2), of "utf8 ''name''"] by (simp add: resolve_tool_def live_def)

text \<open>C31: a tool is identified by its name attribute: when the attribute is a non-empty string the resolver
  reads correctly, the tool's identifier is the hash of that string, the same function of the
  name that the policy compiler applies.\<close>

theorem tool_resolved_by_name:
  assumes "managed_object c obj dict" "dict_object c dict items" "lookup_item c (utf8 ''name'') items = Some str"
    and "read_unicode c str = Some name" "name \<noteq> []"
  shows "resolve_tool (live c) obj = Some \<lparr>rt_name = name, rt_tool_id = user_fnv1a_32 name\<rparr>"
  using assms by (rule resolve_named_tool)

subsection \<open>An instance in memory\<close>

text \<open>A tool object at \<open>0x1000\<close> whose dictionary binds \<open>name\<close> to the string \<open>bash\<close>.\<close>

definition segments :: "(u64 \<times> u8 list) list" where
  "segments =
     [(0x0FE8, le_bytes 8 (0x3000 :: u64)), (0x1008, le_bytes 8 (0x2000 :: u64)), (0x2120, le_bytes 8 (-1 :: u64)),
      (0x3010, le_bytes 8 (1 :: u64)), (0x3020, le_bytes 8 (0x4000 :: u64)), (0x3028, le_bytes 8 (0 :: u64)),
      (0x4009, [3]), (0x400A, [1]), (0x4018, le_bytes 8 (1 :: u64)),
      (0x4028, le_bytes 8 (0x5000 :: u64)), (0x4030, le_bytes 8 (0x6000 :: u64)),
      (0x5010, le_bytes 8 (4 :: u64)), (0x5020, le_bytes 4 (100 :: u32)), (0x5028, utf8 ''name''),
      (0x6010, le_bytes 8 (4 :: u64)), (0x6020, le_bytes 4 (100 :: u32)), (0x6028, utf8 ''bash''),
      (0x7010, le_bytes 8 (2 :: u64)), (0x7020, le_bytes 4 (36 :: u32)), (0x7048, [0xC3, 0xA9])]"

definition reader0 :: ProcessReader where
  "reader0 = \<lparr>process_vm_readv = (\<lambda>a n. map_option snd (List.find (\<lambda>(b, bs). a = b \<and> length bs = n) segments)),
     proc_mem = (\<lambda>_ _. None)\<rparr>"

definition resolver0 :: LiveCpythonResolver where
  "resolver0 = \<lparr>lr_reader = reader0, lr_profile = profile_312 \<lparr>pv_major = 3, pv_minor = 12, pv_micro = 3\<rparr>\<rparr>"

lemma resolver0_strings:
  "str_object resolver0 0x6000 Ascii [98, 97, 115, 104]" "str_object resolver0 0x7000 Ucs1 (map ucast [0xC3 :: u8, 0xA9])"
proof -
  have "read_isize resolver0 (0x6000 + unicode_length (off resolver0)) = Some 4"
    "read_u32 reader0 (0x6000 + unicode_state (off resolver0)) = Some 100"
    "read_exact_at reader0 (0x6000 + data_offset resolver0 Ascii) (Suc (Suc (Suc (Suc 0)))) = Some [98, 97, 115, 104]"
    "read_isize resolver0 (0x7000 + unicode_length (off resolver0)) = Some 2"
    "read_u32 reader0 (0x7000 + unicode_state (off resolver0)) = Some 36"
    "read_exact_at reader0 (0x7000 + data_offset resolver0 Ucs1) (Suc (Suc 0)) = Some [0xC3, 0xA9]"
    by code_simp+
  moreover have "lr_reader resolver0 = reader0" by (simp add: resolver0_def)
  ultimately show "str_object resolver0 0x6000 Ascii [98, 97, 115, 104]"
    "str_object resolver0 0x7000 Ucs1 (map ucast [0xC3 :: u8, 0xA9])"
    by (auto simp: str_object_def le_bytes_1 intro!: exI [of _ 100] exI [of _ 36])
qed

lemma resolver0_tool: "managed_object resolver0 0x1000 0x3000" "dict_object resolver0 0x3000 [(0x5000, 0x6000)]"
proof -
  show "managed_object resolver0 0x1000 0x3000" by code_simp
  have r: "lr_reader resolver0 = reader0" by (simp add: resolver0_def)
  have "read_isize resolver0 (0x3000 + dict_ma_used (off resolver0)) = Some 1"
    "read_usize resolver0 (0x3000 + dict_ma_keys (off resolver0)) = Some 0x4000"
    "read_usize resolver0 (0x3000 + dict_ma_values (off resolver0)) = Some 0"
    "read_u8 reader0 (0x4000 + dict_keys_kind (off resolver0)) = Some 1"
    "read_u8 reader0 (0x4000 + dict_keys_log2_index_bytes (off resolver0)) = Some 3"
    "read_isize resolver0 (0x4000 + dict_keys_nentries (off resolver0)) = Some 1"
    "dict_entry resolver0 1 0 (align_up (0x4000 + dict_keys_indices (off resolver0) + push_bit (unat (3 :: u8)) 1) 8) 0 =
       Some (0x5000, 0x6000)"
    by code_simp+
  then show "dict_object resolver0 0x3000 [(0x5000, 0x6000)]"
    unfolding dict_object_def r
    by (intro exI [of _ "1 :: int"] exI [of _ "0x4000 :: u64"] exI [of _ "0 :: u64"] exI [of _ "1 :: u8"] exI [of _ "3 :: u8"])
       simp
qed

lemma resolver0_reads:
  "lookup_item resolver0 (utf8 ''name'') [(0x5000, 0x6000)] = Some 0x6000" "read_unicode resolver0 0x6000 = Some (utf8 ''bash'')"
  by code_simp+


text \<open>The two-character name \<open>C3 A9\<close> in Latin-1 is read as the one-character name those bytes spell in UTF-8.\<close>

theorem latin1_read_as_utf8_witness: "read_unicode resolver0 0x7000 = Some (encode_utf8 0xE9)"
proof -
  have "valid_utf8 [0xC3, 0xA9]" "encode_utf8 0xE9 = [0xC3, 0xA9]" by code_simp+
  then show ?thesis using latin1_read_as_utf8 [OF resolver0_strings(2)] by simp
qed

theorem read_dict_item_finds_witness: "read_dict_item resolver0 0x3000 (utf8 ''name'') = Some (Some 0x6000)"
  using read_dict_item_finds [OF resolver0_tool(2)] resolver0_reads(1) by simp

theorem tool_resolved_by_name_witness:
  "resolve_tool (live resolver0) 0x1000 = Some \<lparr>rt_name = utf8 ''bash'', rt_tool_id = user_fnv1a_32 (utf8 ''bash'')\<rparr>"
  using tool_resolved_by_name [OF resolver0_tool resolver0_reads] by (simp add: utf8_def)

end
