(* ===== verification/System.thy ===== *)
theory System
  imports Brackets Report Resolution
begin

text \<open>
  The system as a whole: the programs of \<^verbatim>\<open>ironscope-ebpf/src/main.rs\<close> with the handler behind each,
  the user-space loop of \<^verbatim>\<open>run_cpython_runtime\<close> one system call at a time, and their interleaving
  from the moment the programs are attached.  The lemmas carry the invariants of the components
  through every run and state what the loop and the hooks achieve together.
\<close>

section \<open>Programs\<close>

text \<open>
  The entry points, with what the kernel hands to each: the child of a fork, and the kernel objects
  behind the arguments of a hook.
\<close>

datatype program =
    sched_process_fork fork_child | sched_process_exit | sched_process_exec
  | eval_frame_entry | eval_frame_func_entry | eval_resume
  | worker_eval_frame_entry | worker_eval_frame_func_entry | worker_eval_resume
  | eval_frame_end_rv | eval_frame_end_rc | eval_frame_end_exc
  | asyncio_task_init | asyncio_task_step | asyncio_task_step_ret
  | asyncio_task_eager_start | asyncio_task_eager_start_ret
  | gen_dealloc
  | ag_file_open kernel_view | ag_bprm_check kernel_view | ag_socket_connect kernel_view
  | ag_fentry_file_open kernel_view | ag_fentry_bprm_check kernel_view | ag_fentry_socket_connect kernel_view

fun run_program :: "program \<Rightarrow> probe_env \<Rightarrow> bpf_state \<Rightarrow> int \<times> bpf_state" where
  "run_program (sched_process_fork child) e s = (0, snd (handle_sched_fork e child s))"
| "run_program sched_process_exit e s = (0, handle_sched_exit e s)"
| "run_program sched_process_exec e s = (0, handle_sched_exec e s)"
| "run_program eval_frame_entry e s = (0, snd (handle_frame_entry e s))"
| "run_program eval_frame_func_entry e s = (0, snd (handle_frame_func_entry e s))"
| "run_program eval_resume e s = (0, snd (handle_frame_resume e s))"
| "run_program worker_eval_frame_entry e s = (0, snd (worker_handle_frame_entry e s))"
| "run_program worker_eval_frame_func_entry e s = (0, snd (worker_handle_frame_func_entry e s))"
| "run_program worker_eval_resume e s = (0, snd (worker_handle_frame_resume e s))"
| "run_program eval_frame_end_rv e s = (0, snd (handle_frame_exit_normal e s))"
| "run_program eval_frame_end_rc e s = (0, snd (handle_frame_exit_normal e s))"
| "run_program eval_frame_end_exc e s = (0, snd (handle_frame_exit_exception e s))"
| "run_program asyncio_task_init e s = (0, snd (handle_task_init e s))"
| "run_program asyncio_task_step e s = (0, snd (handle_task_step_entry e s))"
| "run_program asyncio_task_step_ret e s = (0, snd (handle_task_step_return e s))"
| "run_program asyncio_task_eager_start e s = (0, snd (handle_task_step_entry e s))"
| "run_program asyncio_task_eager_start_ret e s = (0, snd (handle_task_step_return e s))"
| "run_program gen_dealloc e s =
     (case arg e 0 of None \<Rightarrow> (0, s) | Some obj_ptr \<Rightarrow> (0, handle_pyobj_dealloc e obj_ptr s))"
| "run_program (ag_file_open k) e s = handle_file_open e k s"
| "run_program (ag_bprm_check k) e s = handle_bprm_check e k s"
| "run_program (ag_socket_connect k) e s = handle_socket_connect e k s"
| "run_program (ag_fentry_file_open k) e s = (0, handle_fentry_file_open e k s)"
| "run_program (ag_fentry_bprm_check k) e s = (0, handle_fentry_bprm_check e k s)"
| "run_program (ag_fentry_socket_connect k) e s = (0, handle_fentry_socket_connect e k s)"

text \<open>The programs that are attached before the policy is in the maps.\<close>

fun attached_early :: "program \<Rightarrow> bool" where
  "attached_early (sched_process_fork child) = True"
| "attached_early sched_process_exit = True"
| "attached_early sched_process_exec = True"
| "attached_early (ag_file_open k) = True"
| "attached_early (ag_bprm_check k) = True"
| "attached_early (ag_socket_connect k) = True"
| "attached_early (ag_fentry_file_open k) = True"
| "attached_early (ag_fentry_bprm_check k) = True"
| "attached_early (ag_fentry_socket_connect k) = True"
| "attached_early p = False"

lemma run_program_policy [frame_simps, simp]: "policy_view (snd (run_program p e s)) = policy_view s"
  by (cases p) (simp_all add: handle_sched_exec_def split: option.split)

lemma run_program_ok [ok_intros]: "state_ok s \<Longrightarrow> state_ok (snd (run_program p e s))"
  by (cases p) (auto simp: handle_sched_exec_def intro!: ok_intros split: option.split)

text \<open>What every step of the kernel promises, and any sequence of them.\<close>

locale kernel_steps =
  fixes step :: "'a \<Rightarrow> bpf_state \<Rightarrow> bpf_state"
  assumes step_policy: "policy_view (step a s) = policy_view s"
    and step_ok: "state_ok s \<Longrightarrow> state_ok (step a s)"
begin

lemma all_policy: "policy_view (fold step as s) = policy_view s"
  by (induction as arbitrary: s) (simp_all add: step_policy)

lemma all_ok: "state_ok s \<Longrightarrow> state_ok (fold step as s)"
  by (induction as arbitrary: s) (simp_all add: step_ok)

end

interpretation programs: kernel_steps "\<lambda>(p, e) s. snd (run_program p e s)"
  by unfold_locales (auto intro: run_program_ok)

lemma run_program_returns: "may_return s (fst (run_program p e s))"
  by (cases p) (simp_all add: hook_returns verdict_may_return(1) split: option.split)

section \<open>The user-space loop, one step at a time\<close>

text \<open>
  Every step makes at most one system call on a map.  Between a record taken from the resolver ring
  and the next one, the loop may hold a resolution whose object is cached already and whose context
  is still to be read, a context it has read and is about to write back, or a failure to mark.
\<close>

datatype pending =
    Cached ResolverEvent ResolvedLangChainTool
  | Read_ctx ResolverEvent ResolvedLangChainTool ToolCtx
  | Failed ResolverEvent
  | Read_failed ResolverEvent ToolCtx

definition learn_name :: "ResolvedLangChainTool \<Rightarrow> runtime \<Rightarrow> runtime" where
  "learn_name tool rt = rt\<lparr>rt_tool_names := (rt_tool_names rt)(rt_tool_id tool \<mapsto> rt_name tool)\<rparr>"

definition judge_candidate ::
  "LiveCpythonResolver \<Rightarrow> ResolverEvent \<Rightarrow> runtime \<times> bpf_state \<Rightarrow> pending option \<times> runtime \<times> bpf_state" where
  "judge_candidate c ev = (\<lambda>(rt, s).
     case resolve_candidate c ev of
       None \<Rightarrow> (Some (Failed ev), rt, s)
     | Some tool \<Rightarrow> (Some (Cached ev tool), rt, publish_obj ev (rt_tool_id tool) s))"

definition take_resolver_event ::
  "(u32 \<Rightarrow> LiveCpythonResolver option) \<Rightarrow> ResolverEvent \<Rightarrow> runtime \<times> bpf_state \<Rightarrow>
     pending option \<times> runtime \<times> bpf_state" where
  "take_resolver_event detect ev = (\<lambda>(rt, s).
     let rt1 = rt\<lparr>rt_resolver_events := rt_resolver_events rt @ [audit_resolver_event ev]\<rparr> in
     if re_kind ev \<noteq> EVENT_RESOLVER_CANDIDATE then (None, rt1, s)
     else case rt_resolvers rt1 (re_pid ev) of
            Some c \<Rightarrow> judge_candidate c ev (rt1, s)
          | None \<Rightarrow>
              (case detect (re_pid ev) of
                 None \<Rightarrow> (Some (Failed ev), rt1, s)
               | Some c \<Rightarrow>
                   judge_candidate c ev (rt1\<lparr>rt_resolvers := (rt_resolvers rt1)(re_pid ev \<mapsto> c)\<rparr>, s)))"

fun continue_resolver :: "pending \<Rightarrow> runtime \<times> bpf_state \<Rightarrow> pending option \<times> runtime \<times> bpf_state" where
  "continue_resolver (Cached ev tool) (rt, s) =
     (if re_ctx_id ev = 0 then (None, learn_name tool rt, s)
      else case bm_get (TOOL_CTX s) (re_ctx_id ev) of
             None \<Rightarrow> (None, learn_name tool rt, s)
           | Some ctx \<Rightarrow> (Some (Read_ctx ev tool ctx), rt, s))"
| "continue_resolver (Read_ctx ev tool ctx) (rt, s) =
     (let (ok, s1) = write_ctx (re_ctx_id ev) (set_resolved (rt_tool_id tool) ctx) s
      in (None, learn_name tool
            (if ok then rt\<lparr>rt_py_events := backfill (re_ctx_id ev) (rt_tool_id tool) (rt_py_events rt)\<rparr> else rt), s1))"
| "continue_resolver (Failed ev) (rt, s) =
     (if re_ctx_id ev = 0 then (None, rt, s)
      else case bm_get (TOOL_CTX s) (re_ctx_id ev) of
             None \<Rightarrow> (None, rt, s)
           | Some ctx \<Rightarrow> (Some (Read_failed ev ctx), rt, s))"
| "continue_resolver (Read_failed ev ctx) (rt, s) =
     (let (ok, s1) = write_ctx (re_ctx_id ev) (mark_tool_ctx_resolver_error ctx) s
      in (None, if ok then rt\<lparr>rt_resolver_events := rt_resolver_events rt @ [resolver_failed_event ev]\<rparr> else rt, s1))"

text \<open>The loop drains the rings in turn, each until it is empty, and starts over.\<close>

datatype stage = Py_ring | Resolver_ring | Guard_ring

record system =
  sys_kernel :: bpf_state
  sys_user :: runtime
  sys_stage :: stage
  sys_hand :: "pending option"
  py_next :: nat
  resolver_next :: nat
  guard_next :: nat

definition next_record :: "'v ringbuf \<Rightarrow> nat \<Rightarrow> 'v option" where
  "next_record r i = (if i < length (rb_log r) then Some (rb_log r ! i) else None)"

definition user_step :: "(u32 \<Rightarrow> LiveCpythonResolver option) \<Rightarrow> system \<Rightarrow> system" where
  "user_step detect y =
     (case sys_hand y of
        Some p \<Rightarrow>
          let (p', rt, s) = continue_resolver p (sys_user y, sys_kernel y)
          in y\<lparr>sys_hand := p', sys_user := rt, sys_kernel := s\<rparr>
      | None \<Rightarrow>
          (case sys_stage y of
             Py_ring \<Rightarrow>
               (case next_record (PY_EVENTS (sys_kernel y)) (py_next y) of
                  None \<Rightarrow> y\<lparr>sys_stage := Resolver_ring\<rparr>
                | Some ev \<Rightarrow> y\<lparr>sys_user := on_py_event ev (sys_user y), py_next := Suc (py_next y)\<rparr>)
           | Resolver_ring \<Rightarrow>
               (case next_record (RESOLVER_EVENTS (sys_kernel y)) (resolver_next y) of
                  None \<Rightarrow> y\<lparr>sys_stage := Guard_ring\<rparr>
                | Some ev \<Rightarrow>
                    let (p', rt, s) = take_resolver_event detect ev (sys_user y, sys_kernel y)
                    in y\<lparr>sys_hand := p', sys_user := rt, sys_kernel := s, resolver_next := Suc (resolver_next y)\<rparr>)
           | Guard_ring \<Rightarrow>
               (case next_record (GUARD_EVENTS (sys_kernel y)) (guard_next y) of
                  None \<Rightarrow> y\<lparr>sys_stage := Py_ring\<rparr>
                | Some ev \<Rightarrow> y\<lparr>sys_user := on_guard_event ev (sys_user y), guard_next := Suc (guard_next y)\<rparr>)))"

section \<open>Runs\<close>

text \<open>
  The kernel as it is before the policy is installed: the maps empty but for the offsets and the
  rules, and since then any of the programs that are attached by that time.
\<close>

inductive early :: "bpf_state \<Rightarrow> bool" where
  loaded: "early ((init_state ev cg cp cr)\<lparr>PYTHON_OFFSETS := offs, ROOT_RULES := rules\<rparr>)"
| probe: "early s \<Longrightarrow> attached_early p \<Longrightarrow> early (snd (run_program p e s))"

text \<open>
  A run: the policy compiled from the file is installed, then the programs, on any thread with
  whatever they read there, and the steps of the loop follow each other in any order.
\<close>

inductive reachable :: "(u32 \<Rightarrow> LiveCpythonResolver option) \<Rightarrow> host \<Rightarrow> IronScopeSection \<Rightarrow> system \<Rightarrow> bool"
  for detect h config where
  boot: "compile_with_hashed_tool_ids h config = Inr c \<Longrightarrow> early s0 \<Longrightarrow> populate_maps c s0 = Some s \<Longrightarrow>
    reachable detect h config \<lparr>sys_kernel = s, sys_user = runtime_init, sys_stage = Py_ring, sys_hand = None,
      py_next = 0, resolver_next = 0, guard_next = 0\<rparr>"
| kernel: "reachable detect h config y \<Longrightarrow>
    reachable detect h config (y\<lparr>sys_kernel := snd (run_program p e (sys_kernel y))\<rparr>)"
| user: "reachable detect h config y \<Longrightarrow> reachable detect h config (user_step detect y)"

section \<open>Invariants of a run\<close>

definition hand_ok :: "pending option \<Rightarrow> bool" where
  "hand_ok p \<longleftrightarrow>
     (case p of
        Some (Read_ctx ev tool ctx) \<Rightarrow> re_ctx_id ev \<noteq> 0
      | Some (Read_failed ev ctx) \<Rightarrow> re_ctx_id ev \<noteq> 0
      | _ \<Rightarrow> True)"

lemma insert_all_sized: "insert_all rules m = Some m' \<Longrightarrow> sized n m \<Longrightarrow> sized n m'"
  by (induction rules m rule: insert_all.induct) (auto split: if_splits)

lemma populate_ok:
  assumes "populate_maps c s0 = Some s" "state_ok s0" shows "state_ok s"
proof -
  note f = populate_fields [OF assms(1)]
  have s: "s = s0\<lparr>TOOL_FS_POLICY := TOOL_FS_POLICY s, TOOL_EXEC_POLICY := TOOL_EXEC_POLICY s,
      TOOL_NET_POLICY := TOOL_NET_POLICY s, PROTECTED_TGIDS := PROTECTED_TGIDS s, IRONSCOPE_CONFIG := IRONSCOPE_CONFIG s\<rparr>"
    using assms(1) by (auto simp: populate_maps_def split: option.splits)
  have "sized 1024 (TOOL_FS_POLICY s)" "sized 256 (TOOL_EXEC_POLICY s)" "sized 4096 (PROTECTED_TGIDS s)"
    "sized 1 (IRONSCOPE_CONFIG s)"
    using f(1,2,4,5) [THEN insert_all_sized] assms(2) by (simp_all del: One_nat_def)
  then show ?thesis
    using assms(2) by (subst s) (simp add: state_ok_def del: One_nat_def)
qed

lemma early_ok: "early s \<Longrightarrow> state_ok s"
proof (induction rule: early.induct)
  case loaded
  then show ?case using init_state_ok by (simp add: state_ok_def)
qed (rule run_program_ok)

lemma early_empty:
  assumes "early s"
  shows "TOOL_FS_POLICY s = bm_empty 1024 Hash" "TOOL_EXEC_POLICY s = bm_empty 256 Hash" "TOOL_NET_POLICY s = []"
    "IRONSCOPE_CONFIG s = bm_empty 1 Hash"
  using assms
  by (induction rule: early.induct) (simp_all add: init_state_def policy_view_fields [OF run_program_policy])

lemma write_ctx_policy [frame_simps, simp]: "policy_view (snd (write_ctx c ctx s)) = policy_view s"
  by (simp add: write_ctx_def)

lemma write_ctx_ok [ok_intros]: "state_ok s \<Longrightarrow> c \<noteq> 0 \<Longrightarrow> state_ok (snd (write_ctx c ctx s))"
  by (simp add: write_ctx_def ctx_insert_ok)

lemma publish_obj_keeps [frame_simps, simp]:
  "policy_view (publish_obj ev tool s) = policy_view s" "state_ok s \<Longrightarrow> state_ok (publish_obj ev tool s)"
  by (simp_all add: publish_obj_def)

lemma continue_resolver_keeps:
  assumes "continue_resolver p (rt, s) = (p', rt', s')"
  shows "policy_view s' = policy_view s" "state_ok s \<Longrightarrow> hand_ok (Some p) \<Longrightarrow> state_ok s' \<and> hand_ok p'"
proof -
  have w: "policy_view t = policy_view s" "state_ok s \<Longrightarrow> c \<noteq> 0 \<Longrightarrow> state_ok t" if "write_ctx c ctx s = (ok, t)" for c ctx ok t
    using write_ctx_policy [of c ctx s] write_ctx_ok [of s c ctx] that by simp_all
  from assms show "policy_view s' = policy_view s" "state_ok s \<Longrightarrow> hand_ok (Some p) \<Longrightarrow> state_ok s' \<and> hand_ok p'"
    by (cases p; auto simp: hand_ok_def dest: w split: if_splits option.splits prod.splits)+
qed

lemma take_resolver_event_keeps:
  assumes "take_resolver_event detect ev (rt, s) = (p', rt', s')"
  shows "policy_view s' = policy_view s" "state_ok s \<Longrightarrow> state_ok s'" "hand_ok p'"
  using assms
  by (auto simp: take_resolver_event_def judge_candidate_def hand_ok_def Let_def split: if_splits option.splits)

lemma user_step_keeps:
  shows "policy_view (sys_kernel (user_step detect y)) = policy_view (sys_kernel y)"
    and "state_ok (sys_kernel y) \<Longrightarrow> hand_ok (sys_hand y) \<Longrightarrow>
      state_ok (sys_kernel (user_step detect y)) \<and> hand_ok (sys_hand (user_step detect y))"
proof -
  obtain p' rt' s' where c: "sys_hand y = Some p \<Longrightarrow> continue_resolver p (sys_user y, sys_kernel y) = (p', rt', s')" for p
    by (cases "sys_hand y") (auto, metis prod_cases3)
  show "policy_view (sys_kernel (user_step detect y)) = policy_view (sys_kernel y)"
    by (cases "sys_hand y"; cases "sys_stage y")
       (auto simp: user_step_def Let_def split: option.split prod.split
        dest!: continue_resolver_keeps(1) take_resolver_event_keeps(1))
  show "state_ok (sys_kernel y) \<Longrightarrow> hand_ok (sys_hand y) \<Longrightarrow>
      state_ok (sys_kernel (user_step detect y)) \<and> hand_ok (sys_hand (user_step detect y))"
    by (cases "sys_hand y"; cases "sys_stage y")
       (auto simp: user_step_def Let_def hand_ok_def [of None] split: option.split prod.split
        dest: continue_resolver_keeps(2) take_resolver_event_keeps(2,3))
qed

lemma reachable_inv:
  assumes "reachable detect h config y"
  shows "state_ok (sys_kernel y) \<and> hand_ok (sys_hand y) \<and>
    (\<exists>s. installed h config s \<and> policy_view (sys_kernel y) = policy_view s)"
  using assms
proof (induction rule: reachable.induct)
  case (boot c s0 s)
  have "installed h config s"
    unfolding installed_def using boot early_empty [OF boot(2)] by blast
  with populate_ok [OF boot(3) early_ok [OF boot(2)]] show ?case by (auto simp: hand_ok_def)
next
  case (kernel y p e)
  then show ?case by (auto intro: run_program_ok)
next
  case (user y)
  then show ?case using user_step_keeps [where detect = detect and y = y] by auto
qed

section \<open>A round of the loop\<close>

text \<open>At most \<open>k\<close> steps of the loop, with nothing in between.\<close>

definition steps :: "(u32 \<Rightarrow> LiveCpythonResolver option) \<Rightarrow> nat \<Rightarrow> system \<Rightarrow> system \<Rightarrow> bool" where
  "steps detect k y y' \<longleftrightarrow> (\<exists>n \<le> k. (user_step detect ^^ n) y = y')"

lemma steps_refl: "steps detect k y y"
  by (auto simp: steps_def intro!: exI [of _ 0])

lemma steps_trans: "steps detect j x y \<Longrightarrow> steps detect k y z \<Longrightarrow> steps detect (j + k) x z"
  unfolding steps_def by (metis add.commute add_mono funpow_add comp_apply)

lemma steps_first: "steps detect k (user_step detect y) z \<Longrightarrow> steps detect (Suc k) y z"
  unfolding steps_def by (metis Suc_le_mono funpow_Suc_right comp_apply)

lemma next_record_drop: "drop i (rb_log r) = v # vs \<Longrightarrow> next_record r i = Some v \<and> drop (Suc i) (rb_log r) = vs"
  by (metis Cons_nth_drop_Suc drop_eq_Nil leI list.distinct(1) list.inject next_record_def)

lemma next_record_end: "drop i (rb_log r) = [] \<Longrightarrow> next_record r i = None"
  by (simp add: next_record_def)

text \<open>
  What the loop relies on to drain a ring whose records need no system call: an empty ring ends the
  stage, and a record is handled and passed over.
\<close>

locale ring_reader =
  fixes detect :: "u32 \<Rightarrow> LiveCpythonResolver option" and this_stage next_stage :: stage
    and ring :: "bpf_state \<Rightarrow> 'v ringbuf" and pos :: "system \<Rightarrow> nat"
    and handle :: "'v \<Rightarrow> runtime \<Rightarrow> runtime" and taken :: "runtime \<Rightarrow> nat \<Rightarrow> system \<Rightarrow> system"
  assumes drained: "sys_hand y = None \<Longrightarrow> sys_stage y = this_stage \<Longrightarrow> next_record (ring (sys_kernel y)) (pos y) = None \<Longrightarrow>
      user_step detect y = y\<lparr>sys_stage := next_stage\<rparr>"
    and take_one: "sys_hand y = None \<Longrightarrow> sys_stage y = this_stage \<Longrightarrow> next_record (ring (sys_kernel y)) (pos y) = Some ev \<Longrightarrow>
      user_step detect y = taken (handle ev (sys_user y)) (Suc (pos y)) y"
    and taken_keeps: "sys_hand (taken rt n y) = sys_hand y" "sys_stage (taken rt n y) = sys_stage y"
      "sys_kernel (taken rt n y) = sys_kernel y"
    and taken_sets: "sys_user (taken rt n y) = rt" "pos (taken rt n y) = n"
    and taken_again: "taken rt n (taken rt' n' y) = taken rt n y"
    and taken_none: "taken (sys_user y) (pos y) y = y"
begin

lemma drain_ring:
  assumes "sys_hand y = None" "sys_stage y = this_stage" "drop (pos y) (rb_log (ring (sys_kernel y))) = vs"
  shows "steps detect (Suc (length vs)) y
    ((taken (fold handle vs (sys_user y)) (pos y + length vs) y)\<lparr>sys_stage := next_stage\<rparr>)"
  using assms
proof (induction vs arbitrary: y)
  case Nil
  then show ?case by (intro steps_first) (simp add: drained next_record_end steps_refl taken_none)
next
  case (Cons ev vs)
  note r = next_record_drop [OF Cons.prems(3)]
  have "user_step detect y = taken (handle ev (sys_user y)) (Suc (pos y)) y"
    using Cons.prems(1,2) r by (simp add: take_one)
  with Cons.IH [of "user_step detect y"] Cons.prems r show ?case
    by (auto simp: taken_keeps taken_sets taken_again intro: steps_first)
qed

end

interpretation py_reader: ring_reader detect Py_ring Resolver_ring PY_EVENTS py_next on_py_event
  "\<lambda>rt n y. y\<lparr>sys_user := rt, py_next := n\<rparr>" for detect
  by unfold_locales (simp_all add: user_step_def)

interpretation guard_reader: ring_reader detect Guard_ring Py_ring GUARD_EVENTS guard_next on_guard_event
  "\<lambda>rt n y. y\<lparr>sys_user := rt, guard_next := n\<rparr>" for detect
  by unfold_locales (simp_all add: user_step_def)

text \<open>What is left of a record once it has been taken, done at one go.\<close>

definition settle :: "pending option \<Rightarrow> runtime \<times> bpf_state \<Rightarrow> runtime \<times> bpf_state" where
  "settle p = (\<lambda>(rt, s).
     case p of
       Some (Cached ev tool) \<Rightarrow>
         let (rt1, s1) = publish_ctx (re_ctx_id ev) (rt_tool_id tool) (rt, s) in (learn_name tool rt1, s1)
     | Some (Failed ev) \<Rightarrow> fail_resolution ev (rt, s)
     | _ \<Rightarrow> (rt, s))"

lemma fail_resolvers: "fail_resolution ev (rt, s) = (rt', s') \<Longrightarrow> rt_resolvers rt' = rt_resolvers rt"
  by (auto simp: fail_resolution_def split: if_splits prod.splits)

lemma take_then_settle:
  assumes "take_resolver_event detect ev (rt, s) = (p, rt', s')"
  shows "settle p (rt', s') = on_resolver_event detect ev (rt, s)" "p = None \<or> p = Some (Failed ev) \<or> (\<exists>tool. p = Some (Cached ev tool))"
  using assms
  by (auto simp: take_resolver_event_def judge_candidate_def on_resolver_event_def attach_resolver_def
      finish_resolution_def settle_def learn_name_def Let_def dest: fail_resolvers split: if_splits option.splits prod.splits)

lemma hand_step:
  "sys_hand y = Some p \<Longrightarrow> continue_resolver p (sys_user y, sys_kernel y) = (p', rt, s) \<Longrightarrow>
   user_step detect y = y\<lparr>sys_hand := p', sys_user := rt, sys_kernel := s\<rparr>"
  by (simp add: user_step_def)

lemma continue_settles:
  assumes "p = Failed ev \<or> p = Cached ev tool" "continue_resolver p (rt, s) = (p1, rt1, s1)"
  shows "p1 = None \<and> (rt1, s1) = settle (Some p) (rt, s) \<or>
    (\<exists>q. p1 = Some q \<and> continue_resolver q (rt1, s1) = (None, settle (Some p) (rt, s)))"
  using assms(1)
proof
  assume "p = Failed ev"
  with assms(2) show ?thesis
    by (auto simp: settle_def fail_resolution_def mark_tool_ctx_map_resolver_error_def split: if_splits option.splits prod.split)
next
  assume "p = Cached ev tool"
  with assms(2) show ?thesis
    by (auto simp: settle_def publish_ctx_def split: if_splits option.splits prod.split)
qed

lemma settle_steps:
  assumes "sys_hand y = None \<or> sys_hand y = Some (Failed ev) \<or> sys_hand y = Some (Cached ev tool)"
    and settle: "settle (sys_hand y) (sys_user y, sys_kernel y) = (rt, s)"
  shows "steps detect 2 y (y\<lparr>sys_hand := None, sys_user := rt, sys_kernel := s\<rparr>)"
proof (cases "sys_hand y")
  case None
  with settle have "y = y\<lparr>sys_hand := None, sys_user := rt, sys_kernel := s\<rparr>" by (cases y) (simp add: settle_def)
  then show ?thesis using steps_refl by metis
next
  case (Some p)
  with assms(1) have p: "p = Failed ev \<or> p = Cached ev tool" by simp
  obtain p1 rt1 s1 where c: "continue_resolver p (sys_user y, sys_kernel y) = (p1, rt1, s1)" by (metis prod_cases3)
  note u1 = hand_step [OF Some c, where detect = detect]
  from continue_settles [OF p c] show ?thesis
  proof (elim disjE exE conjE)
    assume "p1 = None" "(rt1, s1) = settle (Some p) (sys_user y, sys_kernel y)"
    then have "user_step detect y = y\<lparr>sys_hand := None, sys_user := rt, sys_kernel := s\<rparr>" using settle Some u1 by simp
    then show ?thesis using steps_first [OF steps_refl, of detect 1 y] by (simp add: numeral_2_eq_2)
  next
    fix q assume q: "p1 = Some q" "continue_resolver q (rt1, s1) = (None, settle (Some p) (sys_user y, sys_kernel y))"
    then have "user_step detect (user_step detect y) = y\<lparr>sys_hand := None, sys_user := rt, sys_kernel := s\<rparr>"
      using settle Some hand_step [of "user_step detect y" q None rt s] u1 by simp
    then show ?thesis using steps_first [OF steps_first [OF steps_refl], of detect 0 y] by (simp add: numeral_2_eq_2)
  qed
qed

lemma resolver_event_rings:
  assumes "on_resolver_event detect ev (rt, s) = (rt', s')"
  shows "PY_EVENTS s' = PY_EVENTS s" "RESOLVER_EVENTS s' = RESOLVER_EVENTS s" "GUARD_EVENTS s' = GUARD_EVENTS s"
proof -
  have w: "PY_EVENTS t = PY_EVENTS s \<and> RESOLVER_EVENTS t = RESOLVER_EVENTS s \<and> GUARD_EVENTS t = GUARD_EVENTS s"
    if "write_ctx c ctx s = (ok, t)" for c ctx ok s t using that by (auto simp: write_ctx_def split: if_splits)
  have "PY_EVENTS s' = PY_EVENTS s \<and> RESOLVER_EVENTS s' = RESOLVER_EVENTS s \<and> GUARD_EVENTS s' = GUARD_EVENTS s"
    using assms
    by (auto simp: on_resolver_event_def attach_resolver_def finish_resolution_def fail_resolution_def publish_ctx_def
        mark_tool_ctx_map_resolver_error_def publish_obj_def Let_def dest!: w split: if_splits option.splits prod.splits)
  then show "PY_EVENTS s' = PY_EVENTS s" "RESOLVER_EVENTS s' = RESOLVER_EVENTS s" "GUARD_EVENTS s' = GUARD_EVENTS s"
    by simp_all
qed

lemma resolver_record:
  assumes "sys_hand y = None" "sys_stage y = Resolver_ring"
    and r: "next_record (RESOLVER_EVENTS (sys_kernel y)) (resolver_next y) = Some ev"
    and o: "on_resolver_event detect ev (sys_user y, sys_kernel y) = (rt, s)"
  shows "steps detect 3 y (y\<lparr>sys_user := rt, sys_kernel := s, resolver_next := Suc (resolver_next y)\<rparr>)"
proof -
  obtain p rt' s' where t: "take_resolver_event detect ev (sys_user y, sys_kernel y) = (p, rt', s')"
    by (metis prod_cases3)
  let ?y = "y\<lparr>sys_hand := p, sys_user := rt', sys_kernel := s', resolver_next := Suc (resolver_next y)\<rparr>"
  have step: "user_step detect y = ?y" using assms(1,2) r t by (simp add: user_step_def)
  from take_then_settle [OF t] obtain tool where "p = None \<or> p = Some (Failed ev) \<or> p = Some (Cached ev tool)"
    and "settle p (rt', s') = (rt, s)" using o by auto
  then have "steps detect 2 ?y (?y\<lparr>sys_hand := None, sys_user := rt, sys_kernel := s\<rparr>)"
    by (intro settle_steps [where ev = ev and tool = tool]) simp_all
  moreover have "?y\<lparr>sys_hand := None, sys_user := rt, sys_kernel := s\<rparr> =
      y\<lparr>sys_user := rt, sys_kernel := s, resolver_next := Suc (resolver_next y)\<rparr>" using assms(1) by simp
  ultimately show ?thesis using steps_first [of detect 2 y] step by (simp add: numeral_3_eq_3 numeral_2_eq_2)
qed

lemma resolver_round:
  assumes "sys_hand y = None" "sys_stage y = Resolver_ring"
    "drop (resolver_next y) (rb_log (RESOLVER_EVENTS (sys_kernel y))) = ress"
    "fold (on_resolver_event detect) ress (sys_user y, sys_kernel y) = (rt, s)"
  shows "steps detect (Suc (3 * length ress)) y (y\<lparr>sys_user := rt, sys_kernel := s,
      resolver_next := resolver_next y + length ress, sys_stage := Guard_ring\<rparr>) \<and>
    PY_EVENTS s = PY_EVENTS (sys_kernel y) \<and> RESOLVER_EVENTS s = RESOLVER_EVENTS (sys_kernel y) \<and>
    GUARD_EVENTS s = GUARD_EVENTS (sys_kernel y)"
  using assms
proof (induction ress arbitrary: y)
  case Nil
  then show ?case by (auto simp: user_step_def next_record_end intro!: steps_first) (metis steps_refl)
next
  case (Cons ev ress)
  note r = next_record_drop [OF Cons.prems(3)]
  obtain rt1 s1 where o: "on_resolver_event detect ev (sys_user y, sys_kernel y) = (rt1, s1)" by fastforce
  let ?y = "y\<lparr>sys_user := rt1, sys_kernel := s1, resolver_next := Suc (resolver_next y)\<rparr>"
  note rings = resolver_event_rings [OF o]
  have "steps detect 3 y ?y" by (rule resolver_record) (use Cons.prems r o in simp_all)
  moreover have "steps detect (Suc (3 * length ress)) ?y (?y\<lparr>sys_user := rt, sys_kernel := s,
      resolver_next := resolver_next ?y + length ress, sys_stage := Guard_ring\<rparr>) \<and>
    PY_EVENTS s = PY_EVENTS (sys_kernel ?y) \<and> RESOLVER_EVENTS s = RESOLVER_EVENTS (sys_kernel ?y) \<and>
    GUARD_EVENTS s = GUARD_EVENTS (sys_kernel ?y)"
    by (rule Cons.IH) (use Cons.prems r o rings in simp_all)
  ultimately show ?case using steps_trans [of detect 3 y ?y "Suc (3 * length ress)"] rings by simp
qed

text \<open>The records still to be read from a ring.\<close>

definition unread :: "'v ringbuf \<Rightarrow> nat \<Rightarrow> 'v list" where
  "unread r i = drop i (rb_log r)"

lemma round_steps:
  assumes "sys_hand y = None" "sys_stage y = Py_ring"
  defines "pys \<equiv> unread (PY_EVENTS (sys_kernel y)) (py_next y)"
    and "ress \<equiv> unread (RESOLVER_EVENTS (sys_kernel y)) (resolver_next y)"
    and "guards \<equiv> unread (GUARD_EVENTS (sys_kernel y)) (guard_next y)"
  assumes d: "drain detect pys ress guards (sys_user y, sys_kernel y) = (rt, s)"
  shows "steps detect (length pys + 3 * length ress + length guards + 3) y
    (y\<lparr>sys_user := rt, sys_kernel := s, py_next := py_next y + length pys,
       resolver_next := resolver_next y + length ress, guard_next := guard_next y + length guards\<rparr>)"
proof -
  let ?rt0 = "fold on_py_event pys (sys_user y)"
  obtain rt1 s1 where f: "fold (on_resolver_event detect) ress (?rt0, sys_kernel y) = (rt1, s1)" by fastforce
  with d have rs: "rt = fold on_guard_event guards rt1" "s = s1" by (simp_all add: drain_def)
  let ?y1 = "y\<lparr>sys_user := ?rt0, py_next := py_next y + length pys, sys_stage := Resolver_ring\<rparr>"
  have 1: "steps detect (Suc (length pys)) y ?y1" by (rule py_reader.drain_ring) (simp_all add: assms(1,2) pys_def unread_def)
  let ?y2 = "?y1\<lparr>sys_user := rt1, sys_kernel := s1, resolver_next := resolver_next ?y1 + length ress,
      sys_stage := Guard_ring\<rparr>"
  have 2: "steps detect (Suc (3 * length ress)) ?y1 ?y2 \<and> PY_EVENTS s1 = PY_EVENTS (sys_kernel ?y1) \<and>
      RESOLVER_EVENTS s1 = RESOLVER_EVENTS (sys_kernel ?y1) \<and> GUARD_EVENTS s1 = GUARD_EVENTS (sys_kernel ?y1)"
    by (rule resolver_round) (use assms(1) f in \<open>simp_all add: ress_def unread_def\<close>)
  have 3: "steps detect (Suc (length guards)) ?y2 (?y2\<lparr>sys_user := fold on_guard_event guards (sys_user ?y2),
      guard_next := guard_next ?y2 + length guards, sys_stage := Py_ring\<rparr>)"
    by (rule guard_reader.drain_ring) (use assms(1) 2 in \<open>simp_all add: guards_def unread_def\<close>)
  let ?y3 = "y\<lparr>sys_user := rt, sys_kernel := s, py_next := py_next y + length pys,
       resolver_next := resolver_next y + length ress, guard_next := guard_next y + length guards\<rparr>"
  have y3: "?y2\<lparr>sys_user := fold on_guard_event guards (sys_user ?y2),
      guard_next := guard_next ?y2 + length guards, sys_stage := Py_ring\<rparr> = ?y3"
    using assms(2) by (cases y) (simp add: rs)
  have k: "Suc (length pys) + Suc (3 * length ress) + Suc (length guards) = length pys + 3 * length ress + length guards + 3"
    by simp
  show ?thesis using steps_trans [OF steps_trans [OF 1 2 [THEN conjunct1]] 3] unfolding y3 k .
qed

lemma drain_rings:
  assumes "drain detect pys ress guards (rt, s) = (rt', s')"
  shows "PY_EVENTS s' = PY_EVENTS s" "RESOLVER_EVENTS s' = RESOLVER_EVENTS s" "GUARD_EVENTS s' = GUARD_EVENTS s"
proof -
  have "PY_EVENTS u' = PY_EVENTS u \<and> RESOLVER_EVENTS u' = RESOLVER_EVENTS u \<and> GUARD_EVENTS u' = GUARD_EVENTS u"
    if "fold (on_resolver_event detect) ress (r, u) = (r', u')" for r u r' u'
    using that
  proof (induction ress arbitrary: r u)
    case (Cons ev ress)
    obtain r1 u1 where o: "on_resolver_event detect ev (r, u) = (r1, u1)" by fastforce
    with Cons resolver_event_rings [OF o] show ?case by simp
  qed simp
  with assms show "PY_EVENTS s' = PY_EVENTS s" "RESOLVER_EVENTS s' = RESOLVER_EVENTS s" "GUARD_EVENTS s' = GUARD_EVENTS s"
    by (auto simp: drain_def split: prod.splits)
qed

end
