(* ===== verification/Contract.thy ===== *)
theory Contract
  imports Policy
begin

text \<open>
  The contract of a Python build (\<^verbatim>\<open>src/ironscope/src/python_symbols.rs\<close>): the file that says where
  in the interpreter the probes go and how its structures are laid out, how the interpreter a
  process runs is identified, and how the contract for it is found and checked.  The file system,
  \<^verbatim>\<open>/proc\<close>, the ELF parser, \<^verbatim>\<open>sha256sum\<close> and the JSON syntax are functions of a record of the
  platform.
\<close>

section \<open>Contracts\<close>

record ContractPythonInfo =
  pi_implementation :: string
  pi_version :: string
  pi_arch :: string
  pi_build_id :: string
  pi_sha256_fallback :: string

record ContractVerification =
  cv_state :: string
  cv_verifier :: string
  cv_verified_ns :: u64

record LibPythonInfo =
  lp_path :: string
  lp_build_id :: string
  lp_build_id_fallback_sha256 :: string
  lp_arch :: string

record ModuleInfo =
  mi_path :: string
  mi_build_id :: string

record SymbolEntry =
  sy_source :: string
  sy_file_offset :: u64
  sy_start_frame_file_offset :: "u64 option"
  sy_start_frame_extra_file_offsets :: "u64 list"
  sy_start_frame_offset_source :: "string option"
  sy_frame_reg_idx :: "u8 option"
  sy_size :: "u64 option"
  sy_end_return_value_file_offset :: "u64 option"
  sy_end_return_value_frame_reg_idx :: "u8 option"
  sy_end_return_value_offset_source :: "string option"
  sy_end_return_const_file_offset :: "u64 option"
  sy_end_return_const_frame_reg_idx :: "u8 option"
  sy_end_return_const_offset_source :: "string option"
  sy_end_exception_file_offset :: "u64 option"
  sy_end_exception_frame_reg_idx :: "u8 option"
  sy_end_exception_offset_source :: "string option"
  sy_yield_value_file_offset :: "u64 option"
  sy_resume_file_offset :: "u64 option"
  sy_resume_offset_source :: "string option"

record PyObjectOffsets =
  po_ob_type :: u32

record CodeObjectOffsets =
  co_filename :: u32
  co_name :: u32
  co_qualname :: u32
  co_firstlineno :: u32
  co_flags :: u32

record UnicodeObjectOffsets =
  uo_compact_data :: u32

record InterpFrameOffsets =
  if_f_executable :: u32
  if_previous :: u32
  if_owner :: u32
  if_localsplus :: u32

record GenObjectOffsets =
  gi_frame_state :: u32
  gi_iframe :: u32

record TaskObjOffsets =
  to_task_state :: u32
  to_task_coro :: u32
  to_task_result :: u32

record ThreadStateOffsets =
  ts_current_frame :: u32

record OffsetsMap =
  om_py_object :: PyObjectOffsets
  om_code_object :: CodeObjectOffsets
  om_unicode_object :: UnicodeObjectOffsets
  om_interp_frame :: InterpFrameOffsets
  om_gen_object :: GenObjectOffsets
  om_task_obj :: TaskObjOffsets
  om_thread_state :: ThreadStateOffsets

record FrameStateValues =
  fv_created :: "8 word"
  fv_suspended :: "8 word"
  fv_executing :: "8 word"
  fv_completed :: "8 word"

record TaskStateValues =
  tv_pending :: u8
  tv_cancelled :: u8
  tv_finished :: u8

record PythonContract =
  pc_python :: "ContractPythonInfo option"
  pc_verification :: "ContractVerification option"
  pc_libpython :: LibPythonInfo
  pc_asyncio_module :: ModuleInfo
  pc_python_binary :: ModuleInfo
  pc_symbols :: "string \<rightharpoonup> SymbolEntry"
  pc_offsets :: OffsetsMap
  pc_frame_state_values :: FrameStateValues
  pc_task_state_values :: TaskStateValues
  pc_contract_version :: u32
  pc_generated_ns :: u64

record DetectedPythonRuntime =
  dr_pid :: u32
  dr_python_path :: string
  dr_asyncio_path :: string
  dr_python_build_id :: string
  dr_python_sha256 :: string
  dr_asyncio_build_id :: string
  dr_arch :: string

record ContractIndexEntry =
  ie_path :: string
  ie_python_build_id :: string
  ie_asyncio_build_id :: string
  ie_arch :: string
  ie_python_version :: string

record ContractIndex =
  ci_version :: u32
  ci_contracts :: "ContractIndexEntry list"

record ResolvedPythonContract =
  rc_contract :: PythonContract
  rc_detected :: DetectedPythonRuntime

section \<open>The platform\<close>

text \<open>What the ELF parser shows of a binary; a name that is not in the string table is \<open>None\<close>.\<close>

record elf_section =
  sh_name :: "string option"
  sh_offset :: u64
  sh_size :: u64

record elf_view =
  e_machine :: u16
  section_headers :: "elf_section list"
  dynsyms :: "string option list"
  syms :: "string option list"

record platform =
  fs_read :: "string \<Rightarrow> u8 list option"
  fs_read_to_string :: "string \<Rightarrow> string option"
  fs_exists :: "string \<Rightarrow> bool"
  fs_read_link :: "string \<Rightarrow> string option"
  fs_read_dir :: "string \<Rightarrow> string option list option"
  elf_parse :: "u8 list \<Rightarrow> elf_view option"
  sha256_stdout :: "string \<Rightarrow> string option"
  json_contract :: "string \<Rightarrow> PythonContract option"
  json_index :: "string \<Rightarrow> ContractIndex option"

text \<open>Why a contract or a process is refused; a slice out of range is a panic.\<close>

datatype contract_error =
    Cannot_read string | Cannot_parse string | Unsupported_version u32
  | Not_in_contract string | Unknown_source string string
  | Missing string | Missing_provenance string | Empty_provenance string | Heuristic string
  | Not_verified
  | Cannot_run string | No_output string
  | No_gil u32 | No_python u32 | No_asyncio u32 | No_identity u32
  | Unsupported_profile DetectedPythonRuntime
  | Panic

definition or_err :: "'a option \<Rightarrow> 'e \<Rightarrow> 'e + 'a" where
  "or_err r err = (case r of Some v \<Rightarrow> Inr v | None \<Rightarrow> Inl err)"

section \<open>Text and paths\<close>

fun str_contains :: "string \<Rightarrow> string \<Rightarrow> bool" where
  "str_contains [] pat = (pat = [])"
| "str_contains (c # cs) pat = (take (length pat) (c # cs) = pat \<or> str_contains cs pat)"

definition str_starts_with :: "string \<Rightarrow> string \<Rightarrow> bool" where
  "str_starts_with s pat \<longleftrightarrow> take (length pat) s = pat"

text \<open>\<^verbatim>\<open>split_whitespace\<close> and \<^verbatim>\<open>lines\<close>; a line ends with a newline and loses a carriage return before it.\<close>

fun split_whitespace_from :: "string \<Rightarrow> string \<Rightarrow> string list" where
  "split_whitespace_from w [] = (if w = [] then [] else [w])"
| "split_whitespace_from w (c # cs) =
     (if is_space c then (if w = [] then [] else [w]) @ split_whitespace_from [] cs
      else split_whitespace_from (w @ [c]) cs)"

abbreviation split_whitespace :: "string \<Rightarrow> string list" where
  "split_whitespace \<equiv> split_whitespace_from []"

definition chomp :: "string \<Rightarrow> string" where
  "chomp l = (if l \<noteq> [] \<and> last l = CHR 0x0D then butlast l else l)"

definition text_lines :: "string \<Rightarrow> string list" where
  "text_lines s =
     (let ls = split_on (CHR 0x0A) s
      in map chomp (butlast ls) @ (if last ls = [] then [] else [last ls]))"

definition path_components :: "string \<Rightarrow> string list" where
  "path_components p = filter (\<lambda>c. c \<noteq> [] \<and> c \<noteq> ''.'') (split_on (CHR ''/'') p)"

definition file_name :: "string \<Rightarrow> string option" where
  "file_name p =
     (let cs = path_components p in if cs = [] \<or> last cs = ''..'' then None else Some (last cs))"

definition extension :: "string \<Rightarrow> string option" where
  "extension p =
     (case file_name p of
        None \<Rightarrow> None
      | Some f \<Rightarrow>
          (case rsplitn2 (CHR ''.'') f of
             [ext, stem] \<Rightarrow> if stem = [] then None else Some ext
           | _ \<Rightarrow> None))"

definition is_absolute :: "string \<Rightarrow> bool" where
  "is_absolute p \<longleftrightarrow> str_starts_with p ''/''"

definition path_join :: "string \<Rightarrow> string \<Rightarrow> string" where
  "path_join dir p =
     (if is_absolute p then p
      else if dir = [] \<or> ends_with ''/'' dir then dir @ p
      else dir @ ''/'' @ p)"

section \<open>Loading and checking a contract\<close>

definition contract_load :: "platform \<Rightarrow> string \<Rightarrow> contract_error + PythonContract" where
  "contract_load pf path =
     and_then (or_err (fs_read_to_string pf path) (Cannot_read path)) (\<lambda>data.
     and_then (or_err (json_contract pf data) (Cannot_parse path)) (\<lambda>contract.
       if pc_contract_version contract \<noteq> 1 \<and> pc_contract_version contract \<noteq> 2
       then Inl (Unsupported_version (pc_contract_version contract)) else Inr contract))"

definition symbol_offset :: "PythonContract \<Rightarrow> string \<Rightarrow> contract_error + u64" where
  "symbol_offset contract name =
     or_err (map_option sy_file_offset (pc_symbols contract name)) (Not_in_contract name)"

definition symbol_binary :: "PythonContract \<Rightarrow> string \<Rightarrow> contract_error + string" where
  "symbol_binary contract name =
     and_then (or_err (pc_symbols contract name) (Not_in_contract name)) (\<lambda>entry.
       let s = sy_source entry
       in if str_starts_with s ''libpython'' \<or> str_starts_with s ''python_binary''
          then Inr (lp_path (pc_libpython contract))
          else if s = ''callscan'' \<or> s = ''asyncio_symtab''
          then Inr (mi_path (pc_asyncio_module contract))
          else Inl (Unknown_source s name))"

definition require_offset :: "string \<Rightarrow> u64 option \<Rightarrow> string option \<Rightarrow> contract_error + unit" where
  "require_offset label offset source =
     and_then (or_err offset (Missing label)) (\<lambda>_.
     and_then (or_err source (Missing_provenance label)) (\<lambda>source.
       if trim source = [] then Inl (Empty_provenance label)
       else if str_contains source ''heuristic'' then Inl (Heuristic label)
       else Inr ()))"

definition require_symbol :: "PythonContract \<Rightarrow> string \<Rightarrow> contract_error + unit" where
  "require_symbol contract name =
     and_then (or_err (pc_symbols contract name) (Missing name)) (\<lambda>sym.
       if str_contains (sy_source sym) ''heuristic'' then Inl (Heuristic name) else Inr ())"

fun for_each :: "('a \<Rightarrow> 'e + unit) \<Rightarrow> 'a list \<Rightarrow> 'e + unit" where
  "for_each f [] = Inr ()"
| "for_each f (x # xs) = and_then (f x) (\<lambda>_. for_each f xs)"

definition probe_symbols :: "string list" where
  "probe_symbols = [''_asyncio_Task___init___impl'', ''task_step'', ''task_eager_start'',
     ''PyGen_Type_tp_dealloc'', ''PyCoro_Type_tp_dealloc'', ''PyAsyncGen_Type_tp_dealloc'']"

definition validate_attach_provenance :: "PythonContract \<Rightarrow> contract_error + unit" where
  "validate_attach_provenance contract =
     and_then (or_err (pc_symbols contract ''_PyEval_EvalFrameDefault'') (Missing ''_PyEval_EvalFrameDefault'')) (\<lambda>eval.
     and_then (require_offset ''_PyEval_EvalFrameDefault.start_frame_file_offset''
       (sy_start_frame_file_offset eval) (sy_start_frame_offset_source eval)) (\<lambda>_.
     and_then (or_err (sy_frame_reg_idx eval) (Missing ''_PyEval_EvalFrameDefault.frame_reg_idx'')) (\<lambda>_.
     and_then (require_offset ''_PyEval_EvalFrameDefault.end_return_value_file_offset''
       (sy_end_return_value_file_offset eval) (sy_end_return_value_offset_source eval)) (\<lambda>_.
     and_then (require_offset ''_PyEval_EvalFrameDefault.end_return_const_file_offset''
       (sy_end_return_const_file_offset eval) (sy_end_return_const_offset_source eval)) (\<lambda>_.
     and_then (require_offset ''_PyEval_EvalFrameDefault.end_exception_file_offset''
       (sy_end_exception_file_offset eval) (sy_end_exception_offset_source eval)) (\<lambda>_.
     and_then (require_offset ''_PyEval_EvalFrameDefault.resume_file_offset''
       (sy_resume_file_offset eval) (sy_resume_offset_source eval)) (\<lambda>_.
       for_each (require_symbol contract) probe_symbols)))))))"

definition validate_runtime_loadable :: "PythonContract \<Rightarrow> contract_error + unit" where
  "validate_runtime_loadable contract =
     and_then (validate_attach_provenance contract) (\<lambda>_.
       if (case pc_verification contract of Some v \<Rightarrow> cv_state v = ''verified'' | None \<Rightarrow> False)
       then Inr () else Inl Not_verified)"

section \<open>Identifying a binary\<close>

definition slice :: "u8 list \<Rightarrow> u64 \<Rightarrow> u64 \<Rightarrow> contract_error + u8 list" where
  "slice data a b =
     (if a \<le> b \<and> unat b \<le> length data then Inr (take (unat b - unat a) (drop (unat a) data)) else Inl Panic)"

definition hex_byte :: "u8 \<Rightarrow> string" where
  "hex_byte b = [hex_digit (unat b div 16), hex_digit (unat b mod 16)]"

definition build_id_in :: "u8 list \<Rightarrow> elf_section \<Rightarrow> contract_error + string option" where
  "build_id_in data shdr =
     (let start = sh_offset shdr; stop = start + sh_size shdr
      in if (case sh_name shdr of Some n \<Rightarrow> n | None \<Rightarrow> []) \<noteq> ''.note.gnu.build-id'' then Inr None
         else if length data < unat stop \<or> sh_size shdr < 16 then Inr None
         else and_then (slice data start (start + 4)) (\<lambda>nz.
              and_then (slice data (start + 4) (start + 8)) (\<lambda>dz.
              let desc_start = start + 12 + ((ucast (from_ne_bytes nz :: u32) + 3) AND NOT 3);
                  desc_end = desc_start + ucast (from_ne_bytes dz :: u32)
              in if desc_end \<le> stop
                 then and_then (slice data desc_start desc_end) (\<lambda>desc. Inr (Some (concat (map hex_byte desc))))
                 else Inr None)))"

fun first_build_id :: "u8 list \<Rightarrow> elf_section list \<Rightarrow> contract_error + string option" where
  "first_build_id data [] = Inr None"
| "first_build_id data (shdr # shdrs) =
     and_then (build_id_in data shdr) (\<lambda>r. if r \<noteq> None then Inr r else first_build_id data shdrs)"

definition read_elf :: "platform \<Rightarrow> string \<Rightarrow> contract_error + u8 list \<times> elf_view" where
  "read_elf pf path =
     and_then (or_err (fs_read pf path) (Cannot_read path)) (\<lambda>data.
     and_then (or_err (elf_parse pf data) (Cannot_parse path)) (\<lambda>elf. Inr (data, elf)))"

definition read_build_id :: "platform \<Rightarrow> string \<Rightarrow> contract_error + string option" where
  "read_build_id pf path =
     and_then (read_elf pf path) (\<lambda>(data, elf). first_build_id data (section_headers elf))"

definition sha256sum :: "platform \<Rightarrow> string \<Rightarrow> contract_error + string" where
  "sha256sum pf path =
     and_then (or_err (sha256_stdout pf path) (Cannot_run path)) (\<lambda>stdout.
       case split_whitespace stdout of [] \<Rightarrow> Inl (No_output path) | s # _ \<Rightarrow> Inr s)"

definition read_build_id_or_sha256 :: "platform \<Rightarrow> string \<Rightarrow> contract_error + string \<times> string" where
  "read_build_id_or_sha256 pf path =
     and_then (read_build_id pf path) (\<lambda>r.
       case r of
         Some build_id \<Rightarrow> if build_id \<noteq> [] then Inr (build_id, []) else and_then (sha256sum pf path) (\<lambda>h. Inr ([], h))
       | None \<Rightarrow> and_then (sha256sum pf path) (\<lambda>h. Inr ([], h)))"

definition elf_arch :: "platform \<Rightarrow> string \<Rightarrow> contract_error + string" where
  "elf_arch pf path =
     and_then (read_elf pf path) (\<lambda>(data, elf).
       Inr (if e_machine elf = 183 then ''aarch64''
            else if e_machine elf = 62 then ''x86_64''
            else ''elf-machine-'' @ string_of_nat (unat (e_machine elf))))"

definition elf_has_symbols :: "platform \<Rightarrow> string \<Rightarrow> string list \<Rightarrow> contract_error + bool" where
  "elf_has_symbols pf path required =
     and_then (read_elf pf path) (\<lambda>(data, elf).
       Inr (list_all (\<lambda>name. Some name \<in> set (dynsyms elf) \<or> Some name \<in> set (syms elf)) required))"

section \<open>The interpreter of a process\<close>

definition proc_path :: "u32 \<Rightarrow> string \<Rightarrow> string" where
  "proc_path pid leaf = ''/proc/'' @ string_of_nat (unat pid) @ ''/'' @ leaf"

fun split_bytes :: "u8 list \<Rightarrow> u8 list list" where
  "split_bytes [] = [[]]"
| "split_bytes (b # bs) =
     (if b = 0 then [] # split_bytes bs
      else case split_bytes bs of [] \<Rightarrow> [[b]] | p # ps \<Rightarrow> (b # p) # ps)"

definition check_no_gil :: "platform \<Rightarrow> u32 \<Rightarrow> bool" where
  "check_no_gil pf pid =
     (case fs_read pf (proc_path pid ''environ'') of
        Some data \<Rightarrow> list_ex (\<lambda>var. var = utf8 ''PYTHON_GIL=0'') (split_bytes data)
      | None \<Rightarrow> False)"

text \<open>The first line of the memory map that satisfies a condition and whose last field is accepted.\<close>

fun find_mapped :: "(string \<Rightarrow> bool) \<Rightarrow> (string \<Rightarrow> bool) \<Rightarrow> string list \<Rightarrow> string option" where
  "find_mapped line_ok path_ok [] = None"
| "find_mapped line_ok path_ok (l # ls) =
     (if line_ok l \<and> split_whitespace l \<noteq> [] \<and> path_ok (last (split_whitespace l))
      then Some (last (split_whitespace l)) else find_mapped line_ok path_ok ls)"

definition mapped_python_binary :: "platform \<Rightarrow> u32 \<Rightarrow> contract_error + string" where
  "mapped_python_binary pf pid =
     and_then (or_err (fs_read_link pf (proc_path pid ''exe'')) (Cannot_read (proc_path pid ''exe''))) (\<lambda>exe.
       if fs_exists pf exe then Inr exe
       else and_then (or_err (fs_read_to_string pf (proc_path pid ''maps'')) (Cannot_read (proc_path pid ''maps''))) (\<lambda>content.
         or_err (find_mapped (\<lambda>l. str_contains l ''r-xp'')
             (\<lambda>p. str_starts_with (case file_name p of Some n \<Rightarrow> n | None \<Rightarrow> []) ''python'' \<and> fs_exists pf p)
             (text_lines content))
           (No_python pid)))"

definition mapped_asyncio_module :: "platform \<Rightarrow> u32 \<Rightarrow> contract_error + string" where
  "mapped_asyncio_module pf pid =
     and_then (or_err (fs_read_to_string pf (proc_path pid ''maps'')) (Cannot_read (proc_path pid ''maps''))) (\<lambda>content.
       or_err (find_mapped (\<lambda>l. str_contains l ''_asyncio'' \<and> str_contains l ''.so'') (fs_exists pf) (text_lines content))
         (No_asyncio pid))"

definition asyncio_of :: "platform \<Rightarrow> u32 \<Rightarrow> string \<Rightarrow> contract_error + string" where
  "asyncio_of pf pid python_path =
     (case mapped_asyncio_module pf pid of
        Inr path \<Rightarrow> Inr path
      | Inl err \<Rightarrow>
          and_then (elf_has_symbols pf python_path [''PyInit__asyncio'', ''task_step'', ''_asyncio_Task___init___impl''])
            (\<lambda>builtin. if builtin then Inr python_path else Inl err))"

definition detect_runtime_for_pid :: "platform \<Rightarrow> u32 \<Rightarrow> contract_error + DetectedPythonRuntime" where
  "detect_runtime_for_pid pf pid =
     (if check_no_gil pf pid then Inl (No_gil pid)
      else
        and_then (mapped_python_binary pf pid) (\<lambda>python_path.
        and_then (asyncio_of pf pid python_path) (\<lambda>asyncio_path.
        and_then (read_build_id_or_sha256 pf python_path) (\<lambda>(python_build_id, python_sha256).
        and_then (read_build_id_or_sha256 pf asyncio_path) (\<lambda>(asyncio_build_id, asyncio_sha256).
        let asyncio_identity = (if asyncio_build_id = [] then asyncio_sha256 else asyncio_build_id)
        in if python_build_id = [] \<and> python_sha256 = [] then Inl (No_identity pid)
           else if asyncio_identity = [] then Inl (No_identity pid)
           else and_then (elf_arch pf python_path) (\<lambda>arch.
             Inr \<lparr>dr_pid = pid, dr_python_path = python_path, dr_asyncio_path = asyncio_path,
                  dr_python_build_id = python_build_id, dr_python_sha256 = python_sha256,
                  dr_asyncio_build_id = asyncio_identity, dr_arch = arch\<rparr>))))))"

section \<open>Finding the contract\<close>

definition contract_python_build_id :: "PythonContract \<Rightarrow> string" where
  "contract_python_build_id contract =
     (case pc_python contract of
        Some p \<Rightarrow> if pi_build_id p \<noteq> [] then pi_build_id p else lp_build_id (pc_libpython contract)
      | None \<Rightarrow> lp_build_id (pc_libpython contract))"

definition contract_arch :: "PythonContract \<Rightarrow> string" where
  "contract_arch contract =
     (case pc_python contract of
        Some p \<Rightarrow> if pi_arch p \<noteq> [] then pi_arch p else lp_arch (pc_libpython contract)
      | None \<Rightarrow> lp_arch (pc_libpython contract))"

definition contract_matches_detected :: "PythonContract \<Rightarrow> DetectedPythonRuntime \<Rightarrow> bool" where
  "contract_matches_detected contract detected \<longleftrightarrow>
     (contract_python_build_id contract = dr_python_build_id detected \<or>
      lp_build_id_fallback_sha256 (pc_libpython contract) \<noteq> [] \<and>
      lp_build_id_fallback_sha256 (pc_libpython contract) = dr_python_sha256 detected) \<and>
     mi_build_id (pc_asyncio_module contract) = dr_asyncio_build_id detected \<and>
     contract_arch contract = dr_arch detected"

definition rewrite_contract_runtime_paths :: "PythonContract \<Rightarrow> DetectedPythonRuntime \<Rightarrow> PythonContract" where
  "rewrite_contract_runtime_paths contract detected =
     contract\<lparr>pc_libpython := (pc_libpython contract)\<lparr>lp_path := dr_python_path detected\<rparr>,
              pc_python_binary := (pc_python_binary contract)\<lparr>mi_path := dr_python_path detected\<rparr>,
              pc_asyncio_module := (pc_asyncio_module contract)\<lparr>mi_path := dr_asyncio_path detected\<rparr>\<rparr>"

definition load_contract_index :: "platform \<Rightarrow> string \<Rightarrow> contract_error + ContractIndex option" where
  "load_contract_index pf dir =
     (let index_path = path_join dir ''index.json''
      in if \<not> fs_exists pf index_path then Inr None
         else and_then (or_err (fs_read_to_string pf index_path) (Cannot_read index_path)) (\<lambda>data.
              and_then (or_err (json_index pf data) (Cannot_parse index_path)) (\<lambda>index. Inr (Some index))))"

text \<open>The candidate at a path: the contract to use, or none when it is for another build.\<close>

definition try_contract ::
  "platform \<Rightarrow> DetectedPythonRuntime \<Rightarrow> string \<Rightarrow> contract_error + ResolvedPythonContract option" where
  "try_contract pf detected path =
     and_then (contract_load pf path) (\<lambda>contract.
       if contract_matches_detected contract detected
       then and_then (validate_runtime_loadable contract) (\<lambda>_.
         Inr (Some \<lparr>rc_contract = rewrite_contract_runtime_paths contract detected, rc_detected = detected\<rparr>))
       else Inr None)"

fun try_index ::
  "platform \<Rightarrow> string \<Rightarrow> DetectedPythonRuntime \<Rightarrow> ContractIndexEntry list \<Rightarrow>
     contract_error + ResolvedPythonContract option" where
  "try_index pf dir detected [] = Inr None"
| "try_index pf dir detected (entry # entries) =
     (if ie_python_build_id entry \<noteq> dr_python_build_id detected \<or>
         ie_asyncio_build_id entry \<noteq> dr_asyncio_build_id detected \<or> ie_arch entry \<noteq> dr_arch detected
      then try_index pf dir detected entries
      else
        and_then (try_contract pf detected
            (if is_absolute (ie_path entry) then ie_path entry else path_join dir (ie_path entry))) (\<lambda>r.
          if r \<noteq> None then Inr r else try_index pf dir detected entries))"

fun try_dir ::
  "platform \<Rightarrow> string \<Rightarrow> DetectedPythonRuntime \<Rightarrow> string option list \<Rightarrow>
     contract_error + ResolvedPythonContract option" where
  "try_dir pf dir detected [] = Inr None"
| "try_dir pf dir detected (None # entries) = Inl (Cannot_read dir)"
| "try_dir pf dir detected (Some path # entries) =
     (if file_name path = Some ''index.json'' \<or> extension path \<noteq> Some ''json'' then try_dir pf dir detected entries
      else and_then (try_contract pf detected path) (\<lambda>r. if r \<noteq> None then Inr r else try_dir pf dir detected entries))"

definition load_contract_for_detected ::
  "platform \<Rightarrow> string \<Rightarrow> DetectedPythonRuntime \<Rightarrow> contract_error + ResolvedPythonContract" where
  "load_contract_for_detected pf dir detected =
     and_then (load_contract_index pf dir) (\<lambda>index.
     and_then (case index of Some i \<Rightarrow> try_index pf dir detected (ci_contracts i) | None \<Rightarrow> Inr None) (\<lambda>r.
       case r of
         Some resolved \<Rightarrow> Inr resolved
       | None \<Rightarrow>
           and_then (or_err (fs_read_dir pf dir) (Cannot_read dir)) (\<lambda>entries.
           and_then (try_dir pf dir detected entries) (\<lambda>r. or_err r (Unsupported_profile detected)))))"

definition load_contract_for_pid :: "platform \<Rightarrow> string \<Rightarrow> u32 \<Rightarrow> contract_error + ResolvedPythonContract" where
  "load_contract_for_pid pf dir pid =
     and_then (detect_runtime_for_pid pf pid) (load_contract_for_detected pf dir)"

end
