(* ===== verification/Provenance.thy ===== *)
theory Provenance
  imports Contract
begin

text \<open>
  What the checks of a contract establish, which contract is used for a process, and that the build
  identifier read from a binary is the one it carries.
\<close>

section \<open>What a contract that is used has passed\<close>

lemma and_then_Inr [simp]: "and_then r f = Inr v \<longleftrightarrow> (\<exists>x. r = Inr x \<and> f x = Inr v)"
  by (cases r) (simp_all add: and_then_def)

lemma or_err_Inr [simp]: "or_err r err = Inr v \<longleftrightarrow> r = Some v"
  by (cases r) (simp_all add: or_err_def)

lemma for_each_ok: "for_each f xs = Inr () \<longleftrightarrow> (\<forall>x \<in> set xs. f x = Inr ())"
  by (induction xs) auto

text \<open>An offset that is there, with a source that is neither blank nor a guess.\<close>

definition sourced :: "u64 option \<Rightarrow> string option \<Rightarrow> bool" where
  "sourced offset source \<longleftrightarrow>
     offset \<noteq> None \<and> (\<exists>s. source = Some s \<and> trim s \<noteq> [] \<and> \<not> str_contains s ''heuristic'')"

definition attach_ready :: "PythonContract \<Rightarrow> bool" where
  "attach_ready contract \<longleftrightarrow>
     (\<exists>eval. pc_symbols contract ''_PyEval_EvalFrameDefault'' = Some eval \<and>
        sourced (sy_start_frame_file_offset eval) (sy_start_frame_offset_source eval) \<and>
        sy_frame_reg_idx eval \<noteq> None \<and>
        sourced (sy_end_return_value_file_offset eval) (sy_end_return_value_offset_source eval) \<and>
        sourced (sy_end_return_const_file_offset eval) (sy_end_return_const_offset_source eval) \<and>
        sourced (sy_end_exception_file_offset eval) (sy_end_exception_offset_source eval) \<and>
        sourced (sy_resume_file_offset eval) (sy_resume_offset_source eval)) \<and>
     (\<forall>name \<in> set probe_symbols. \<exists>sym. pc_symbols contract name = Some sym \<and>
        \<not> str_contains (sy_source sym) ''heuristic'')"

lemma require_offset_ok: "require_offset label offset source = Inr () \<longleftrightarrow> sourced offset source"
  by (auto simp: require_offset_def sourced_def)

lemma require_symbol_ok:
  "require_symbol contract name = Inr () \<longleftrightarrow>
     (\<exists>sym. pc_symbols contract name = Some sym \<and> \<not> str_contains (sy_source sym) ''heuristic'')"
  by (auto simp: require_symbol_def)

lemma validate_attach_ok: "validate_attach_provenance contract = Inr () \<longleftrightarrow> attach_ready contract"
  unfolding validate_attach_provenance_def attach_ready_def
  by (simp add: for_each_ok require_symbol_ok require_offset_ok) blast

definition verified :: "PythonContract \<Rightarrow> bool" where
  "verified contract \<longleftrightarrow> (\<exists>v. pc_verification contract = Some v \<and> cv_state v = ''verified'')"

lemma runtime_loadable_ok:
  "validate_runtime_loadable contract = Inr () \<longleftrightarrow> attach_ready contract \<and> verified contract"
  by (auto simp: validate_runtime_loadable_def validate_attach_ok verified_def split: option.splits)

text \<open>A contract file that may be used for a runtime, and what is made of it.\<close>

definition usable :: "platform \<Rightarrow> DetectedPythonRuntime \<Rightarrow> string \<Rightarrow> PythonContract \<Rightarrow> bool" where
  "usable pf detected path contract \<longleftrightarrow> contract_load pf path = Inr contract \<and>
     contract_matches_detected contract detected \<and> attach_ready contract \<and> verified contract"

lemma try_contract_Some:
  "try_contract pf d path = Inr (Some r) \<longleftrightarrow>
     (\<exists>contract. usable pf d path contract \<and> r = \<lparr>rc_contract = rewrite_contract_runtime_paths contract d, rc_detected = d\<rparr>)"
  by (auto simp: try_contract_def usable_def runtime_loadable_ok split: if_splits)

lemma try_index_Some:
  "try_index pf dir d entries = Inr (Some r) \<Longrightarrow> \<exists>path. try_contract pf d path = Inr (Some r)"
  by (induction pf dir d entries rule: try_index.induct) (auto split: if_splits)

lemma try_dir_Some:
  "try_dir pf dir d entries = Inr (Some r) \<Longrightarrow> \<exists>path. try_contract pf d path = Inr (Some r)"
  by (induction pf dir d entries rule: try_dir.induct) (auto split: if_splits)

lemma loaded_usable:
  assumes "load_contract_for_detected pf dir d = Inr r"
  obtains path contract where "usable pf d path contract"
    "r = \<lparr>rc_contract = rewrite_contract_runtime_paths contract d, rc_detected = d\<rparr>"
proof -
  have "\<exists>path. try_contract pf d path = Inr (Some r)"
    using assms by (auto simp: load_contract_for_detected_def split: option.splits dest: try_index_Some try_dir_Some)
  then show ?thesis using that by (auto simp: try_contract_Some)
qed


section \<open>Which contract is used\<close>

definition contract_files :: "string list \<Rightarrow> string list" where
  "contract_files = filter (\<lambda>p. file_name p \<noteq> Some ''index.json'' \<and> extension p = Some ''json'')"

text \<open>What becomes of the first contract of a list that is for the runtime.\<close>

definition first_match ::
  "DetectedPythonRuntime \<Rightarrow> PythonContract list \<Rightarrow> contract_error + ResolvedPythonContract option" where
  "first_match d cs =
     (case List.find (\<lambda>c. contract_matches_detected c d) cs of
        None \<Rightarrow> Inr None
      | Some c \<Rightarrow> and_then (validate_runtime_loadable c)
          (\<lambda>_. Inr (Some \<lparr>rc_contract = rewrite_contract_runtime_paths c d, rc_detected = d\<rparr>)))"

lemma and_then_assoc: "and_then (and_then r f) g = and_then r (\<lambda>x. and_then (f x) g)"
  by (cases r) (simp_all add: and_then_def)

lemma and_then_simps [simp]: "and_then (Inr x) f = f x" "and_then (Inl e) f = Inl e"
  by (simp_all add: and_then_def)

lemma try_dir_first_match:
  "list_all2 (\<lambda>p c. contract_load pf p = Inr c) (contract_files paths) cs \<Longrightarrow>
   try_dir pf dir d (map Some paths) = first_match d cs"
proof (induction paths arbitrary: cs)
  case (Cons p paths)
  show ?case
  proof (cases "file_name p \<noteq> Some ''index.json'' \<and> extension p = Some ''json''")
    case True
    with Cons.prems obtain c cs' where cs: "cs = c # cs'" "contract_load pf p = Inr c"
      "list_all2 (\<lambda>p c. contract_load pf p = Inr c) (contract_files paths) cs'"
      by (auto simp: contract_files_def list_all2_Cons1)
    note IH = Cons.IH [OF cs(3)]
    show ?thesis
    proof (cases "contract_matches_detected c d")
      case m: True
      then show ?thesis
        using True by (cases "validate_runtime_loadable c") (simp_all add: try_contract_def cs first_match_def)
    next
      case False
      then show ?thesis using True IH by (simp add: try_contract_def cs first_match_def)
    qed
  next
    case False
    with Cons show ?thesis by (simp add: contract_files_def)
  qed
qed (simp add: contract_files_def first_match_def)

lemma load_first_match:
  assumes "\<not> fs_exists pf (path_join dir ''index.json'')" "fs_read_dir pf dir = Some (map Some paths)"
    and "list_all2 (\<lambda>p c. contract_load pf p = Inr c) (contract_files paths) cs"
  shows "load_contract_for_detected pf dir d = and_then (first_match d cs) (\<lambda>r. or_err r (Unsupported_profile d))"
  using assms(1,2)
  by (simp add: load_contract_for_detected_def load_contract_index_def or_err_def try_dir_first_match [OF assms(3)])

text \<open>C33: in a directory without an index whose contract files all load, the first of them, in the order
  the directory is listed, that is for the runtime decides: it is used if it passes the checks and
  is an error otherwise; without one the runtime is unsupported.\<close>

theorem first_matching_contract_decides:
  assumes "\<not> fs_exists pf (path_join dir ''index.json'')" "fs_read_dir pf dir = Some (map Some paths)"
    and "list_all2 (\<lambda>p c. contract_load pf p = Inr c) (contract_files paths) cs"
  shows "load_contract_for_detected pf dir d =
    (case List.find (\<lambda>c. contract_matches_detected c d) cs of
       None \<Rightarrow> Inl (Unsupported_profile d)
     | Some c \<Rightarrow> and_then (validate_runtime_loadable c)
         (\<lambda>_. Inr \<lparr>rc_contract = rewrite_contract_runtime_paths c d, rc_detected = d\<rparr>))"
  by (simp add: load_first_match [OF assms] first_match_def and_then_assoc or_err_def split: option.split)

text \<open>A contract file that cannot be read or parsed ends the search, even if a later one is the right one.\<close>

lemma broken_contract_ends_search:
  assumes "\<not> fs_exists pf (path_join dir ''index.json'')" "fs_read_dir pf dir = Some (Some p # entries)"
    and "contract_files [p] = [p]" "contract_load pf p = Inl err"
  shows "load_contract_for_detected pf dir d = Inl err"
  using assms
  by (auto simp: load_contract_for_detected_def load_contract_index_def or_err_def contract_files_def try_contract_def
      split: if_splits)

text \<open>Two builds without an identifier are taken for the same one, whatever their hashes.\<close>

lemma missing_build_ids_match:
  assumes "contract_python_build_id c = []" "dr_python_build_id d = []"
    and "mi_build_id (pc_asyncio_module c) = dr_asyncio_build_id d" "contract_arch c = dr_arch d"
  shows "contract_matches_detected c (d\<lparr>dr_python_sha256 := h\<rparr>)"
  using assms by (cases "pc_python c") (simp_all add: contract_matches_detected_def)

section \<open>Build identifiers\<close>

lemma hex_digit_inj: "i < 16 \<Longrightarrow> j < 16 \<Longrightarrow> hex_digit i = hex_digit j \<Longrightarrow> i = j"
proof -
  assume ij: "i < 16" "j < 16" and h: "hex_digit i = hex_digit j"
  have "distinct (map hex_digit [0..<16])" by code_simp
  with ij h show "i = j"
    using nth_eq_iff_index_eq [of "map hex_digit [0..<16]" i j] by simp
qed

lemma hex_byte_inj: "hex_byte a = hex_byte b \<longleftrightarrow> a = b"
proof
  assume h: "hex_byte a = hex_byte b"
  have "unat a < 256" "unat b < 256" using unsigned_less [of a] unsigned_less [of b] by simp_all
  then have "unat a div 16 < 16" "unat b div 16 < 16" by simp_all
  moreover have "hex_digit (unat a div 16) = hex_digit (unat b div 16)" "hex_digit (unat a mod 16) = hex_digit (unat b mod 16)"
    using h by (simp_all add: hex_byte_def)
  ultimately have "unat a div 16 = unat b div 16" "unat a mod 16 = unat b mod 16"
    by (simp_all add: hex_digit_inj)
  then have "unat a = unat b" by (metis div_mult_mod_eq)
  then show "a = b" by (rule unsigned_word_eqI)
qed simp

lemma hex_bytes_inj: "concat (map hex_byte as) = concat (map hex_byte bs) \<longleftrightarrow> as = bs"
proof (induction as arbitrary: bs)
  case Nil
  then show ?case by (cases bs) (auto simp: hex_byte_def)
next
  case (Cons a as)
  note IH = Cons.IH
  have two: "length (hex_byte x) = 2" for x by (simp add: hex_byte_def)
  then show ?case
  proof (cases bs)
    case Nil
    with two [of a] show ?thesis by (cases "hex_byte a") simp_all
  next
    case (Cons b bs')
    have "hex_byte a @ concat (map hex_byte as) = hex_byte b @ concat (map hex_byte bs') \<longleftrightarrow>
        hex_byte a = hex_byte b \<and> concat (map hex_byte as) = concat (map hex_byte bs')"
      by (rule append_eq_append_conv) (simp add: two)
    then show ?thesis by (simp only: Cons IH hex_byte_inj list.map concat.simps list.inject)
  qed
qed

text \<open>A note section with the identifier, as the linker writes it, at its place in the file.\<close>

definition gnu_note :: "u8 list \<Rightarrow> u8 list" where
  "gnu_note desc =
     le_bytes 4 (4 :: u32) @ le_bytes 4 (of_nat (length desc) :: u32) @ le_bytes 4 (3 :: u32) @ [0x47, 0x4E, 0x55, 0] @ desc"

definition holds_note :: "u8 list \<Rightarrow> elf_section \<Rightarrow> u8 list \<Rightarrow> bool" where
  "holds_note data shdr desc \<longleftrightarrow> sh_name shdr = Some ''.note.gnu.build-id'' \<and> length desc < 2 ^ 32 \<and>
     unat (sh_size shdr) = length (gnu_note desc) \<and> unat (sh_offset shdr) + length (gnu_note desc) \<le> length data \<and>
     length data < 2 ^ 63 \<and> take (length (gnu_note desc)) (drop (unat (sh_offset shdr)) data) = gnu_note desc"

text \<open>A binary whose first section for a build identifier holds one.\<close>

definition carries_build_id :: "platform \<Rightarrow> string \<Rightarrow> u8 list \<Rightarrow> bool" where
  "carries_build_id pf path desc \<longleftrightarrow>
     (\<exists>data elf pre shdr post. fs_read pf path = Some data \<and> elf_parse pf data = Some elf \<and>
        section_headers elf = pre @ shdr # post \<and> (\<forall>x \<in> set pre. sh_name x \<noteq> Some ''.note.gnu.build-id'') \<and>
        holds_note data shdr desc)"

lemma unat_add_small: "unat a + n < 2 ^ 64 \<Longrightarrow> unat (a + of_nat n) = unat a + n" for a :: u64
  by (simp add: unat_word_ariths unat_of_nat)

lemma slice_at:
  assumes "unat a + n \<le> length data" "length data < 2 ^ 63"
  shows "slice data a (a + of_nat n) = Inr (take n (drop (unat a) data))"
proof -
  have u: "unat (a + of_nat n) = unat a + n" by (rule unat_add_small) (use assms in simp)
  then have "a \<le> a + of_nat n" by (simp add: word_le_nat_alt)
  with u assms show ?thesis by (simp add: slice_def)
qed

lemma length_gnu_note: "length (gnu_note desc) = 16 + length desc"
  by (simp add: gnu_note_def)

lemma build_id_of_note:
  assumes "holds_note data shdr desc" shows "build_id_in data shdr = Inr (Some (concat (map hex_byte desc)))"
proof -
  let ?a = "sh_offset shdr" and ?n = "16 + length desc"
  have h: "sh_name shdr = Some ''.note.gnu.build-id''" "length desc < 2 ^ 32" "unat (sh_size shdr) = ?n"
    "unat ?a + ?n \<le> length data" "length data < 2 ^ 63" "take ?n (drop (unat ?a) data) = gnu_note desc"
    using assms by (simp_all add: holds_note_def length_gnu_note)
  have size: "sh_size shdr = of_nat ?n" unfolding h(3) [symmetric] by simp
  have stop: "unat (?a + of_nat ?n) = unat ?a + ?n" by (rule unat_add_small) (use h(4,5) in simp)
  have big: "\<not> sh_size shdr < 16" by (simp add: word_less_nat_alt h(3))
  have part: "take k (drop (unat ?a + i) data) = take k (drop i (gnu_note desc))" if "i + k \<le> ?n" for i k
    using that by (simp add: h(6) [symmetric] drop_take take_take add.commute)
  have sl: "slice data (?a + of_nat i) (?a + of_nat i + of_nat k) = Inr (take k (drop i (gnu_note desc)))" if "i + k \<le> ?n" for i k
  proof -
    have u: "unat (?a + of_nat i) = unat ?a + i" by (rule unat_add_small) (use h(4,5) that in simp)
    have "slice data (?a + of_nat i) (?a + of_nat i + of_nat k) = Inr (take k (drop (unat (?a + of_nat i)) data))"
      by (rule slice_at) (use h(4,5) that u in simp_all)
    with u part [OF that] show ?thesis by simp
  qed
  have nz: "slice data ?a (?a + 4) = Inr (le_bytes 4 (4 :: u32))"
    and dz: "slice data (?a + 4) (?a + 8) = Inr (le_bytes 4 (of_nat (length desc) :: u32))"
    using sl [of 0 4] sl [of 4 4] by (simp_all add: gnu_note_def add.commute)
  have desc: "slice data (?a + 16) (?a + 16 + of_nat (length desc)) = Inr desc"
    using sl [of 16 "length desc"] by (simp add: gnu_note_def)
  have cast: "ucast (of_nat (length desc) :: u32) = (of_nat (length desc) :: u64)"
    using h(2) by (simp add: word_eq_iff_unsigned unsigned_ucast_eq unsigned_of_nat take_bit_nat_eq_self)
  have le: "?a + 16 + of_nat (length desc) \<le> ?a + of_nat ?n" by (simp add: add.assoc)
  show ?thesis
    using h(1,4) stop big le nz dz desc
    by (simp add: build_id_in_def size from_le_bytes cast Let_def add.assoc)
qed

lemma other_section_no_id: "sh_name x \<noteq> Some ''.note.gnu.build-id'' \<Longrightarrow> build_id_in data x = Inr None"
  by (auto simp: build_id_in_def split: option.splits)

lemma read_carried_build_id:
  assumes "carries_build_id pf path desc" shows "read_build_id pf path = Inr (Some (concat (map hex_byte desc)))"
proof -
  obtain data elf pre shdr post where d: "fs_read pf path = Some data" "elf_parse pf data = Some elf"
    "section_headers elf = pre @ shdr # post" "\<forall>x \<in> set pre. sh_name x \<noteq> Some ''.note.gnu.build-id''"
    "holds_note data shdr desc" using assms by (auto simp: carries_build_id_def)
  from d(4) have "first_build_id data (pre @ shdr # post) = Inr (Some (concat (map hex_byte desc)))"
    by (induction pre) (simp_all add: other_section_no_id build_id_of_note [OF d(5)])
  with d(1-3) show ?thesis by (simp add: read_build_id_def read_elf_def or_err_def)
qed

text \<open>C35: the build identifier of a binary is read as it stands in the binary.  From a binary whose note
  section holds one, its bytes are returned in hexadecimal, so two such binaries are taken for the
  same build exactly when their identifiers are the same.\<close>

theorem build_ids_identify:
  assumes "carries_build_id pf path desc" "carries_build_id pf path' desc'"
  shows "read_build_id pf path = Inr (Some (concat (map hex_byte desc))) \<and>
    (read_build_id pf path = read_build_id pf path' \<longleftrightarrow> desc = desc')"
  using read_carried_build_id [OF assms(1)] read_carried_build_id [OF assms(2)] by (simp add: hex_bytes_inj)

section \<open>A platform\<close>

text \<open>A directory with a contract for one interpreter and a file that is no contract, and the interpreter's binary.\<close>

definition symbol0 :: SymbolEntry where
  "symbol0 = \<lparr>sy_source = ''libpython_symtab'', sy_file_offset = 0x100, sy_start_frame_file_offset = Some 0x110,
     sy_start_frame_extra_file_offsets = [0x118, 0x110], sy_start_frame_offset_source = Some ''dwarf'', sy_frame_reg_idx = Some 19,
     sy_size = None, sy_end_return_value_file_offset = Some 0x120, sy_end_return_value_frame_reg_idx = Some 19,
     sy_end_return_value_offset_source = Some ''dwarf'', sy_end_return_const_file_offset = Some 0x120,
     sy_end_return_const_frame_reg_idx = Some 19, sy_end_return_const_offset_source = Some ''dwarf'',
     sy_end_exception_file_offset = Some 0x130, sy_end_exception_frame_reg_idx = Some 20,
     sy_end_exception_offset_source = Some ''dwarf'', sy_yield_value_file_offset = None, sy_resume_file_offset = Some 0x140,
     sy_resume_offset_source = Some ''dwarf''\<rparr>"

definition contract0 :: PythonContract where
  "contract0 = \<lparr>pc_python = None,
     pc_verification = Some \<lparr>cv_state = ''verified'', cv_verifier = [], cv_verified_ns = 0\<rparr>,
     pc_libpython = \<lparr>lp_path = ''/old/python'', lp_build_id = ''ab12'', lp_build_id_fallback_sha256 = [], lp_arch = ''aarch64''\<rparr>,
     pc_asyncio_module = \<lparr>mi_path = ''/old/_asyncio.so'', mi_build_id = ''cd01''\<rparr>,
     pc_python_binary = \<lparr>mi_path = ''/old/python'', mi_build_id = ''ab12''\<rparr>,
     pc_symbols = (\<lambda>n. if n \<in> set (''_PyEval_EvalFrameDefault'' # probe_symbols) then Some symbol0 else None),
     pc_offsets = \<lparr>om_py_object = \<lparr>po_ob_type = 8\<rparr>,
       om_code_object = \<lparr>co_filename = 112, co_name = 120, co_qualname = 128, co_firstlineno = 68, co_flags = 48\<rparr>,
       om_unicode_object = \<lparr>uo_compact_data = 40\<rparr>,
       om_interp_frame = \<lparr>if_f_executable = 0, if_previous = 8, if_owner = 70, if_localsplus = 72\<rparr>,
       om_gen_object = \<lparr>gi_frame_state = 67, gi_iframe = 72\<rparr>,
       om_task_obj = \<lparr>to_task_state = 24, to_task_coro = 88, to_task_result = 48\<rparr>,
       om_thread_state = \<lparr>ts_current_frame = 56\<rparr>\<rparr>,
     pc_frame_state_values = \<lparr>fv_created = -2, fv_suspended = -1, fv_executing = 0, fv_completed = 1\<rparr>,
     pc_task_state_values = \<lparr>tv_pending = 0, tv_cancelled = 1, tv_finished = 2\<rparr>,
     pc_contract_version = 2, pc_generated_ns = 0\<rparr>"

definition detected0 :: DetectedPythonRuntime where
  "detected0 = \<lparr>dr_pid = 5, dr_python_path = ''/usr/bin/python3'', dr_asyncio_path = ''/usr/lib/_asyncio.so'',
     dr_python_build_id = ''ab12'', dr_python_sha256 = [], dr_asyncio_build_id = ''cd01'', dr_arch = ''aarch64''\<rparr>"

definition elf0 :: elf_view where
  "elf0 = \<lparr>e_machine = 183,
     section_headers = [\<lparr>sh_name = None, sh_offset = 0, sh_size = 0\<rparr>,
       \<lparr>sh_name = Some ''.note.gnu.build-id'', sh_offset = 2, sh_size = 18\<rparr>],
     dynsyms = [], syms = []\<rparr>"

definition platform0 :: platform where
  "platform0 = \<lparr>fs_read = (\<lambda>p. if p = ''/usr/bin/python3'' then Some ([0x7F, 0x45] @ gnu_note [0xAB, 0x12]) else None),
     fs_read_to_string = (\<lambda>p. if p = ''/c/a.json'' then Some ''A'' else None), fs_exists = (\<lambda>p. p = ''/c''),
     fs_read_link = (\<lambda>_. None), fs_read_dir = (\<lambda>p. if p = ''/c'' then Some [Some ''/c/README'', Some ''/c/a.json''] else None),
     elf_parse = (\<lambda>_. Some elf0), sha256_stdout = (\<lambda>_. None),
     json_contract = (\<lambda>s. if s = ''A'' then Some contract0 else None), json_index = (\<lambda>_. None)\<rparr>"

lemma contract0_checks: "contract_load platform0 ''/c/a.json'' = Inr contract0" "contract_matches_detected contract0 detected0"
  "validate_runtime_loadable contract0 = Inr ()"
proof -
  show "contract_load platform0 ''/c/a.json'' = Inr contract0"
    by (simp add: contract_load_def platform0_def or_err_def) (simp add: contract0_def)
  show "contract_matches_detected contract0 detected0"
    by (simp add: contract_matches_detected_def contract0_def detected0_def contract_python_build_id_def contract_arch_def)
  have sym: "pc_symbols contract0 ''_PyEval_EvalFrameDefault'' = Some symbol0"
    "n \<in> set probe_symbols \<Longrightarrow> pc_symbols contract0 n = Some symbol0" for n by (simp_all add: contract0_def)
  have "trim ''dwarf'' \<noteq> []" "\<not> str_contains ''dwarf'' ''heuristic''" "\<not> str_contains ''libpython_symtab'' ''heuristic''" by code_simp+
  then have "attach_ready contract0"
    by (simp add: attach_ready_def sym sourced_def) (simp add: symbol0_def)
  then show "validate_runtime_loadable contract0 = Inr ()"
    by (simp add: runtime_loadable_ok verified_def contract0_def)
qed

lemma platform0_dir: "\<not> fs_exists platform0 (path_join ''/c'' ''index.json'')"
  "fs_read_dir platform0 ''/c'' = Some (map Some [''/c/README'', ''/c/a.json''])"
  "contract_files [''/c/README'', ''/c/a.json''] = [''/c/a.json'']"
proof -
  have "path_join ''/c'' ''index.json'' = ''/c/index.json''" by code_simp
  then show "\<not> fs_exists platform0 (path_join ''/c'' ''index.json'')"
    "fs_read_dir platform0 ''/c'' = Some (map Some [''/c/README'', ''/c/a.json''])" by (simp_all add: platform0_def)
  show "contract_files [''/c/README'', ''/c/a.json''] = [''/c/a.json'']" by code_simp
qed

theorem first_matching_contract_decides_witness:
  "load_contract_for_detected platform0 ''/c'' detected0 =
     Inr \<lparr>rc_contract = rewrite_contract_runtime_paths contract0 detected0, rc_detected = detected0\<rparr>"
  using first_matching_contract_decides [OF platform0_dir(1,2), of "[contract0]" detected0] contract0_checks
  by (simp add: platform0_dir(3))


theorem build_ids_identify_witness: "read_build_id platform0 ''/usr/bin/python3'' = Inr (Some ''ab12'')"
proof -
  have "holds_note ([0x7F, 0x45] @ gnu_note [0xAB, 0x12]) \<lparr>sh_name = Some ''.note.gnu.build-id'', sh_offset = 2, sh_size = 18\<rparr> [0xAB, 0x12]"
    by (simp add: holds_note_def length_gnu_note)
  then have c: "carries_build_id platform0 ''/usr/bin/python3'' [0xAB, 0x12]"
    unfolding carries_build_id_def
    by (intro exI [of _ "[0x7F, 0x45] @ gnu_note [0xAB, 0x12]"] exI [of _ elf0]
        exI [of _ "[\<lparr>sh_name = None, sh_offset = 0, sh_size = 0\<rparr>]"]
        exI [of _ "\<lparr>sh_name = Some ''.note.gnu.build-id'', sh_offset = 2, sh_size = 18\<rparr>"] exI [of _ "[]"])
       (simp add: platform0_def elf0_def)
  have "concat (map hex_byte [0xAB, 0x12]) = ''ab12''" by code_simp
  with build_ids_identify [OF c c] show ?thesis by simp
qed

end
