(* ===== verification/Startup.thy ===== *)
theory Startup
  imports System Provenance
begin

text \<open>
  How the program starts (\<^verbatim>\<open>src/ironscope/src/main.rs\<close>): the \<^verbatim>\<open>profile\<close> commands, the choice of the
  contract and of the rules, the offsets and rules written to the kernel maps, the hooks and probes
  attached, and the policy installed, in the order of the code.
\<close>

section \<open>Arguments and machine\<close>

datatype ProfileCommand = Detect u32 | Validate u32 string

datatype Commands = Profile ProfileCommand

record Args =
  a_command :: "Commands option"
  a_config :: "string option"
  a_mode :: "string option"
  a_verbose :: bool
  a_contract_dir :: "string option"
  a_framework_rules :: "string option"
  a_ready_file :: string
  a_output :: "string option"
  a_duration :: u64

text \<open>A program of the object and the place it is attached to; loading it is part of attaching it.\<close>

datatype attach_target = At_offset u64 | At_symbol string

datatype attachment =
    BtfTracePoint string string
  | Lsm string string
  | FEntry string string
  | UProbe string attach_target string

text \<open>
  What the start asks the machine, beside the platform and the host of the compiler: the
  environment, the directory above the one the crate was built in, the syntax of the two YAML
  files, whether the object loads, whether type information is there, and whether a program can be
  attached at a place.
\<close>

record machine =
  mc_platform :: platform
  mc_host :: host
  env_var :: "string \<Rightarrow> string option"
  workspace_root :: "string option"
  parse_config :: "string \<Rightarrow> yaml_section option"
  parse_rules :: "u8 list \<Rightarrow> RuleEntry list option"
  ebpf_loads :: bool
  btf_from_sys_fs :: bool
  can_attach :: "attachment \<Rightarrow> bool"

datatype start_error =
    No_config | Bad_config string | No_agents
  | No_such_path string | No_default_path
  | Contract_error contract_error | Mismatch string u32 | Other_runtime u32 u32
  | Bad_rules string | Object_not_loaded | No_btf
  | Contract_lacks string | Index_out_of_range nat
  | Cannot_attach attachment
  | Policy_error policy_error | Map_full

definition map_err :: "('e \<Rightarrow> 'f) \<Rightarrow> 'e + 'a \<Rightarrow> 'f + 'a" where
  "map_err f r = (case r of Inl err \<Rightarrow> Inl (f err) | Inr v \<Rightarrow> Inr v)"

section \<open>Profile commands\<close>

datatype profile_output = Runtime DetectedPythonRuntime | CONTRACT_VALIDATED u32 string

fun run_profile_command :: "platform \<Rightarrow> ProfileCommand \<Rightarrow> start_error + profile_output" where
  "run_profile_command pf (Detect pid) =
     and_then (map_err Contract_error (detect_runtime_for_pid pf pid)) (\<lambda>detected. Inr (Runtime detected))"
| "run_profile_command pf (Validate pid contract) =
     and_then (map_err Contract_error (detect_runtime_for_pid pf pid)) (\<lambda>detected.
     and_then (map_err Contract_error (contract_load pf contract)) (\<lambda>loaded.
       if \<not> contract_matches_detected loaded detected then Inl (Mismatch contract pid)
       else and_then (map_err Contract_error (validate_attach_provenance loaded))
         (\<lambda>_. Inr (CONTRACT_VALIDATED pid contract))))"

fun run_command :: "platform \<Rightarrow> Commands \<Rightarrow> start_error + profile_output" where
  "run_command pf (Profile command) = run_profile_command pf command"

section \<open>Where the contracts and the rules are\<close>

definition default_contract_dirs :: "machine \<Rightarrow> string list" where
  "default_contract_dirs mc =
     (case env_var mc ''IRONSCOPE_CONTRACT_DIR'' of Some dir \<Rightarrow> [dir] | None \<Rightarrow> []) @
     [''/usr/share/ironscope/python-contracts''] @
     (case workspace_root mc of Some root \<Rightarrow> [path_join root ''tools/python-contracts''] | None \<Rightarrow> [])"

definition default_framework_rule_paths :: "machine \<Rightarrow> string list" where
  "default_framework_rule_paths mc =
     (case env_var mc ''IRONSCOPE_FRAMEWORK_RULES'' of Some path \<Rightarrow> [path] | None \<Rightarrow> []) @
     [''/usr/share/ironscope/rules/framework_rules.yaml''] @
     (case workspace_root mc of Some root \<Rightarrow> [path_join root ''tools/rules/framework_rules.yaml''] | None \<Rightarrow> [])"

definition resolve_path :: "platform \<Rightarrow> string list \<Rightarrow> string option \<Rightarrow> start_error + string" where
  "resolve_path pf defaults explicit =
     (case explicit of
        Some p \<Rightarrow> if fs_exists pf p then Inr p else Inl (No_such_path p)
      | None \<Rightarrow> or_err (List.find (fs_exists pf) defaults) No_default_path)"

definition resolve_contract_dir :: "machine \<Rightarrow> string option \<Rightarrow> start_error + string" where
  "resolve_contract_dir mc = resolve_path (mc_platform mc) (default_contract_dirs mc)"

definition resolve_framework_rules :: "machine \<Rightarrow> string option \<Rightarrow> start_error + string" where
  "resolve_framework_rules mc = resolve_path (mc_platform mc) (default_framework_rule_paths mc)"

section \<open>What is read before the object is loaded\<close>

definition same_runtime :: "DetectedPythonRuntime \<Rightarrow> DetectedPythonRuntime \<Rightarrow> bool" where
  "same_runtime a b \<longleftrightarrow> dr_python_path a = dr_python_path b \<and> dr_asyncio_path a = dr_asyncio_path b \<and>
     dr_python_build_id a = dr_python_build_id b \<and> dr_asyncio_build_id a = dr_asyncio_build_id b \<and> dr_arch a = dr_arch b"

definition agents_contract :: "platform \<Rightarrow> string \<Rightarrow> u32 list \<Rightarrow> start_error + PythonContract" where
  "agents_contract pf dir target_pids =
     (let primary_pid = hd target_pids in
      and_then (map_err Contract_error (load_contract_for_pid pf dir primary_pid)) (\<lambda>resolved.
      and_then (for_each (\<lambda>pid.
          and_then (map_err Contract_error (load_contract_for_pid pf dir pid)) (\<lambda>other.
            if \<not> same_runtime (rc_detected other) (rc_detected resolved) then Inl (Other_runtime pid primary_pid) else Inr ()))
        (tl target_pids)) (\<lambda>_. Inr (rc_contract resolved))))"

definition runtime_config :: "machine \<Rightarrow> Args \<Rightarrow> start_error + IronScopeSection" where
  "runtime_config mc args =
     and_then (or_err (a_config args) No_config) (\<lambda>config_path.
     and_then (or_err (load (fs_read_to_string (mc_platform mc)) (parse_config mc) config_path) (Bad_config config_path)) (\<lambda>config.
       Inr (case a_mode args of Some m \<Rightarrow> config\<lparr>sec_mode := m\<rparr> | None \<Rightarrow> config)))"

definition prepare :: "machine \<Rightarrow> Args \<Rightarrow> start_error + IronScopeSection \<times> PythonContract \<times> RootRule list" where
  "prepare mc args =
     and_then (runtime_config mc args) (\<lambda>config.
     and_then (or_err (configured_agent_pids config) No_agents) (\<lambda>target_pids.
     and_then (resolve_contract_dir mc (a_contract_dir args)) (\<lambda>contract_dir.
     and_then (agents_contract (mc_platform mc) contract_dir target_pids) (\<lambda>contract.
     and_then (resolve_framework_rules mc (a_framework_rules args)) (\<lambda>rules_path.
     and_then (or_err (load_rules (\<lambda>p. map_option utf8 (fs_read_to_string (mc_platform mc) p)) (parse_rules mc) rules_path)
       (Bad_rules rules_path)) (\<lambda>root_rules.
       Inr (config, contract, root_rules)))))))"

section \<open>Offsets and rules\<close>

text \<open>\<^verbatim>\<open>Array::set\<close> fails beyond the entries the map was declared with.\<close>

fun set_entries :: "(nat \<times> 'a) list \<Rightarrow> 'a list \<Rightarrow> start_error + 'a list" where
  "set_entries [] xs = Inr xs"
| "set_entries ((i, v) # r) xs = (if i < length xs then set_entries r (xs[i := v]) else Inl (Index_out_of_range i))"

definition offset_entries :: "PythonContract \<Rightarrow> start_error + (nat \<times> u32) list" where
  "offset_entries contract =
     (let frame = om_interp_frame (pc_offsets contract); code = om_code_object (pc_offsets contract);
          unicode = om_unicode_object (pc_offsets contract); task = om_task_obj (pc_offsets contract);
          eval = pc_symbols contract ''_PyEval_EvalFrameDefault'' in
      and_then (or_err (Option.bind eval sy_frame_reg_idx) (Contract_lacks ''frame_reg_idx'')) (\<lambda>frame_reg.
      and_then (or_err (Option.bind eval sy_end_exception_frame_reg_idx) (Contract_lacks ''end_exception_frame_reg_idx''))
        (\<lambda>exception_frame_reg.
        Inr [(0, if_f_executable frame), (1, co_qualname code), (2, co_filename code), (3, uo_compact_data unicode),
             (4, co_firstlineno code), (5, if_localsplus frame), (6, if_previous frame), (7, if_owner frame),
             (8, to_task_state task), (9, to_task_coro task), (10, ucast frame_reg), (11, co_flags code),
             (12, gi_iframe (om_gen_object (pc_offsets contract))),
             (13, ts_current_frame (om_thread_state (pc_offsets contract))),
             (14, po_ob_type (om_py_object (pc_offsets contract))),
             (15, gi_frame_state (om_gen_object (pc_offsets contract))), (16, ucast exception_frame_reg)])))"

definition populate_offsets :: "PythonContract \<Rightarrow> bpf_state \<Rightarrow> start_error + bpf_state" where
  "populate_offsets contract s =
     and_then (offset_entries contract) (\<lambda>entries.
     and_then (set_entries entries (PYTHON_OFFSETS s)) (\<lambda>offs. Inr (s\<lparr>PYTHON_OFFSETS := offs\<rparr>)))"

definition populate_rules :: "RootRule list \<Rightarrow> bpf_state \<Rightarrow> start_error + bpf_state" where
  "populate_rules rules s =
     and_then (set_entries (zip [0..<length rules] rules) (ROOT_RULES s)) (\<lambda>rs. Inr (s\<lparr>ROOT_RULES := rs\<rparr>))"

section \<open>Attaching\<close>

text \<open>The places programs have been attached to are threaded through; what is attached stays attached.\<close>

fun attach_list :: "machine \<Rightarrow> attachment list \<Rightarrow> attachment list \<Rightarrow> start_error + attachment list" where
  "attach_list mc [] attached = Inr attached"
| "attach_list mc (a # as) attached =
     (if can_attach mc a then attach_list mc as (attached @ [a]) else Inl (Cannot_attach a))"

definition tracepoints :: "attachment list" where
  "tracepoints = [BtfTracePoint ''sched_process_fork'' ''sched_process_fork'',
     BtfTracePoint ''sched_process_exit'' ''sched_process_exit'', BtfTracePoint ''sched_process_exec'' ''sched_process_exec'']"

definition lsm_hooks :: "attachment list" where
  "lsm_hooks = [Lsm ''ag_file_open'' ''file_open'', Lsm ''ag_bprm_check'' ''bprm_check_security'',
     Lsm ''ag_socket_connect'' ''socket_connect'']"

definition fentry_probes :: "attachment list" where
  "fentry_probes = [FEntry ''ag_fentry_file_open'' ''security_file_open'',
     FEntry ''ag_fentry_bprm_check'' ''security_bprm_check'', FEntry ''ag_fentry_socket_connect'' ''security_socket_connect'']"

text \<open>A group whose failure is only logged: the programs before the one that failed remain.\<close>

definition attach_some :: "machine \<Rightarrow> attachment list \<Rightarrow> bool \<times> attachment list" where
  "attach_some mc as = (list_all (can_attach mc) as, takeWhile (can_attach mc) as)"

definition attach_policy_hooks :: "machine \<Rightarrow> bool \<times> attachment list" where
  "attach_policy_hooks mc =
     (let (ok, hooks) = attach_some mc lsm_hooks;
          lsm_effective = (ok \<and>
            (case fs_read_to_string (mc_platform mc) ''/sys/kernel/security/lsm'' of
               Some s \<Rightarrow> str_contains s ''bpf'' | None \<Rightarrow> True))
      in (lsm_effective, hooks @ (if lsm_effective then [] else snd (attach_some mc fentry_probes))))"

definition attach_frame_probes :: "machine \<Rightarrow> PythonContract \<Rightarrow> attachment list \<Rightarrow> start_error + attachment list" where
  "attach_frame_probes mc contract attached =
     (let python_binary = lp_path (pc_libpython contract);
          uprobe = (\<lambda>prog off. UProbe prog (At_offset off) python_binary) in
      and_then (or_err (pc_symbols contract ''_PyEval_EvalFrameDefault'') (Contract_lacks ''_PyEval_EvalFrameDefault'')) (\<lambda>sym.
      and_then (or_err (sy_start_frame_file_offset sym) (Contract_lacks ''start_frame_file_offset'')) (\<lambda>start_frame.
      and_then (or_err (sy_frame_reg_idx sym) (Contract_lacks ''frame_reg_idx'')) (\<lambda>_.
      and_then (or_err (sy_resume_file_offset sym) (Contract_lacks ''resume_file_offset'')) (\<lambda>resume.
      let starts = start_frame # filter (\<lambda>x. x \<noteq> start_frame \<and> x \<noteq> resume) (sy_start_frame_extra_file_offsets sym) in
      and_then (attach_list mc (map (uprobe ''eval_frame_entry'') starts @ map (uprobe ''worker_eval_frame_entry'') starts) attached) (\<lambda>attached.
      and_then (or_err (sy_end_return_value_file_offset sym) (Contract_lacks ''end_return_value_file_offset'')) (\<lambda>end_rv.
      and_then (or_err (sy_end_return_const_file_offset sym) (Contract_lacks ''end_return_const_file_offset'')) (\<lambda>end_rc.
      and_then (or_err (sy_end_exception_file_offset sym) (Contract_lacks ''end_exception_file_offset'')) (\<lambda>end_exc.
        attach_list mc
          ([uprobe ''eval_frame_end_rv'' end_rv] @
           (if end_rc \<noteq> end_rv then [uprobe ''eval_frame_end_rc'' end_rc] else []) @
           (if end_exc \<noteq> end_rv \<and> end_exc \<noteq> end_rc then [uprobe ''eval_frame_end_exc'' end_exc] else []) @
           [uprobe ''eval_frame_func_entry'' (sy_file_offset sym), uprobe ''worker_eval_frame_func_entry'' (sy_file_offset sym),
            uprobe ''eval_resume'' resume, uprobe ''worker_eval_resume'' resume])
          attached)))))))))"

definition attach_task_probes :: "machine \<Rightarrow> PythonContract \<Rightarrow> attachment list \<Rightarrow> start_error + attachment list" where
  "attach_task_probes mc contract attached =
     (let uprobe = (\<lambda>prog off. UProbe prog (At_offset off) (mi_path (pc_asyncio_module contract))) in
      and_then (map_err Contract_error (symbol_offset contract ''_asyncio_Task___init___impl'')) (\<lambda>init.
      and_then (attach_list mc [uprobe ''asyncio_task_init'' init] attached) (\<lambda>attached.
      and_then (map_err Contract_error (symbol_offset contract ''task_step'')) (\<lambda>step.
      and_then (attach_list mc [uprobe ''asyncio_task_step'' step, uprobe ''asyncio_task_step_ret'' step] attached) (\<lambda>attached.
      and_then (map_err Contract_error (symbol_offset contract ''task_eager_start'')) (\<lambda>eager.
        attach_list mc [uprobe ''asyncio_task_eager_start'' eager, uprobe ''asyncio_task_eager_start_ret'' eager] attached))))))"

fun attach_deallocs ::
  "machine \<Rightarrow> PythonContract \<Rightarrow> (string \<times> u64) list \<Rightarrow> string list \<Rightarrow> attachment list \<Rightarrow> start_error + attachment list" where
  "attach_deallocs mc contract seen [] attached = Inr attached"
| "attach_deallocs mc contract seen (dealloc_sym # names) attached =
     and_then (map_err Contract_error (symbol_offset contract dealloc_sym)) (\<lambda>off.
     and_then (map_err Contract_error (symbol_binary contract dealloc_sym)) (\<lambda>bin.
       if (bin, off) \<in> set seen then attach_deallocs mc contract seen names attached
       else and_then (attach_list mc [UProbe ''gen_dealloc'' (At_offset off) bin] attached)
         (attach_deallocs mc contract (seen @ [(bin, off)]) names)))"

definition attach_dealloc_probes :: "machine \<Rightarrow> PythonContract \<Rightarrow> attachment list \<Rightarrow> start_error + attachment list" where
  "attach_dealloc_probes mc contract attached =
     and_then (attach_deallocs mc contract []
         [''PyGen_Type_tp_dealloc'', ''PyCoro_Type_tp_dealloc'', ''PyAsyncGen_Type_tp_dealloc''] attached)
       (attach_list mc [UProbe ''gen_dealloc'' (At_symbol ''PyObject_Free'') (lp_path (pc_libpython contract)),
          UProbe ''gen_dealloc'' (At_symbol ''PyObject_GC_Del'') (lp_path (pc_libpython contract))])"

definition attach_uprobes :: "machine \<Rightarrow> PythonContract \<Rightarrow> attachment list \<Rightarrow> start_error + attachment list" where
  "attach_uprobes mc contract attached =
     and_then (attach_frame_probes mc contract attached) (\<lambda>attached.
     and_then (attach_task_probes mc contract attached) (attach_dealloc_probes mc contract))"

section \<open>The start\<close>

record started =
  st_config :: IronScopeSection
  st_contract :: PythonContract
  st_lsm_effective :: bool
  st_attached :: "attachment list"
  st_system :: system

text \<open>
  From the freshly loaded object.  The programs attached before the policy is in the maps may run in
  between, on any thread: \<open>ps\<close> are those that do.  The ones that run while the remaining probes are
  attached are the first steps of the run that follows.
\<close>

definition run_early :: "(program \<times> probe_env) list \<Rightarrow> bpf_state \<Rightarrow> bpf_state" where
  "run_early ps = fold (\<lambda>(p, e) s. snd (run_program p e s)) ps"

definition start_cpython_runtime ::
  "machine \<Rightarrow> Args \<Rightarrow> (program \<times> probe_env) list \<Rightarrow> bpf_state \<Rightarrow> start_error + started" where
  "start_cpython_runtime mc args ps s0 =
     and_then (prepare mc args) (\<lambda>(config, contract, root_rules).
     if \<not> ebpf_loads mc then Inl Object_not_loaded
     else
       and_then (populate_offsets contract s0) (\<lambda>s1.
       and_then (populate_rules root_rules s1) (\<lambda>s2.
       if \<not> btf_from_sys_fs mc then Inl No_btf
       else
         and_then (attach_list mc tracepoints []) (\<lambda>attached.
         let (lsm_effective, hooks) = attach_policy_hooks mc in
         and_then (map_err Policy_error (compile_with_hashed_tool_ids (mc_host mc) config)) (\<lambda>compiled.
         and_then (or_err (populate_maps compiled (run_early ps s2)) Map_full) (\<lambda>s3.
         and_then (attach_uprobes mc contract (attached @ hooks)) (\<lambda>attached.
           Inr \<lparr>st_config = config, st_contract = contract, st_lsm_effective = lsm_effective, st_attached = attached,
             st_system = \<lparr>sys_kernel = s3, sys_user = runtime_init, sys_stage = Py_ring, sys_hand = None,
               py_next = 0, resolver_next = 0, guard_next = 0\<rparr>\<rparr>)))))))"

text \<open>A command is run by itself; without one the runtime starts.\<close>

definition ironscope_main ::
  "machine \<Rightarrow> Args \<Rightarrow> (program \<times> probe_env) list \<Rightarrow> bpf_state \<Rightarrow> start_error + profile_output + started" where
  "ironscope_main mc args ps s0 =
     (case a_command args of
        Some command \<Rightarrow> map_sum id Inl (run_command (mc_platform mc) command)
      | None \<Rightarrow> map_sum id Inr (start_cpython_runtime mc args ps s0))"

end
