(* ===== verification/Run.thy ===== *)
theory Run
  imports System
begin

text \<open>
  One run of the whole system, from the policy file to a refused access: a process enters the frame
  of the LangChain tool \<^verbatim>\<open>bash\<close>, the kernel classifies its code object and reads the name of the
  tool from a local of the frame.  The run shows that the hypotheses of the properties of whole
  runs can be met.
\<close>

section \<open>Memory of the process\<close>

definition name_buf :: "string \<Rightarrow> u8 list" where
  "name_buf n = take 64 (utf8 n @ 0 # replicate 63 0)"

lemma name_buf_holds: "buf_holds (name_buf n) (utf8 n)"
  unfolding buf_holds_def name_buf_def by (intro conjI exI) simp_all

definition lc_rule :: RootRule where
  "lc_rule = RootRule_default\<lparr>rr_qualname_hash := user_fnv1a_64 (utf8 ''Tool.invoke''), rr_kind := CODE_KIND_TOOL_ROOT_LC,
     rr_extractor_kind := EXTRACTOR_SLOT_NAME\<rparr>"

definition run_rules :: "RootRule list" where
  "run_rules = lc_rule # replicate 63 RootRule_default"

definition run_offsets :: "u32 list" where
  "run_offsets = (replicate 64 0)[1 := 16, 3 := 40, 5 := 80, 6 := 8, 7 := 70, 10 := 3, 11 := 48, 16 := 3]"

definition run_env :: probe_env where
  "run_env = env0\<lparr>
     arg := (\<lambda>i. if i = 1 then Some 0x1000 else None),
     rd_u64 := (\<lambda>a. map_of [(0x1000, 0x3000), (0x1008, 0x2000), (0x3010, 0x4000), (0x1050, 0x5000)] a),
     rd_buf64 := (\<lambda>a. map_of [(0x4028, name_buf ''Tool.invoke''), (0x5028, name_buf ''bash'')] a)\<rparr>"

definition run_start :: bpf_state where
  "run_start = state0\<lparr>PYTHON_OFFSETS := run_offsets, ROOT_RULES := run_rules\<rparr>"

lemma run_env_ids [simp]: "cur_tgid run_env = 5" "cur_tid run_env = 7" "smp_cpu run_env = 1"
  by (simp_all add: run_env_def env0_def cur_tgid_def cur_tid_def)

lemma run_env_reads [simp]:
  "arg run_env (Suc 0) = Some 0x1000" "rd_u64 run_env 0x1000 = Some 0x3000" "rd_u64 run_env 0x1008 = Some 0x2000"
  "rd_u64 run_env 0x3010 = Some 0x4000" "rd_u64 run_env 0x1050 = Some 0x5000" "rd_u32 run_env a = None"
  "rd_buf64 run_env 0x4028 = Some (name_buf ''Tool.invoke'')" "rd_buf64 run_env 0x5028 = Some (name_buf ''bash'')"
  by (simp_all add: run_env_def env0_def)

text \<open>A state that the installation of the policy made of the one above.\<close>

definition run_installed :: "bpf_state \<Rightarrow> bool" where
  "run_installed s \<longleftrightarrow> populate_maps policy0 run_start = Some s"

lemma run_installs: "\<exists>s. run_installed s"
proof -
  obtain s where "populate_maps policy0 state0 = Some s" using policy0_installs by blast
  then have "populate_maps policy0 run_start = Some (s\<lparr>PYTHON_OFFSETS := run_offsets, ROOT_RULES := run_rules\<rparr>)"
    by (auto simp: populate_maps_def run_start_def simp del: insert_all.simps split: option.splits)
  then show ?thesis by (auto simp: run_installed_def)
qed

lemma run_boot:
  assumes "run_installed s"
  shows "reachable (\<lambda>_. None) host0 config0 \<lparr>sys_kernel = s, sys_user = runtime_init, sys_stage = Py_ring, sys_hand = None,
      py_next = 0, resolver_next = 0, guard_next = 0\<rparr>"
  by (rule reachable.boot [OF policy0_compiled _ assms [unfolded run_installed_def]])
     (simp add: run_start_def state0_def early.loaded)

lemma run_fields:
  assumes "run_installed s"
  shows "PYTHON_OFFSETS s = run_offsets" "ROOT_RULES s = run_rules" "TOOL_CTX s = bm_empty 4096 Hash"
    "CODE_KIND s = bm_empty 8192 Hash" "bm_get (FRAME_CTX s) k = None" "bm_room (FRAME_CTX s) k"
    "THREAD_CTX_DEPTH s = bm_empty 4096 Hash" "THREAD_ACTIVE_CTX s = bm_empty 4096 Hash"
    "THREAD_ACTIVE_TASK s = bm_empty 4096 Hash" "TOOL_STACK_DEPTH s = bm_empty 4096 Hash"
    "THREAD_TSTATE s = bm_empty 4096 Hash" "THREAD_CURRENT_FRAME s = bm_empty 4096 Hash" "CTX_COUNTER s = (\<lambda>_. 0)"
    "THREADPOOL_WORKER_FRAME s = bm_empty 4096 Hash" "THREADPOOL_WORKER_CTX s = bm_empty 4096 Hash"
  using assms
  by (auto simp: run_installed_def populate_maps_def run_start_def state0_def init_state_def bm_room_empty
      simp del: insert_all.simps split: option.splits)

lemma run_off:
  assumes "PYTHON_OFFSETS s = run_offsets"
  shows "py_off s 0 = Some 0" "py_off s (Suc 0) = Some 16" "py_off s 3 = Some 40" "py_off s 5 = Some 80" "py_off s 6 = Some 8"
    "py_off s 7 = Some 70" "py_off s 11 = Some 48"
  by (simp_all add: py_off_def arr_get_def assms run_offsets_def)

lemma run_rule:
  assumes "ROOT_RULES s = run_rules" "P lc_rule" shows "first_rule P s = Some lc_rule"
proof -
  have "arr_get (ROOT_RULES s) 0 = Some lc_rule" by (simp add: assms arr_get_def run_rules_def)
  with assms(2) show ?thesis by (simp add: first_rule_def numeral_eq_Suc)
qed

section \<open>Entering the tool\<close>

lemma utf8_names: "0 \<notin> set (utf8 ''Tool.invoke'')" "0 \<notin> set (utf8 ''bash'')" "utf8 ''Tool.invoke'' \<noteq> []"
  by code_simp+

lemma run_classify:
  assumes "run_installed s"
  shows "classify run_env 5 0x3000 s = (CODE_KIND_TOOL_ROOT_LC, set_code_kind 5 0x3000 CODE_KIND_TOOL_ROOT_LC s)"
proof -
  note f = run_fields [OF assms]
  have "read_qualname run_env s 0x3000 = Some (name_buf ''Tool.invoke'')"
    by (simp add: read_qualname_def run_off [OF f(1)])
  then have "read_qualname_hash run_env s 0x3000 = Some (user_fnv1a_64 (utf8 ''Tool.invoke''))"
    using kernel_hash_of_name [OF name_buf_holds utf8_names(1)] utf8_names(3)
    by (simp add: read_qualname_hash_def Let_def)
  then show ?thesis
    using run_rule [OF f(2), of "\<lambda>rule. rr_kind rule \<noteq> 0 \<and> rr_qualname_hash rule = user_fnv1a_64 (utf8 ''Tool.invoke'')"]
    by (simp add: classify_def lc_rule_def)
qed

lemma run_resolve:
  assumes "PYTHON_OFFSETS s = run_offsets" "ROOT_RULES s = run_rules"
  shows "find_root_rule CODE_KIND_TOOL_ROOT_LC s = Some lc_rule"
    "extract_and_resolve run_env 0x1000 code lc_rule c s = (hashed_id tool0, set_ctx_tool_id c (hashed_id tool0) s)"
proof -
  show "find_root_rule CODE_KIND_TOOL_ROOT_LC s = Some lc_rule"
    unfolding find_root_rule_def by (rule run_rule [OF assms(2)]) (simp add: lc_rule_def)
  have "fnv1a_32 (name_buf ''bash'') = hashed_id tool0"
    using kernel_hash_of_name(3) [OF name_buf_holds utf8_names(2)] by (simp add: hashed_id_def tool0_def)
  moreover have "rr_slot_index lc_rule = 0" "rr_extractor_kind lc_rule = EXTRACTOR_SLOT_NAME"
    by (simp_all add: lc_rule_def RootRule_default_def)
  ultimately show "extract_and_resolve run_env 0x1000 code lc_rule c s = (hashed_id tool0, set_ctx_tool_id c (hashed_id tool0) s)"
    by (simp add: extract_and_resolve_def resolve_slot_name_def run_off [OF assms(1)])
qed

lemma run_entry:
  assumes "run_installed s"
  shows "handle_frame_func_entry run_env s = enter_root_lc run_env 7 0x1000 0x2000 0x3000 0
    (frame_stash_push 7 0x1000 (set_code_kind 5 0x3000 CODE_KIND_TOOL_ROOT_LC s))"
proof -
  note f = run_fields [OF assms]
  let ?s = "set_code_kind 5 0x3000 CODE_KIND_TOOL_ROOT_LC s"
  have "PYTHON_OFFSETS ?s = run_offsets" "FRAME_CTX ?s = FRAME_CTX s" by (simp_all add: set_code_kind_def f)
  then show ?thesis
    by (simp add: handle_frame_func_entry_def handle_tool_frame_entry_for_ptr_inner_def run_off f run_classify [OF assms]
        enter_frame_of_code_def enter_ruled_frame_def read_parent_ptr_def enter_known_frame_def enter_by_kind_def Let_def)
qed

lemma hashed_id_nonzero: "hashed_id t \<noteq> TOOL_IDLE"
  by (simp add: hashed_id_def user_fnv1a_32_def Let_def)

lemma run_enters:
  assumes "run_installed s"
  defines "s' \<equiv> snd (run_program eval_frame_func_entry run_env s)" and "c \<equiv> ctx_id_of 1 1"
  shows "bm_get (THREAD_ACTIVE_CTX s') 7 = Some c" "not_pool_worker env0 7 s'"
    "bm_get (TOOL_CTX s') c = Some ((new_tool_ctx run_env TOOL_IDLE 0)\<lparr>tool_id := hashed_id tool0, flags := TOOL_CTX_FLAG_RESOLVED\<rparr>)"
proof -
  note f = run_fields [OF assms(1)]
  let ?u = "frame_stash_push 7 0x1000 (set_code_kind 5 0x3000 CODE_KIND_TOOL_ROOT_LC s)"
  define u1 where "u1 = ?u\<lparr>CTX_COUNTER := (CTX_COUNTER ?u)(1 := next_val ?u 1 + 1)\<rparr>"
  have cnt: "next_val ?u 1 = 1" by (simp add: next_val_def frame_stash_push_def set_code_kind_def f Let_def)
  have u1: "PYTHON_OFFSETS u1 = run_offsets" "ROOT_RULES u1 = run_rules" "TOOL_CTX u1 = bm_empty 4096 Hash"
    "THREAD_ACTIVE_CTX u1 = bm_empty 4096 Hash" "THREAD_ACTIVE_TASK u1 = bm_empty 4096 Hash" "THREAD_CTX_DEPTH u1 = bm_empty 4096 Hash"
    "THREAD_TSTATE u1 = bm_empty 4096 Hash" "THREAD_CURRENT_FRAME u1 = bm_empty 4096 Hash"
    "THREADPOOL_WORKER_FRAME u1 = bm_empty 4096 Hash" "THREADPOOL_WORKER_CTX u1 = bm_empty 4096 Hash"
    by (simp_all add: u1_def frame_stash_push_def set_code_kind_def f Let_def)
  let ?v = "u1\<lparr>TOOL_CTX := bm_insert c (new_tool_ctx run_env TOOL_IDLE 0) (TOOL_CTX u1),
                FRAME_CTX := bm_insert (py_object_key run_env 0x1000) c (FRAME_CTX u1)\<rparr>"
  define u2 where "u2 = snd (ctx_stack_push run_env 7 c ?v)"
  have "ctx_depth 7 ?v < 8" by (simp add: ctx_depth_def u1)
  note psh = ctx_stack_push_ok_case [OF this, where e = run_env and c = c]
  have opn: "open_frame_ctx run_env 7 0x1000 c TOOL_IDLE 0 u1 = (True, u2)"
    by (simp add: open_frame_ctx_def u2_def psh)
  have u2: "PYTHON_OFFSETS u2 = run_offsets" "ROOT_RULES u2 = run_rules"
      "THREAD_ACTIVE_CTX u2 = bm_insert 7 c (bm_empty 4096 Hash)" "THREAD_ACTIVE_TASK u2 = bm_empty 4096 Hash"
      "TOOL_CTX u2 = bm_insert c (new_tool_ctx run_env TOOL_IDLE 0) (bm_empty 4096 Hash)"
      "THREAD_TSTATE u2 = bm_empty 4096 Hash" "THREAD_CURRENT_FRAME u2 = bm_empty 4096 Hash"
      "THREADPOOL_WORKER_FRAME u2 = bm_empty 4096 Hash" "THREADPOOL_WORKER_CTX u2 = bm_empty 4096 Hash"
    unfolding u2_def psh by (simp_all add: set_active_def u1)
  let ?h = "hashed_id tool0" and ?u3 = "set_ctx_tool_id c (hashed_id tool0) u2"
  let ?ctx = "(new_tool_ctx run_env TOOL_IDLE 0)\<lparr>tool_id := hashed_id tool0, flags := TOOL_CTX_FLAG_RESOLVED\<rparr>"
  have u3: "bm_get (TOOL_CTX ?u3) c = Some ?ctx" "bm_get (THREAD_ACTIVE_CTX ?u3) 7 = Some c"
    by (simp_all add: set_ctx_tool_id_def u2 bm_get_insert bm_room_empty new_tool_ctx_def)
  have "no_task ?u3 7" by (simp add: no_task_def set_ctx_tool_id_def u2)
  then have dup: "root_is_duplicate run_env 7 0x1000 c 0 ?h ?u3 = (False, ?u3)"
    by (intro fresh_root_no_duplicate [OF u3(2)]) (simp_all add: ctx_is_live_def u3)
  have "enter_root_lc run_env 7 0x1000 0x2000 0x3000 0 ?u = (True, announce_tool run_env 7 c 0x1000 0x2000 ?h ?u3)"
    using opn unfolding u1_def
    by (simp add: enter_root_lc_def alloc_ctx_id_eq cnt c_def [symmetric] generator_flags_def
        run_resolve [OF u2(1,2)] u3 dup Let_def hashed_id_nonzero)
  then have s': "s' = announce_tool run_env 7 c 0x1000 0x2000 ?h ?u3"
    by (simp add: s'_def run_entry [OF assms(1)])
  let ?t = "emit_py_event run_env EVENT_TOOL_START c ?h (tool_stack_push 7 c 0x1000 0x2000 ?h ?u3)"
  have "THREAD_ACTIVE_TASK ?t = bm_empty 4096 Hash"
    by (simp add: emit_defs tool_stack_push_def set_ctx_tool_id_def u2 Let_def)
  then have t: "s' = ?t" by (simp add: s' announce_tool_def push_active_task_def)
  show "bm_get (THREAD_ACTIVE_CTX s') 7 = Some c" "bm_get (TOOL_CTX s') c = Some ?ctx"
    using u3 by (simp_all add: t emit_defs tool_stack_push_def Let_def)
  show "not_pool_worker env0 7 s'"
    by (simp add: t not_pool_worker_def find_mapped_work_item_in_current_chain_def read_tstate_current_frame_def emit_defs
        tool_stack_push_def set_ctx_tool_id_def u2 Let_def)
qed

text \<open>The file \<^verbatim>\<open>/etc/shadow\<close> of the host, as the kernel sees it when it is opened.\<close>

definition view_shadow :: kernel_view where
  "view_shadow = view_a\<lparr>shim_s_dev := (\<lambda>_. Some 0x800001)\<rparr>"

lemma view_shadow_identity: "get_file_identity view_shadow (lsm_arg view_shadow 0) = Some (0x800001, 77)"
  by (simp add: view_shadow_def view_a_def get_file_identity_def core_field_def)

lemma shadow_denied: "list_ex (names_inode host0 0x800001 77) (snd (fs_lists tool0))"
  by code_simp

lemma run_attributed:
  obtains y c ctx where "reachable (\<lambda>_. None) host0 config0 y" "not_pool_worker env0 (cur_tid env0) (sys_kernel y)"
    "bm_get (THREAD_ACTIVE_CTX (sys_kernel y)) (cur_tid env0) = Some c" "bm_get (TOOL_CTX (sys_kernel y)) c = Some ctx"
    "tool_id ctx = hashed_id tool0" "flags ctx AND TOOL_CTX_FLAG_RESOLVER_ERROR = 0"
proof -
  obtain s where s: "run_installed s" using run_installs by blast
  note r = reachable.kernel [OF run_boot [OF s], where p = eval_frame_func_entry and e = run_env]
  have "cur_tid env0 = 7" by (simp add: cur_tid_def env0_def)
  with that [OF r] run_enters [OF s] show ?thesis by simp
qed

end
