(* ===== verification/Boot.thy ===== *)
theory Boot
  imports Startup Run
begin

text \<open>
  What a start that succeeds establishes: where the probes are, that the kernel reads the layout the
  contract gives, that the contract is for the interpreter of every agent, and that the start is the
  beginning of a run of the whole system.
\<close>

lemma map_err_Inr [simp]: "map_err f r = Inr v \<longleftrightarrow> r = Inr v"
  by (cases r) (simp_all add: map_err_def)

section \<open>What is written to the maps\<close>

lemma set_entries_from:
  "set_entries (zip [k..<k + length rs] rs) xs = Inr ys \<Longrightarrow>
   (rs \<noteq> [] \<longrightarrow> k + length rs \<le> length xs) \<and> ys = take k xs @ take (length xs - k) rs @ drop (k + length rs) xs"
proof (induction rs arbitrary: k xs)
  case (Cons r rs)
  have "zip [k..<k + length (r # rs)] (r # rs) = (k, r) # zip [Suc k..<Suc k + length rs] rs"
    by (simp add: upt_conv_Cons del: upt_Suc)
  with Cons.prems have k: "k < length xs" and IH: "(rs \<noteq> [] \<longrightarrow> Suc k + length rs \<le> length xs) \<and>
      ys = take (Suc k) (xs[k := r]) @ take (length xs - Suc k) rs @ drop (Suc k + length rs) (xs[k := r])"
    using Cons.IH [of "Suc k" "xs[k := r]"] by (simp_all del: upt_Suc split: if_splits)
  from k have "take (Suc k) (xs[k := r]) = take k xs @ [r]" "drop (Suc k + length rs) (xs[k := r]) = drop (Suc k + length rs) xs"
    by (simp_all add: take_Suc_conv_app_nth)
  moreover have "take (length xs - k) (r # rs) = r # take (length xs - Suc k) rs"
    using k by (simp add: take_Cons')
  ultimately show ?case using IH k by (cases "rs = []") auto
qed simp

lemma populate_rules_Inr:
  assumes "populate_rules rules s = Inr s'" "length (ROOT_RULES s) = 64"
  shows "length rules \<le> 64 \<and> s' = s\<lparr>ROOT_RULES := rules @ drop (length rules) (ROOT_RULES s)\<rparr>"
proof -
  from assms(1) obtain rs where rs: "set_entries (zip [0..<0 + length rules] rules) (ROOT_RULES s) = Inr rs"
    and s': "s' = s\<lparr>ROOT_RULES := rs\<rparr>" by (auto simp: populate_rules_def)
  from set_entries_from [OF rs] assms(2) have "length rules \<le> 64" "rs = rules @ drop (length rules) (ROOT_RULES s)"
    by (cases "rules = []"; simp)+
  with s' show ?thesis by simp
qed

text \<open>The layout the kernel reads, by the names the kernel has for the entries.\<close>

definition kernel_layout :: "bpf_state \<Rightarrow> u32 option list" where
  "kernel_layout s = map (arr_get (PYTHON_OFFSETS s))
     [OFF_FRAME_F_EXECUTABLE, OFF_CODE_QUALNAME, OFF_UNICODE_COMPACT_DATA, OFF_FRAME_LOCALSPLUS, OFF_FRAME_PREVIOUS,
      OFF_FRAME_OWNER, OFF_TASK_STATE, OFF_CODE_FLAGS, OFF_GEN_IFRAME, OFF_TSTATE_CURRENT_FRAME, OFF_OBJ_TYPE,
      OFF_FRAME_REG_IDX, OFF_EXCEPTION_FRAME_REG_IDX]"

definition contract_layout :: "PythonContract \<Rightarrow> u32 option list" where
  "contract_layout contract =
     (let offs = pc_offsets contract; eval = pc_symbols contract ''_PyEval_EvalFrameDefault'' in
      map Some
        [if_f_executable (om_interp_frame offs), co_qualname (om_code_object offs), uo_compact_data (om_unicode_object offs),
         if_localsplus (om_interp_frame offs), if_previous (om_interp_frame offs), if_owner (om_interp_frame offs),
         to_task_state (om_task_obj offs), co_flags (om_code_object offs), gi_iframe (om_gen_object offs),
         ts_current_frame (om_thread_state offs), po_ob_type (om_py_object offs)] @
      map (map_option ucast)
        [Option.bind eval sy_frame_reg_idx, Option.bind eval sy_end_exception_frame_reg_idx])"

lemma populate_offsets_Inr:
  assumes "populate_offsets contract s = Inr s'" "length (PYTHON_OFFSETS s) = 64"
  shows "kernel_layout s' = contract_layout contract \<and> (\<exists>offs. s' = s\<lparr>PYTHON_OFFSETS := offs\<rparr>)"
  using assms
  by (auto simp: populate_offsets_def offset_entries_def Let_def kernel_layout_def contract_layout_def arr_get_def)

lemma populate_offsets_defined:
  assumes "length (PYTHON_OFFSETS s) = 64"
  shows "(\<exists>s'. populate_offsets contract s = Inr s') \<longleftrightarrow>
    (\<exists>eval. pc_symbols contract ''_PyEval_EvalFrameDefault'' = Some eval \<and> sy_frame_reg_idx eval \<noteq> None \<and>
       sy_end_exception_frame_reg_idx eval \<noteq> None)"
  using assms by (auto simp: populate_offsets_def offset_entries_def Let_def bind_eq_Some_conv)

section \<open>Where the probes are\<close>

lemma attach_list_Inr [simp]:
  "attach_list mc as attached = Inr r \<longleftrightarrow> list_all (can_attach mc) as \<and> r = attached @ as"
  by (induction as arbitrary: attached) auto

definition frame_plan :: "string \<Rightarrow> SymbolEntry \<Rightarrow> attachment list" where
  "frame_plan python entry =
     (let uprobe = (\<lambda>prog off. UProbe prog (At_offset off) python);
          start_frame = the (sy_start_frame_file_offset entry); resume = the (sy_resume_file_offset entry);
          end_rv = the (sy_end_return_value_file_offset entry); end_rc = the (sy_end_return_const_file_offset entry);
          end_exc = the (sy_end_exception_file_offset entry);
          starts = start_frame # filter (\<lambda>x. x \<noteq> start_frame \<and> x \<noteq> resume) (sy_start_frame_extra_file_offsets entry)
      in map (uprobe ''eval_frame_entry'') starts @ map (uprobe ''worker_eval_frame_entry'') starts @
         [uprobe ''eval_frame_end_rv'' end_rv] @
         (if end_rc \<noteq> end_rv then [uprobe ''eval_frame_end_rc'' end_rc] else []) @
         (if end_exc \<noteq> end_rv \<and> end_exc \<noteq> end_rc then [uprobe ''eval_frame_end_exc'' end_exc] else []) @
         [uprobe ''eval_frame_func_entry'' (sy_file_offset entry), uprobe ''worker_eval_frame_func_entry'' (sy_file_offset entry),
          uprobe ''eval_resume'' resume, uprobe ''worker_eval_resume'' resume])"

definition task_plan :: "PythonContract \<Rightarrow> attachment list" where
  "task_plan contract =
     (let uprobe = (\<lambda>prog name. UProbe prog (At_offset (sy_file_offset (the (pc_symbols contract name)))) (mi_path (pc_asyncio_module contract)))
      in [uprobe ''asyncio_task_init'' ''_asyncio_Task___init___impl'',
          uprobe ''asyncio_task_step'' ''task_step'', uprobe ''asyncio_task_step_ret'' ''task_step'',
          uprobe ''asyncio_task_eager_start'' ''task_eager_start'', uprobe ''asyncio_task_eager_start_ret'' ''task_eager_start''])"

definition eval_complete :: "SymbolEntry \<Rightarrow> bool" where
  "eval_complete entry \<longleftrightarrow> sy_start_frame_file_offset entry \<noteq> None \<and> sy_frame_reg_idx entry \<noteq> None \<and>
     sy_resume_file_offset entry \<noteq> None \<and> sy_end_return_value_file_offset entry \<noteq> None \<and>
     sy_end_return_const_file_offset entry \<noteq> None \<and> sy_end_exception_file_offset entry \<noteq> None"

lemma frame_probes_Inr:
  "attach_frame_probes mc contract attached = Inr r \<longleftrightarrow>
     (\<exists>sym. pc_symbols contract ''_PyEval_EvalFrameDefault'' = Some sym \<and> eval_complete sym \<and>
        list_all (can_attach mc) (frame_plan (lp_path (pc_libpython contract)) sym) \<and>
        r = attached @ frame_plan (lp_path (pc_libpython contract)) sym)"
proof (cases "pc_symbols contract ''_PyEval_EvalFrameDefault''")
  case None
  then show ?thesis by (simp add: attach_frame_probes_def Let_def)
next
  case (Some entry)
  show ?thesis
  proof (cases "eval_complete entry")
    case True
    then obtain a b c d x y where "sy_start_frame_file_offset entry = Some a" "sy_frame_reg_idx entry = Some b"
      "sy_resume_file_offset entry = Some c" "sy_end_return_value_file_offset entry = Some d"
      "sy_end_return_const_file_offset entry = Some x" "sy_end_exception_file_offset entry = Some y"
      by (auto simp: eval_complete_def)
    with True Some show ?thesis
      unfolding attach_frame_probes_def Let_def frame_plan_def
      by (simp only: or_err_Inr and_then_Inr attach_list_Inr option.sel option.inject simp_thms ex_simps) (simp add: conj_ac)
  next
    case False
    have "attach_frame_probes mc contract attached \<noteq> Inr r"
    proof
      assume "attach_frame_probes mc contract attached = Inr r"
      then have "eval_complete entry"
        unfolding attach_frame_probes_def Let_def and_then_Inr or_err_Inr Some option.inject
        by (elim exE conjE) (simp add: eval_complete_def)
      with False show False ..
    qed
    with Some False show ?thesis by simp
  qed
qed

lemma symbol_offset_Inr [simp]:
  "symbol_offset contract name = Inr a \<longleftrightarrow> (\<exists>sym. pc_symbols contract name = Some sym \<and> a = sy_file_offset sym)"
  by (auto simp: symbol_offset_def)

lemma task_probes_Inr:
  "attach_task_probes mc contract attached = Inr r \<longleftrightarrow>
     (\<forall>name \<in> {''_asyncio_Task___init___impl'', ''task_step'', ''task_eager_start''}. pc_symbols contract name \<noteq> None) \<and>
     list_all (can_attach mc) (task_plan contract) \<and> r = attached @ task_plan contract"
proof (cases "\<forall>name \<in> {''_asyncio_Task___init___impl'', ''task_step'', ''task_eager_start''}. pc_symbols contract name \<noteq> None")
  case True
  then obtain a b c where "pc_symbols contract ''_asyncio_Task___init___impl'' = Some a" "pc_symbols contract ''task_step'' = Some b"
    "pc_symbols contract ''task_eager_start'' = Some c" by auto
  with True show ?thesis
    unfolding attach_task_probes_def task_plan_def Let_def
    by (simp only: map_err_Inr symbol_offset_Inr and_then_Inr attach_list_Inr option.sel option.inject simp_thms ex_simps)
      (simp add: conj_ac)
next
  case False
  have "\<not> (attach_task_probes mc contract attached = Inr r)"
  proof
    assume "attach_task_probes mc contract attached = Inr r"
    then have "\<exists>a b c. pc_symbols contract ''_asyncio_Task___init___impl'' = Some a \<and> pc_symbols contract ''task_step'' = Some b \<and>
        pc_symbols contract ''task_eager_start'' = Some c"
      unfolding attach_task_probes_def Let_def and_then_Inr map_err_Inr symbol_offset_Inr by (elim exE conjE) simp
    with False show False by auto
  qed
  with False show ?thesis by blast
qed

text \<open>The place of a symbol: the binary it is in and its offset there.\<close>

definition place_of :: "PythonContract \<Rightarrow> string \<Rightarrow> string \<times> u64 \<Rightarrow> bool" where
  "place_of contract name place \<longleftrightarrow>
     symbol_offset contract name = Inr (snd place) \<and> symbol_binary contract name = Inr (fst place)"

definition dealloc_plan :: "(string \<times> u64) list \<Rightarrow> attachment list" where
  "dealloc_plan places = map (\<lambda>(bin, off). UProbe ''gen_dealloc'' (At_offset off) bin) places"

definition dealloc_symbols :: "string list" where
  "dealloc_symbols = [''PyGen_Type_tp_dealloc'', ''PyCoro_Type_tp_dealloc'', ''PyAsyncGen_Type_tp_dealloc'']"

lemma deallocs_Inr:
  "attach_deallocs mc contract seen names attached = Inr r \<Longrightarrow>
   \<exists>places. distinct places \<and> set places \<inter> set seen = {} \<and> r = attached @ dealloc_plan places \<and>
     (\<forall>name \<in> set names. \<exists>p \<in> set seen \<union> set places. place_of contract name p)"
proof (induction names arbitrary: seen attached)
  case Nil
  then show ?case by (intro exI [of _ "[]"]) (simp add: dealloc_plan_def)
next
  case (Cons name names)
  then obtain bin a where p: "place_of contract name (bin, a)"
    by (auto simp: place_of_def simp del: symbol_offset_Inr)
  show ?case
  proof (cases "(bin, a) \<in> set seen")
    case True
    with Cons.prems p have "attach_deallocs mc contract seen names attached = Inr r"
      by (auto simp: place_of_def)
    from Cons.IH [OF this] True p show ?thesis by auto
  next
    case False
    with Cons.prems p have "attach_deallocs mc contract (seen @ [(bin, a)]) names
        (attached @ [UProbe ''gen_dealloc'' (At_offset a) bin]) = Inr r"
      by (auto simp: place_of_def simp del: attach_list.simps)
    from Cons.IH [OF this] obtain places where "distinct places" "set places \<inter> set (seen @ [(bin, a)]) = {}"
      "r = attached @ UProbe ''gen_dealloc'' (At_offset a) bin # dealloc_plan places"
      "\<forall>name \<in> set names. \<exists>p \<in> set (seen @ [(bin, a)]) \<union> set places. place_of contract name p" by auto
    with False p show ?thesis
      by (intro exI [of _ "(bin, a) # places"]) (auto simp: dealloc_plan_def)
  qed
qed

lemma deallocs_defined:
  assumes "\<And>a. can_attach mc a"
  shows "(\<exists>r. attach_deallocs mc contract seen names attached = Inr r) \<longleftrightarrow> (\<forall>name \<in> set names. \<exists>p. place_of contract name p)"
proof (induction names arbitrary: seen attached)
  case (Cons name names)
  show ?case
  proof (cases "\<exists>p. place_of contract name p")
    case True
    then obtain bin a where "symbol_offset contract name = Inr a" "symbol_binary contract name = Inr bin"
      by (auto simp: place_of_def simp del: symbol_offset_Inr)
    then show ?thesis using Cons.IH True assms by (simp del: symbol_offset_Inr)
  next
    case False
    then show ?thesis by (auto simp: place_of_def simp del: symbol_offset_Inr)
  qed
qed simp

text \<open>The program an attachment of this kind runs.\<close>

fun uprobe_program :: "attachment \<Rightarrow> string option" where
  "uprobe_program (UProbe prog target binary) = Some prog"
| "uprobe_program a = None"

definition exit_programs :: "string list" where
  "exit_programs = [''eval_frame_end_rv'', ''eval_frame_end_rc'', ''eval_frame_end_exc'']"

definition frame_programs :: "string list" where
  "frame_programs = [''eval_frame_entry'', ''worker_eval_frame_entry''] @ exit_programs @
     [''eval_frame_func_entry'', ''worker_eval_frame_func_entry'', ''eval_resume'', ''worker_eval_resume'']"

lemma frame_plan_programs: "a \<in> set (frame_plan python entry) \<Longrightarrow> uprobe_program a \<in> Some ` set frame_programs"
  unfolding frame_plan_def Let_def by (auto simp: frame_programs_def exit_programs_def split: if_splits)

lemma frame_plan_distinct:
  assumes "distinct (sy_start_frame_extra_file_offsets entry)" shows "distinct (frame_plan python entry)"
  unfolding frame_plan_def Let_def using assms by (auto simp: distinct_map inj_on_def)

lemma task_plan_facts:
  "distinct (task_plan contract)"
  "a \<in> set (task_plan contract) \<Longrightarrow> uprobe_program a \<notin> Some ` set frame_programs \<and> uprobe_program a \<noteq> Some ''gen_dealloc'' \<and> uprobe_program a \<noteq> None"
  by (auto simp: task_plan_def Let_def frame_programs_def exit_programs_def)

lemma dealloc_plan_facts:
  "distinct places \<Longrightarrow> distinct (dealloc_plan places)"
  "a \<in> set (dealloc_plan places) \<Longrightarrow> uprobe_program a = Some ''gen_dealloc'' \<and> (\<exists>b off. a = UProbe ''gen_dealloc'' (At_offset off) b)"
  by (auto simp: dealloc_plan_def distinct_map inj_on_def)

lemma hooks_facts:
  "distinct (tracepoints @ snd (attach_policy_hooks mc))"
  "a \<in> set (tracepoints @ snd (attach_policy_hooks mc)) \<Longrightarrow> uprobe_program a = None"
proof -
  have "distinct lsm_hooks" "distinct fentry_probes" "set lsm_hooks \<inter> set fentry_probes = {}"
    "set tracepoints \<inter> (set lsm_hooks \<union> set fentry_probes) = {}" "distinct tracepoints"
    by (simp_all add: lsm_hooks_def fentry_probes_def tracepoints_def)
  then show "distinct (tracepoints @ snd (attach_policy_hooks mc))"
    by (auto simp: attach_policy_hooks_def attach_some_def Let_def dest!: set_takeWhileD)
  show "a \<in> set (tracepoints @ snd (attach_policy_hooks mc)) \<Longrightarrow> uprobe_program a = None"
    by (auto simp: attach_policy_hooks_def attach_some_def Let_def lsm_hooks_def fentry_probes_def tracepoints_def
        dest!: set_takeWhileD split: if_splits)
qed

lemma uprobes_Inr:
  assumes "attach_uprobes mc contract attached = Inr r"
  obtains entry places where "pc_symbols contract ''_PyEval_EvalFrameDefault'' = Some entry" "eval_complete entry"
    "distinct places" "\<forall>name \<in> set dealloc_symbols. \<exists>p \<in> set places. place_of contract name p"
    "r = attached @ frame_plan (lp_path (pc_libpython contract)) entry @ task_plan contract @ dealloc_plan places @
       [UProbe ''gen_dealloc'' (At_symbol ''PyObject_Free'') (lp_path (pc_libpython contract)),
        UProbe ''gen_dealloc'' (At_symbol ''PyObject_GC_Del'') (lp_path (pc_libpython contract))]"
proof -
  let ?free = "[UProbe ''gen_dealloc'' (At_symbol ''PyObject_Free'') (lp_path (pc_libpython contract)),
        UProbe ''gen_dealloc'' (At_symbol ''PyObject_GC_Del'') (lp_path (pc_libpython contract))]"
  from assms obtain r1 r2 where r1: "attach_frame_probes mc contract attached = Inr r1"
    and r2: "attach_task_probes mc contract r1 = Inr r2" and r: "attach_dealloc_probes mc contract r2 = Inr r"
    by (auto simp: attach_uprobes_def)
  from r obtain r3 where r3: "attach_deallocs mc contract [] dealloc_symbols r2 = Inr r3" and r': "r = r3 @ ?free"
    unfolding attach_dealloc_probes_def and_then_Inr attach_list_Inr dealloc_symbols_def by blast
  from deallocs_Inr [OF r3] obtain places where places: "distinct places" "r3 = r2 @ dealloc_plan places"
    "\<forall>name \<in> set dealloc_symbols. \<exists>p \<in> set places. place_of contract name p" by auto
  from r1 obtain entry where entry: "pc_symbols contract ''_PyEval_EvalFrameDefault'' = Some entry" "eval_complete entry"
    "r1 = attached @ frame_plan (lp_path (pc_libpython contract)) entry" unfolding frame_probes_Inr by blast
  from r2 have "r2 = r1 @ task_plan contract" unfolding task_probes_Inr by blast
  with entry places r' show ?thesis by (intro that [of entry places]) simp_all
qed

lemma start_Inr:
  assumes "start_cpython_runtime mc args ps s0 = Inr st"
  obtains root_rules s1 s2 compiled where "prepare mc args = Inr (st_config st, st_contract st, root_rules)"
    "populate_offsets (st_contract st) s0 = Inr s1" "populate_rules root_rules s1 = Inr s2"
    "compile_with_hashed_tool_ids (mc_host mc) (st_config st) = Inr compiled"
    "populate_maps compiled (run_early ps s2) = Some (sys_kernel (st_system st))"
    "attach_uprobes mc (st_contract st) (tracepoints @ snd (attach_policy_hooks mc)) = Inr (st_attached st)"
    "st_lsm_effective st = fst (attach_policy_hooks mc)"
    "st_system st = \<lparr>sys_kernel = sys_kernel (st_system st), sys_user = runtime_init, sys_stage = Py_ring, sys_hand = None,
       py_next = 0, resolver_next = 0, guard_next = 0\<rparr>"
  using assms unfolding start_cpython_runtime_def
  by (auto simp: split_beta split: if_splits)

lemma attached_exit:
  assumes "attach_uprobes mc contract (tracepoints @ snd (attach_policy_hooks mc)) = Inr r"
    and "pc_symbols contract ''_PyEval_EvalFrameDefault'' = Some entry" "prog \<in> set frame_programs"
  shows "UProbe prog target bin \<in> set r \<longleftrightarrow> UProbe prog target bin \<in> set (frame_plan (lp_path (pc_libpython contract)) entry)"
proof -
  have "''gen_dealloc'' \<notin> set frame_programs" by (simp add: frame_programs_def exit_programs_def)
  with assms(3) have "prog \<noteq> ''gen_dealloc''" by metis
  moreover from assms(1) obtain entry' places where "pc_symbols contract ''_PyEval_EvalFrameDefault'' = Some entry'"
    "r = (tracepoints @ snd (attach_policy_hooks mc)) @ frame_plan (lp_path (pc_libpython contract)) entry' @
      task_plan contract @ dealloc_plan places @
       [UProbe ''gen_dealloc'' (At_symbol ''PyObject_Free'') (lp_path (pc_libpython contract)),
        UProbe ''gen_dealloc'' (At_symbol ''PyObject_GC_Del'') (lp_path (pc_libpython contract))]"
    by (rule uprobes_Inr)
  ultimately show ?thesis
    using hooks_facts(2) [of "UProbe prog target bin" mc] task_plan_facts(2) [of "UProbe prog target bin" contract]
      dealloc_plan_facts(2) [of "UProbe prog target bin" places] assms(2,3) by auto
qed

lemma exit_plan:
  assumes "prog \<in> set exit_programs"
  shows "UProbe prog (At_offset a) python \<in> set (frame_plan python entry) \<longleftrightarrow>
    (let end_rv = the (sy_end_return_value_file_offset entry); end_rc = the (sy_end_return_const_file_offset entry);
         end_exc = the (sy_end_exception_file_offset entry)
     in prog = ''eval_frame_end_rv'' \<and> a = end_rv \<or> prog = ''eval_frame_end_rc'' \<and> a = end_rc \<and> a \<noteq> end_rv \<or>
        prog = ''eval_frame_end_exc'' \<and> a = end_exc \<and> a \<noteq> end_rv \<and> a \<noteq> end_rc)"
  using assms by (auto simp: frame_plan_def Let_def exit_programs_def)

lemma exit_program_of:
  "\<exists>!prog. prog \<in> set exit_programs \<and>
     (prog = ''eval_frame_end_rv'' \<and> a = end_rv \<or> prog = ''eval_frame_end_rc'' \<and> a = end_rc \<and> a \<noteq> end_rv \<or>
      prog = ''eval_frame_end_exc'' \<and> a = end_exc \<and> a \<noteq> end_rv \<and> a \<noteq> end_rc)"
  if "a \<in> {end_rv, end_rc, end_exc}" for a end_rv end_rc end_exc :: u64
  using that by (cases "a = end_rv"; cases "a = end_rc") (auto simp: exit_programs_def)

lemma attached_once:
  assumes "attach_uprobes mc contract (tracepoints @ snd (attach_policy_hooks mc)) = Inr r"
    and "pc_symbols contract ''_PyEval_EvalFrameDefault'' = Some entry" "distinct (sy_start_frame_extra_file_offsets entry)"
  shows "distinct r"
proof -
  let ?lib = "lp_path (pc_libpython contract)" and ?hooks = "tracepoints @ snd (attach_policy_hooks mc)"
  from assms(1) obtain entry' places where entry: "pc_symbols contract ''_PyEval_EvalFrameDefault'' = Some entry'"
    and places: "distinct places" and r': "r = ?hooks @ frame_plan ?lib entry' @ task_plan contract @ dealloc_plan places @
       [UProbe ''gen_dealloc'' (At_symbol ''PyObject_Free'') ?lib, UProbe ''gen_dealloc'' (At_symbol ''PyObject_GC_Del'') ?lib]"
    by (rule uprobes_Inr)
  from entry assms(2) have "entry' = entry" by simp
  note r = r' [unfolded this]
  have "''gen_dealloc'' \<notin> set frame_programs" by (simp add: frame_programs_def exit_programs_def)
  then have gen: "Some ''gen_dealloc'' \<notin> Some ` set frame_programs" by auto
  note parts = frame_plan_distinct [OF assms(3), of ?lib] task_plan_facts(1) [of contract] dealloc_plan_facts(1) [OF places]
    hooks_facts(1) [of mc]
  have "set ?hooks \<inter> (set (frame_plan ?lib entry) \<union> set (task_plan contract) \<union> set (dealloc_plan places)) = {}"
    "set (frame_plan ?lib entry) \<inter> (set (task_plan contract) \<union> set (dealloc_plan places)) = {}"
    "set (task_plan contract) \<inter> set (dealloc_plan places) = {}"
    using hooks_facts(2) [of _ mc] frame_plan_programs [of _ ?lib entry] task_plan_facts(2) [of _ contract]
      dealloc_plan_facts(2) [of _ places] gen by fastforce+
  moreover have "UProbe ''gen_dealloc'' (At_symbol name) ?lib \<notin>
      set ?hooks \<union> set (frame_plan ?lib entry) \<union> set (task_plan contract) \<union> set (dealloc_plan places)" for name
    using hooks_facts(2) [of _ mc] frame_plan_programs [of _ ?lib entry] task_plan_facts(2) [of _ contract]
      dealloc_plan_facts(2) [of _ places] gen by fastforce
  ultimately show ?thesis
    unfolding r distinct_append using parts by (simp add: Int_Un_distrib)
qed

section \<open>A start that succeeds\<close>

lemma run_early_policy: "policy_view (run_early ps s) = policy_view s"
  unfolding run_early_def by (rule programs.all_policy)

lemma run_early_early: "early s \<Longrightarrow> list_all (\<lambda>(p, e). attached_early p) ps \<Longrightarrow> early (run_early ps s)"
  unfolding run_early_def by (induction ps arbitrary: s) (auto simp: split_beta intro: early.probe)

lemma populate_maps_keeps:
  "populate_maps c s0 = Some s \<Longrightarrow> PYTHON_OFFSETS s = PYTHON_OFFSETS s0 \<and> ROOT_RULES s = ROOT_RULES s0"
  by (auto simp: populate_maps_def split: option.splits)

lemma prepare_Inr:
  assumes "prepare mc args = Inr (config, contract, rules)"
  obtains target_pids dir where "runtime_config mc args = Inr config" "configured_agent_pids config = Some target_pids"
    "agents_contract (mc_platform mc) dir target_pids = Inr contract"
    "\<exists>path. load_rules (\<lambda>p. map_option utf8 (fs_read_to_string (mc_platform mc) p)) (parse_rules mc) path = Some rules"
  using assms unfolding prepare_def by auto

text \<open>C8: a start that succeeds is the beginning of a run.  Whatever the programs attached before the policy
  do in the meantime, the system it ends with is one that the runs of the whole system start from,
  for the policy file as overridden on the command line; the kernel finds every offset of the
  contract under the index it uses for it, and the rules of the file, at most 64 of them, in order.\<close>

theorem start_begins_run:
  assumes "start_cpython_runtime mc args ps (init_state ev cg cp cr) = Inr st" "list_all (\<lambda>(p, e). attached_early p) ps"
  shows "reachable detect (mc_host mc) (st_config st) (st_system st) \<and>
    kernel_layout (sys_kernel (st_system st)) = contract_layout (st_contract st) \<and>
    (\<exists>path rules. load_rules (\<lambda>p. map_option utf8 (fs_read_to_string (mc_platform mc) p)) (parse_rules mc) path = Some rules \<and>
       length rules \<le> 64 \<and> ROOT_RULES (sys_kernel (st_system st)) = rules @ replicate (64 - length rules) RootRule_default)"
proof -
  let ?init = "init_state ev cg cp cr" and ?s = "sys_kernel (st_system st)"
  from assms(1) obtain rules s1 s2 compiled where prep: "prepare mc args = Inr (st_config st, st_contract st, rules)"
    and s1: "populate_offsets (st_contract st) ?init = Inr s1" and s2: "populate_rules rules s1 = Inr s2"
    and c: "compile_with_hashed_tool_ids (mc_host mc) (st_config st) = Inr compiled"
    and s: "populate_maps compiled (run_early ps s2) = Some ?s"
    and sys: "st_system st = \<lparr>sys_kernel = ?s, sys_user = runtime_init, sys_stage = Py_ring, sys_hand = None,
       py_next = 0, resolver_next = 0, guard_next = 0\<rparr>" by (rule start_Inr)
  obtain offs where offs: "kernel_layout s1 = contract_layout (st_contract st)" "s1 = ?init\<lparr>PYTHON_OFFSETS := offs\<rparr>"
    using populate_offsets_Inr [OF s1] by (auto simp: init_state_def)
  have rules: "length rules \<le> 64" "s2 = s1\<lparr>ROOT_RULES := rules @ replicate (64 - length rules) RootRule_default\<rparr>"
    using populate_rules_Inr [OF s2] by (simp_all add: offs init_state_def)
  have "early s2" unfolding rules offs by (simp add: early.loaded)
  from reachable.boot [OF c run_early_early [OF this assms(2)] s] have "reachable detect (mc_host mc) (st_config st) (st_system st)"
    by (simp flip: sys)
  moreover have kept: "PYTHON_OFFSETS ?s = PYTHON_OFFSETS s2" "ROOT_RULES ?s = ROOT_RULES s2"
    using populate_maps_keeps [OF s] run_early_policy [of ps s2] by (simp_all add: policy_view_def)
  then have "kernel_layout ?s = contract_layout (st_contract st)" using offs rules by (simp add: kernel_layout_def)
  moreover have "\<exists>path. load_rules (\<lambda>p. map_option utf8 (fs_read_to_string (mc_platform mc) p)) (parse_rules mc) path = Some rules"
    using prep by (rule prepare_Inr)
  ultimately show ?thesis using rules kept(2) by auto
qed

lemma rewrite_keeps:
  "attach_ready (rewrite_contract_runtime_paths c d) = attach_ready c"
  "verified (rewrite_contract_runtime_paths c d) = verified c"
  "contract_python_build_id (rewrite_contract_runtime_paths c d) = contract_python_build_id c"
  "contract_arch (rewrite_contract_runtime_paths c d) = contract_arch c"
  by (simp_all add: rewrite_contract_runtime_paths_def attach_ready_def verified_def contract_python_build_id_def
      contract_arch_def split: option.split)

lemma load_for_pid:
  assumes "load_contract_for_pid pf dir pid = Inr r"
  shows "detect_runtime_for_pid pf pid = Inr (rc_detected r) \<and>
    lp_path (pc_libpython (rc_contract r)) = dr_python_path (rc_detected r) \<and>
    mi_path (pc_asyncio_module (rc_contract r)) = dr_asyncio_path (rc_detected r) \<and>
    attach_ready (rc_contract r) \<and> verified (rc_contract r) \<and> contract_matches_detected (rc_contract r) (rc_detected r)"
proof -
  from assms obtain d where d: "detect_runtime_for_pid pf pid = Inr d" "load_contract_for_detected pf dir d = Inr r"
    by (auto simp: load_contract_for_pid_def)
  from d(2) obtain path c where u: "usable pf d path c"
    and r: "r = \<lparr>rc_contract = rewrite_contract_runtime_paths c d, rc_detected = d\<rparr>" by (rule loaded_usable)
  have "contract_matches_detected (rewrite_contract_runtime_paths c d) d"
    using u unfolding usable_def contract_matches_detected_def rewrite_keeps by (simp add: rewrite_contract_runtime_paths_def)
  with u d(1) show ?thesis by (simp add: r usable_def rewrite_keeps) (simp add: rewrite_contract_runtime_paths_def)
qed

lemma agents_contract_Inr:
  assumes "agents_contract pf dir pids = Inr contract" "pid \<in> set pids"
  obtains primary d where "detect_runtime_for_pid pf pid = Inr d" "same_runtime d primary"
    "lp_path (pc_libpython contract) = dr_python_path primary" "mi_path (pc_asyncio_module contract) = dr_asyncio_path primary"
    "attach_ready contract" "verified contract" "contract_matches_detected contract primary"
proof -
  from assms(1) obtain resolved where r: "load_contract_for_pid pf dir (hd pids) = Inr resolved" "contract = rc_contract resolved"
    and others: "\<forall>pid \<in> set (tl pids). \<exists>other. load_contract_for_pid pf dir pid = Inr other \<and>
      same_runtime (rc_detected other) (rc_detected resolved)"
    unfolding agents_contract_def Let_def by (auto simp: for_each_ok split: if_splits)
  have "\<exists>other. load_contract_for_pid pf dir pid = Inr other \<and> same_runtime (rc_detected other) (rc_detected resolved)"
    using assms(2) others r(1) by (cases pids) (auto simp: same_runtime_def)
  then show ?thesis using load_for_pid [OF r(1)] load_for_pid that r(2) by blast
qed

text \<open>C9: every agent runs the interpreter the probes are in.  After a start that succeeds, each process
  named in the policy file is protected, and it runs the executable and the \<^verbatim>\<open>_asyncio\<close> module, of
  the same build and architecture, that the contract describes and the probes are attached to; the
  contract has been checked.\<close>

theorem agents_share_runtime:
  assumes "start_cpython_runtime mc args ps s0 = Inr st" "Some pid \<in> ag_pid ` set (sec_agents (st_config st))"
  shows "bm_get (PROTECTED_TGIDS (sys_kernel (st_system st))) pid = Some 1 \<and>
    attach_ready (st_contract st) \<and> verified (st_contract st) \<and>
    (\<exists>d. detect_runtime_for_pid (mc_platform mc) pid = Inr d \<and>
       lp_path (pc_libpython (st_contract st)) = dr_python_path d \<and>
       mi_path (pc_asyncio_module (st_contract st)) = dr_asyncio_path d \<and>
       mi_build_id (pc_asyncio_module (st_contract st)) = dr_asyncio_build_id d \<and> contract_arch (st_contract st) = dr_arch d \<and>
       (contract_python_build_id (st_contract st) = dr_python_build_id d \<or>
        lp_build_id_fallback_sha256 (pc_libpython (st_contract st)) \<noteq> []))"
proof -
  from assms(1) obtain rules s2 compiled where prep: "prepare mc args = Inr (st_config st, st_contract st, rules)"
    and c: "compile_with_hashed_tool_ids (mc_host mc) (st_config st) = Inr compiled"
    and s: "populate_maps compiled (run_early ps s2) = Some (sys_kernel (st_system st))" by (rule start_Inr)
  from prep obtain pids dir where pids: "configured_agent_pids (st_config st) = Some pids"
    and agents: "agents_contract (mc_platform mc) dir pids = Inr (st_contract st)" by (rule prepare_Inr)
  have pids': "pids = List.map_filter ag_pid (sec_agents (st_config st))"
    using pids by (auto simp: configured_agent_pids_def Let_def split: if_splits)
  from assms(2) obtain a where "a \<in> set (sec_agents (st_config st))" "ag_pid a = Some pid" by (metis imageE)
  then have pid: "pid \<in> set pids" by (auto simp: pids' map_filter_def intro!: rev_image_eqI [of a])
  have "cp_agent_pids compiled = pids"
    using c by (auto simp: pids' compile_with_hashed_tool_ids_def compile_eq policy_of_def Let_def split: option.splits)
  with pid have "map_of (rev (map (\<lambda>pid. (pid, 1 :: u8)) (cp_agent_pids compiled))) pid = Some 1"
    by (simp add: rev_map map_of_map_restrict)
  then have "bm_get (PROTECTED_TGIDS (sys_kernel (st_system st))) pid = Some 1"
    using insert_all_get [OF populate_fields(4) [OF s], of pid] by simp
  moreover from agents pid obtain primary d where "detect_runtime_for_pid (mc_platform mc) pid = Inr d" "same_runtime d primary"
    "lp_path (pc_libpython (st_contract st)) = dr_python_path primary"
    "mi_path (pc_asyncio_module (st_contract st)) = dr_asyncio_path primary" "attach_ready (st_contract st)"
    "verified (st_contract st)" "contract_matches_detected (st_contract st) primary" by (rule agents_contract_Inr)
  ultimately show ?thesis by (auto simp: same_runtime_def contract_matches_detected_def)
qed

lemma exit_probed:
  assumes up: "attach_uprobes mc contract (tracepoints @ snd (attach_policy_hooks mc)) = Inr r"
    and entry: "pc_symbols contract ''_PyEval_EvalFrameDefault'' = Some entry"
    and "Some a \<in> {sy_end_return_value_file_offset entry, sy_end_return_const_file_offset entry, sy_end_exception_file_offset entry}"
  shows "\<exists>!prog. prog \<in> set exit_programs \<and> UProbe prog (At_offset a) (lp_path (pc_libpython contract)) \<in> set r"
proof -
  have a: "a \<in> {the (sy_end_return_value_file_offset entry), the (sy_end_return_const_file_offset entry),
      the (sy_end_exception_file_offset entry)}" using assms(3) by (metis insert_iff option.sel singletonD)
  have "prog \<in> set exit_programs \<Longrightarrow> prog \<in> set frame_programs" for prog by (auto simp: frame_programs_def)
  with exit_program_of [OF a] show ?thesis
    using attached_exit [OF up entry] exit_plan by (simp add: Let_def cong: conj_cong)
qed

lemma dealloc_probed:
  assumes "attach_uprobes mc contract attached = Inr r" "name \<in> set dealloc_symbols"
  shows "\<exists>bin a. place_of contract name (bin, a) \<and> UProbe ''gen_dealloc'' (At_offset a) bin \<in> set r"
proof -
  from assms(1) obtain entry places where "\<forall>name \<in> set dealloc_symbols. \<exists>p \<in> set places. place_of contract name p"
    and r: "r = attached @ frame_plan (lp_path (pc_libpython contract)) entry @ task_plan contract @ dealloc_plan places @
       [UProbe ''gen_dealloc'' (At_symbol ''PyObject_Free'') (lp_path (pc_libpython contract)),
        UProbe ''gen_dealloc'' (At_symbol ''PyObject_GC_Del'') (lp_path (pc_libpython contract))]"
    by (rule uprobes_Inr)
  with assms(2) obtain bin a where "(bin, a) \<in> set places" "place_of contract name (bin, a)" by fast
  then show ?thesis unfolding r by (intro exI [of _ bin] exI [of _ a]) (auto simp: dealloc_plan_def intro: rev_image_eqI)
qed

lemma hooks_attached:
  "fst (attach_policy_hooks mc) \<Longrightarrow> set lsm_hooks \<subseteq> set (snd (attach_policy_hooks mc))"
  "\<not> fst (attach_policy_hooks mc) \<Longrightarrow> list_all (can_attach mc) fentry_probes \<Longrightarrow> set fentry_probes \<subseteq> set (snd (attach_policy_hooks mc))"
proof -
  have all: "list_all P xs \<Longrightarrow> takeWhile P xs = xs" for P and xs :: "attachment list"
    by (simp add: takeWhile_eq_all_conv list_all_iff)
  show "fst (attach_policy_hooks mc) \<Longrightarrow> set lsm_hooks \<subseteq> set (snd (attach_policy_hooks mc))"
    "\<not> fst (attach_policy_hooks mc) \<Longrightarrow> list_all (can_attach mc) fentry_probes \<Longrightarrow> set fentry_probes \<subseteq> set (snd (attach_policy_hooks mc))"
    by (auto simp: attach_policy_hooks_def attach_some_def Let_def all split: if_splits)
qed

text \<open>C10: no probe is placed twice and no exit is missed.  After a start that succeeds, with a contract that
  lists no further start of a frame twice, no program is attached twice at a place; at each of the
  three points where a frame is left exactly one of the exit programs is attached, in the
  executable, even when the points coincide; the deallocator of each of the three kinds of generator
  is probed where the contract puts it; and the three enforcing hooks are attached if the start
  takes them to be effective.\<close>

theorem probes_placed_once:
  assumes "start_cpython_runtime mc args ps s0 = Inr st"
    and "pc_symbols (st_contract st) ''_PyEval_EvalFrameDefault'' = Some entry"
    and "distinct (sy_start_frame_extra_file_offsets entry)"
  shows "distinct (st_attached st) \<and>
    (\<forall>a. Some a \<in> {sy_end_return_value_file_offset entry, sy_end_return_const_file_offset entry, sy_end_exception_file_offset entry} \<longrightarrow>
       (\<exists>!prog. prog \<in> set exit_programs \<and>
          UProbe prog (At_offset a) (lp_path (pc_libpython (st_contract st))) \<in> set (st_attached st))) \<and>
    (\<forall>name \<in> set dealloc_symbols. \<exists>bin a. place_of (st_contract st) name (bin, a) \<and>
       UProbe ''gen_dealloc'' (At_offset a) bin \<in> set (st_attached st)) \<and>
    (st_lsm_effective st \<longrightarrow> set lsm_hooks \<subseteq> set (st_attached st))"
proof -
  from assms(1) have up: "attach_uprobes mc (st_contract st) (tracepoints @ snd (attach_policy_hooks mc)) = Inr (st_attached st)"
    by (rule start_Inr)
  from assms(1) have lsm: "st_lsm_effective st = fst (attach_policy_hooks mc)" by (rule start_Inr)
  from up have "set (snd (attach_policy_hooks mc)) \<subseteq> set (st_attached st)" by (rule uprobes_Inr) auto
  with hooks_attached(1) [of mc] lsm attached_once [OF up assms(2,3)] exit_probed [OF up assms(2)] dealloc_probed [OF up]
  show ?thesis by blast
qed

lemma uprobes_defined:
  assumes "attach_ready c" "\<And>a. can_attach mc a"
  shows "(\<exists>r. attach_uprobes mc c attached = Inr r) \<longleftrightarrow> (\<forall>name \<in> set dealloc_symbols. \<exists>bin. symbol_binary c name = Inr bin)"
proof -
  from assms(1) obtain entry where "pc_symbols c ''_PyEval_EvalFrameDefault'' = Some entry" "eval_complete entry"
    by (auto simp: attach_ready_def sourced_def eval_complete_def)
  then have f: "attach_frame_probes mc c attached = Inr (attached @ frame_plan (lp_path (pc_libpython c)) entry)" for attached
    by (auto simp: frame_probes_Inr assms(2) list_all_iff)
  have named: "\<exists>s. pc_symbols c name = Some s" if "name \<in> set probe_symbols" for name
    using assms(1) that by (auto simp: attach_ready_def)
  then have t: "attach_task_probes mc c attached = Inr (attached @ task_plan c)" for attached
    by (simp add: task_probes_Inr assms(2) list_all_iff probe_symbols_def)
  have "(\<exists>r. attach_dealloc_probes mc c attached = Inr r) \<longleftrightarrow> (\<exists>r. attach_deallocs mc c [] dealloc_symbols attached = Inr r)" for attached
    by (simp add: attach_dealloc_probes_def dealloc_symbols_def assms(2))
  then have "(\<exists>r. attach_uprobes mc c attached = Inr r) \<longleftrightarrow> (\<forall>name \<in> set dealloc_symbols. \<exists>p. place_of c name p)"
    by (simp add: attach_uprobes_def f t deallocs_defined [OF assms(2)])
  moreover have "(\<exists>p. place_of c name p) \<longleftrightarrow> (\<exists>bin. symbol_binary c name = Inr bin)" if "name \<in> set dealloc_symbols" for name
  proof -
    from that have "name \<in> set probe_symbols" by (auto simp: dealloc_symbols_def probe_symbols_def)
    from named [OF this] show ?thesis by (auto simp: place_of_def)
  qed
  ultimately show ?thesis by simp
qed

text \<open>C34: what a contract that passes the checks still needs.  When every program can be attached, the
  offsets of a contract that is ready to attach can be written and its probes placed exactly if it
  also names the register of the frame at the exception exit and says in which binary the three
  deallocators are.\<close>

theorem checked_contract_attaches:
  assumes "attach_ready c" "\<And>a. can_attach mc a" "length (PYTHON_OFFSETS s0) = 64"
  shows "(\<exists>s. populate_offsets c s0 = Inr s) \<and> (\<exists>r. attach_uprobes mc c attached = Inr r) \<longleftrightarrow>
    (\<exists>entry. pc_symbols c ''_PyEval_EvalFrameDefault'' = Some entry \<and> sy_end_exception_frame_reg_idx entry \<noteq> None) \<and>
    (\<forall>name \<in> set dealloc_symbols. \<exists>bin. symbol_binary c name = Inr bin)"
  unfolding uprobes_defined [OF assms(1,2)] populate_offsets_defined [OF assms(3)]
  using assms(1) by (auto simp: attach_ready_def)

text \<open>
  A contract that the command \<^verbatim>\<open>profile validate\<close> accepts for a process is one that the search takes
  for it, once it is marked as verified.
\<close>

lemma validate_accepts:
  "run_profile_command pf (Validate pid path) = Inr out \<longleftrightarrow>
     (\<exists>d c. detect_runtime_for_pid pf pid = Inr d \<and> contract_load pf path = Inr c \<and> contract_matches_detected c d \<and>
        attach_ready c \<and> out = CONTRACT_VALIDATED pid path)"
  by (auto simp: validate_attach_ok split: if_splits)

lemma validated_contract_usable:
  assumes "run_profile_command pf (Validate pid path) = Inr out"
  obtains d c where "detect_runtime_for_pid pf pid = Inr d" "contract_load pf path = Inr c" "usable pf d path c \<longleftrightarrow> verified c"
  using assms unfolding validate_accepts by (auto simp: usable_def)

section \<open>One start\<close>

text \<open>A machine with one agent, its interpreter and a contract for it, and room for every program.\<close>

definition platform1 :: platform where
  "platform1 = platform0\<lparr>
     fs_read := map_of [(''/usr/bin/python3'', [0x7F, 0x45] @ gnu_note [0xAB, 0x12]),
       (''/usr/lib/_asyncio.so'', [0x7F, 0x45] @ gnu_note [0xCD, 0x01])],
     fs_read_to_string := map_of [(''/c/a.json'', ''A''), (''/policy.yaml'', ''P''), (''/rules.yaml'', ''R''),
       (''/proc/5/maps'', ''7f00-7f10 r-xp 0 08:01 9 /usr/lib/_asyncio.so'')],
     fs_exists := (\<lambda>p. p \<in> {''/c'', ''/rules.yaml'', ''/usr/bin/python3'', ''/usr/lib/_asyncio.so''}),
     fs_read_link := (\<lambda>p. if p = ''/proc/5/exe'' then Some ''/usr/bin/python3'' else None)\<rparr>"

definition rule1 :: RuleEntry where
  "rule1 = \<lparr>e_qualname = utf8 ''Tool.invoke'', e_kind = CODE_KIND_TOOL_ROOT_LC, e_filename = None, e_extractor_kind = EXTRACTOR_SLOT_NAME,
     e_slot = 0\<rparr>"

definition machine1 :: machine where
  "machine1 = \<lparr>mc_platform = platform1, mc_host = host0, env_var = (\<lambda>_. None), workspace_root = None,
     parse_config = (\<lambda>_. Some \<lparr>y_agents = Some [\<lparr>ag_pid = Some 5\<rparr>], y_tools = Some [tool0], y_mode = None,
       y_unknown_tool_policy = None, y_resolver_error_policy = None, y_agent_child_scope = None, y_default_tool_policy = None\<rparr>),
     parse_rules = (\<lambda>_. Some [rule1]), ebpf_loads = True, btf_from_sys_fs = True, can_attach = (\<lambda>_. True)\<rparr>"

definition args1 :: Args where
  "args1 = \<lparr>a_command = None, a_config = Some ''/policy.yaml'', a_mode = Some ''enforce'', a_verbose = False,
     a_contract_dir = Some ''/c'', a_framework_rules = Some ''/rules.yaml'', a_ready_file = ''/tmp/ironscope/ready'',
     a_output = None, a_duration = 0\<rparr>"

lemma detect1: "detect_runtime_for_pid platform1 5 = Inr detected0"
  by code_simp

lemma contract1: "load_contract_for_pid platform1 ''/c'' 5 =
    Inr \<lparr>rc_contract = rewrite_contract_runtime_paths contract0 detected0, rc_detected = detected0\<rparr>"
proof -
  have load: "contract_load platform1 ''/c/a.json'' = Inr contract0"
    using contract0_checks(1) by (simp add: contract_load_def platform1_def platform0_def)
  have "path_join ''/c'' ''index.json'' = ''/c/index.json''" by code_simp
  then have "\<not> fs_exists platform1 (path_join ''/c'' ''index.json'')"
    "fs_read_dir platform1 ''/c'' = Some (map Some [''/c/README'', ''/c/a.json''])"
    using platform0_dir(2) by (simp_all add: platform1_def)
  from load_first_match [OF this, of "[contract0]" detected0] load show ?thesis
    by (simp add: load_contract_for_pid_def detect1 platform0_dir(3) first_match_def contract0_checks or_err_def)
qed

lemma populate_maps_tables:
  "populate_maps c s = Some s' \<Longrightarrow>
   populate_maps c (s\<lparr>PYTHON_OFFSETS := a, ROOT_RULES := b\<rparr>) = Some (s'\<lparr>PYTHON_OFFSETS := a, ROOT_RULES := b\<rparr>)"
  by (auto simp: populate_maps_def simp del: insert_all.simps split: option.splits)

lemma config1: "runtime_config machine1 args1 = Inr config0"
  by (simp add: runtime_config_def machine1_def args1_def platform1_def load_def section_of_yaml_def or_else_def config0_def or_err_def)

lemma prepare1:
  "prepare machine1 args1 = Inr (config0, rewrite_contract_runtime_paths contract0 detected0, [rule_of_entry rule1])"
proof -
  have "configured_agent_pids config0 = Some [5]" by (simp add: configured_agent_pids_def config0_def List.map_filter_def)
  moreover have "mc_platform machine1 = platform1" "parse_rules machine1 x = Some [rule1]" "a_contract_dir args1 = Some ''/c''"
    "a_framework_rules args1 = Some ''/rules.yaml''" for x by (simp_all add: machine1_def args1_def)
  moreover have "fs_exists platform1 ''/c''" "fs_exists platform1 ''/rules.yaml''"
    "fs_read_to_string platform1 ''/rules.yaml'' = Some ''R''" by (simp_all add: platform1_def)
  ultimately show ?thesis
    by (simp add: prepare_def config1 or_err_def resolve_contract_dir_def resolve_framework_rules_def resolve_path_def
        agents_contract_def Let_def contract1 map_err_def load_rules_def)
qed

lemma start1: "\<exists>st. start_cpython_runtime machine1 args1 [] state0 = Inr st \<and> st_config st = config0 \<and>
    st_contract st = rewrite_contract_runtime_paths contract0 detected0"
proof -
  let ?c = "rewrite_contract_runtime_paths contract0 detected0" and ?hooks = "tracepoints @ snd (attach_policy_hooks machine1)"
  have ready: "attach_ready ?c" using contract0_checks(3) by (simp add: rewrite_keeps runtime_loadable_ok)
  have can: "can_attach machine1 a" for a by (simp add: machine1_def)
  have len: "length (PYTHON_OFFSETS state0) = 64" "length (ROOT_RULES state0) = 64" by (simp_all add: state0_def init_state_def)
  have sym: "pc_symbols ?c n = (if n \<in> set (''_PyEval_EvalFrameDefault'' # probe_symbols) then Some symbol0 else None)" for n
    by (simp add: rewrite_contract_runtime_paths_def contract0_def)
  obtain s1 where s1: "populate_offsets ?c state0 = Inr s1"
    using populate_offsets_defined [OF len(1), of ?c] by (auto simp: sym symbol0_def)
  from populate_offsets_Inr [OF s1 len(1)] obtain offs where offs: "s1 = state0\<lparr>PYTHON_OFFSETS := offs\<rparr>" by blast
  obtain s2 rs where s2: "populate_rules [rule_of_entry rule1] s1 = Inr s2" "s2 = state0\<lparr>PYTHON_OFFSETS := offs, ROOT_RULES := rs\<rparr>"
    using len(2) by (auto simp: populate_rules_def offs)
  obtain s where "populate_maps policy0 state0 = Some s" using policy0_installs by blast
  note s3 = populate_maps_tables [OF this, where a = offs and b = rs, folded s2(2)]
  have "str_starts_with ''libpython_symtab'' ''libpython''" by code_simp
  then have bin: "\<exists>bin. symbol_binary ?c n = Inr bin" if "n \<in> set dealloc_symbols" for n
    using that by (auto simp: symbol_binary_def sym Let_def dealloc_symbols_def probe_symbols_def or_err_def) (simp_all add: symbol0_def)
  then obtain r where r: "attach_uprobes machine1 ?c ?hooks = Inr r"
    using uprobes_defined [where mc = machine1, OF ready can] by blast
  have ok: "ebpf_loads machine1" "btf_from_sys_fs machine1" "mc_host machine1 = host0" by (simp_all add: machine1_def)
  have "attach_list machine1 tracepoints [] = Inr tracepoints" by (simp add: can list_all_iff)
  then show ?thesis
    unfolding start_cpython_runtime_def prepare1
    by (simp add: ok s1 s2(1) policy0_compiled map_err_def or_err_def run_early_def s3 r split_beta)
qed

theorem start_begins_run_witness:
  "\<exists>st. start_cpython_runtime machine1 args1 [] state0 = Inr st \<and> reachable (\<lambda>_. None) host0 config0 (st_system st) \<and>
     kernel_layout (sys_kernel (st_system st)) =
       map Some [0, 128, 40, 72, 8, 70, 24, 48, 72, 56, 8, 19, 20]"
proof -
  obtain st where st: "start_cpython_runtime machine1 args1 [] state0 = Inr st" "st_config st = config0"
    "st_contract st = rewrite_contract_runtime_paths contract0 detected0" using start1 by blast
  have "mc_host machine1 = host0" by (simp add: machine1_def)
  moreover have "contract_layout (rewrite_contract_runtime_paths contract0 detected0) =
      map Some [0, 128, 40, 72, 8, 70, 24, 48, 72, 56, 8, 19, 20]"
    by (simp add: contract_layout_def rewrite_contract_runtime_paths_def contract0_def symbol0_def)
  ultimately show ?thesis
    using start_begins_run [OF st(1) [unfolded state0_def], of "\<lambda>_. None"] st by (intro exI [of _ st]) simp
qed

theorem agents_share_runtime_witness:
  "\<exists>st. start_cpython_runtime machine1 args1 [] state0 = Inr st \<and>
     bm_get (PROTECTED_TGIDS (sys_kernel (st_system st))) 5 = Some 1 \<and>
     lp_path (pc_libpython (st_contract st)) = ''/usr/bin/python3''"
proof -
  obtain st where st: "start_cpython_runtime machine1 args1 [] state0 = Inr st" "st_config st = config0" using start1 by blast
  have "Some 5 \<in> ag_pid ` set (sec_agents (st_config st))" by (simp add: st(2) config0_def)
  from agents_share_runtime [OF st(1) this] st(1) show ?thesis
    by (auto simp: detect1 machine1_def [THEN arg_cong, of mc_platform, simplified] detected0_def)
qed

theorem probes_placed_once_witness:
  "\<exists>st. start_cpython_runtime machine1 args1 [] state0 = Inr st \<and> distinct (st_attached st) \<and>
     (\<exists>!prog. prog \<in> set exit_programs \<and> UProbe prog (At_offset 0x120) (lp_path (pc_libpython (st_contract st))) \<in> set (st_attached st))"
proof -
  obtain st where st: "start_cpython_runtime machine1 args1 [] state0 = Inr st"
    "st_contract st = rewrite_contract_runtime_paths contract0 detected0" using start1 by blast
  have "pc_symbols (st_contract st) ''_PyEval_EvalFrameDefault'' = Some symbol0"
    "distinct (sy_start_frame_extra_file_offsets symbol0)" "sy_end_return_value_file_offset symbol0 = Some 0x120"
    by (simp_all add: st(2) rewrite_contract_runtime_paths_def contract0_def symbol0_def)
  with probes_placed_once [OF st(1) this(1,2)] st(1) show ?thesis by (intro exI [of _ st]) simp
qed

theorem checked_contract_attaches_witness:
  "(\<exists>s. populate_offsets contract0 state0 = Inr s) \<and> (\<exists>r. attach_uprobes machine1 contract0 [] = Inr r)"
proof -
  have sym: "pc_symbols contract0 n = (if n \<in> set (''_PyEval_EvalFrameDefault'' # probe_symbols) then Some symbol0 else None)" for n
    by (simp add: contract0_def)
  have "attach_ready contract0" "\<And>a. can_attach machine1 a" "length (PYTHON_OFFSETS state0) = 64"
    using contract0_checks(3) by (simp_all add: runtime_loadable_ok machine1_def state0_def init_state_def)
  moreover have "str_starts_with ''libpython_symtab'' ''libpython''" by code_simp
  then have "\<forall>n \<in> set dealloc_symbols. \<exists>bin. symbol_binary contract0 n = Inr bin"
    by (auto simp: symbol_binary_def sym Let_def dealloc_symbols_def probe_symbols_def or_err_def) (simp_all add: symbol0_def)
  moreover have "\<exists>entry. pc_symbols contract0 ''_PyEval_EvalFrameDefault'' = Some entry \<and> sy_end_exception_frame_reg_idx entry \<noteq> None"
    by (simp add: sym) (simp add: symbol0_def)
  ultimately show ?thesis using checked_contract_attaches [of contract0 machine1 state0 "[]"] by blast
qed

end
