(* ===== verification/Buffers.thy ===== *)
theory Buffers
  imports Types
begin

text \<open>
  The fixed-size buffer for reads of user memory (\<^verbatim>\<open>src/ironscope-common/src/buffer.rs\<close>).  Its
  capacity is the length of its array; the helper that reads memory is a parameter: whether it
  succeeds, and what the destination holds afterwards.
\<close>

record Buffer =
  bf_buf :: "u8 list"
  bf_len :: nat

definition Buffer_default :: "nat \<Rightarrow> Buffer" where
  "Buffer_default n = \<lparr>bf_buf = replicate n 0, bf_len = 0\<rparr>"

definition Buffer_as_slice :: "Buffer \<Rightarrow> u8 list" where
  "Buffer_as_slice b = take (min (bf_len b) (length (bf_buf b))) (bf_buf b)"

definition Buffer_is_empty :: "Buffer \<Rightarrow> bool" where
  "Buffer_is_empty b \<longleftrightarrow> bf_len b = 0"

definition read_user_memory :: "(u64 \<Rightarrow> nat \<Rightarrow> bool \<times> u8 list) \<Rightarrow> u64 \<Rightarrow> u32 \<Rightarrow> Buffer \<Rightarrow> (u32 + unit) \<times> Buffer" where
  "read_user_memory probe_read addr sz b =
     (let n = min (unat sz) (length (bf_buf b)); (ok, bytes) = probe_read addr n;
          b' = b\<lparr>bf_buf := bytes @ drop n (bf_buf b)\<rparr>
      in if \<not> ok then (Inl 1, b') else (Inr (), b'\<lparr>bf_len := n\<rparr>))"

text \<open>
  A read never grows the array, and its slice is what was read, cut at the capacity; a failed read
  leaves the length as it was.
\<close>

lemma read_user_memory_slice:
  assumes "\<And>a n. length (snd (probe_read a n)) = n" "read_user_memory probe_read addr sz b = (r, b')"
  shows "length (bf_buf b') = length (bf_buf b)"
    "r = Inr () \<Longrightarrow> Buffer_as_slice b' = snd (probe_read addr (min (unat sz) (length (bf_buf b)))) \<and>
       length (Buffer_as_slice b') = min (unat sz) (length (bf_buf b))"
    "r \<noteq> Inr () \<Longrightarrow> bf_len b' = bf_len b"
  using assms(2) assms(1) [of addr "min (unat sz) (length (bf_buf b))"]
  by (auto simp: read_user_memory_def Buffer_as_slice_def Let_def split: prod.splits if_splits)

end
