(* ===== verification/Deferred.thy ===== *)
theory Deferred
  imports Stack_Refinement
begin

text \<open>
  The close of an asynchronous tool call that is put off until its task completes
  (\<^verbatim>\<open>close_tool_stack_entry\<close> of \<^verbatim>\<open>frame_probes.rs\<close>): what is kept of it, and what a later re-entry of
  the frame finds.
\<close>

lemma defer_tool_close_fields [simp]:
  "TASK_CTX (defer_tool_close e task en s) = TASK_CTX s"
  "TASK_CTX_STACK (defer_tool_close e task en s) = TASK_CTX_STACK s"
  "TASK_CTX_DEPTH (defer_tool_close e task en s) = TASK_CTX_DEPTH s"
  "THREAD_ACTIVE_CTX (defer_tool_close e task en s) = THREAD_ACTIVE_CTX s"
  by (simp_all add: defer_tool_close_def Let_def)

lemma defer_tool_close_pending:
  assumes "task_ctx_depth_for e task s = n" "0 < n"
  shows "PENDING_TOOL_CLOSE (defer_tool_close e task en s) =
    bm_insert (task_stack_key e task (n - 1)) en (PENDING_TOOL_CLOSE s)"
  using assms by (auto simp: defer_tool_close_def task_ctx_depth_for_def Let_def split: option.splits)

lemma task_removed_pending: "PENDING_TOOL_CLOSE (task_removed e tid task c n fi parent s) = PENDING_TOOL_CLOSE s"
  by (simp add: task_removed_def Let_def set_active_def clear_active_def emit_py_event_carrier_def split: option.split)

text \<open>
  The close is kept in the slot of the task's depth before the context is taken off the task, and the
  depth is one less from then on.  A re-entry of the frame looks below the depth only and does not
  find it.
\<close>

lemma deferred_close_missed:
  fixes en :: ToolStackEntry
  assumes st: "task_stack_is e s task xs" and wf: "bm_wf (TASK_CTX_STACK s)" and c: "c \<in> set xs"
    and room: "bm_room (TASK_CTX s) (py_object_key e task)" "bm_room (THREAD_ACTIVE_CTX s) tid"
      "bm_room (PENDING_TOOL_CLOSE s) (task_stack_key e task (length xs - 1))"
    and none: "\<And>i. i < length xs - 1 \<Longrightarrow> bm_get (PENDING_TOOL_CLOSE s) (task_stack_key e task i) = None"
  defines "s1 \<equiv> snd (task_ctx_remove e tid task c (defer_tool_close e task en s))"
  shows "cancel_deferred_tool_close e task c (ts_frame_ptr en) s1 = s1 \<and>
    bm_get (PENDING_TOOL_CLOSE s1) (task_stack_key e task (length xs - 1)) = Some en"
proof -
  let ?s = "defer_tool_close e task en s" and ?n = "length xs"
  from st have dl: "task_ctx_depth_for e task s = ?n" and "?n \<le> 8"
    by (auto simp: task_stack_is_def dest: stack_holds_len)
  from c have n: "0 < ?n" by (cases xs) simp_all
  from st have st': "task_stack_is e ?s task xs" by (simp add: task_stack_is_def task_ctx_depth_for_def)
  have wf': "bm_wf (TASK_CTX_STACK ?s)" using wf by simp
  from st' wf' c obtain d fi where d: "bm_get (TASK_CTX_DEPTH ?s) (py_object_key e task) = Some d"
    and run: "task_ctx_remove e tid task c ?s =
       (top_of (remove1 c xs), task_removed e tid task c ?n fi (top_of (remove1 c xs)) ?s)"
    by (rule task_ctx_remove_hit [where tid = tid])
  have parent: "top_of (remove1 c xs) = None \<Longrightarrow> ?n - 1 = 0"
    using c remove1_single [OF c] by (auto simp: top_of_def split: if_splits)
  have depth: "task_ctx_depth_for e task s1 = ?n - 1"
    using task_removed_fields(2) [OF d, where tid = tid and n = ?n and parent = "top_of (remove1 c xs)" and b = task] room parent \<open>?n \<le> 8\<close>
    by (simp add: s1_def run)
  have pend: "PENDING_TOOL_CLOSE s1 = bm_insert (task_stack_key e task (?n - 1)) en (PENDING_TOOL_CLOSE s)"
    by (simp add: s1_def run task_removed_pending defer_tool_close_pending [OF dl n])
  have clear: "bm_get (PENDING_TOOL_CLOSE s1) (task_stack_key e task i) = None" if "i < ?n - 1" for i
    using that none [OF that] \<open>?n \<le> 8\<close> room(3)
    by (simp add: pend bm_get_insert task_stack_key_slot task_stk.key_eq_iff)
  have "scan 8 (?n - 1) (pending_slot_hit P e task s1) = None" for P
  proof (rule ccontr)
    assume "scan 8 (?n - 1) (pending_slot_hit P e task s1) \<noteq> None"
    then obtain i where "scan 8 (?n - 1) (pending_slot_hit P e task s1) = Some i" by blast
    note hit = scan_SomeD(1,3) [OF this]
    with clear [OF hit(1)] show False by (simp add: pending_slot_hit_def)
  qed
  then show ?thesis using room(3) by (simp add: cancel_deferred_tool_close_def depth pend bm_get_insert)
qed

end
