(* ===== verification/Spec2Isabelle.thy ===== *)
theory Spec2Isabelle
  imports Boot Buffers Deferred
begin

text \<open>
  IronScope attributes what a Python agent does to the tool that does it, and lets a policy file
  decide which files, programs and networks each tool may use.  It has two halves.  Programs in the
  kernel (\<^verbatim>\<open>src/ironscope-ebpf\<close>) run at probes in the interpreter, at tracepoints and at security
  hooks; they keep, in maps, which tool context each thread, frame, task, worker and process
  carries, and refuse or report accesses by the tool the thread is in.  A user-space process
  (\<^verbatim>\<open>src/ironscope\<close>) chooses the contract that says where the interpreter is probed, compiles the
  policy into the maps, attaches the programs, reads the records the kernel writes, resolves the
  names of tools from the memory of the agent, writes what it finds back, and reports at the end.
  \<^verbatim>\<open>src/ironscope-common\<close> holds the types the two halves share.

  This development models both halves and their interleaving.  Definitions keep the names of the
  source; fields of records carry a short prefix where two structs use the same name.

  \<^bold>\<open>Shared vocabulary.\<close>  \<open>Prelude\<close>: machine words, BPF maps with their capacities and eviction, ring
  buffers, bounded scans.  \<open>Stacks\<close>: stacks kept inside a map, one slot per index, in the locale
  \<open>keyed_stack\<close>.  \<open>Types\<close>: the structs and constants of \<^verbatim>\<open>types.rs\<close>, the maps of \<^verbatim>\<open>maps.rs\<close> as one
  record \<open>bpf_state\<close>, and what a program sees of the machine, \<open>probe_env\<close>.  \<open>Texts\<close>: the string
  functions of the standard library that the user-space code calls.  \<open>Buffers\<close>: \<^verbatim>\<open>buffer.rs\<close>.

  \<^bold>\<open>Attribution in the kernel.\<close>  \<open>Ownership\<close> (\<^verbatim>\<open>ownership.rs\<close>), \<open>Hashing\<close> (both sides' name hashes,
  \<^verbatim>\<open>rules.rs\<close>), \<open>Identity\<close> (\<^verbatim>\<open>code_classifier.rs\<close>, \<^verbatim>\<open>tool_identity.rs\<close>), \<open>Workers\<close>
  (\<^verbatim>\<open>worker_probes.rs\<close>), \<open>Lifecycle\<close> (\<^verbatim>\<open>lifecycle.rs\<close>), \<open>Tasks\<close> (\<^verbatim>\<open>task_probes.rs\<close>,
  \<^verbatim>\<open>fork_probes.rs\<close>) and \<open>Frames\<close> (\<^verbatim>\<open>frame_probes.rs\<close>) have one definition per function of the
  source, on the whole state.  Every handler is shown to keep the type invariant \<open>state_ok\<close>
  (collection \<open>ok_intros\<close>) and to leave the policy, the offsets and the rules alone
  (\<open>policy_view\<close>, collection \<open>frame_simps\<close>).  \<open>Stack_Refinement\<close> shows that the three stacks in maps
  implement bounded lists; \<open>Contexts\<close> that context identifiers are never repeated and that a
  context lives exactly as long as it is carried; \<open>Brackets\<close> that entering and leaving the frame of
  a tool opens and closes the call; \<open>Deferred\<close> what becomes of a close that is put off.

  \<^bold>\<open>Enforcement.\<close>  \<open>Paths\<close> (\<^verbatim>\<open>path.rs\<close>, the accessors of \<^verbatim>\<open>co_re/mod.rs\<close>), \<open>Guard\<close> (\<^verbatim>\<open>alloc.rs\<close>,
  \<^verbatim>\<open>event_emit.rs\<close>, \<^verbatim>\<open>lsm_hooks.rs\<close>) and \<open>Verdicts\<close>: what each hook returns for every subject and
  object, that a denial is enforced and reported, and that the lookup of a destination is longest
  prefix match.

  \<^bold>\<open>User space.\<close>  \<open>Policy\<close> and \<open>Compilation\<close> (\<^verbatim>\<open>config.rs\<close>, \<^verbatim>\<open>compiler.rs\<close>, \<^verbatim>\<open>populate_maps\<close>): which
  policies are refused and that the installed tables answer what the file says; the locale
  \<open>rule_table\<close> treats the file and exec tables once.  \<open>Resolver\<close> and \<open>Resolution\<close>
  (\<^verbatim>\<open>python_runtime\<close>): reading strings, dictionaries and tools from the memory of the agent.
  \<open>Trail\<close> and \<open>Report\<close> (\<^verbatim>\<open>main.rs\<close>, \<^verbatim>\<open>final_state.rs\<close>): what is made of every record, and the
  report.  \<open>Contract\<close> and \<open>Provenance\<close> (\<^verbatim>\<open>python_symbols.rs\<close>): how an interpreter is identified and
  which contract is used for it.  \<open>Startup\<close> and \<open>Boot\<close> (\<^verbatim>\<open>main.rs\<close>): the start, from the arguments
  to the last probe, and what one that succeeds has established.

  \<^bold>\<open>The whole.\<close>  \<open>System\<close> has the handler behind every program of \<^verbatim>\<open>ironscope-ebpf/src/main.rs\<close> and
  the user-space loop one system call at a time.  \<open>early\<close> is the kernel between the attachment of
  the hooks and the installation of the policy; \<open>reachable\<close> is every interleaving of programs and
  steps of the loop after that.  The locales \<open>kernel_steps\<close> and \<open>ring_reader\<close> say what a program
  and a ring promise the rest.  \<open>Run\<close> is one run, from the policy file to a refused access.  This
  theory holds the properties of whole runs: the policy file decides an access, only attributed
  threads are refused, every bound is kept, a round of the loop ends having drained the rings,
  and a resolution takes effect.

  \<^bold>\<open>Bounds.\<close>  There is no fuel.  The loops of the kernel side are bounded in the source, by the depth
  of a stack (8), of a chain of frames (8), of a path (128) and of the frame stash (256), and the
  recursion of the model has the same bounds; the other loops run over a list.  The loop of the
  user-space process does not end by itself: its rounds are counted in steps, and a property of
  this theory bounds them.

  \<^bold>\<open>Parameters.\<close>  What the code cannot know is an argument: reads of user and kernel memory
  (\<open>probe_env\<close>, \<open>kernel_view\<close>, the readers of \<open>Resolver\<close>), what a full LRU map evicts and whether a
  ring has room, the file system, name lookup and the order of a hash set (\<open>host\<close>, \<open>platform\<close>),
  the ELF parser, the syntax of the YAML and JSON files, and whether a program can be attached
  (\<open>machine\<close>).  Each may fail.

  \<^bold>\<open>Behaviour to know about.\<close>  Some lemmas show the code doing something else than its comments or
  its documentation say: \<open>deferred_close_missed\<close>, \<open>reap_thread_keeps_tool_stack\<close>,
  \<open>latin1_read_as_utf8\<close>, \<open>refusal_without_path_unreported\<close>, \<open>deep_path_glued\<close>,
  \<open>dns_allow_overrides_deny\<close>, \<open>broken_contract_ends_search\<close> and \<open>missing_build_ids_match\<close>.

  \<^bold>\<open>Not modelled.\<close>  Command-line parsing, log messages, signal handling, the ready marker and the
  writing of the JSON report have no effect on the state.  \<^verbatim>\<open>co_re/gen.rs\<close> is generated: it declares
  the shims whose results \<open>kernel_view\<close> holds; accessors no program calls (the fields of
  \<^verbatim>\<open>task_struct\<close> and \<^verbatim>\<open>mm_struct\<close>) are left out.  Zeroed defaults of structs appear where they are
  used.  Map operations are atomic, as the kernel makes them, and a program runs as one step;
  what two programs on different CPUs do between the reads and writes of one of them is not
  modelled, nor is the installation of the policy entry by entry.  The build scripts, the tests
  and the tools that generate contracts are not part of the running program.
\<close>

section \<open>What a run decides\<close>

lemma run_policy:
  assumes "reachable detect h config y"
  obtains s where "installed h config s" "policy_view (sys_kernel y) = policy_view s"
    "bm_get (IRONSCOPE_CONFIG (sys_kernel y)) 0 = Some (settings_of config)" "state_ok (sys_kernel y)"
proof -
  from reachable_inv [OF assms] obtain s where s: "installed h config s" "policy_view (sys_kernel y) = policy_view s"
    and ok: "state_ok (sys_kernel y)" by blast
  show ?thesis using installed_tables(3) [OF s(1)] policy_view_fields(1) [OF s(2)] by (intro that [OF s _ ok]) simp
qed

lemma settings_deny:
  "denies (settings_of config) IDENTITY_STATE_KNOWN_TOOL permission =
     (case permission of Some perm \<Rightarrow> perm = PERM_DENY | None \<Rightarrow> sec_default_tool_policy config = ''deny'')"
  by (simp add: denies_def settings_of_def split: option.split)

lemma settings_enforce: "mode (settings_of config) = MODE_ENFORCE \<longleftrightarrow> sec_mode config = ''enforce''"
  by (simp add: settings_of_def)

lemma settings_unattributed: "\<not> denies (settings_of config) IDENTITY_STATE_UNATTRIBUTED permission"
  by (simp add: denies_def settings_of_def)

lemma open_decided:
  assumes reach: "reachable detect h config y"
    and thread: "not_pool_worker e (cur_tid e) (sys_kernel y)" "bm_get (THREAD_ACTIVE_CTX (sys_kernel y)) (cur_tid e) = Some c"
      "bm_get (TOOL_CTX (sys_kernel y)) c = Some ctx"
    and tool: "tool_id ctx = hashed_id t" "flags ctx AND TOOL_CTX_FLAG_RESOLVER_ERROR = 0"
      "t \<in> set (sec_tools config)" "distinct (map hashed_id (sec_tools config))"
    and opened: "get_file_identity k (lsm_arg k 0) = Some (dev, ino)"
  shows "fst (run_program (ag_file_open k) e (sys_kernel y)) =
    (if sec_mode config = ''enforce'' \<and>
        (list_ex (names_inode h dev ino) (snd (fs_lists t)) \<or>
         \<not> list_ex (names_inode h dev ino) (fst (fs_lists t)) \<and> sec_default_tool_policy config = ''deny'')
     then -1 else 0)"
proof -
  let ?s = "sys_kernel y"
  obtain s where s: "installed h config s" "policy_view ?s = policy_view s"
    "bm_get (IRONSCOPE_CONFIG ?s) 0 = Some (settings_of config)" "state_ok ?s" by (rule run_policy [OF reach])
  have "c \<noteq> 0" using s(4) thread(3) by (metis state_ok_zero option.distinct(1))
  then have known: "identity_state c (tool_id ctx) (flags ctx) = IDENTITY_STATE_KNOWN_TOOL"
    using tool hashed_id_nonzero [of t] by (simp add: identity_state_def)
  have "hook_identity e ?s = Some (c, hashed_id t, IDENTITY_STATE_KNOWN_TOOL)"
    using hook_subject_attributed [OF thread(1) s(4) thread(2,3), of EVENT_FS_OPEN] known tool(1)
    by (auto simp: hook_identity_def)
  moreover have "bm_get (TOOL_FS_POLICY ?s) \<lparr>fp_tool_id = hashed_id t, fp_dev = dev, fp_ino = ino\<rparr> =
      (if list_ex (names_inode h dev ino) (snd (fs_lists t)) then Some PERM_DENY
       else if list_ex (names_inode h dev ino) (fst (fs_lists t)) then Some PERM_ALLOW else None)"
    using installed_fs_get [OF s(1) tool(4,3), of dev ino] policy_view_fields(2) [OF s(2)]
    by (simp add: entries_say_def list_ex_iff fs_key_iff)
  ultimately show ?thesis
    using opened by (simp add: file_open_ret verdict_def s(3) settings_deny settings_enforce)
qed

text \<open>C1: the policy file decides.  At any moment of any run, when a thread attributed to a resolved
  tool of the policy opens a file, the hook refuses it exactly when the policy is enforced and the
  tool's own list of denied paths names the file, or neither list names it and the default is to
  deny.  Whatever the programs and the loop did before, nothing else enters the decision.\<close>

theorem policy_file_decides_open:
  assumes reach: "reachable detect h config y"
    and thread: "not_pool_worker e (cur_tid e) (sys_kernel y)" "bm_get (THREAD_ACTIVE_CTX (sys_kernel y)) (cur_tid e) = Some c"
      "bm_get (TOOL_CTX (sys_kernel y)) c = Some ctx"
    and tool: "tool_id ctx = hashed_id t" "flags ctx AND TOOL_CTX_FLAG_RESOLVER_ERROR = 0"
      "t \<in> set (sec_tools config)" "distinct (map hashed_id (sec_tools config))"
    and opened: "get_file_identity k (lsm_arg k 0) = Some (dev, ino)"
  shows "fst (run_program (ag_file_open k) e (sys_kernel y)) =
    (if sec_mode config = ''enforce'' \<and>
        (list_ex (names_inode h dev ino) (snd (fs_lists t)) \<or>
         \<not> list_ex (names_inode h dev ino) (fst (fs_lists t)) \<and> sec_default_tool_policy config = ''deny'')
     then -1 else 0)"
  using assms by (rule open_decided)

theorem policy_file_decides_open_witness:
  "\<exists>y. reachable (\<lambda>_. None) host0 config0 y \<and>
     fst (run_program (ag_file_open view_shadow) env0 (sys_kernel y)) = -1"
proof (rule run_attributed)
  fix y c ctx
  assume r: "reachable (\<lambda>_. None) host0 config0 y" and t: "not_pool_worker env0 (cur_tid env0) (sys_kernel y)"
    "bm_get (THREAD_ACTIVE_CTX (sys_kernel y)) (cur_tid env0) = Some c" "bm_get (TOOL_CTX (sys_kernel y)) c = Some ctx"
    "tool_id ctx = hashed_id tool0" "flags ctx AND TOOL_CTX_FLAG_RESOLVER_ERROR = 0"
  have "fst (run_program (ag_file_open view_shadow) env0 (sys_kernel y)) = -1"
    using policy_file_decides_open [OF r t _ _ view_shadow_identity] shadow_denied by (simp add: config0_def)
  with r show ?thesis by blast
qed

text \<open>The run in which the tool \<^verbatim>\<open>bash\<close> is refused \<^verbatim>\<open>/etc/shadow\<close>.\<close>

lemma shadow_refused:
  "\<exists>y. reachable (\<lambda>_. None) host0 config0 y \<and>
     fst (run_program (ag_file_open view_shadow) env0 (sys_kernel y)) = -1"
proof (rule run_attributed)
  fix y c ctx
  assume r: "reachable (\<lambda>_. None) host0 config0 y" and t: "not_pool_worker env0 (cur_tid env0) (sys_kernel y)"
    "bm_get (THREAD_ACTIVE_CTX (sys_kernel y)) (cur_tid env0) = Some c" "bm_get (TOOL_CTX (sys_kernel y)) c = Some ctx"
    "tool_id ctx = hashed_id tool0" "flags ctx AND TOOL_CTX_FLAG_RESOLVER_ERROR = 0"
  have "fst (run_program (ag_file_open view_shadow) env0 (sys_kernel y)) = -1"
    using open_decided [OF r t _ _ view_shadow_identity] shadow_denied by (simp add: config0_def)
  with r show ?thesis by blast
qed

lemma hook_identity_zero: "hook_identity e s = Some (0, tool, i) \<Longrightarrow> i = IDENTITY_STATE_UNATTRIBUTED"
  by (auto simp: hook_identity_def hook_subject_def resolve_ctx_def identity_state_def Let_def
      split: if_splits option.splits prod.splits)

text \<open>C2: only a thread attributed to a tool is ever refused anything.  At any moment of any run, a
  program that returns something other than 0 is one of the three enforcing hooks and returns
  \<open>-1\<close>, the policy file asks for enforcement, and the hook attributes the thread to a context.\<close>

theorem refusals_are_attributed:
  assumes reach: "reachable detect h config y" and run: "run_program p e (sys_kernel y) = (r, s')" and ne: "r \<noteq> 0"
  shows "r = -1 \<and> sec_mode config = ''enforce'' \<and>
    (\<exists>k. p = ag_file_open k \<or> p = ag_bprm_check k \<or> p = ag_socket_connect k) \<and>
    (\<exists>c tool i. hook_identity e (sys_kernel y) = Some (c, tool, i) \<and> c \<noteq> 0)"
proof -
  let ?s = "sys_kernel y"
  have cfg: "bm_get (IRONSCOPE_CONFIG ?s) 0 = Some (settings_of config)" by (rule run_policy [OF reach])
  have r: "r = fst (run_program p e ?s)" using run by simp
  have ret: "r = -1 \<and> sec_mode config = ''enforce''"
    using run_program_returns [of ?s p e] ne by (simp add: r may_return_def cfg settings_enforce)
  have hook: "\<exists>k. p = ag_file_open k \<or> p = ag_bprm_check k \<or> p = ag_socket_connect k"
    using ne unfolding r by (cases p) (simp_all split: option.splits)
  have quiet: "verdict ?s i permission = 0" if "hook_identity e ?s = Some (0, tool, i)" for tool i permission
    using hook_identity_zero [OF that] settings_unattributed by (simp add: verdict_def cfg)
  have "\<exists>c tool i. hook_identity e ?s = Some (c, tool, i) \<and> c \<noteq> 0"
  proof (rule ccontr)
    assume "\<not> ?thesis"
    then have "hook_identity e ?s = None \<or> (\<exists>tool i. hook_identity e ?s = Some (0, tool, i))"
      by (cases "hook_identity e ?s") auto
    then have "r = 0"
      using hook unfolding r by (auto simp: file_open_ret bprm_check_ret socket_connect_ret quiet split: option.splits prod.splits)
    with ne show False by simp
  qed
  with ret hook show ?thesis by blast
qed

theorem refusals_are_attributed_witness:
  "\<exists>y c tool i. reachable (\<lambda>_. None) host0 config0 y \<and>
     fst (run_program (ag_file_open view_shadow) env0 (sys_kernel y)) = -1 \<and>
     hook_identity env0 (sys_kernel y) = Some (c, tool, i) \<and> c \<noteq> 0"
proof -
  obtain y where y: "reachable (\<lambda>_. None) host0 config0 y"
    "fst (run_program (ag_file_open view_shadow) env0 (sys_kernel y)) = -1" using shadow_refused by blast
  then have "run_program (ag_file_open view_shadow) env0 (sys_kernel y) =
      (-1, snd (run_program (ag_file_open view_shadow) env0 (sys_kernel y)))" by (simp add: prod_eq_iff)
  from refusals_are_attributed [OF y(1) this] y show ?thesis by (metis neg_equal_0_iff_equal one_neq_zero)
qed

section \<open>What every run keeps\<close>

lemma depths_bounded:
  assumes "state_ok s"
  shows "ctx_depth tid s \<le> 8" "tool_depth tid s \<le> 8" "worker_depth tid s \<le> 64" "task_ctx_depth_for e task s \<le> 8"
  using assms
  by (auto simp: state_ok_def depth_ok_def ctx_depth_def tool_depth_def worker_depth_def task_ctx_depth_for_def
      split: option.split)

lemma live_count:
  assumes "state_ok s"
  shows "unat (tool_ctx_count (final_state s)) = card {c. ctx_is_live s c}" "card {c. ctx_is_live s c} \<le> 4096"
proof -
  have "sized 4096 (TOOL_CTX s)" using assms by simp
  note size = sized_card [OF this]
  moreover have "{c. ctx_is_live s c} = dom (bm_get (TOOL_CTX s))" by (auto simp: ctx_is_live_def)
  ultimately show "unat (tool_ctx_count (final_state s)) = card {c. ctx_is_live s c}" "card {c. ctx_is_live s c} \<le> 4096"
    by (simp_all add: final_state_def map_count_def unat_of_nat)
qed

text \<open>C5: every run keeps the bounds of the data.  No thread or task has more than eight contexts or tools
  stacked and no thread more than 64 worker runs, identifier 0 never names a context, every map is
  within the capacity it is declared with, and the number of live contexts the final report gives
  is the exact one.\<close>

theorem runs_keep_bounds:
  assumes "reachable detect h config y"
  defines "s \<equiv> sys_kernel y"
  shows "ctx_depth tid s \<le> 8 \<and> tool_depth tid s \<le> 8 \<and> task_ctx_depth_for e task s \<le> 8 \<and> worker_depth tid s \<le> 64 \<and>
    \<not> ctx_is_live s 0 \<and> maps_ok s \<and> unat (tool_ctx_count (final_state s)) = card {c. ctx_is_live s c} \<and>
    card {c. ctx_is_live s c} \<le> 4096"
proof -
  have "state_ok s" using reachable_inv [OF assms(1)] by (simp add: s_def)
  then show ?thesis using depths_bounded live_count by (simp add: ctx_is_live_def state_ok_def)
qed

theorem runs_keep_bounds_witness:
  "\<exists>y. reachable (\<lambda>_. None) host0 config0 y \<and> ctx_depth 7 (sys_kernel y) \<le> 8"
proof -
  obtain y where y: "reachable (\<lambda>_. None) host0 config0 y" using shadow_refused by blast
  then show ?thesis using runs_keep_bounds [OF y, of 7] by blast
qed

section \<open>What the loop achieves\<close>

text \<open>C6: a round of the user-space loop ends and does what draining the rings one after the other does.
  Left alone at the start of a round, the loop is back there after at most one system call for
  every record of the first and third ring, three for every record of the second and one for each
  ring found empty; every record has then been read, and trail and maps are those of one pass
  over the records.\<close>

theorem round_drains_rings:
  assumes "sys_hand y = None" "sys_stage y = Py_ring"
  defines "pys \<equiv> unread (PY_EVENTS (sys_kernel y)) (py_next y)"
    and "ress \<equiv> unread (RESOLVER_EVENTS (sys_kernel y)) (resolver_next y)"
    and "guards \<equiv> unread (GUARD_EVENTS (sys_kernel y)) (guard_next y)"
  shows "\<exists>n \<le> length pys + 3 * length ress + length guards + 3. \<exists>y'. (user_step detect ^^ n) y = y' \<and>
    sys_hand y' = None \<and> sys_stage y' = Py_ring \<and>
    (sys_user y', sys_kernel y') = drain detect pys ress guards (sys_user y, sys_kernel y) \<and>
    unread (PY_EVENTS (sys_kernel y')) (py_next y') = [] \<and>
    unread (RESOLVER_EVENTS (sys_kernel y')) (resolver_next y') = [] \<and>
    unread (GUARD_EVENTS (sys_kernel y')) (guard_next y') = []"
proof -
  obtain rt s where d: "drain detect pys ress guards (sys_user y, sys_kernel y) = (rt, s)" by fastforce
  let ?y = "y\<lparr>sys_user := rt, sys_kernel := s, py_next := py_next y + length pys,
       resolver_next := resolver_next y + length ress, guard_next := guard_next y + length guards\<rparr>"
  have "steps detect (length pys + 3 * length ress + length guards + 3) y ?y"
    using round_steps [OF assms(1,2)] d by (simp add: pys_def ress_def guards_def)
  then obtain n where "n \<le> length pys + 3 * length ress + length guards + 3" "(user_step detect ^^ n) y = ?y"
    by (auto simp: steps_def)
  moreover have "PY_EVENTS s = PY_EVENTS (sys_kernel y)" "RESOLVER_EVENTS s = RESOLVER_EVENTS (sys_kernel y)"
    "GUARD_EVENTS s = GUARD_EVENTS (sys_kernel y)" using drain_rings [OF d] by simp_all
  ultimately show ?thesis
    by (intro exI [of _ n] conjI exI [of _ ?y]) (simp_all add: assms(1,2) d, simp_all add: unread_def pys_def ress_def guards_def)
qed

definition run_open :: system where
  "run_open = \<lparr>sys_kernel = frame_state_open, sys_user = runtime_init, sys_stage = Py_ring, sys_hand = None,
     py_next = 0, resolver_next = 0, guard_next = 0\<rparr>"

theorem round_drains_rings_witness:
  "\<exists>n. sys_stage ((user_step (\<lambda>_. None) ^^ n) run_open) = Py_ring \<and>
     unread (PY_EVENTS (sys_kernel ((user_step (\<lambda>_. None) ^^ n) run_open))) (py_next ((user_step (\<lambda>_. None) ^^ n) run_open)) = []"
proof -
  have "sys_hand run_open = None" "sys_stage run_open = Py_ring" by (simp_all add: run_open_def)
  from round_drains_rings [OF this, of "\<lambda>_. None"] show ?thesis by blast
qed

text \<open>C7: a resolution takes effect.  When the loop reads a candidate whose object it resolves to a tool and
  whose context is live, the context carries the tool's identity from then on, every event of the
  context already in the trail names a tool, the tool's name is known, and the object is cached so
  that the kernel recognises it by itself as long as its type stays the same.  No other context
  changes.\<close>

theorem resolution_takes_effect:
  assumes cand: "re_kind ev = EVENT_RESOLVER_CANDIDATE" "resolve_candidate c ev = Some tool" "rt_tool_id tool \<noteq> TOOL_IDLE"
    and res: "rt_resolvers rt (re_pid ev) = Some c \<or> rt_resolvers rt (re_pid ev) = None \<and> detect (re_pid ev) = Some c"
    and ctx: "re_ctx_id ev \<noteq> 0" "bm_get (TOOL_CTX s) (re_ctx_id ev) = Some ctx"
    and obj: "bm_room (TOOL_OBJ s) \<lparr>pk_tgid = re_pid ev, pk_ptr = re_self_ptr ev\<rparr>" "re_type_ptr ev \<noteq> 0"
    and run: "on_resolver_event detect ev (rt, s) = (rt', s')"
  shows "bm_get (TOOL_CTX s') = (bm_get (TOOL_CTX s))(re_ctx_id ev \<mapsto> set_resolved (rt_tool_id tool) ctx) \<and>
    (\<forall>rp \<in> set (rt_py_events rt'). rp_ctx_id rp = re_ctx_id ev \<longrightarrow> rp_tool_id rp \<noteq> TOOL_IDLE) \<and>
    rt_tool_names rt' (rt_tool_id tool) = Some (rt_name tool) \<and>
    (\<exists>entry. bm_get (TOOL_OBJ s') \<lparr>pk_tgid = re_pid ev, pk_ptr = re_self_ptr ev\<rparr> = Some entry \<and>
       oc_tool_id entry = rt_tool_id tool \<and> cache_valid entry (re_type_ptr ev))"
proof -
  let ?k = "\<lparr>pk_tgid = re_pid ev, pk_ptr = re_self_ptr ev\<rparr>"
  let ?o = "publish_obj ev (rt_tool_id tool) s"
  have room: "bm_room (TOOL_CTX ?o) (re_ctx_id ev)" using ctx(2) by (simp add: publish_obj_def bm_room_present)
  have o: "TOOL_CTX ?o = TOOL_CTX s" by (simp add: publish_obj_def)
  have fin: "finish_resolution c ev (rt1, s) =
      (learn_name tool (rt1\<lparr>rt_py_events := backfill (re_ctx_id ev) (rt_tool_id tool) (rt_py_events rt1)\<rparr>),
       ?o\<lparr>TOOL_CTX := bm_insert (re_ctx_id ev) (set_resolved (rt_tool_id tool) ctx) (TOOL_CTX s)\<rparr>)" for rt1
    using cand(2) ctx room by (simp add: finish_resolution_def publish_ctx_def write_ctx_def o learn_name_def)
  from run res obtain rt1 where f: "finish_resolution c ev (rt1, s) = (rt', s')"
    using cand(1) by (auto simp: on_resolver_event_def attach_resolver_def Let_def)
  have rt': "rt' = learn_name tool (rt1\<lparr>rt_py_events := backfill (re_ctx_id ev) (rt_tool_id tool) (rt_py_events rt1)\<rparr>)"
    and s': "s' = ?o\<lparr>TOOL_CTX := bm_insert (re_ctx_id ev) (set_resolved (rt_tool_id tool) ctx) (TOOL_CTX s)\<rparr>"
    using f unfolding fin by simp_all
  have "bm_get (TOOL_CTX s') = (bm_get (TOOL_CTX s))(re_ctx_id ev \<mapsto> set_resolved (rt_tool_id tool) ctx)"
    by (simp add: s' fun_eq_iff bm_get_insert [OF bm_room_present [OF ctx(2)]])
  moreover have "\<forall>rp \<in> set (rt_py_events rt'). rp_ctx_id rp = re_ctx_id ev \<longrightarrow> rp_tool_id rp \<noteq> TOOL_IDLE"
    using cand(3) by (auto simp: rt' learn_name_def backfill_def)
  moreover have "bm_get (TOOL_OBJ s') ?k = Some \<lparr>oc_type_ptr = re_type_ptr ev, oc_tool_id = rt_tool_id tool,
      oc_name_hash = rt_tool_id tool, oc_generation = 0\<rparr>"
    by (simp add: s' publish_obj_def bm_get_insert [OF obj(1)])
  ultimately show ?thesis using cand(3) obj(2) by (simp add: rt' learn_name_def cache_valid_def)
qed

definition event_open :: ResolverEvent where
  "event_open = \<lparr>re_pid = 5, re_tid = 7, re_ts_ns = 100, re_kind = EVENT_RESOLVER_CANDIDATE, re_code_kind = CODE_KIND_IGNORE,
     re_ctx_id = 42, re_self_ptr = 0x1000, re_type_ptr = 0x2000, re_frame_ptr = 0, re_code_ptr = 0\<rparr>"

theorem resolution_takes_effect_witness:
  "tool_id_of (snd (on_resolver_event (\<lambda>_. Some resolver0) event_open (runtime_init, guard_state))) 42 = hashed_id tool0"
proof -
  let ?tool = "\<lparr>rt_name = utf8 ''bash'', rt_tool_id = hashed_id tool0\<rparr>"
  let ?r = "on_resolver_event (\<lambda>_. Some resolver0) event_open (runtime_init, guard_state)"
  have "resolve_candidate resolver0 event_open = Some ?tool"
    using resolve_named_tool [OF resolver0_tool resolver0_reads]
    by (simp add: resolve_candidate_def event_open_def hashed_id_def tool0_def utf8_def)
  moreover have "?r = (fst ?r, snd ?r)" by simp
  moreover have "TOOL_OBJ guard_state = bm_empty 4096 Hash" by (simp add: guard_state_def state0_def init_state_def)
  ultimately show ?thesis
    using resolution_takes_effect [of event_open resolver0 ?tool runtime_init "\<lambda>_. Some resolver0" guard_state _ "fst ?r" "snd ?r"]
      guard_state_maps(2)
    by (simp add: hashed_id_nonzero event_open_def runtime_init_def bm_room_empty tool_id_of_def set_resolved_def)
qed

end
